(* ===== verification/Sepp_Prelude.thy ===== *)
theory Sepp_Prelude
  imports Main "HOL-Library.Word"
begin

text \<open>
  Shared material of the development: results of code that may raise, effectful code that threads
  the outside world, and the generic lemmas on them that carry the component proofs.

  A Python function that may raise is a function into \<open>'e + 'a\<close>: \<open>Inl\<close> of the exception or
  \<open>Inr\<close> of the value. A coroutine that also touches the world (the network, the clock, the log)
  is a function \<open>'w \<Rightarrow> ('e + 'a) \<times> 'w\<close>. The library lemmas are collected in \<open>res_simps\<close> (pure
  results) and \<open>io_simps\<close> (effects), and the definitional unfoldings of the conversion layer in
  \<open>conv_defs\<close>.
\<close>

named_theorems res_simps
named_theorems io_simps
named_theorems conv_defs

section \<open>Results\<close>

definition bind_res :: "'e + 'a \<Rightarrow> ('a \<Rightarrow> 'e + 'b) \<Rightarrow> 'e + 'b" where
  "bind_res r k = (case r of Inl e \<Rightarrow> Inl e | Inr x \<Rightarrow> k x)"

definition catch_res :: "'e + 'a \<Rightarrow> ('e \<Rightarrow> 'e + 'a) \<Rightarrow> 'e + 'a" where
  "catch_res r h = (case r of Inl e \<Rightarrow> h e | Inr x \<Rightarrow> Inr x)"

lemma bind_res_simps [simp, res_simps]:
  "bind_res (Inl e) k = Inl e" "bind_res (Inr x) k = k x"
  by (simp_all add: bind_res_def)

lemma catch_res_simps [simp, res_simps]:
  "catch_res (Inl e) h = h e" "catch_res (Inr x) h = Inr x"
  by (simp_all add: catch_res_def)

lemma bind_res_eq_Inr [res_simps]:
  "bind_res r k = Inr y \<longleftrightarrow> (\<exists>x. r = Inr x \<and> k x = Inr y)"
  by (cases r) auto

lemma bind_res_eq_Inl [res_simps]:
  "bind_res r k = Inl e \<longleftrightarrow> r = Inl e \<or> (\<exists>x. r = Inr x \<and> k x = Inl e)"
  by (cases r) auto

lemma bind_res_assoc: "bind_res (bind_res r k) h = bind_res r (\<lambda>x. bind_res (k x) h)"
  by (cases r) simp_all

lemma bind_res_cong [fundef_cong]:
  "r = r' \<Longrightarrow> (\<And>x. r' = Inr x \<Longrightarrow> k x = k' x) \<Longrightarrow> bind_res r k = bind_res r' k'"
  by (cases r') simp_all

text \<open>A list comprehension whose body may raise: the first exception ends it.\<close>

primrec traverse :: "('a \<Rightarrow> 'e + 'b) \<Rightarrow> 'a list \<Rightarrow> 'e + 'b list" where
  "traverse f [] = Inr []"
| "traverse f (x # xs) =
     bind_res (f x) (\<lambda>y. bind_res (traverse f xs) (\<lambda>ys. Inr (y # ys)))"

lemma traverse_eq_Inr [res_simps]:
  "traverse f xs = Inr ys \<longleftrightarrow> list_all2 (\<lambda>x y. f x = Inr y) xs ys"
  by (induction xs arbitrary: ys) (auto simp: bind_res_eq_Inr list_all2_Cons1)

lemma traverse_length: "traverse f xs = Inr ys \<Longrightarrow> length ys = length xs"
  by (auto simp: traverse_eq_Inr dest: list_all2_lengthD)

lemma traverse_total:
  "(\<And>x. x \<in> set xs \<Longrightarrow> f x = Inr (g x)) \<Longrightarrow> traverse f xs = Inr (map g xs)"
  by (induction xs) simp_all

lemma traverse_Inl:
  "traverse f xs = Inl e \<Longrightarrow> \<exists>x \<in> set xs. f x = Inl e"
  by (induction xs) (auto simp: bind_res_eq_Inl)

section \<open>Effectful code\<close>

type_synonym ('w, 'e, 'a) io = "'w \<Rightarrow> ('e + 'a) \<times> 'w"

definition io_return :: "'a \<Rightarrow> ('w, 'e, 'a) io" where
  "io_return x = (\<lambda>w. (Inr x, w))"

definition io_raise :: "'e \<Rightarrow> ('w, 'e, 'a) io" where
  "io_raise e = (\<lambda>w. (Inl e, w))"

definition io_lift :: "'e + 'a \<Rightarrow> ('w, 'e, 'a) io" where
  "io_lift r = (\<lambda>w. (r, w))"

definition io_bind :: "('w, 'e, 'a) io \<Rightarrow> ('a \<Rightarrow> ('w, 'e, 'b) io) \<Rightarrow> ('w, 'e, 'b) io" where
  "io_bind m k = (\<lambda>w. case m w of (Inl e, w') \<Rightarrow> (Inl e, w') | (Inr x, w') \<Rightarrow> k x w')"

text \<open>\<open>try: m except e: h e\<close>; the exceptions a source clause does not name are raised again by \<open>h\<close>.\<close>

definition io_catch ::
    "('w, 'e, 'a) io \<Rightarrow> ('e \<Rightarrow> ('w, 'f, 'a) io) \<Rightarrow> ('w, 'f, 'a) io" where
  "io_catch m h = (\<lambda>w. case m w of (Inl e, w') \<Rightarrow> h e w' | (Inr x, w') \<Rightarrow> (Inr x, w'))"

lemma io_apply [simp, io_simps]:
  "io_return x w = (Inr x, w)" "io_raise e w = (Inl e, w)" "io_lift r w = (r, w)"
  by (simp_all add: io_return_def io_raise_def io_lift_def)

lemma io_bind_apply [io_simps]:
  "io_bind m k w = (case m w of (Inl e, w') \<Rightarrow> (Inl e, w') | (Inr x, w') \<Rightarrow> k x w')"
  by (simp add: io_bind_def)

lemma io_catch_apply [io_simps]:
  "io_catch m h w = (case m w of (Inl e, w') \<Rightarrow> h e w' | (Inr x, w') \<Rightarrow> (Inr x, w'))"
  by (simp add: io_catch_def)

lemma io_bind_Inl: "m w = (Inl e, w') \<Longrightarrow> io_bind m k w = (Inl e, w')"
  by (simp add: io_bind_apply)

lemma io_bind_Inr: "m w = (Inr x, w') \<Longrightarrow> io_bind m k w = k x w'"
  by (simp add: io_bind_apply)

lemma io_catch_Inl: "m w = (Inl e, w') \<Longrightarrow> io_catch m h w = h e w'"
  by (simp add: io_catch_apply)

lemma io_catch_Inr: "m w = (Inr x, w') \<Longrightarrow> io_catch m h w = (Inr x, w')"
  by (simp add: io_catch_apply)

lemma io_bind_eq_Inr:
  "io_bind m k w = (Inr y, w') \<longleftrightarrow> (\<exists>x v. m w = (Inr x, v) \<and> k x v = (Inr y, w'))"
  by (auto simp: io_bind_apply split: prod.splits sum.splits)

section \<open>Python's dynamic values\<close>

text \<open>
  A Python value where the source inspects it with \<open>isinstance\<close>. A float is its 64-bit IEEE
  pattern: the code only carries it. \<open>VOther\<close> is a value of any other type, with the type's name.
\<close>

datatype pyval = VBool bool | VInt int | VFloat "64 word" | VStr string | VOther string

fun isinstance_bool :: "pyval \<Rightarrow> bool" where
  "isinstance_bool (VBool _) = True"
| "isinstance_bool _ = False"

text \<open>\<open>bool\<close> is a subclass of \<open>int\<close>.\<close>

fun isinstance_int :: "pyval \<Rightarrow> bool" where
  "isinstance_int (VInt _) = True"
| "isinstance_int (VBool _) = True"
| "isinstance_int _ = False"

fun isinstance_float :: "pyval \<Rightarrow> bool" where
  "isinstance_float (VFloat _) = True"
| "isinstance_float _ = False"

fun isinstance_str :: "pyval \<Rightarrow> bool" where
  "isinstance_str (VStr _) = True"
| "isinstance_str _ = False"

text \<open>Reading an \<open>int\<close> (or a \<open>bool\<close>, which is one) as a number.\<close>

fun int_of_pyval :: "pyval \<Rightarrow> int" where
  "int_of_pyval (VInt n) = n"
| "int_of_pyval (VBool b) = (if b then 1 else 0)"
| "int_of_pyval _ = 0"

fun type_name :: "pyval \<Rightarrow> string" where
  "type_name (VBool _) = ''bool''"
| "type_name (VInt _) = ''int''"
| "type_name (VFloat _) = ''float''"
| "type_name (VStr _) = ''str''"
| "type_name (VOther t) = t"

text \<open>
  The exceptions of Python, of its standard library and of the two validating value types of the
  package that are subclasses of \<open>ValueError\<close>.
\<close>

datatype py_error =
    ValueError string
  | PriorityOutOfRangeError pyval
  | TraceContextError string
  | TypeError string
  | OverflowError string
  | OSError string
  | AssertionError
  | RuntimeError string
  | IndexError string
  | TimeoutError

fun is_ValueError :: "py_error \<Rightarrow> bool" where
  "is_ValueError (ValueError _) = True"
| "is_ValueError (PriorityOutOfRangeError _) = True"
| "is_ValueError (TraceContextError _) = True"
| "is_ValueError _ = False"

fun is_OverflowError :: "py_error \<Rightarrow> bool" where
  "is_OverflowError (OverflowError _) = True"
| "is_OverflowError _ = False"

fun is_OSError :: "py_error \<Rightarrow> bool" where
  "is_OSError (OSError _) = True"
| "is_OSError _ = False"

section \<open>Strings\<close>

text \<open>\<open>s.split(sep)\<close> for a one-character separator: always at least one field.\<close>

fun py_split :: "char \<Rightarrow> string \<Rightarrow> string list" where
  "py_split c [] = [[]]"
| "py_split c (x # xs) =
     (if x = c then [] # py_split c xs
      else (case py_split c xs of [] \<Rightarrow> [[x]] | f # fs \<Rightarrow> (x # f) # fs))"

fun join_fields :: "char \<Rightarrow> string list \<Rightarrow> string" where
  "join_fields c [] = []"
| "join_fields c [f] = f"
| "join_fields c (f # g # fs) = f @ c # join_fields c (g # fs)"

lemma py_split_not_Nil [simp]: "py_split c s \<noteq> []"
  by (induction c s rule: py_split.induct) (auto split: list.splits)

lemma join_py_split: "join_fields c (py_split c s) = s"
proof (induction s)
  case Nil
  then show ?case by simp
next
  case (Cons x xs)
  then show ?case
    by (cases "py_split c xs"; cases "tl (py_split c xs)") auto
qed

lemma py_split_fields: "f \<in> set (py_split c s) \<Longrightarrow> c \<notin> set f"
  by (induction s arbitrary: f) (auto split: if_splits list.splits)

lemma py_split_no_sep: "c \<notin> set s \<Longrightarrow> py_split c s = [s]"
  by (induction s) auto

lemma py_split_append: "c \<notin> set f \<Longrightarrow> py_split c (f @ c # s) = f # py_split c s"
  by (induction f) auto

text \<open>\<open>s.startswith(p)\<close> and the slice \<open>s[len(p):]\<close>.\<close>

definition startswith :: "string \<Rightarrow> string \<Rightarrow> bool" where
  "startswith p s \<longleftrightarrow> take (length p) s = p"

lemma startswith_append [simp]: "startswith p (p @ s)"
  by (simp add: startswith_def)

lemma startswith_iff: "startswith p s \<longleftrightarrow> (\<exists>t. s = p @ t)"
  by (auto simp: startswith_def) (metis append_take_drop_id)

end
