(* ===== verification/Sepp_Float.thy ===== *)
theory Sepp_Float
  imports Complex_Main Sepp_Prelude "HOL-Library.Log_Nat"
begin

text \<open>
  Python floats, as far as the client computes with them: the retry backoff, the jitter, and the
  conversions between \<open>timedelta\<close> and seconds. A finite float is the rational it denotes; an
  arithmetic operation is the exact operation followed by \<open>rnd\<close>, the IEEE 754 rounding of a
  binary64 result (round to nearest, ties to even, 53-bit significand). The exponent is unbounded:
  the values here stay far from overflow and from the subnormal range. \<open>int / int\<close> on Python
  integers is correctly rounded too, so \<open>total_seconds\<close> is one \<open>rnd\<close>.
\<close>

section \<open>Rounding to the nearest integer, ties to even\<close>

definition round_half_even :: "rat \<Rightarrow> int" where
  "round_half_even x =
     (let f = \<lfloor>x\<rfloor>; d = x - of_int f
      in if d < 1/2 then f else if 1/2 < d then f + 1 else if even f then f else f + 1)"

lemma round_half_even_of_int [simp]: "round_half_even (of_int n) = n"
  by (simp add: round_half_even_def)

lemma round_half_even_cases:
  "round_half_even x = \<lfloor>x\<rfloor> \<and> x - of_int \<lfloor>x\<rfloor> \<le> 1/2
   \<or> round_half_even x = \<lfloor>x\<rfloor> + 1 \<and> 1/2 \<le> x - of_int \<lfloor>x\<rfloor>"
  by (auto simp: round_half_even_def Let_def)

lemma round_half_even_error: "\<bar>of_int (round_half_even x) - x\<bar> \<le> 1/2"
  using round_half_even_cases [of x] floor_correct [of x] by auto

lemma round_half_even_mono: "x \<le> y \<Longrightarrow> round_half_even x \<le> round_half_even y"
proof -
  assume le: "x \<le> y"
  then have fl: "\<lfloor>x\<rfloor> \<le> \<lfloor>y\<rfloor>" by (rule floor_mono)
  show ?thesis
  proof (cases "\<lfloor>x\<rfloor> = \<lfloor>y\<rfloor>")
    case True
    with le show ?thesis by (auto simp: round_half_even_def Let_def)
  next
    case False
    with fl have "\<lfloor>x\<rfloor> + 1 \<le> \<lfloor>y\<rfloor>" by simp
    then show ?thesis
      using round_half_even_cases [of x] round_half_even_cases [of y] by auto
  qed
qed

lemma round_half_even_near: "\<bar>x - of_int n\<bar> < 1/2 \<Longrightarrow> round_half_even x = n"
proof -
  assume h: "\<bar>x - of_int n\<bar> < 1/2"
  have "\<bar>of_int (round_half_even x) - (of_int n :: rat)\<bar> < 1"
    using round_half_even_error [of x] h by linarith
  then have "\<bar>round_half_even x - n\<bar> < 1"
    by (metis of_int_1_less_iff of_int_abs of_int_diff of_int_less_1_iff)
  then show ?thesis by simp
qed

section \<open>The binary exponent\<close>

definition flog2 :: "rat \<Rightarrow> int" where
  "flog2 x = (if 1 \<le> x then bitlen \<lfloor>x\<rfloor> - 1 else - bitlen (\<lceil>1 / x\<rceil> - 1))"

definition pow2 :: "int \<Rightarrow> rat" where
  "pow2 e = (if 0 \<le> e then 2 ^ nat e else 1 / 2 ^ nat (- e))"

lemma pow2_pos [simp]: "0 < pow2 e" "pow2 e \<noteq> 0" "0 \<le> pow2 e"
  by (simp_all add: pow2_def)

lemma pow2_add: "pow2 (a + b) = pow2 a * pow2 b"
proof -
  have eq: "pow2 e = 2 powi e" for e
    by (simp add: pow2_def power_int_def power_inverse inverse_eq_divide power_divide)
  show ?thesis unfolding eq by (rule power_int_add) simp
qed

lemma pow2_0 [simp]: "pow2 0 = 1"
  by (simp add: pow2_def)

lemma pow2_1: "pow2 1 = 2"
  by (simp add: pow2_def)

lemma pow2_diff: "pow2 (a - b) = pow2 a / pow2 b"
proof -
  have "pow2 a = pow2 (a - b) * pow2 b" by (simp add: pow2_add [symmetric])
  then show ?thesis by (simp add: field_simps)
qed

lemma pow2_mono: "a \<le> b \<Longrightarrow> pow2 a \<le> pow2 b"
proof -
  assume "a \<le> b"
  then have ge1: "1 \<le> pow2 (b - a)" by (simp add: pow2_def)
  have "pow2 b = pow2 (b - a) * pow2 a" by (simp add: pow2_add [symmetric])
  with mult_right_mono [OF ge1, of "pow2 a"] show ?thesis by simp
qed

lemma pow2_less_iff: "pow2 a < pow2 b \<longleftrightarrow> a < b"
proof
  show "pow2 a < pow2 b \<Longrightarrow> a < b" using pow2_mono [of b a] by (cases "b \<le> a") auto
next
  assume "a < b"
  then have "pow2 (a + 1) \<le> pow2 b" by (intro pow2_mono) simp
  moreover have "pow2 (a + 1) = 2 * pow2 a" by (simp add: pow2_add pow2_1)
  ultimately show "pow2 a < pow2 b" using pow2_pos(1) [of a] by linarith
qed

lemma flog2_bounds:
  assumes "0 < x"
  shows "pow2 (flog2 x) \<le> x" and "x < pow2 (flog2 x + 1)"
proof -
  have "pow2 (flog2 x) \<le> x \<and> x < pow2 (flog2 x + 1)"
  proof (cases "1 \<le> x")
    case True
    then have f: "0 < \<lfloor>x\<rfloor>" by (simp add: zero_less_floor)
    let ?b = "bitlen \<lfloor>x\<rfloor>"
    have b: "0 < ?b" using f by (metis bitlen_eq_zero_iff bitlen_nonneg linorder_not_less order_le_less)
    from bitlen_bounds [OF f] have lo: "2 ^ nat (?b - 1) \<le> \<lfloor>x\<rfloor>" and hi: "\<lfloor>x\<rfloor> < 2 ^ nat ?b" by auto
    from lo have "(2::rat) ^ nat (?b - 1) \<le> x" by (simp add: le_floor_iff)
    moreover from hi have "x < (2::rat) ^ nat ?b" by (simp add: floor_less_iff)
    ultimately show ?thesis using True b by (simp add: flog2_def pow2_def)
  next
    case False
    let ?c = "\<lceil>1 / x\<rceil>"
    let ?b = "bitlen (?c - 1)"
    from False assms have inv1: "1 < 1 / x" by simp
    then have c: "0 < ?c - 1" by (simp add: less_ceiling_iff)
    have b: "0 < ?b" using c by (metis bitlen_eq_zero_iff bitlen_nonneg linorder_not_less order_le_less)
    from bitlen_bounds [OF c] have lo: "2 ^ nat (?b - 1) \<le> ?c - 1" and hi: "?c - 1 < 2 ^ nat ?b" by auto
    from hi have "?c \<le> 2 ^ nat ?b" by simp
    then have h1: "1 / x \<le> (2::rat) ^ nat ?b" by (simp add: ceiling_le_iff)
    from lo have "2 ^ nat (?b - 1) < ?c" by simp
    then have h2: "(2::rat) ^ nat (?b - 1) < 1 / x" by (simp add: less_ceiling_iff)
    have "1 / 2 ^ nat ?b \<le> x" using h1 assms by (simp add: field_simps)
    moreover have "x < 1 / 2 ^ nat (?b - 1)" using h2 assms by (simp add: field_simps)
    ultimately show ?thesis using False b by (simp add: flog2_def pow2_def)
  qed
  then show "pow2 (flog2 x) \<le> x" and "x < pow2 (flog2 x + 1)" by auto
qed

lemma flog2_unique:
  assumes "pow2 e \<le> x" and "x < pow2 (e + 1)"
  shows "flog2 x = e"
proof -
  have pos: "0 < x" using assms(1) pow2_pos(1) [of e] by linarith
  have "pow2 e < pow2 (flog2 x + 1)" "pow2 (flog2 x) < pow2 (e + 1)"
    using flog2_bounds [OF pos] assms by linarith+
  then show ?thesis by (simp add: pow2_less_iff)
qed

lemma flog2_mono:
  assumes "0 < x" and "x \<le> y"
  shows "flog2 x \<le> flog2 y"
proof -
  have "pow2 (flog2 x) < pow2 (flog2 y + 1)"
    using flog2_bounds [of x] flog2_bounds [of y] assms by linarith
  then show ?thesis by (simp add: pow2_less_iff)
qed

section \<open>Rounding to a binary64 value\<close>

definition rnd :: "rat \<Rightarrow> rat" where
  "rnd x = (if x = 0 then 0
            else let u = pow2 (flog2 \<bar>x\<bar> - 52) in of_int (round_half_even (x / u)) * u)"

text \<open>The values of a binary64 float: an integer of at most 53 bits times a power of two.\<close>

definition is_float :: "rat \<Rightarrow> bool" where
  "is_float x \<longleftrightarrow> (\<exists>m e. \<bar>m\<bar> < 2 ^ 53 \<and> x = of_int m * pow2 e)"

lemma is_floatI: "\<bar>m\<bar> < 2 ^ 53 \<Longrightarrow> is_float (of_int m * pow2 e)"
  by (auto simp: is_float_def)

lemma is_float_int: "\<bar>m\<bar> < 2 ^ 53 \<Longrightarrow> is_float (of_int m)"
  using is_floatI [of m 0] by simp

lemma pow2_52: "pow2 e / pow2 (e - 52) = 2 ^ 52" "pow2 (e + 1) / pow2 (e - 52) = 2 ^ 53"
proof -
  have "pow2 (e - (e - 52)) = 2 ^ 52" "pow2 (e + 1 - (e - 52)) = 2 ^ 53"
    by (simp_all add: pow2_def)
  then show "pow2 e / pow2 (e - 52) = 2 ^ 52" "pow2 (e + 1) / pow2 (e - 52) = 2 ^ 53"
    by (simp_all only: pow2_diff)
qed

lemma rnd_0 [simp]: "rnd 0 = 0"
  by (simp add: rnd_def)

text \<open>The rounded value of a positive number stays in the number's binade, the upper end included.\<close>

lemma rnd_binade:
  assumes "0 < x" and "e = flog2 x"
  shows "pow2 e \<le> rnd x" and "rnd x \<le> pow2 (e + 1)" and "is_float (rnd x)"
proof -
  let ?u = "pow2 (e - 52)" and ?r = "round_half_even (x / pow2 (e - 52))"
  have r: "rnd x = of_int ?r * ?u" using assms by (simp add: rnd_def Let_def)
  have "pow2 e / ?u \<le> x / ?u" "x / ?u \<le> pow2 (e + 1) / ?u"
    using flog2_bounds [OF assms(1)] assms(2) by (simp_all add: divide_right_mono less_imp_le)
  then have "of_int (2 ^ 52) \<le> x / ?u" "x / ?u \<le> of_int (2 ^ 53)"
    by (simp_all add: pow2_52)
  from this [THEN round_half_even_mono] have b: "2 ^ 52 \<le> ?r" "?r \<le> 2 ^ 53"
    by (simp_all only: round_half_even_of_int)
  have "of_int (2 ^ 52) * ?u \<le> of_int ?r * ?u" "of_int ?r * ?u \<le> of_int (2 ^ 53) * ?u"
    using b by (simp_all only: mult_right_mono of_int_le_iff pow2_pos)
  moreover have "of_int (2 ^ 52) * ?u = pow2 e" "of_int (2 ^ 53) * ?u = pow2 (e + 1)"
    using pow2_52 [of e] by (simp_all add: field_simps)
  ultimately show "pow2 e \<le> rnd x" "rnd x \<le> pow2 (e + 1)" by (simp_all only: r)
  have "?r = 2 ^ 53 \<Longrightarrow> rnd x = of_int 1 * pow2 (e + 1)"
    using pow2_52 [of e] by (simp add: r field_simps)
  then show "is_float (rnd x)"
    using b r is_floatI [of ?r "e - 52"] is_floatI [of 1 "e + 1"] by (cases "?r = 2 ^ 53") simp_all
qed

lemma rnd_pos: "0 < x \<Longrightarrow> 0 < rnd x"
  using rnd_binade(1) [of x "flog2 x"] pow2_pos(1) [of "flog2 x"] by linarith

lemma round_half_even_minus: "round_half_even (- x) = - round_half_even x"
proof -
  define f where "f = \<lfloor>x\<rfloor>"
  have f: "of_int f \<le> x" "x < of_int f + 1" using floor_correct [of x] by (simp_all add: f_def)
  show ?thesis
  proof (cases "x = of_int f")
    case True
    then show ?thesis
      by (metis of_int_minus round_half_even_of_int)
  next
    case False
    with f have "\<lfloor>- x\<rfloor> = - f - 1" by (intro floor_unique) auto
    then show ?thesis
      using f by (simp add: round_half_even_def Let_def f_def [symmetric])
  qed
qed

lemma rnd_minus: "rnd (- x) = - rnd x"
  by (simp add: rnd_def Let_def round_half_even_minus)

lemma rnd_mono_pos:
  assumes "0 < x" and "x \<le> y"
  shows "rnd x \<le> rnd y"
proof -
  have "flog2 x \<le> flog2 y" using assms by (rule flog2_mono)
  then consider "flog2 x = flog2 y" | "flog2 x + 1 \<le> flog2 y" by linarith
  then show ?thesis
  proof cases
    case 1
    let ?u = "pow2 (flog2 y - 52)"
    have "x / ?u \<le> y / ?u" using assms(2) by (simp add: divide_right_mono)
    then show ?thesis
      using assms 1 by (simp add: rnd_def Let_def round_half_even_mono)
  next
    case 2
    then have "pow2 (flog2 x + 1) \<le> pow2 (flog2 y)" by (rule pow2_mono)
    then show ?thesis
      using rnd_binade(2) [OF assms(1)] rnd_binade(1) [of y] assms by fastforce
  qed
qed

lemma rnd_mono: "x \<le> y \<Longrightarrow> rnd x \<le> rnd y"
proof -
  assume le: "x \<le> y"
  consider "0 < x" | "x \<le> 0" "0 \<le> y" | "y < 0" by linarith
  then show ?thesis
  proof cases
    case 1 then show ?thesis using le by (rule rnd_mono_pos)
  next
    case 2
    have "rnd x \<le> 0" using 2(1) rnd_pos [of "- x"] by (cases "x = 0") (auto simp: rnd_minus)
    moreover have "0 \<le> rnd y" using 2(2) rnd_pos [of y] by (cases "y = 0") auto
    ultimately show ?thesis by linarith
  next
    case 3
    then have "rnd (- y) \<le> rnd (- x)" using le by (intro rnd_mono_pos) auto
    then show ?thesis by (simp add: rnd_minus)
  qed
qed

lemma rnd_is_float: "is_float (rnd x)"
proof (cases "x = 0")
  case True then show ?thesis using is_float_int [of 0] by simp
next
  case False
  then consider "0 < x" | "0 < - x" by linarith
  then show ?thesis
  proof cases
    case 1 then show ?thesis using rnd_binade(3) by blast
  next
    case 2
    then obtain m e where "\<bar>m\<bar> < 2 ^ 53" "rnd (- x) = of_int m * pow2 e"
      using rnd_binade(3) unfolding is_float_def by blast
    then have "rnd x = of_int (- m) * pow2 e" "\<bar>- m\<bar> < 2 ^ 53"
      by (simp_all add: rnd_minus)
    then show ?thesis unfolding is_float_def by blast
  qed
qed

lemma rnd_float:
  assumes "is_float x"
  shows "rnd x = x"
proof (cases "x = 0")
  case True then show ?thesis by simp
next
  case False
  from assms obtain m e where m: "\<bar>m\<bar> < 2 ^ 53" and x: "x = of_int m * pow2 e"
    by (auto simp: is_float_def)
  let ?E = "flog2 \<bar>x\<bar>"
  have "\<bar>x\<bar> = of_int \<bar>m\<bar> * pow2 e" by (simp add: x abs_mult)
  also have "\<dots> < of_int (2 ^ 53) * pow2 e"
    using m by (simp only: mult_less_cancel_right_pos pow2_pos of_int_less_iff)
  also have "\<dots> = pow2 (53 + e)" by (simp only: pow2_add) (simp add: pow2_def)
  finally have "\<bar>x\<bar> < pow2 (53 + e)" .
  with flog2_bounds(1) [of "\<bar>x\<bar>"] False have "pow2 ?E < pow2 (53 + e)" by simp
  then have E: "0 \<le> e - (?E - 52)" by (simp add: pow2_less_iff)
  have "x / pow2 (?E - 52) = of_int m * pow2 (e - (?E - 52))"
    by (simp only: pow2_diff [of e]) (simp add: x)
  also have "\<dots> = of_int (m * 2 ^ nat (e - (?E - 52)))" using E by (simp add: pow2_def)
  finally have "of_int (round_half_even (x / pow2 (?E - 52))) = x / pow2 (?E - 52)"
    by (simp only: round_half_even_of_int)
  then show ?thesis using False by (simp add: rnd_def Let_def)
qed

lemma rnd_idem [simp]: "rnd (rnd x) = rnd x"
  by (rule rnd_float [OF rnd_is_float])

lemma rnd_of_int: "\<bar>m\<bar> < 2 ^ 53 \<Longrightarrow> rnd (of_int m) = of_int m"
  by (rule rnd_float [OF is_float_int])

lemma rnd_nonneg: "0 \<le> x \<Longrightarrow> 0 \<le> rnd x"
  using rnd_mono [of 0 x] by simp

lemma rnd_error: "\<bar>rnd x - x\<bar> \<le> \<bar>x\<bar> / 2 ^ 53"
proof (cases "x = 0")
  case True then show ?thesis by simp
next
  case False
  let ?u = "pow2 (flog2 \<bar>x\<bar> - 52)"
  have lo: "2 ^ 52 * ?u \<le> \<bar>x\<bar>"
    using flog2_bounds(1) [of "\<bar>x\<bar>"] False pow2_52(1) [of "flog2 \<bar>x\<bar>"] by (simp add: field_simps)
  have "rnd x - x = (of_int (round_half_even (x / ?u)) - x / ?u) * ?u"
    using False by (simp add: rnd_def Let_def left_diff_distrib)
  then have "\<bar>rnd x - x\<bar> = \<bar>of_int (round_half_even (x / ?u)) - x / ?u\<bar> * ?u"
    by (simp add: abs_mult)
  also have "\<dots> \<le> 1/2 * ?u" by (intro mult_right_mono round_half_even_error) simp
  also have "\<dots> \<le> \<bar>x\<bar> / 2 ^ 53" using lo by simp
  finally show ?thesis .
qed

text \<open>A float no larger than a bound that is itself a float stays below it when rounded.\<close>

lemma rnd_le_float: "x \<le> y \<Longrightarrow> is_float y \<Longrightarrow> rnd x \<le> y"
  using rnd_mono [of x y] by (simp add: rnd_float)

lemma rnd_ge_float: "x \<le> y \<Longrightarrow> is_float x \<Longrightarrow> x \<le> rnd y"
  using rnd_mono [of x y] by (simp add: rnd_float)

text \<open>Halving a float is exact.\<close>

lemma is_float_half: "is_float x \<Longrightarrow> is_float (x / 2)"
proof -
  assume "is_float x"
  then obtain m e where m: "\<bar>m\<bar> < 2 ^ 53" and x: "x = of_int m * pow2 e"
    by (auto simp: is_float_def)
  have "pow2 (e - 1) = pow2 e / 2" by (simp add: pow2_diff pow2_1)
  then have "x / 2 = of_int m * pow2 (e - 1)" by (simp add: x)
  with m show ?thesis unfolding is_float_def by blast
qed

end
