(* ===== verification/Sepp_Time.thy ===== *)
theory Sepp_Time
  imports Sepp_Float
begin

text \<open>
  Times and durations as the package uses them: \<open>timedelta\<close> and \<open>datetime\<close> of Python's standard
  library, and the millisecond helpers of \<^verbatim>\<open>src/sepp/_convert.py\<close>. A \<open>timedelta\<close> is its number of
  microseconds (Python's own resolution). A \<open>datetime\<close> is its wall-clock reading, in microseconds
  from 1970-01-01 00:00 on the same clock, and its offset from UTC in microseconds, \<open>None\<close> for a
  naive one.
\<close>

section \<open>timedelta\<close>

type_synonym timedelta = int

definition milliseconds :: "int \<Rightarrow> timedelta" where
  "milliseconds n = n * 1000"

definition seconds :: "int \<Rightarrow> timedelta" where
  "seconds n = n * 1000000"

text \<open>\<open>td / n\<close> on a \<open>timedelta\<close> and an integer: exact, rounded half to even.\<close>

definition td_div :: "timedelta \<Rightarrow> int \<Rightarrow> timedelta" where
  "td_div td n = round_half_even (of_int td / of_int n)"

text \<open>\<open>int(x)\<close> of a float: truncation.\<close>

definition py_trunc :: "rat \<Rightarrow> int" where
  "py_trunc x = (if 0 \<le> x then \<lfloor>x\<rfloor> else \<lceil>x\<rceil>)"

text \<open>\<open>td.total_seconds()\<close> is \<open>microseconds / 10**6\<close>, correctly rounded.\<close>

definition total_seconds :: "timedelta \<Rightarrow> rat" where
  "total_seconds td = rnd (of_int td / 10 ^ 6)"

text \<open>
  \<open>timedelta(seconds=x)\<close> for a float \<open>x\<close>: the integral part is exact, the fractional part goes to
  microseconds in floating point, and the sum is rounded half to even.
\<close>

definition timedelta_seconds :: "rat \<Rightarrow> timedelta" where
  "timedelta_seconds x =
     (let i = py_trunc x; f = x - of_int i
      in round_half_even (of_int (i * 10 ^ 6) + rnd (f * 10 ^ 6)))"

section \<open>datetime\<close>

record datetime =
  dt_wall :: int
  dt_tz :: "int option"

text \<open>The range of \<open>datetime\<close>: 0001-01-01 00:00 to 9999-12-31 23:59:59.999999.\<close>

definition min_wall :: int where "min_wall = - 62135596800 * 10 ^ 6"
definition max_wall :: int where "max_wall = 253402300799999999"

text \<open>The largest \<open>timedelta\<close>, 999999999 days and a day less a microsecond.\<close>

definition max_timedelta :: timedelta where
  "max_timedelta = 10 ^ 9 * 86400 * 10 ^ 6 - 1"

definition dt_offset :: "datetime \<Rightarrow> int" where
  "dt_offset dt = (case dt_tz dt of None \<Rightarrow> 0 | Some off \<Rightarrow> off)"

text \<open>\<open>a - b\<close> on two aware datetimes: the distance of the two instants.\<close>

definition dt_minus :: "datetime \<Rightarrow> datetime \<Rightarrow> timedelta" where
  "dt_minus a b = (dt_wall a - dt_offset a) - (dt_wall b - dt_offset b)"

definition dt_plus :: "datetime \<Rightarrow> timedelta \<Rightarrow> py_error + datetime" where
  "dt_plus dt td =
     (let wall = dt_wall dt + td
      in if min_wall \<le> wall \<and> wall \<le> max_wall then Inr (dt\<lparr>dt_wall := wall\<rparr>)
         else Inl (OverflowError ''date value out of range''))"

text \<open>The sum of two \<open>timedelta\<close>s, an error out of range.\<close>

definition in_timedelta :: "int \<Rightarrow> bool" where
  "in_timedelta m \<longleftrightarrow> - (999999999 * 86400 * 10 ^ 6) \<le> m \<and> m \<le> max_timedelta"

definition timedelta_add :: "timedelta \<Rightarrow> timedelta \<Rightarrow> py_error + timedelta" where
  "timedelta_add a b =
     (if in_timedelta (a + b) then Inr (a + b) else Inl (OverflowError ''days out of range''))"

text \<open>\<open>timedelta(milliseconds=ms)\<close>.\<close>

definition timedelta_ms :: "int \<Rightarrow> py_error + timedelta" where
  "timedelta_ms ms =
     (if - (999999999 * 86400 * 1000) \<le> ms \<and> ms * 1000 \<le> max_timedelta
      then Inr (milliseconds ms) else Inl (OverflowError ''timedelta''))"

definition utc :: "int \<Rightarrow> datetime" where
  "utc us = \<lparr>dt_wall = us, dt_tz = Some 0\<rparr>"

definition EPOCH :: datetime where
  "EPOCH = utc 0"

text \<open>Microseconds since the epoch of the instant a \<open>datetime\<close> names, a naive one read as UTC.\<close>

definition utc_micros :: "datetime \<Rightarrow> int" where
  "utc_micros dt = dt_wall dt - dt_offset dt"

lemma utc_micros_utc [simp]: "utc_micros (utc us) = us"
  by (simp add: utc_micros_def utc_def dt_offset_def)

section \<open>Conversions to and from milliseconds\<close>

definition ONE_MS :: timedelta where
  "ONE_MS = milliseconds 1"

definition datetime_to_millis :: "datetime \<Rightarrow> int" where
  "datetime_to_millis dt =
     (let dt = (if dt_tz dt = None then dt\<lparr>dt_tz := Some 0\<rparr> else dt)
      in dt_minus dt EPOCH div ONE_MS)"

definition millis_to_datetime :: "int \<Rightarrow> datetime option" where
  "millis_to_datetime ms =
     (if ms < 0 then None
      else case bind_res (timedelta_ms ms) (dt_plus EPOCH) of
        Inr dt \<Rightarrow> Some dt
      | Inl _ \<Rightarrow> None)"

definition timedelta_to_millis :: "timedelta \<Rightarrow> int" where
  "timedelta_to_millis td = py_trunc (rnd (total_seconds td * 1000))"

lemmas time_defs = milliseconds_def seconds_def ONE_MS_def EPOCH_def utc_def dt_minus_def
  dt_offset_def utc_micros_def

lemma datetime_to_millis_eq: "datetime_to_millis dt = utc_micros dt div 1000"
  by (simp add: datetime_to_millis_def time_defs split: option.splits)

lemma datetime_to_millis_utc [simp]: "datetime_to_millis (utc us) = us div 1000"
  by (simp add: datetime_to_millis_eq)

lemma datetime_to_millis_nonneg_iff: "0 \<le> datetime_to_millis dt \<longleftrightarrow> 0 \<le> utc_micros dt"
  by (simp add: datetime_to_millis_eq pos_imp_zdiv_nonneg_iff)

lemma millis_to_datetime_eq:
  "millis_to_datetime ms =
     (if 0 \<le> ms \<and> ms * 1000 \<le> max_wall then Some (utc (ms * 1000)) else None)"
  by (simp add: millis_to_datetime_def timedelta_ms_def dt_plus_def time_defs max_wall_def
      min_wall_def max_timedelta_def)

section \<open>Seconds as floats\<close>

lemma py_trunc_of_int [simp]: "py_trunc (of_int n) = n"
  by (simp add: py_trunc_def)

lemma py_trunc_mono: "x \<le> y \<Longrightarrow> py_trunc x \<le> py_trunc y"
proof -
  assume le: "x \<le> y"
  consider "0 \<le> x" | "x < 0" "0 \<le> y" | "y < 0" by linarith
  then show ?thesis
  proof cases
    case 1 then show ?thesis using le by (simp add: py_trunc_def floor_mono)
  next
    case 2
    then have "\<lceil>x\<rceil> \<le> 0" "0 \<le> \<lfloor>y\<rfloor>" by (simp_all only: ceiling_le_zero zero_le_floor less_imp_le)
    then have "\<lceil>x\<rceil> \<le> \<lfloor>y\<rfloor>" by (rule order_trans)
    then show ?thesis using 2 by (simp add: py_trunc_def)
  next
    case 3 then show ?thesis using le by (simp add: py_trunc_def ceiling_mono)
  qed
qed

lemma total_seconds_is_float: "is_float (total_seconds td)"
  by (simp add: total_seconds_def rnd_is_float)

lemma total_seconds_mono: "a \<le> b \<Longrightarrow> total_seconds a \<le> total_seconds b"
  by (simp add: total_seconds_def rnd_mono divide_right_mono)

lemma total_seconds_nonneg: "0 \<le> td \<Longrightarrow> 0 \<le> total_seconds td"
  by (simp add: total_seconds_def rnd_nonneg)

lemma timedelta_seconds_mono:
  assumes "0 \<le> x" and "x \<le> y"
  shows "timedelta_seconds x \<le> timedelta_seconds y"
proof -
  define i j where "i = \<lfloor>x\<rfloor>" and "j = \<lfloor>y\<rfloor>"
  have ij: "i \<le> j" using assms by (simp add: i_def j_def floor_mono)
  have fx: "of_int i \<le> x" "x < of_int i + 1" and fy: "of_int j \<le> y"
    using floor_correct [of x] floor_correct [of y] by (simp_all add: i_def j_def)
  have "of_int (i * 10 ^ 6) + rnd ((x - of_int i) * 10 ^ 6)
        \<le> of_int (j * 10 ^ 6) + rnd ((y - of_int j) * 10 ^ 6)"
  proof (cases "i = j")
    case True
    then show ?thesis using assms by (simp add: rnd_mono)
  next
    case False
    then have step: "i + 1 \<le> j" using ij by simp
    have "rnd ((x - of_int i) * 10 ^ 6) \<le> of_int (10 ^ 6)"
      using fx by (intro rnd_le_float is_float_int) auto
    then have "of_int (i * 10 ^ 6) + rnd ((x - of_int i) * 10 ^ 6) \<le> of_int ((i + 1) * 10 ^ 6)"
      by (simp add: algebra_simps)
    also have "\<dots> \<le> of_int (j * 10 ^ 6)" using step by simp
    also have "\<dots> \<le> of_int (j * 10 ^ 6) + rnd ((y - of_int j) * 10 ^ 6)"
      using fy by (simp add: rnd_nonneg)
    finally show ?thesis .
  qed
  then show ?thesis
    using assms by (simp add: timedelta_seconds_def py_trunc_def Let_def round_half_even_mono
        i_def [symmetric] j_def [symmetric])
qed

text \<open>
  Up to \<open>exact_td\<close> (71 years) seconds as a float lose nothing: the double rounding stays under half
  a microsecond.
\<close>

definition exact_td :: timedelta where
  "exact_td = 2 ^ 51"

lemma timedelta_seconds_total_seconds:
  assumes "0 \<le> td" and "td \<le> exact_td"
  shows "timedelta_seconds (total_seconds td) = td"
proof -
  define x f i where "x = (of_int td :: rat) / 10 ^ 6" and "f = total_seconds td" and "i = \<lfloor>f\<rfloor>"
  define p where "p = rnd ((f - of_int i) * 10 ^ 6)"
  have x0: "0 \<le> x" "\<bar>x\<bar> = x" using assms by (simp_all add: x_def)
  have f0: "0 \<le> f" by (simp add: f_def total_seconds_nonneg assms)
  have fx: "\<bar>f - x\<bar> \<le> x / 2 ^ 53"
    using rnd_error [of x] x0 by (simp only: f_def total_seconds_def x_def)
  have fr: "0 \<le> f - of_int i" "f - of_int i < 1"
    using floor_correct [of f] by (auto simp: i_def)
  have "\<bar>p - (f - of_int i) * 10 ^ 6\<bar> \<le> \<bar>(f - of_int i) * 10 ^ 6\<bar> / 2 ^ 53"
    unfolding p_def by (rule rnd_error)
  also have "\<dots> \<le> 10 ^ 6 / 2 ^ 53" using fr by (simp add: abs_mult)
  finally have p: "\<bar>p - (f - of_int i) * 10 ^ 6\<bar> \<le> 10 ^ 6 / 2 ^ 53" .
  have "x \<le> 2 ^ 51 / 10 ^ 6"
  proof -
    have "(of_int td :: rat) \<le> of_int (2 ^ 51)" using assms(2) by (simp only: of_int_le_iff exact_td_def)
    then show ?thesis by (simp add: x_def)
  qed
  then have fx': "\<bar>f - x\<bar> \<le> 1 / (4 * 10 ^ 6)" using fx by simp
  have "\<bar>of_int (i * 10 ^ 6) + p - of_int td\<bar> < 1/2"
  proof -
    have "of_int (i * 10 ^ 6) + p - of_int td
          = (p - (f - of_int i) * 10 ^ 6) + (f - x) * 10 ^ 6"
      by (simp add: x_def algebra_simps)
    also have "\<bar>\<dots>\<bar> \<le> \<bar>p - (f - of_int i) * 10 ^ 6\<bar> + \<bar>(f - x) * 10 ^ 6\<bar>"
      by (rule abs_triangle_ineq)
    also have "\<bar>(f - x) * 10 ^ 6\<bar> = \<bar>f - x\<bar> * 10 ^ 6" by (simp only: abs_mult) simp
    also have "\<bar>p - (f - of_int i) * 10 ^ 6\<bar> + \<bar>f - x\<bar> * 10 ^ 6
        \<le> 10 ^ 6 / 2 ^ 53 + 1 / (4 * 10 ^ 6) * 10 ^ 6"
      by (intro add_mono p mult_right_mono fx') simp
    finally show ?thesis by simp
  qed
  then have r: "round_half_even (of_int (i * 10 ^ 6) + p) = td" by (rule round_half_even_near)
  have i: "py_trunc f = i" using f0 by (simp add: py_trunc_def i_def)
  show ?thesis
    by (simp only: timedelta_seconds_def Let_def f_def [symmetric] i p_def [symmetric] r)
qed

text \<open>The float computation of \<open>timedelta_to_millis\<close> is within a microsecond of the true value.\<close>

lemma millis_float_error:
  assumes "0 \<le> td" and "td \<le> exact_td"
  shows "\<bar>rnd (total_seconds td * 1000) - of_int td / 1000\<bar> < 1 / 1000"
proof -
  define x s where "x = (of_int td :: rat) / 10 ^ 6" and "s = total_seconds td"
  have "(of_int td :: rat) \<le> of_int (2 ^ 51)" using assms(2) by (simp only: of_int_le_iff exact_td_def)
  then have x: "0 \<le> x" "x \<le> 2 ^ 51 / 10 ^ 6" using assms by (simp_all add: x_def)
  have s0: "0 \<le> s" by (simp add: s_def total_seconds_nonneg assms)
  have sx: "\<bar>s - x\<bar> \<le> x / 2 ^ 53"
    using rnd_error [of x] x by (simp only: s_def total_seconds_def x_def abs_of_nonneg)
  have sx': "\<bar>s - x\<bar> \<le> 1 / (4 * 10 ^ 6)" using sx x(2) by simp
  then have "s - x \<le> 1 / (4 * 10 ^ 6)" by (simp only: abs_le_iff)
  then have s52: "s \<le> 2 ^ 52 / 10 ^ 6" using x(2) by simp
  have "\<bar>rnd (s * 1000) - s * 1000\<bar> \<le> s * 1000 / 2 ^ 53"
    using rnd_error [of "s * 1000"] s0 by simp
  then have m: "\<bar>rnd (s * 1000) - s * 1000\<bar> \<le> 1 / 2000" using s52 by simp
  have "\<bar>rnd (s * 1000) - x * 1000\<bar> \<le> \<bar>rnd (s * 1000) - s * 1000\<bar> + \<bar>s * 1000 - x * 1000\<bar>"
    using abs_triangle_ineq [of "rnd (s * 1000) - s * 1000" "s * 1000 - x * 1000"] by simp
  also have "\<bar>s * 1000 - x * 1000\<bar> = \<bar>s - x\<bar> * 1000"
    using abs_mult [of "s - x" 1000] by (simp add: left_diff_distrib)
  also have "\<bar>rnd (s * 1000) - s * 1000\<bar> + \<bar>s - x\<bar> * 1000 \<le> 1 / 2000 + 1 / (4 * 10 ^ 6) * 1000"
    by (intro add_mono m mult_right_mono sx') simp
  finally show ?thesis by (simp add: x_def s_def)
qed

lemma timedelta_to_millis_bounds:
  assumes "0 \<le> td" and "td \<le> exact_td"
  shows "td div 1000 - 1 \<le> timedelta_to_millis td" and "timedelta_to_millis td \<le> td div 1000"
    and "td mod 1000 \<noteq> 0 \<Longrightarrow> timedelta_to_millis td = td div 1000"
proof -
  define m where "m = rnd (total_seconds td * 1000)"
  have m0: "0 \<le> m" by (simp add: m_def rnd_nonneg total_seconds_nonneg assms)
  have err: "\<bar>m - of_int td / 1000\<bar> < 1 / 1000"
    unfolding m_def by (rule millis_float_error) fact+
  have "(of_int td :: rat) = of_int (td div 1000 * 1000 + td mod 1000)" by simp
  then have eq: "(of_int td :: rat) / 1000 = of_int (td div 1000) + of_int (td mod 1000) / 1000"
    by (simp only: of_int_add of_int_mult of_int_numeral add_divide_distrib)
  have r: "0 \<le> td mod 1000" "td mod 1000 \<le> 999" by simp_all
  then have "(0::rat) \<le> of_int (td mod 1000)" "of_int (td mod 1000) \<le> (999::rat)"
    by (simp_all only: of_int_0_le_iff of_int_le_numeral_iff)
  with err have lo: "of_int (td div 1000) + of_int (td mod 1000) / 1000 - 1 / 1000 < m"
    and up: "m < of_int (td div 1000) + 1"
    unfolding eq abs_less_iff by linarith+
  have fl: "timedelta_to_millis td = \<lfloor>m\<rfloor>"
    using m0 by (simp add: timedelta_to_millis_def py_trunc_def m_def)
  show hi: "timedelta_to_millis td \<le> td div 1000" using up by (simp add: fl floor_le_iff)
  have "of_int (td div 1000 - 1) \<le> m" using lo r(1) by simp
  then show "td div 1000 - 1 \<le> timedelta_to_millis td" by (simp only: fl le_floor_iff)
  show "timedelta_to_millis td = td div 1000" if "td mod 1000 \<noteq> 0"
  proof -
    from that r have "1 \<le> td mod 1000" by simp
    then have "(1::rat) \<le> of_int (td mod 1000)" by (simp only: of_int_1_le_iff)
    then have "of_int (td div 1000) \<le> m" using lo by simp
    then have "td div 1000 \<le> timedelta_to_millis td" by (simp only: fl le_floor_iff)
    with hi show ?thesis by simp
  qed
qed

section \<open>Further facts\<close>

text \<open>
  An instant not before the epoch, converted to milliseconds and back, is the same instant in
  UTC with the sub-millisecond part cut off; an earlier instant gives negative milliseconds,
  which are refused.
\<close>

theorem millis_roundtrip:
  assumes "utc_micros dt \<le> max_wall"
  shows "millis_to_datetime (datetime_to_millis dt) =
    (if 0 \<le> utc_micros dt then Some (utc (utc_micros dt - utc_micros dt mod 1000)) else None)"
proof -
  have "utc_micros dt div 1000 * 1000 = utc_micros dt - utc_micros dt mod 1000"
    by (simp add: minus_mod_eq_div_mult)
  moreover have "0 \<le> utc_micros dt mod 1000" by simp
  ultimately show ?thesis
    using assms by (auto simp: millis_to_datetime_eq datetime_to_millis_eq pos_imp_zdiv_nonneg_iff)
qed

theorem millis_roundtrip_witness:
  "millis_to_datetime (datetime_to_millis (utc 1234567)) = Some (utc 1234000)"
  using millis_roundtrip [of "utc 1234567"] by (simp add: max_wall_def)

section \<open>Properties\<close>

text \<open>
  C38: \<open>timedelta_to_millis\<close> goes through float seconds and truncates: for a
  duration with a sub-millisecond part (up to \<open>exact_td\<close>) it gives the whole
  milliseconds, for a duration of whole milliseconds it gives them or one less, and it does give
  one less for 1001 ms.
\<close>

theorem timedelta_millis_off_by_one:
  assumes "0 \<le> td" and "td \<le> exact_td"
  shows "timedelta_to_millis td \<in> (if td mod 1000 = 0 then {td div 1000 - 1, td div 1000} else {td div 1000})
    \<and> timedelta_to_millis (milliseconds 1001) = 1000"
proof -
  have "timedelta_to_millis (milliseconds 1001) = 1000" unfolding milliseconds_def by code_simp
  then show ?thesis
    using timedelta_to_millis_bounds [OF assms] by auto
qed

theorem timedelta_millis_off_by_one_witness:
  "timedelta_to_millis (milliseconds 30000) \<in> {29999, 30000}"
  using timedelta_millis_off_by_one [of "milliseconds 30000"] by (simp add: milliseconds_def exact_td_def)

end
