(* ===== verification/Sepp_Text.thy ===== *)
theory Sepp_Text
  imports Sepp_Time
begin

text \<open>
  The text Python's f-strings produce for the values the package formats: decimal integers,
  \<open>repr\<close> of a string and of a list of strings, \<open>str\<close> of a \<open>timedelta\<close> and \<open>isoformat\<close> of a UTC
  \<open>datetime\<close>. A string is a list of code points below 256.
\<close>

section \<open>Integers\<close>

definition digit :: "nat \<Rightarrow> char" where
  "digit d = char_of (48 + d)"

fun show_nat :: "nat \<Rightarrow> string" where
  "show_nat n = (if n < 10 then [digit n] else show_nat (n div 10) @ [digit (n mod 10)])"

declare show_nat.simps [simp del]

definition py_str_int :: "int \<Rightarrow> string" where
  "py_str_int n = (if n < 0 then ''-'' @ show_nat (nat (- n)) else show_nat (nat n))"

text \<open>\<open>%0kd\<close> of a non-negative number.\<close>

definition zero_pad :: "nat \<Rightarrow> nat \<Rightarrow> string" where
  "zero_pad k n = (let s = show_nat n in replicate (k - length s) (CHR ''0'') @ s)"

section \<open>repr\<close>

definition hex_digit :: "nat \<Rightarrow> char" where
  "hex_digit d = (if d < 10 then char_of (48 + d) else char_of (87 + d))"

definition hex_escape :: "char \<Rightarrow> string" where
  "hex_escape c = (let n = of_char c :: nat in
     [CHR 0x5C, CHR ''x'', hex_digit (n div 16), hex_digit (n mod 16)])"

definition py_repr_char :: "char \<Rightarrow> char \<Rightarrow> string" where
  "py_repr_char quote c =
     (let n = of_char c :: nat in
      if c = quote \<or> n = 92 then [CHR 0x5C, c]
      else if n = 9 then [CHR 0x5C, CHR ''t'']
      else if n = 10 then [CHR 0x5C, CHR ''n'']
      else if n = 13 then [CHR 0x5C, CHR ''r'']
      else if n < 32 \<or> 127 \<le> n \<and> n \<le> 160 \<or> n = 173 then hex_escape c
      else [c])"

definition py_repr_str :: "string \<Rightarrow> string" where
  "py_repr_str s =
     (let quote = (if CHR 0x27 \<in> set s \<and> CHR 0x22 \<notin> set s then CHR 0x22 else CHR 0x27)
      in [quote] @ concat (map (py_repr_char quote) s) @ [quote])"

fun join_comma :: "string list \<Rightarrow> string" where
  "join_comma [] = []"
| "join_comma [s] = s"
| "join_comma (s # t # ts) = s @ '', '' @ join_comma (t # ts)"

definition py_repr_list :: "string list \<Rightarrow> string" where
  "py_repr_list xs = ''['' @ join_comma (map py_repr_str xs) @ '']''"

section \<open>timedelta and datetime\<close>

definition py_str_timedelta :: "timedelta \<Rightarrow> string" where
  "py_str_timedelta td =
     (let us = nat (td mod 1000000); total = td div 1000000;
          days = total div 86400; secs = nat (total mod 86400);
          hms = show_nat (secs div 3600) @ '':'' @ zero_pad 2 (secs div 60 mod 60) @ '':''
                @ zero_pad 2 (secs mod 60)
      in (if days = 0 then []
          else py_str_int days @ '' day'' @ (if \<bar>days\<bar> = 1 then [] else ''s'') @ '', '')
         @ hms @ (if us = 0 then [] else ''.'' @ zero_pad 6 us))"

text \<open>The civil date of a day number (days since 1970-01-01) in the proleptic Gregorian calendar.\<close>

definition civil_from_days :: "int \<Rightarrow> int \<times> int \<times> int" where
  "civil_from_days z =
     (let z = z + 719468; era = z div 146097; doe = z mod 146097;
          yoe = (doe - doe div 1460 + doe div 36524 - doe div 146096) div 365;
          doy = doe - (365 * yoe + yoe div 4 - yoe div 100);
          mp = (5 * doy + 2) div 153; d = doy - (153 * mp + 2) div 5 + 1;
          m = (if mp < 10 then mp + 3 else mp - 9);
          y = yoe + era * 400
      in (if m \<le> 2 then y + 1 else y, m, d))"

text \<open>\<open>dt.isoformat()\<close> of a \<open>datetime\<close> in UTC, the only ones the package formats.\<close>

definition py_isoformat :: "datetime \<Rightarrow> string" where
  "py_isoformat dt =
     (let us = nat (dt_wall dt mod 1000000); total = dt_wall dt div 1000000;
          secs = nat (total mod 86400)
      in case civil_from_days (total div 86400) of (y, m, d) \<Rightarrow>
           zero_pad 4 (nat y) @ ''-'' @ zero_pad 2 (nat m) @ ''-'' @ zero_pad 2 (nat d) @ ''T''
           @ zero_pad 2 (secs div 3600) @ '':'' @ zero_pad 2 (secs div 60 mod 60) @ '':''
           @ zero_pad 2 (secs mod 60)
           @ (if us = 0 then [] else ''.'' @ zero_pad 6 us) @ ''+00:00'')"

lemma show_nat_not_Nil [simp]: "show_nat n \<noteq> []"
  by (subst show_nat.simps) simp

lemma py_repr_str_not_Nil [simp]: "py_repr_str s \<noteq> []"
  by (simp add: py_repr_str_def Let_def)

end
