(* ===== verification/Sepp_Errors.thy ===== *)
theory Sepp_Errors
  imports Sepp_Text
begin

text \<open>
  \<^verbatim>\<open>src/sepp/errors.py\<close>: the exceptions of the package, the job rejections (values, not
  exceptions), the code sets that drive the retry policy, and the three maps from a gRPC error to
  the exception a caller sees. The class hierarchy of the exceptions is kept as predicates on one
  datatype: \<open>is_ClientError\<close>, \<open>is_LeaseError\<close> and \<open>is_ReserveError\<close> are the \<open>except\<close> clauses.
\<close>

section \<open>gRPC errors\<close>

text \<open>The status codes of gRPC, and what the code reads of an \<open>AioRpcError\<close>.\<close>

datatype status_code =
    OK | CANCELLED | UNKNOWN | INVALID_ARGUMENT | DEADLINE_EXCEEDED | NOT_FOUND | ALREADY_EXISTS
  | PERMISSION_DENIED | RESOURCE_EXHAUSTED | FAILED_PRECONDITION | ABORTED | OUT_OF_RANGE
  | UNIMPLEMENTED | INTERNAL | UNAVAILABLE | DATA_LOSS | UNAUTHENTICATED

record rpc_error =
  rpc_code :: status_code
  rpc_details :: "string option"

section \<open>Job rejections\<close>

datatype job_rejection =
    UnknownQueue (rej_queue: string)
  | PayloadTooLarge (rej_limit: int) (rej_actual: int)
  | EncodingNotAllowed (rej_encoding: string) (rej_allowed: "string list")
  | JobTypeNotAllowed (rej_job_type: string) (rej_allowed: "string list")
  | CustomEntriesTooMany (rej_limit: int) (rej_actual: int)
  | CustomMapTooLarge (rej_limit: int) (rej_actual: int)
  | CustomKeyTooLong (rej_key: string) (rej_limit: int) (rej_actual: int)
  | QueueNameTooLong (rej_limit: int) (rej_actual: int)
  | JobTypeNameTooLong (rej_limit: int) (rej_actual: int)
  | IdempotencyKeyTooLong (rej_limit: int) (rej_actual: int)
  | ScheduledTooFar (rej_horizon: timedelta) (rej_run_at: datetime)
  | InvalidRequest (rej_detail: string)
  | QueueFull (rej_queue: string) (rej_limit: int)
  | QueueClosing (rej_queue: string)
  | UnknownRejection

fun rejection_message :: "job_rejection \<Rightarrow> string" where
  "rejection_message (UnknownQueue q) =
     ''queue '' @ py_repr_str q @ '' is not declared on the server (strict mode)''"
| "rejection_message (PayloadTooLarge limit actual) =
     ''payload size '' @ py_str_int actual @ '' bytes exceeds the queue limit of ''
     @ py_str_int limit"
| "rejection_message (EncodingNotAllowed encoding allowed) =
     ''payload encoding '' @ py_repr_str encoding @ '' is not allowed; accepted: ''
     @ py_repr_list allowed"
| "rejection_message (JobTypeNotAllowed job_type allowed) =
     ''job_type '' @ py_repr_str job_type @ '' is not accepted by this queue; accepted: ''
     @ py_repr_list allowed"
| "rejection_message (CustomEntriesTooMany limit actual) =
     ''custom map has '' @ py_str_int actual @ '' entries, exceeding the queue limit of ''
     @ py_str_int limit"
| "rejection_message (CustomMapTooLarge limit actual) =
     ''custom map'' @ [CHR 0x27] @ ''s total size '' @ py_str_int actual
     @ '' bytes exceeds the queue limit of '' @ py_str_int limit"
| "rejection_message (CustomKeyTooLong key limit actual) =
     ''custom key '' @ py_repr_str key @ '' is '' @ py_str_int actual
     @ '' bytes, exceeding the limit of '' @ py_str_int limit"
| "rejection_message (QueueNameTooLong limit actual) =
     ''queue name is '' @ py_str_int actual @ '' bytes, exceeding the limit of ''
     @ py_str_int limit"
| "rejection_message (JobTypeNameTooLong limit actual) =
     ''job_type is '' @ py_str_int actual @ '' bytes, exceeding the limit of ''
     @ py_str_int limit"
| "rejection_message (IdempotencyKeyTooLong limit actual) =
     ''idempotency_key is '' @ py_str_int actual @ '' bytes, exceeding the limit of ''
     @ py_str_int limit"
| "rejection_message (ScheduledTooFar horizon actual) =
     ''scheduled_at '' @ py_isoformat actual @ '' is beyond the schedule horizon (''
     @ py_str_timedelta horizon @ '')''"
| "rejection_message (InvalidRequest detail) = ''structural validation failed: '' @ detail"
| "rejection_message (QueueFull q limit) =
     ''queue '' @ py_repr_str q @ '' is full (max depth '' @ py_str_int limit @ '')''"
| "rejection_message (QueueClosing q) =
     ''queue '' @ py_repr_str q @ '' is being deleted and is not accepting new jobs''"
| "rejection_message UnknownRejection = ''server returned an unrecognized rejection variant''"

text \<open>The docstring of \<open>JobRejection\<close>: every variant but two is deterministic.\<close>

fun is_deterministic :: "job_rejection \<Rightarrow> bool" where
  "is_deterministic (QueueFull _ _) = False"
| "is_deterministic (QueueClosing _) = False"
| "is_deterministic _ = True"

record job_validation_error =
  jve_index :: int
  jve_rejection :: job_rejection

section \<open>Exceptions\<close>

datatype sepp_error =
    ConnectError string string
  | InvalidApiKeyError
  | TransportError string
  | UnauthenticatedError string
  | OverloadedError string
  | InvalidRequestError string
  | ServerInternalError string
  | UnexpectedStatusError status_code string
  | EmptyBatchError
  | BatchResultCountMismatchError int int
  | MalformedResponseError string
  | MalformedJobError sepp_error
  | MalformedServerInfoError sepp_error
  | JobConversionError string
  | ServerInfoError string
  | JobRejectedError job_rejection
  | BatchValidationError "job_validation_error list"
  | JobNotFoundError string
  | AttemptMismatchError string
  | UnknownQueuesError string
  | DuplicateHandlerError string

fun is_ClientError :: "sepp_error \<Rightarrow> bool" where
  "is_ClientError (JobConversionError _) = False"
| "is_ClientError (ServerInfoError _) = False"
| "is_ClientError (JobRejectedError _) = False"
| "is_ClientError (BatchValidationError _) = False"
| "is_ClientError (JobNotFoundError _) = False"
| "is_ClientError (AttemptMismatchError _) = False"
| "is_ClientError (UnknownQueuesError _) = False"
| "is_ClientError (DuplicateHandlerError _) = False"
| "is_ClientError _ = True"

fun is_LeaseError :: "sepp_error \<Rightarrow> bool" where
  "is_LeaseError (JobNotFoundError _) = True"
| "is_LeaseError (AttemptMismatchError _) = True"
| "is_LeaseError _ = False"

fun is_ReserveError :: "sepp_error \<Rightarrow> bool" where
  "is_ReserveError (UnknownQueuesError _) = True"
| "is_ReserveError _ = False"

text \<open>Whatever an \<open>await\<close> of the package can raise.\<close>

datatype py_exn =
    Py py_error
  | Sepp sepp_error
  | Rpc rpc_error
  | CancelledError

fun is_SeppError :: "py_exn \<Rightarrow> bool" where
  "is_SeppError (Sepp _) = True"
| "is_SeppError _ = False"

text \<open>The constructors of the two lease errors supply a default message.\<close>

definition mk_JobNotFoundError :: "string \<Rightarrow> sepp_error" where
  "mk_JobNotFoundError message =
     JobNotFoundError (if message = [] then
       ''no in-flight job with this id (already acked, expired, or never existed)'' else message)"

definition mk_AttemptMismatchError :: "string \<Rightarrow> sepp_error" where
  "mk_AttemptMismatchError message =
     AttemptMismatchError (if message = [] then ''attempt mismatch: the lease was reassigned''
       else message)"

text \<open>
  \<open>str(exc)\<close>: what the constructors hand to \<open>Exception\<close>. The \<open>repr\<close> of a status code is gRPC's, the
  parameter \<open>repr_code\<close>.
\<close>

fun client_error_message :: "(status_code \<Rightarrow> string) \<Rightarrow> (sepp_error \<Rightarrow> string) \<Rightarrow> sepp_error \<Rightarrow> string" where
  "client_error_message repr_code msg (ConnectError addr reason) =
     ''could not connect to Sepp server at '' @ addr @ '': '' @ reason"
| "client_error_message repr_code msg InvalidApiKeyError =
     ''the API key is not a valid HTTP header value''"
| "client_error_message repr_code msg (UnexpectedStatusError code message) =
     ''server returned unexpected status '' @ repr_code code @ '': '' @ message"
| "client_error_message repr_code msg EmptyBatchError = ''empty batch''"
| "client_error_message repr_code msg (BatchResultCountMismatchError expected got) =
     ''server returned '' @ py_str_int got @ '' results for a batch of '' @ py_str_int expected
     @ '' jobs''"
| "client_error_message repr_code msg (MalformedJobError cause) =
     ''server returned a malformed job: '' @ msg cause"
| "client_error_message repr_code msg (MalformedServerInfoError cause) =
     ''server returned malformed server info: '' @ msg cause"
| "client_error_message repr_code msg (TransportError m) = m"
| "client_error_message repr_code msg (UnauthenticatedError m) = m"
| "client_error_message repr_code msg (OverloadedError m) = m"
| "client_error_message repr_code msg (InvalidRequestError m) = m"
| "client_error_message repr_code msg (ServerInternalError m) = m"
| "client_error_message repr_code msg (MalformedResponseError m) = m"
| "client_error_message repr_code msg _ = ''''"

definition duplicate_handler_message :: "string \<Rightarrow> string" where
  "duplicate_handler_message job_type =
     ''handler for job_type '' @ py_repr_str job_type @ '' is already registered''"

fun error_message :: "(status_code \<Rightarrow> string) \<Rightarrow> sepp_error \<Rightarrow> string" where
  "error_message repr_code (JobRejectedError rejection) =
     ''server rejected the job: '' @ rejection_message rejection"
| "error_message repr_code (BatchValidationError errors) =
     ''atomic batch rejected: '' @ py_str_int (int (length errors)) @ '' job(s) failed validation''"
| "error_message repr_code (JobNotFoundError message) = message"
| "error_message repr_code (AttemptMismatchError message) = message"
| "error_message repr_code (UnknownQueuesError message) =
     ''requested queues are not declared on the server: '' @ message"
| "error_message repr_code (JobConversionError message) = message"
| "error_message repr_code (ServerInfoError message) = message"
| "error_message repr_code (DuplicateHandlerError message) = message"
| "error_message repr_code (MalformedJobError cause) =
     client_error_message repr_code (\<lambda>_. error_message repr_code cause) (MalformedJobError cause)"
| "error_message repr_code (MalformedServerInfoError cause) =
     client_error_message repr_code (\<lambda>_. error_message repr_code cause) (MalformedServerInfoError cause)"
| "error_message repr_code e = client_error_message repr_code (\<lambda>_. '''') e"

lemma rejection_message_not_Nil [simp]: "rejection_message r \<noteq> []"
  by (cases r) simp_all

section \<open>Code sets and the maps from gRPC errors\<close>

definition TRANSPORT_CODES :: "status_code set" where
  "TRANSPORT_CODES = {UNAVAILABLE, DEADLINE_EXCEEDED, ABORTED, CANCELLED}"

definition RETRYABLE_CODES :: "status_code set" where
  "RETRYABLE_CODES = {UNAVAILABLE, DEADLINE_EXCEEDED, ABORTED, RESOURCE_EXHAUSTED}"

definition KEYLESS_ENQUEUE_RETRYABLE_CODES :: "status_code set" where
  "KEYLESS_ENQUEUE_RETRYABLE_CODES = {UNAVAILABLE, RESOURCE_EXHAUSTED}"

definition details_or_empty :: "rpc_error \<Rightarrow> string" where
  "details_or_empty err = (case rpc_details err of None \<Rightarrow> '''' | Some d \<Rightarrow> d)"

definition client_error_from_rpc :: "rpc_error \<Rightarrow> sepp_error" where
  "client_error_from_rpc err =
     (let code = rpc_code err; msg = details_or_empty err in
      if code \<in> TRANSPORT_CODES then TransportError msg
      else if code \<in> {UNAUTHENTICATED, PERMISSION_DENIED} then UnauthenticatedError msg
      else if code = RESOURCE_EXHAUSTED then OverloadedError msg
      else if code = INVALID_ARGUMENT then InvalidRequestError msg
      else if code \<in> {INTERNAL, DATA_LOSS, UNKNOWN} then ServerInternalError msg
      else UnexpectedStatusError code msg)"

definition lease_error_from_rpc :: "rpc_error \<Rightarrow> sepp_error" where
  "lease_error_from_rpc err =
     (let code = rpc_code err in
      if code = NOT_FOUND then mk_JobNotFoundError ''''
      else if code = FAILED_PRECONDITION then mk_AttemptMismatchError ''''
      else client_error_from_rpc err)"

definition reserve_error_from_rpc :: "rpc_error \<Rightarrow> sepp_error" where
  "reserve_error_from_rpc err =
     (if rpc_code err = FAILED_PRECONDITION then UnknownQueuesError (details_or_empty err)
      else client_error_from_rpc err)"

lemmas code_set_defs = TRANSPORT_CODES_def RETRYABLE_CODES_def KEYLESS_ENQUEUE_RETRYABLE_CODES_def

lemma client_error_is_ClientError [simp]: "is_ClientError (client_error_from_rpc err)"
  by (simp add: client_error_from_rpc_def Let_def)

lemma client_error_not_lease [simp]:
  "\<not> is_LeaseError (client_error_from_rpc err)" "\<not> is_ReserveError (client_error_from_rpc err)"
  by (simp_all add: client_error_from_rpc_def Let_def)

lemma lease_error_iff:
  "is_LeaseError (lease_error_from_rpc err) \<longleftrightarrow> rpc_code err \<in> {NOT_FOUND, FAILED_PRECONDITION}"
  "is_ClientError (lease_error_from_rpc err) \<longleftrightarrow> rpc_code err \<notin> {NOT_FOUND, FAILED_PRECONDITION}"
  by (simp_all add: lease_error_from_rpc_def mk_JobNotFoundError_def mk_AttemptMismatchError_def
      Let_def)

lemma reserve_error_iff:
  "is_ReserveError (reserve_error_from_rpc err) \<longleftrightarrow> rpc_code err = FAILED_PRECONDITION"
  "is_ClientError (reserve_error_from_rpc err) \<longleftrightarrow> rpc_code err \<noteq> FAILED_PRECONDITION"
  by (simp_all add: reserve_error_from_rpc_def)

text \<open>A lease or reserve error that the client raises always says what happened.\<close>

lemma lease_error_message_not_Nil:
  "is_LeaseError (lease_error_from_rpc err) \<Longrightarrow> error_message repr_code (lease_error_from_rpc err) \<noteq> []"
  by (auto simp: lease_error_from_rpc_def mk_JobNotFoundError_def mk_AttemptMismatchError_def Let_def
      split: if_splits)

lemma reserve_error_message_not_Nil:
  "is_ReserveError (reserve_error_from_rpc err) \<Longrightarrow>
     error_message repr_code (reserve_error_from_rpc err) \<noteq> []"
  by (auto simp: reserve_error_from_rpc_def split: if_splits)

section \<open>Further facts\<close>

text \<open>
  Which exception a gRPC error becomes: on ack, nack and extend a lease error exactly for
  \<open>NOT_FOUND\<close> and \<open>FAILED_PRECONDITION\<close>, on reserve a reserve error
  exactly for \<open>FAILED_PRECONDITION\<close>, and otherwise the client error of its code; a
  \<open>TransportError\<close> exactly for the four transport codes and an
  \<open>OverloadedError\<close> exactly for \<open>RESOURCE_EXHAUSTED\<close>.
\<close>

theorem rpc_errors_classified:
  "lease_error_from_rpc err =
     (if rpc_code err = NOT_FOUND then mk_JobNotFoundError ''''
      else if rpc_code err = FAILED_PRECONDITION then mk_AttemptMismatchError ''''
      else client_error_from_rpc err)
   \<and> (is_LeaseError (lease_error_from_rpc err) \<longleftrightarrow> rpc_code err \<in> {NOT_FOUND, FAILED_PRECONDITION})
   \<and> (is_ReserveError (reserve_error_from_rpc err) \<longleftrightarrow> rpc_code err = FAILED_PRECONDITION)
   \<and> is_ClientError (client_error_from_rpc err)
   \<and> ((\<exists>m. client_error_from_rpc err = TransportError m) \<longleftrightarrow> rpc_code err \<in> TRANSPORT_CODES)
   \<and> ((\<exists>m. client_error_from_rpc err = OverloadedError m) \<longleftrightarrow> rpc_code err = RESOURCE_EXHAUSTED)"
  unfolding lease_error_iff reserve_error_iff
  by (auto simp: lease_error_from_rpc_def client_error_from_rpc_def TRANSPORT_CODES_def Let_def)

end
