(* ===== verification/Sepp_Types.thy ===== *)
theory Sepp_Types
  imports Sepp_Errors
begin

text \<open>
  \<^verbatim>\<open>src/sepp/types.py\<close>: the domain types. A dataclass is a record; a constructor whose
  \<^verbatim>\<open>__post_init__\<close> validates is a function \<^verbatim>\<open>*_new\<close> that raises or returns the record. The mutable
  \<open>Lease\<close> handle of \<^verbatim>\<open>src/sepp/client.py\<close> is declared here too, because a \<open>JobCtx\<close> holds one.
\<close>

section \<open>Payloads and priorities\<close>

type_synonym bytes = "8 word list"

record payload =
  pl_data :: bytes
  pl_encoding :: string

text \<open>A value of a job's \<open>custom\<close> map has one of four Python types.\<close>

definition is_primitive :: "pyval \<Rightarrow> bool" where
  "is_primitive v \<longleftrightarrow>
     isinstance_str v \<or> isinstance_int v \<or> isinstance_float v \<or> isinstance_bool v"

type_synonym custom_map = "(string \<times> pyval) list"

datatype priority = Priority (priority_value: int)

definition priority_new :: "pyval \<Rightarrow> py_error + priority" where
  "priority_new value =
     (if \<not> isinstance_int value \<or> isinstance_bool value
      then Inl (PriorityOutOfRangeError value)
      else if int_of_pyval value < 0 \<or> int_of_pyval value > 9
      then Inl (PriorityOutOfRangeError value)
      else Inr (Priority (int_of_pyval value)))"

definition priority_ok :: "priority \<Rightarrow> bool" where
  "priority_ok p \<longleftrightarrow> 0 \<le> priority_value p \<and> priority_value p \<le> 9"

text \<open>\<open>Priority.P0\<close> to \<open>Priority.P9\<close>, and \<open>str(priority)\<close>.\<close>

definition Priority_constants :: "priority list" where
  "Priority_constants = map Priority [0, 1, 2, 3, 4, 5, 6, 7, 8, 9]"

definition priority_str :: "priority \<Rightarrow> string" where
  "priority_str p = py_str_int (priority_value p)"

definition Priority_MIN :: priority where "Priority_MIN = Priority 0"
definition Priority_MAX :: priority where "Priority_MAX = Priority 9"

text \<open>\<open>order=True\<close> compares the values.\<close>

instantiation priority :: linorder
begin

definition less_eq_priority :: "priority \<Rightarrow> priority \<Rightarrow> bool" where
  "less_eq_priority p q \<longleftrightarrow> priority_value p \<le> priority_value q"

definition less_priority :: "priority \<Rightarrow> priority \<Rightarrow> bool" where
  "less_priority p q \<longleftrightarrow> priority_value p < priority_value q"

instance
  by standard (auto simp: less_eq_priority_def less_priority_def priority.expand)

end

lemma priority_new_VInt [simp]:
  "priority_new (VInt n) =
     (if 0 \<le> n \<and> n \<le> 9 then Inr (Priority n) else Inl (PriorityOutOfRangeError (VInt n)))"
  by (auto simp: priority_new_def)

lemma priority_new_VBool [simp]:
  "priority_new (VBool b) = Inl (PriorityOutOfRangeError (VBool b))"
  by (simp add: priority_new_def)

lemma priority_new_ok: "priority_new v = Inr p \<Longrightarrow> priority_ok p \<and> v = VInt (priority_value p)"
  by (cases v) (auto simp: priority_new_def priority_ok_def split: if_splits)

lemma priority_new_Inl: "priority_new v = Inl e \<Longrightarrow> e = PriorityOutOfRangeError v"
  by (auto simp: priority_new_def split: if_splits)

section \<open>Trace contexts\<close>

definition is_hex :: "string \<Rightarrow> bool" where
  "is_hex s \<longleftrightarrow> list_all (\<lambda>c. c \<in> set ''0123456789abcdefABCDEF'') s"

definition trace_error :: "string \<Rightarrow> py_error + unit" where
  "trace_error msg = Inl (TraceContextError (''invalid traceparent: '' @ msg))"

definition check_fields :: "string \<Rightarrow> string \<Rightarrow> string \<Rightarrow> string \<Rightarrow> py_error + unit" where
  "check_fields version trace_id span_id flags =
     (if length version \<noteq> 2 \<or> \<not> is_hex version
      then trace_error ''version must be 2 hex chars''
      else if length trace_id \<noteq> 32 \<or> \<not> is_hex trace_id
      then trace_error ''trace_id must be 32 hex chars''
      else if set trace_id = {CHR ''0''}
      then trace_error ''trace_id must not be all zeros''
      else if length span_id \<noteq> 16 \<or> \<not> is_hex span_id
      then trace_error ''span_id must be 16 hex chars''
      else if set span_id = {CHR ''0''}
      then trace_error ''span_id must not be all zeros''
      else if length flags \<noteq> 2 \<or> \<not> is_hex flags
      then trace_error ''flags must be 2 hex chars''
      else Inr ())"

definition validate_traceparent :: "string \<Rightarrow> py_error + unit" where
  "validate_traceparent traceparent =
     (let parts = py_split (CHR ''-'') traceparent in
      if length parts \<noteq> 4 then trace_error ''expected 4 hyphen-separated fields''
      else check_fields (parts ! 0) (parts ! 1) (parts ! 2) (parts ! 3))"

record trace_context =
  tc_traceparent :: string
  tc_tracestate :: "string option"

definition trace_context_new :: "string \<Rightarrow> string option \<Rightarrow> py_error + trace_context" where
  "trace_context_new traceparent tracestate =
     bind_res (validate_traceparent traceparent)
       (\<lambda>_. Inr \<lparr>tc_traceparent = traceparent, tc_tracestate = tracestate\<rparr>)"

text \<open>
  The \<open>traceparent\<close> of the W3C format, on character codes: four fields of hexadecimal digits, the two
  identifiers not all zeros. As in the code a digit may be in upper case and the version may be \<open>ff\<close>,
  which the W3C text forbids.
\<close>

definition hex_code :: "char \<Rightarrow> bool" where
  "hex_code c \<longleftrightarrow> (let n = of_char c :: nat in
     48 \<le> n \<and> n \<le> 57 \<or> 65 \<le> n \<and> n \<le> 70 \<or> 97 \<le> n \<and> n \<le> 102)"

definition hex_field :: "nat \<Rightarrow> string \<Rightarrow> bool" where
  "hex_field n s \<longleftrightarrow> length s = n \<and> (\<forall>c \<in> set s. hex_code c)"

definition w3c_traceparent :: "string \<Rightarrow> bool" where
  "w3c_traceparent s \<longleftrightarrow>
     (\<exists>v t p f. s = v @ CHR ''-'' # t @ CHR ''-'' # p @ CHR ''-'' # f
        \<and> hex_field 2 v \<and> hex_field 32 t \<and> hex_field 16 p \<and> hex_field 2 f
        \<and> t \<noteq> replicate 32 (CHR ''0'') \<and> p \<noteq> replicate 16 (CHR ''0''))"

lemma hex_code_iff: "hex_code c \<longleftrightarrow> c \<in> set ''0123456789abcdefABCDEF''"
proof -
  have codes: "set (map of_char ''0123456789abcdefABCDEF'')
      = set [48..<58] \<union> set [65..<71] \<union> set [97..<103 :: nat]"
    by code_simp
  have "hex_code c \<longleftrightarrow> of_char c \<in> set [48..<58] \<union> set [65..<71] \<union> set [97..<103 :: nat]"
    unfolding hex_code_def Let_def by (simp only: Un_iff set_upt atLeastLessThan_iff) linarith
  also have "\<dots> \<longleftrightarrow> of_char c \<in> (of_char ` set ''0123456789abcdefABCDEF'' :: nat set)"
    by (simp only: codes [symmetric] set_map)
  also have "\<dots> \<longleftrightarrow> c \<in> set ''0123456789abcdefABCDEF''"
    by (rule inj_image_mem_iff) (simp add: inj_on_def)
  finally show ?thesis .
qed

lemma hex_field_iff: "hex_field n s \<longleftrightarrow> length s = n \<and> is_hex s"
  by (simp add: hex_field_def is_hex_def list_all_iff hex_code_iff)

lemma is_hex_no_dash: "is_hex s \<Longrightarrow> CHR ''-'' \<notin> set s"
  unfolding is_hex_def list_all_iff by (rule notI, drule (1) bspec, simp)

lemma all_zeros_iff:
  assumes "length s = n" and "0 < n"
  shows "set s = {c} \<longleftrightarrow> s = replicate n c"
proof
  show "set s = {c} \<Longrightarrow> s = replicate n c" using assms by (intro replicate_eqI) auto
  show "s = replicate n c \<Longrightarrow> set s = {c}" using assms by (simp add: set_replicate_conv_if)
qed

lemma length4: "length xs = 4 \<longleftrightarrow> (\<exists>a b c d. xs = [a, b, c, d])"
  by (auto simp: eval_nat_numeral length_Suc_conv)

lemma split4:
  "py_split c s = [v, t, p, f] \<longleftrightarrow>
     s = v @ c # t @ c # p @ c # f \<and> c \<notin> set v \<and> c \<notin> set t \<and> c \<notin> set p \<and> c \<notin> set f"
proof
  assume h: "py_split c s = [v, t, p, f]"
  then have "s = v @ c # t @ c # p @ c # f"
    using join_py_split [of c s] by simp
  moreover have "\<forall>g \<in> {v, t, p, f}. c \<notin> set g"
    using h py_split_fields [of _ c s] by auto
  ultimately show "s = v @ c # t @ c # p @ c # f \<and> c \<notin> set v \<and> c \<notin> set t \<and> c \<notin> set p \<and> c \<notin> set f"
    by simp
next
  assume "s = v @ c # t @ c # p @ c # f \<and> c \<notin> set v \<and> c \<notin> set t \<and> c \<notin> set p \<and> c \<notin> set f"
  then show "py_split c s = [v, t, p, f]" by (simp add: py_split_append py_split_no_sep)
qed

lemma check_fields_Inr:
  "check_fields v t p f = Inr () \<longleftrightarrow>
     length v = 2 \<and> length t = 32 \<and> length p = 16 \<and> length f = 2
     \<and> is_hex v \<and> is_hex t \<and> is_hex p \<and> is_hex f
     \<and> t \<noteq> replicate 32 (CHR ''0'') \<and> p \<noteq> replicate 16 (CHR ''0'')"
  by (cases "length t = 32"; cases "length p = 16")
    (auto simp: check_fields_def trace_error_def all_zeros_iff)

lemma check_fields_cases:
  "check_fields v t p f = Inr () \<or> (\<exists>msg. check_fields v t p f = trace_error msg)"
  unfolding check_fields_def by (simp only: split: if_split) blast

lemma check_fields_Inl: "check_fields v t p f = Inl e \<Longrightarrow> is_ValueError e"
  using check_fields_cases [of v t p f] by (auto simp: trace_error_def)

lemma check_fields_TraceContextError:
  "check_fields v t p f = Inl e \<Longrightarrow> \<exists>msg. e = TraceContextError msg"
  using check_fields_cases [of v t p f] by (auto simp: trace_error_def)

lemma validate_traceparent_Inr:
  "validate_traceparent s = Inr () \<longleftrightarrow>
     (\<exists>v t p f. py_split (CHR ''-'') s = [v, t, p, f] \<and> check_fields v t p f = Inr ())"
  by (auto simp: validate_traceparent_def trace_error_def Let_def length4)

lemma validate_traceparent_iff: "validate_traceparent s = Inr () \<longleftrightarrow> w3c_traceparent s"
  unfolding validate_traceparent_Inr split4 check_fields_Inr w3c_traceparent_def hex_field_iff
  by (rule iffI; elim exE conjE; intro exI conjI; (assumption | rule is_hex_no_dash))

lemma validate_traceparent_Inl:
  "validate_traceparent s = Inl e \<Longrightarrow> is_ValueError e"
  by (auto simp: validate_traceparent_def trace_error_def Let_def
      dest: check_fields_Inl split: if_splits)

lemma trace_context_new_Inr:
  "trace_context_new tp ts = Inr tc \<longleftrightarrow>
     w3c_traceparent tp \<and> tc = \<lparr>tc_traceparent = tp, tc_tracestate = ts\<rparr>"
  by (auto simp: trace_context_new_def bind_res_eq_Inr validate_traceparent_iff [symmetric])

lemma trace_context_new_Inl:
  "trace_context_new tp ts = Inl e \<Longrightarrow> is_ValueError e"
  by (auto simp: trace_context_new_def bind_res_eq_Inl validate_traceparent_Inl)

section \<open>Enqueue requests\<close>

text \<open>What a caller may pass as \<open>priority\<close>: a \<open>bool\<close> is an \<open>int\<close> to Python.\<close>

datatype priority_arg = NoPriority | PriorityObj priority | BareInt int | BareBool bool

record enqueue_request =
  er_queue :: string
  er_job_type :: string
  er_payload :: "payload option"
  er_idempotency_key :: "string option"
  er_priority :: "priority option"
  er_max_attempts :: "int option"
  er_custom :: custom_map
  er_trace_context :: "trace_context option"
  er_scheduled_at :: "datetime option"

fun coerce_priority :: "priority_arg \<Rightarrow> py_error + priority option" where
  "coerce_priority NoPriority = Inr None"
| "coerce_priority (PriorityObj p) = Inr (Some p)"
| "coerce_priority (BareInt n) = bind_res (priority_new (VInt n)) (\<lambda>p. Inr (Some p))"
| "coerce_priority (BareBool b) = bind_res (priority_new (VBool b)) (\<lambda>p. Inr (Some p))"

definition enqueue_request_new ::
    "string \<Rightarrow> string \<Rightarrow> payload option \<Rightarrow> string option \<Rightarrow> priority_arg \<Rightarrow> int option
     \<Rightarrow> custom_map \<Rightarrow> trace_context option \<Rightarrow> datetime option \<Rightarrow> py_error + enqueue_request" where
  "enqueue_request_new queue job_type payload key priority max_attempts custom trace scheduled_at =
     (if queue = '''' then Inl (ValueError ''queue name must not be empty'')
      else if job_type = '''' then Inl (ValueError ''job type must not be empty'')
      else bind_res (coerce_priority priority) (\<lambda>p. Inr
        \<lparr>er_queue = queue, er_job_type = job_type, er_payload = payload,
         er_idempotency_key = key, er_priority = p, er_max_attempts = max_attempts,
         er_custom = custom, er_trace_context = trace, er_scheduled_at = scheduled_at\<rparr>))"

definition enqueue_request_ok :: "enqueue_request \<Rightarrow> bool" where
  "enqueue_request_ok r \<longleftrightarrow> er_queue r \<noteq> '''' \<and> er_job_type r \<noteq> ''''
     \<and> (\<forall>p. er_priority r = Some p \<longrightarrow> priority_ok p)"

lemma coerce_priority_ok:
  "coerce_priority a = Inr (Some p) \<Longrightarrow> (\<And>q. a = PriorityObj q \<Longrightarrow> priority_ok q) \<Longrightarrow> priority_ok p"
  by (cases a) (auto simp: bind_res_eq_Inr priority_ok_def split: if_splits)

lemma enqueue_request_new_ok:
  "enqueue_request_new q j pl k pr m c t s = Inr r \<Longrightarrow> (\<And>p. pr = PriorityObj p \<Longrightarrow> priority_ok p)
   \<Longrightarrow> enqueue_request_ok r"
  by (auto simp: enqueue_request_new_def enqueue_request_ok_def bind_res_eq_Inr
      intro: coerce_priority_ok split: if_splits)

record enqueue_ack =
  ea_job_id :: string
  ea_deduplicated :: bool

section \<open>Reserved jobs\<close>

text \<open>The internal handle to a job's lease. Its owner is the one client of the model.\<close>

record lease =
  ls_job_id :: string
  ls_attempt :: int
  ls_worker_id :: "string option"
  ls_known_expiry_ms :: int

definition lease_new :: "string \<Rightarrow> int \<Rightarrow> datetime \<Rightarrow> string option \<Rightarrow> lease" where
  "lease_new job_id attempt lease_expires_at worker_id =
     \<lparr>ls_job_id = job_id, ls_attempt = attempt, ls_worker_id = worker_id,
      ls_known_expiry_ms = datetime_to_millis lease_expires_at\<rparr>"

record job_ctx =
  jc_id :: string
  jc_queue :: string
  jc_job_type :: string
  jc_priority :: priority
  jc_attempt :: int
  jc_max_attempts :: int
  jc_enqueued_at :: datetime
  jc_custom :: custom_map
  jc_trace_context :: "trace_context option"
  jc_lease_expires_at :: datetime
  jc_scheduled_at :: "datetime option"
  jc_lease :: "lease option"

definition job_ctx_str :: "job_ctx \<Rightarrow> string" where
  "job_ctx_str c =
     ''JobCtx(id='' @ jc_id c @ '', job_type='' @ jc_job_type c @ '', attempt=''
     @ py_str_int (jc_attempt c) @ ''/'' @ py_str_int (jc_max_attempts c) @ '', priority=''
     @ py_str_int (priority_value (jc_priority c)) @ '')''"

record job =
  job_payload :: "payload option"
  job_ctx :: job_ctx

section \<open>Reserve options\<close>

definition DEFAULT_WAIT_TIMEOUT :: timedelta where
  "DEFAULT_WAIT_TIMEOUT = seconds 30"

record reserve_options =
  ro_queues :: "string list"
  ro_lease_duration :: timedelta
  ro_wait_timeout :: timedelta
  ro_worker_id :: "string option"
  ro_max_jobs :: "int option"

text \<open>The first empty name of the list, with its index.\<close>

fun first_empty :: "nat \<Rightarrow> string list \<Rightarrow> nat option" where
  "first_empty i [] = None"
| "first_empty i (q # qs) = (if q = '''' then Some i else first_empty (Suc i) qs)"

definition reserve_options_new ::
    "string list \<Rightarrow> timedelta \<Rightarrow> timedelta \<Rightarrow> string option \<Rightarrow> int option
     \<Rightarrow> py_error + reserve_options" where
  "reserve_options_new queues lease_duration wait_timeout worker_id max_jobs =
     (if queues = [] then Inl (ValueError ''at least one queue must be specified'')
      else case first_empty 0 queues of
        Some i \<Rightarrow> Inl (ValueError (''queue name at index '' @ py_str_int (int i)
                                  @ '' must not be empty''))
      | None \<Rightarrow>
          if lease_duration \<le> 0 then Inl (ValueError ''lease_duration must be at least 1ms'')
          else if (case max_jobs of Some n \<Rightarrow> n < 1 | None \<Rightarrow> False)
          then Inl (ValueError ''max_jobs must be at least 1'')
          else if worker_id = Some '''' then
            Inl (ValueError ''worker_id must not be empty when set'')
          else Inr \<lparr>ro_queues = queues, ro_lease_duration = lease_duration,
                    ro_wait_timeout = wait_timeout, ro_worker_id = worker_id,
                    ro_max_jobs = max_jobs\<rparr>)"

definition reserve_options_ok :: "reserve_options \<Rightarrow> bool" where
  "reserve_options_ok o' \<longleftrightarrow> ro_queues o' \<noteq> [] \<and> '''' \<notin> set (ro_queues o')
     \<and> 0 < ro_lease_duration o' \<and> (\<forall>n. ro_max_jobs o' = Some n \<longrightarrow> 1 \<le> n)
     \<and> ro_worker_id o' \<noteq> Some ''''"

lemma first_empty_None: "first_empty i qs = None \<longleftrightarrow> '''' \<notin> set qs"
  by (induction i qs rule: first_empty.induct) auto

lemma reserve_options_new_iff:
  "reserve_options_new qs ld wt wid mj = Inr o' \<longleftrightarrow>
     reserve_options_ok o' \<and> o' = \<lparr>ro_queues = qs, ro_lease_duration = ld, ro_wait_timeout = wt,
       ro_worker_id = wid, ro_max_jobs = mj\<rparr>"
  by (auto simp: reserve_options_new_def reserve_options_ok_def first_empty_None [of 0, symmetric]
      split: option.splits)

section \<open>Server information and dead letters\<close>

record server_info =
  si_version :: string
  si_supported_protocol_versions :: "string list"
  si_server_time :: datetime
  si_restricts_encodings :: bool
  si_allowed_encodings :: "string list"
  si_max_payload_bytes :: int
  si_max_custom_entries :: int
  si_max_custom_total_bytes :: int
  si_max_custom_key_bytes :: int
  si_max_queue_name_bytes :: int
  si_max_job_type_bytes :: int
  si_max_idempotency_key_bytes :: int
  si_max_schedule_horizon :: timedelta
  si_max_enqueue_batch :: int
  si_max_reserve_batch :: int
  si_max_reserve_queues :: int
  si_max_wait_timeout :: timedelta
  si_max_lease_duration :: timedelta
  si_strict_queues :: bool
  si_dead_letter_retention_enabled :: bool

datatype dead_letter_cause =
    CauseUnspecified | CauseAttemptsExhausted | CauseRejected | CauseLeaseExpired | CauseAdmin

record dead_letter_record =
  dl_queue :: string
  dl_job_id :: string
  dl_job_type :: string
  dl_payload :: "payload option"
  dl_priority :: priority
  dl_max_attempts :: int
  dl_custom :: custom_map
  dl_trace_context :: "trace_context option"
  dl_enqueued_at :: datetime
  dl_scheduled_at :: "datetime option"
  dl_cause :: dead_letter_cause
  dl_failed_at :: datetime
  dl_final_attempt :: int
  dl_last_reason :: "string option"

definition to_enqueue_request :: "dead_letter_record \<Rightarrow> py_error + enqueue_request" where
  "to_enqueue_request r =
     enqueue_request_new (dl_queue r) (dl_job_type r) (dl_payload r) None
       (PriorityObj (dl_priority r))
       (if dl_max_attempts r = 0 then None else Some (dl_max_attempts r))
       (dl_custom r) (dl_trace_context r) None"

section \<open>Further facts\<close>

text \<open>
  A priority is accepted exactly when it is an \<open>int\<close> between 0 and 9, never a
  \<open>bool\<close>, and a bare number given to an enqueue request is held to the same range.
\<close>

theorem priority_accepted_iff:
  "(priority_new v = Inr p \<longleftrightarrow>
      v = VInt (priority_value p) \<and> 0 \<le> priority_value p \<and> priority_value p \<le> 9)
   \<and> (coerce_priority (BareInt n) = Inr (Some p) \<longleftrightarrow> n = priority_value p \<and> priority_ok p)
   \<and> coerce_priority (BareBool b) = Inl (PriorityOutOfRangeError (VBool b))"
  by (cases v; cases p) (auto simp: priority_new_def priority_ok_def bind_res_eq_Inr)

text \<open>
  \<open>ReserveOptions\<close> is accepted exactly when it names at least one queue, none with
  an empty name, its lease duration is positive, \<open>max_jobs\<close> is at least 1 if given
  and \<open>worker_id\<close> is not the empty string; the fields are kept as given.
\<close>

theorem reserve_options_accepted_iff:
  "reserve_options_new qs ld wt wid mj = Inr o' \<longleftrightarrow>
     qs \<noteq> [] \<and> '''' \<notin> set qs \<and> 0 < ld \<and> mj \<notin> Some ` {n. n < 1} \<and> wid \<noteq> Some ''''
     \<and> o' = \<lparr>ro_queues = qs, ro_lease_duration = ld, ro_wait_timeout = wt, ro_worker_id = wid,
              ro_max_jobs = mj\<rparr>"
  unfolding reserve_options_new_iff reserve_options_ok_def by (cases mj) force+

section \<open>Properties\<close>

text \<open>
  C34: the constructor of \<open>TraceContext\<close> accepts a string exactly when it is a W3C
  \<open>traceparent\<close>: version, trace id, span id and flags of 2, 32, 16 and 2
  hexadecimal digits (of either case), separated by hyphens, with neither id all zeros.
\<close>

theorem traceparent_accepted_iff_w3c:
  "trace_context_new tp ts = Inr tc \<longleftrightarrow>
     w3c_traceparent tp \<and> tc = \<lparr>tc_traceparent = tp, tc_tracestate = ts\<rparr>"
  by (rule trace_context_new_Inr)

end
