(* ===== verification/Sepp_Wire.thy ===== *)
theory Sepp_Wire
  imports Sepp_Types "HOL-Library.AList"
begin

text \<open>
  The wire messages of \<^verbatim>\<open>src/sepp/v1/queue_pb2.py\<close>, read off its descriptor: a proto3 field with
  explicit presence (and a message field) is an \<open>option\<close>, a \<open>oneof\<close> is a datatype under
  \<open>option\<close>, a \<open>map\<close> is an association list, in whatever order the runtime iterates it, and an
  integer has its wire width. Reading an unset message field yields the default instance.

  The protobuf runtime is not part of the repository. What the package calls of it is the record
  \<open>pb_runtime\<close>, a parameter of every conversion; \<open>pb_runtime_ok\<close> states its documented
  behaviour, and \<open>ref_runtime\<close> is a concrete runtime with that behaviour.
\<close>

type_synonym u32 = "32 word"
type_synonym u64 = "64 word"

section \<open>Well-known types\<close>

record pb_timestamp =
  ts_seconds :: int
  ts_nanos :: int

record pb_duration =
  du_seconds :: int
  du_nanos :: int

definition default_timestamp :: pb_timestamp where
  "default_timestamp = \<lparr>ts_seconds = 0, ts_nanos = 0\<rparr>"

definition default_duration :: pb_duration where
  "default_duration = \<lparr>du_seconds = 0, du_nanos = 0\<rparr>"

definition get_timestamp :: "pb_timestamp option \<Rightarrow> pb_timestamp" where
  "get_timestamp f = (case f of None \<Rightarrow> default_timestamp | Some t \<Rightarrow> t)"

definition get_duration :: "pb_duration option \<Rightarrow> pb_duration" where
  "get_duration f = (case f of None \<Rightarrow> default_duration | Some d \<Rightarrow> d)"

section \<open>Messages\<close>

datatype pb_primitive_value = StringValue string | DoubleValue u64 | IntValue "64 word" | BoolValue bool

type_synonym pb_primitive = "pb_primitive_value option"

type_synonym pb_map = "(string \<times> pb_primitive) list"

record pb_trace_context =
  pbt_traceparent :: string
  pbt_tracestate :: "string option"

record pb_payload =
  pbp_data :: bytes
  pbp_encoding :: string

record pb_job =
  pbj_id :: string
  pbj_job_type :: string
  pbj_payload :: "pb_payload option"
  pbj_priority :: u32
  pbj_trace_context :: "pb_trace_context option"
  pbj_enqueued_at :: "pb_timestamp option"
  pbj_attempt :: u32
  pbj_max_attempts :: u32
  pbj_lease_expires_at :: "pb_timestamp option"
  pbj_custom :: pb_map
  pbj_scheduled_at :: "pb_timestamp option"
  pbj_queue :: string

datatype pb_rejection_reason =
    PbUnknownQueue string
  | PbPayloadTooLarge u64 u64
  | PbEncodingNotAllowed string "string list"
  | PbJobTypeNotAllowed string "string list"
  | PbCustomEntriesTooMany u32 u32
  | PbCustomMapTooLarge u64 u64
  | PbCustomKeyTooLong string u32 u64
  | PbQueueNameTooLong u32 u64
  | PbJobTypeNameTooLong u32 u64
  | PbIdempotencyKeyTooLong u32 u64
  | PbScheduledTooFar "pb_duration option" "pb_timestamp option"
  | PbInvalidRequest string
  | PbQueueFull string u64
  | PbQueueClosing string

type_synonym pb_job_rejection = "pb_rejection_reason option"

record pb_enqueue_request =
  pbe_queue :: string
  pbe_job_type :: string
  pbe_payload :: "pb_payload option"
  pbe_idempotency_key :: "string option"
  pbe_priority :: "u32 option"
  pbe_max_attempts :: "u32 option"
  pbe_trace_context :: "pb_trace_context option"
  pbe_custom :: pb_map
  pbe_scheduled_at :: "pb_timestamp option"

record pb_enqueue_response =
  pber_job_id :: string
  pber_deduplicated :: bool

datatype pb_job_outcome = JobSuccess pb_enqueue_response | JobRejected pb_job_rejection

type_synonym pb_job_result = "pb_job_outcome option"

record pb_job_validation_error =
  pbve_index :: u32
  pbve_rejection :: "pb_job_rejection option"

datatype pb_atomic_outcome =
    AtomicSuccess "pb_enqueue_response list"
  | AtomicRejection "pb_job_validation_error list"

record pb_reserve_request =
  pbr_queues :: "string list"
  pbr_wait_timeout :: "pb_duration option"
  pbr_lease_duration :: "pb_duration option"
  pbr_worker_id :: "string option"
  pbr_max_jobs :: "u32 option"

record pb_ack_request =
  pba_job_id :: string
  pba_attempt :: u32
  pba_worker_id :: "string option"

datatype pb_nack_retry = RetryDefault | RetryDelay pb_duration | RetryDeadLetter

record pb_nack_request =
  pbn_job_id :: string
  pbn_attempt :: u32
  pbn_reason :: "string option"
  pbn_retry :: "pb_nack_retry option"
  pbn_worker_id :: "string option"

record pb_nack_response =
  pbnr_job_id :: string
  pbnr_dead_lettered :: bool

record pb_extend_request =
  pbx_job_id :: string
  pbx_attempt :: u32
  pbx_lease_duration :: "pb_duration option"
  pbx_worker_id :: "string option"

record pb_extend_response =
  pbxr_job_id :: string
  pbxr_lease_expires_at :: "pb_timestamp option"

record pb_dead_letter_record =
  pbd_job :: "pb_job option"
  pbd_cause :: int
  pbd_failed_at :: "pb_timestamp option"
  pbd_final_attempt :: u32
  pbd_last_reason :: "string option"

record pb_drain_request =
  pbdr_queue :: "string option"
  pbdr_max :: "u32 option"

record pb_server_info =
  pbs_server_version :: string
  pbs_supported_protocol_versions :: "string list"
  pbs_server_time :: "pb_timestamp option"
  pbs_restricts_encodings :: bool
  pbs_allowed_encodings :: "string list"
  pbs_max_payload_bytes :: u64
  pbs_max_custom_entries :: u32
  pbs_max_custom_total_bytes :: u64
  pbs_max_custom_key_bytes :: u32
  pbs_max_queue_name_bytes :: u32
  pbs_max_job_type_bytes :: u32
  pbs_max_idempotency_key_bytes :: u32
  pbs_max_schedule_horizon :: "pb_duration option"
  pbs_max_enqueue_batch :: u32
  pbs_max_reserve_batch :: u32
  pbs_max_reserve_queues :: u32
  pbs_max_wait_timeout :: "pb_duration option"
  pbs_max_lease_duration :: "pb_duration option"
  pbs_strict_queues :: bool
  pbs_dead_letter_retention_enabled :: bool

section \<open>The protobuf runtime\<close>

text \<open>
  Assigning a Python integer to a \<open>uint32\<close> or \<open>int64\<close> field, the helpers of the well-known types
  the package calls, and the map after \<open>m[key].CopyFrom(value)\<close>.
\<close>

record pb_runtime =
  rt_uint32 :: "int \<Rightarrow> py_error + u32"
  rt_int64 :: "int \<Rightarrow> py_error + 64 word"
  rt_ToDatetime :: "pb_timestamp \<Rightarrow> py_error + datetime"
  rt_FromDatetime :: "datetime \<Rightarrow> py_error + pb_timestamp"
  rt_ToJsonString :: "pb_timestamp \<Rightarrow> py_error + string"
  rt_ToTimedelta :: "pb_duration \<Rightarrow> py_error + timedelta"
  rt_FromTimedelta :: "timedelta \<Rightarrow> py_error + pb_duration"
  rt_map_set :: "pb_map \<Rightarrow> string \<Rightarrow> pb_primitive \<Rightarrow> pb_map"

text \<open>The timestamps protobuf calls valid: years 1 to 9999, less than a second of nanoseconds.\<close>

definition ts_valid :: "pb_timestamp \<Rightarrow> bool" where
  "ts_valid t \<longleftrightarrow> - 62135596800 \<le> ts_seconds t \<and> ts_seconds t \<le> 253402300799
     \<and> 0 \<le> ts_nanos t \<and> ts_nanos t < 10 ^ 9"

definition ts_micros :: "pb_timestamp \<Rightarrow> int" where
  "ts_micros t = ts_seconds t * 10 ^ 6 + ts_nanos t div 1000"

text \<open>\<open>Duration\<close>: seconds and nanoseconds carry the same sign; the range is 10000 years.\<close>

definition max_duration_seconds :: int where
  "max_duration_seconds = 315576000000"

definition duration_of :: "timedelta \<Rightarrow> pb_duration" where
  "duration_of td =
     (if 0 \<le> td then \<lparr>du_seconds = td div 10 ^ 6, du_nanos = (td mod 10 ^ 6) * 1000\<rparr>
      else \<lparr>du_seconds = - (- td div 10 ^ 6), du_nanos = - ((- td mod 10 ^ 6) * 1000)\<rparr>)"

definition du_valid :: "pb_duration \<Rightarrow> bool" where
  "du_valid d \<longleftrightarrow> \<bar>du_seconds d\<bar> \<le> max_duration_seconds \<and> \<bar>du_nanos d\<bar> < 10 ^ 9
     \<and> (du_seconds d < 0 \<longrightarrow> du_nanos d \<le> 0) \<and> (0 < du_seconds d \<longrightarrow> 0 \<le> du_nanos d)"

definition du_micros :: "pb_duration \<Rightarrow> timedelta" where
  "du_micros d = du_seconds d * 10 ^ 6
     + (if 0 \<le> du_nanos d then du_nanos d div 1000 else - (- du_nanos d div 1000))"

definition timestamp_of :: "datetime \<Rightarrow> pb_timestamp" where
  "timestamp_of dt =
     \<lparr>ts_seconds = utc_micros dt div 10 ^ 6, ts_nanos = (utc_micros dt mod 10 ^ 6) * 1000\<rparr>"

text \<open>
  The documented behaviour of the runtime; the messages of its errors are unspecified, and so is what
  it does to an invalid duration, or to render an invalid timestamp, and in which order it iterates a
  map: setting a key changes the mapping, and the order of the entries may become any.
\<close>

definition raises_ValueError :: "py_error + 'a \<Rightarrow> bool" where
  "raises_ValueError r = (case r of Inl e \<Rightarrow> is_ValueError e | Inr _ \<Rightarrow> False)"

definition pb_runtime_ok :: "pb_runtime \<Rightarrow> bool" where
  "pb_runtime_ok rt \<longleftrightarrow>
     (\<forall>n. if 0 \<le> n \<and> n < 2 ^ 32 then rt_uint32 rt n = Inr (word_of_int n)
          else raises_ValueError (rt_uint32 rt n))
   \<and> (\<forall>n. if - (2 ^ 63) \<le> n \<and> n < 2 ^ 63 then rt_int64 rt n = Inr (word_of_int n)
          else raises_ValueError (rt_int64 rt n))
   \<and> (\<forall>t. if ts_valid t then rt_ToDatetime rt t = Inr (utc (ts_micros t))
          else raises_ValueError (rt_ToDatetime rt t))
   \<and> (\<forall>dt. ts_valid (timestamp_of dt) \<longrightarrow> rt_FromDatetime rt dt = Inr (timestamp_of dt))
   \<and> (\<forall>t. ts_valid t \<longrightarrow> (\<exists>s. rt_ToJsonString rt t = Inr s))
   \<and> (\<forall>d. du_valid d \<longrightarrow> rt_ToTimedelta rt d = Inr (du_micros d))
   \<and> (\<forall>td. du_valid (duration_of td) \<longrightarrow> rt_FromTimedelta rt td = Inr (duration_of td))
   \<and> (\<forall>m k v. distinct (map fst m) \<longrightarrow> distinct (map fst (rt_map_set rt m k v))
        \<and> map_of (rt_map_set rt m k v) = (map_of m)(k \<mapsto> v))"

text \<open>
  A concrete runtime, for evaluation. Like the Python runtime it does not check a duration, so only one
  that is no \<open>timedelta\<close> is an error.
\<close>

definition ref_runtime :: pb_runtime where
  "ref_runtime =
     \<lparr>rt_uint32 = (\<lambda>n. if 0 \<le> n \<and> n < 2 ^ 32 then Inr (word_of_int n)
                       else Inl (ValueError ''Value out of range'')),
      rt_int64 = (\<lambda>n. if - (2 ^ 63) \<le> n \<and> n < 2 ^ 63 then Inr (word_of_int n)
                      else Inl (ValueError ''Value out of range'')),
      rt_ToDatetime = (\<lambda>t. if ts_valid t then Inr (utc (ts_micros t))
                           else Inl (ValueError ''Timestamp is not valid'')),
      rt_FromDatetime = (\<lambda>dt. if ts_valid (timestamp_of dt) then Inr (timestamp_of dt)
                              else Inl (ValueError ''Timestamp is not valid'')),
      rt_ToJsonString = (\<lambda>t. if ts_valid t then Inr (py_isoformat (utc (ts_micros t)))
                             else Inl (ValueError ''Timestamp is not valid'')),
      rt_ToTimedelta = (\<lambda>d. if in_timedelta (du_micros d) then Inr (du_micros d)
                            else Inl (OverflowError ''days out of range'')),
      rt_FromTimedelta = (\<lambda>td. Inr (duration_of td)),
      rt_map_set = (\<lambda>m k v. (k, v) # AList.delete k m)\<rparr>"

lemma du_valid_in_timedelta:
  assumes "du_valid d"
  shows "in_timedelta (du_micros d)"
proof -
  have "\<bar>du_nanos d\<bar> div 1000 \<le> 10 ^ 9 div 1000"
    using assms by (intro zdiv_mono1) (auto simp: du_valid_def)
  moreover have "0 \<le> \<bar>du_nanos d\<bar> div 1000" by simp
  ultimately show ?thesis
    using assms by (auto simp: du_valid_def du_micros_def in_timedelta_def max_timedelta_def
        max_duration_seconds_def abs_if split: if_splits)
qed

lemma ref_runtime_ok: "pb_runtime_ok ref_runtime"
  by (simp add: pb_runtime_ok_def ref_runtime_def raises_ValueError_def du_valid_in_timedelta
      AList.delete_conv' AList.distinct_delete AList.delete_notin_dom)

lemma rt_uint32_ok:
  "pb_runtime_ok rt \<Longrightarrow> 0 \<le> n \<Longrightarrow> n < 2 ^ 32 \<Longrightarrow> rt_uint32 rt n = Inr (word_of_int n)"
  unfolding pb_runtime_ok_def by presburger

lemma rt_int64_ok:
  "pb_runtime_ok rt \<Longrightarrow> - (2 ^ 63) \<le> n \<Longrightarrow> n < 2 ^ 63 \<Longrightarrow> rt_int64 rt n = Inr (word_of_int n)"
  unfolding pb_runtime_ok_def by presburger

lemma rt_ToDatetime_ok:
  "pb_runtime_ok rt \<Longrightarrow> ts_valid t \<Longrightarrow> rt_ToDatetime rt t = Inr (utc (ts_micros t))"
  unfolding pb_runtime_ok_def by presburger

lemma rt_ToDatetime_bad:
  "pb_runtime_ok rt \<Longrightarrow> \<not> ts_valid t \<Longrightarrow> raises_ValueError (rt_ToDatetime rt t)"
  unfolding pb_runtime_ok_def by presburger

lemma rt_FromDatetime_ok:
  "pb_runtime_ok rt \<Longrightarrow> ts_valid (timestamp_of dt) \<Longrightarrow> rt_FromDatetime rt dt = Inr (timestamp_of dt)"
  unfolding pb_runtime_ok_def by presburger

lemma rt_ToJsonString_ok: "pb_runtime_ok rt \<Longrightarrow> ts_valid t \<Longrightarrow> \<exists>s. rt_ToJsonString rt t = Inr s"
  unfolding pb_runtime_ok_def by presburger

lemma rt_ToTimedelta_ok:
  "pb_runtime_ok rt \<Longrightarrow> du_valid d \<Longrightarrow> rt_ToTimedelta rt d = Inr (du_micros d)"
  unfolding pb_runtime_ok_def by presburger

lemma rt_FromTimedelta_ok:
  "pb_runtime_ok rt \<Longrightarrow> du_valid (duration_of td) \<Longrightarrow> rt_FromTimedelta rt td = Inr (duration_of td)"
  unfolding pb_runtime_ok_def by presburger

lemma rt_map_set_ok:
  assumes "pb_runtime_ok rt" and "distinct (map fst m)"
  shows "distinct (map fst (rt_map_set rt m k v))"
    and "map_of (rt_map_set rt m k v) = (map_of m)(k \<mapsto> v)"
  using assms unfolding pb_runtime_ok_def by blast+

lemma raises_ValueErrorE:
  "raises_ValueError r \<Longrightarrow> (\<And>e. r = Inl e \<Longrightarrow> is_ValueError e \<Longrightarrow> P) \<Longrightarrow> P"
  by (cases r) (auto simp: raises_ValueError_def)

section \<open>Round trips of the well-known types\<close>

lemma ts_micros_timestamp_of [simp]: "ts_micros (timestamp_of dt) = utc_micros dt"
  by (simp add: ts_micros_def timestamp_of_def)

lemma ts_valid_timestamp_of:
  assumes "min_wall \<le> utc_micros dt" and "utc_micros dt \<le> max_wall"
  shows "ts_valid (timestamp_of dt)"
proof -
  have "min_wall div 10 ^ 6 \<le> utc_micros dt div 10 ^ 6" "utc_micros dt div 10 ^ 6 \<le> max_wall div 10 ^ 6"
    using assms zdiv_mono1 [of "min_wall" "utc_micros dt" "10 ^ 6"]
      zdiv_mono1 [of "utc_micros dt" max_wall "10 ^ 6"] by simp_all
  then show ?thesis by (simp add: ts_valid_def timestamp_of_def min_wall_def max_wall_def)
qed

lemma du_micros_duration_of [simp]: "du_micros (duration_of td) = td"
proof (cases "0 \<le> td")
  case True
  then show ?thesis by (simp add: du_micros_def duration_of_def)
next
  case False
  define q r where "q = - td div 10 ^ 6" and "r = - td mod 10 ^ 6"
  have r: "0 \<le> r" by (simp add: r_def)
  have td: "q * 10 ^ 6 + r = - td" unfolding q_def r_def by (rule div_mult_mod_eq)
  have "duration_of td = \<lparr>du_seconds = - q, du_nanos = - (r * 1000)\<rparr>"
    using False by (simp add: duration_of_def q_def r_def)
  then have "du_micros (duration_of td) = - (q * 10 ^ 6 + r)" using r by (simp add: du_micros_def)
  then show ?thesis by (simp only: td minus_minus)
qed

lemma du_valid_duration_of:
  assumes "\<bar>td\<bar> \<le> max_duration_seconds * 10 ^ 6"
  shows "du_valid (duration_of td)"
proof -
  define a where "a = \<bar>td\<bar>"
  have m: "a div 10 ^ 6 \<le> max_duration_seconds * 10 ^ 6 div 10 ^ 6"
    using assms unfolding a_def by (rule zdiv_mono1) simp
  have a: "0 \<le> a div 10 ^ 6" "0 \<le> a mod 10 ^ 6" "a mod 10 ^ 6 < 10 ^ 6"
    by (simp_all add: a_def pos_imp_zdiv_nonneg_iff)
  show ?thesis
  proof (cases "0 \<le> td")
    case True
    then have "a = td" by (simp add: a_def)
    with True m a show ?thesis by (simp add: du_valid_def duration_of_def)
  next
    case False
    then have "a = - td" by (simp add: a_def)
    with False m a show ?thesis by (simp add: du_valid_def duration_of_def)
  qed
qed

end
