(* ===== verification/Sepp_Convert.thy ===== *)
theory Sepp_Convert
  imports Sepp_Wire
begin

text \<open>
  \<^verbatim>\<open>src/sepp/_convert.py\<close>: the conversions between wire messages and domain types. Every function
  takes the protobuf runtime; a conversion to the wire raises Python errors (\<open>py_error\<close>), one from
  the wire may raise the package's own exceptions as well (\<open>py_exn\<close>).
\<close>

definition lift_py :: "py_error + 'a \<Rightarrow> py_exn + 'a" where
  "lift_py r = (case r of Inl e \<Rightarrow> Inl (Py e) | Inr x \<Rightarrow> Inr x)"

lemma lift_py_simps [simp, res_simps]: "lift_py (Inl e) = Inl (Py e)" "lift_py (Inr x) = Inr x"
  by (simp_all add: lift_py_def)

lemma lift_py_eq [res_simps]:
  "lift_py r = Inr x \<longleftrightarrow> r = Inr x" "lift_py r = Inl f \<longleftrightarrow> (\<exists>e. r = Inl e \<and> f = Py e)"
  by (cases r; auto)+

section \<open>Times and primitive values\<close>

definition timestamp_to_datetime :: "pb_runtime \<Rightarrow> pb_timestamp \<Rightarrow> py_error + datetime option" where
  "timestamp_to_datetime rt ts =
     (if ts_seconds ts < 0 \<or> ts_nanos ts < 0 then Inr None
      else catch_res (bind_res (rt_ToDatetime rt ts) (\<lambda>dt. Inr (Some dt)))
        (\<lambda>e. if is_ValueError e \<or> is_OverflowError e \<or> is_OSError e then Inr None else Inl e))"

definition primitive_to_pb :: "pb_runtime \<Rightarrow> pyval \<Rightarrow> py_error + pb_primitive" where
  "primitive_to_pb rt value =
     (if isinstance_bool value then Inr (Some (BoolValue (value = VBool True)))
      else if isinstance_int value then
        bind_res (rt_int64 rt (int_of_pyval value)) (\<lambda>w. Inr (Some (IntValue w)))
      else if isinstance_float value then
        Inr (Some (DoubleValue (case value of VFloat b \<Rightarrow> b | _ \<Rightarrow> 0)))
      else if isinstance_str value then
        Inr (Some (StringValue (case value of VStr s \<Rightarrow> s | _ \<Rightarrow> '''')))
      else Inl (TypeError (''custom value must be str/int/float/bool, got '' @ type_name value)))"

definition primitive_from_pb :: "pb_primitive \<Rightarrow> pyval option" where
  "primitive_from_pb pv =
     (case pv of
        None \<Rightarrow> None
      | Some (StringValue s) \<Rightarrow> Some (VStr s)
      | Some (DoubleValue b) \<Rightarrow> Some (VFloat b)
      | Some (IntValue w) \<Rightarrow> Some (VInt (sint w))
      | Some (BoolValue b) \<Rightarrow> Some (VBool b))"

section \<open>Payloads and trace contexts\<close>

definition payload_to_pb :: "payload \<Rightarrow> pb_payload" where
  "payload_to_pb p = \<lparr>pbp_data = pl_data p, pbp_encoding = pl_encoding p\<rparr>"

definition payload_from_pb :: "pb_payload \<Rightarrow> payload" where
  "payload_from_pb p = \<lparr>pl_data = pbp_data p, pl_encoding = pbp_encoding p\<rparr>"

definition trace_context_to_pb :: "trace_context \<Rightarrow> pb_trace_context" where
  "trace_context_to_pb tc =
     \<lparr>pbt_traceparent = tc_traceparent tc, pbt_tracestate = tc_tracestate tc\<rparr>"

definition trace_context_from_pb :: "pb_trace_context \<Rightarrow> py_error + trace_context option" where
  "trace_context_from_pb m =
     catch_res (bind_res (trace_context_new (pbt_traceparent m) (pbt_tracestate m))
                  (\<lambda>tc. Inr (Some tc)))
       (\<lambda>e. if is_ValueError e then Inr None else Inl e)"

section \<open>Requests\<close>

text \<open>\<open>for key, value in custom.items(): m.custom[key].CopyFrom(primitive_to_pb(value))\<close>.\<close>

fun custom_to_pb ::
    "pb_runtime \<Rightarrow> pb_map \<Rightarrow> custom_map \<Rightarrow> py_error + pb_map" where
  "custom_to_pb rt m [] = Inr m"
| "custom_to_pb rt m ((key, value) # items) =
     bind_res (primitive_to_pb rt value)
       (\<lambda>pv. custom_to_pb rt (rt_map_set rt m key pv) items)"

text \<open>Assigning an optional integer to an optional \<open>uint32\<close> field.\<close>

definition set_uint32 :: "pb_runtime \<Rightarrow> int option \<Rightarrow> py_error + u32 option" where
  "set_uint32 rt v =
     (case v of None \<Rightarrow> Inr None
      | Some n \<Rightarrow> bind_res (rt_uint32 rt n) (\<lambda>w. Inr (Some w)))"

definition scheduled_at_to_pb ::
    "pb_runtime \<Rightarrow> datetime option \<Rightarrow> py_error + pb_timestamp option" where
  "scheduled_at_to_pb rt v =
     (case v of None \<Rightarrow> Inr None
      | Some dt \<Rightarrow>
          if 0 \<le> datetime_to_millis dt
          then bind_res (rt_FromDatetime rt dt) (\<lambda>t. Inr (Some t))
          else Inr None)"

definition enqueue_request_to_pb ::
    "pb_runtime \<Rightarrow> enqueue_request \<Rightarrow> py_error + pb_enqueue_request" where
  "enqueue_request_to_pb rt req =
     bind_res (set_uint32 rt (map_option priority_value (er_priority req))) (\<lambda>priority.
     bind_res (set_uint32 rt (er_max_attempts req)) (\<lambda>max_attempts.
     bind_res (custom_to_pb rt [] (er_custom req)) (\<lambda>custom.
     bind_res (scheduled_at_to_pb rt (er_scheduled_at req)) (\<lambda>scheduled_at. Inr
       \<lparr>pbe_queue = er_queue req, pbe_job_type = er_job_type req,
        pbe_payload = map_option payload_to_pb (er_payload req),
        pbe_idempotency_key = er_idempotency_key req,
        pbe_priority = priority, pbe_max_attempts = max_attempts,
        pbe_trace_context = map_option trace_context_to_pb (er_trace_context req),
        pbe_custom = custom, pbe_scheduled_at = scheduled_at\<rparr>))))"

definition reserve_options_to_pb ::
    "pb_runtime \<Rightarrow> reserve_options \<Rightarrow> py_error + pb_reserve_request" where
  "reserve_options_to_pb rt opts =
     bind_res (rt_FromTimedelta rt (ro_wait_timeout opts)) (\<lambda>wait_timeout.
     bind_res (rt_FromTimedelta rt (ro_lease_duration opts)) (\<lambda>lease_duration.
     bind_res (set_uint32 rt (ro_max_jobs opts)) (\<lambda>max_jobs. Inr
       \<lparr>pbr_queues = ro_queues opts, pbr_wait_timeout = Some wait_timeout,
        pbr_lease_duration = Some lease_duration, pbr_worker_id = ro_worker_id opts,
        pbr_max_jobs = max_jobs\<rparr>)))"

section \<open>Responses to an enqueue\<close>

definition enqueue_ack_from_pb :: "pb_enqueue_response \<Rightarrow> enqueue_ack" where
  "enqueue_ack_from_pb r =
     \<lparr>ea_job_id = pber_job_id r, ea_deduplicated = pber_deduplicated r\<rparr>"

definition job_rejection_from_pb ::
    "pb_runtime \<Rightarrow> pb_job_rejection \<Rightarrow> py_error + job_rejection" where
  "job_rejection_from_pb rt r =
     (case r of
        None \<Rightarrow> Inr UnknownRejection
      | Some (PbUnknownQueue q) \<Rightarrow> Inr (UnknownQueue q)
      | Some (PbPayloadTooLarge l a) \<Rightarrow> Inr (PayloadTooLarge (uint l) (uint a))
      | Some (PbEncodingNotAllowed e al) \<Rightarrow> Inr (EncodingNotAllowed e al)
      | Some (PbJobTypeNotAllowed t al) \<Rightarrow> Inr (JobTypeNotAllowed t al)
      | Some (PbCustomEntriesTooMany l a) \<Rightarrow> Inr (CustomEntriesTooMany (uint l) (uint a))
      | Some (PbCustomMapTooLarge l a) \<Rightarrow> Inr (CustomMapTooLarge (uint l) (uint a))
      | Some (PbCustomKeyTooLong k l a) \<Rightarrow> Inr (CustomKeyTooLong k (uint l) (uint a))
      | Some (PbQueueNameTooLong l a) \<Rightarrow> Inr (QueueNameTooLong (uint l) (uint a))
      | Some (PbJobTypeNameTooLong l a) \<Rightarrow> Inr (JobTypeNameTooLong (uint l) (uint a))
      | Some (PbIdempotencyKeyTooLong l a) \<Rightarrow> Inr (IdempotencyKeyTooLong (uint l) (uint a))
      | Some (PbScheduledTooFar h a) \<Rightarrow>
          bind_res (rt_ToTimedelta rt (get_duration h)) (\<lambda>horizon.
          bind_res (rt_ToDatetime rt (get_timestamp a)) (\<lambda>actual.
            Inr (ScheduledTooFar horizon actual)))
      | Some (PbInvalidRequest m) \<Rightarrow> Inr (InvalidRequest m)
      | Some (PbQueueFull q l) \<Rightarrow> Inr (QueueFull q (uint l))
      | Some (PbQueueClosing q) \<Rightarrow> Inr (QueueClosing q))"

definition job_validation_error_from_pb ::
    "pb_runtime \<Rightarrow> pb_job_validation_error \<Rightarrow> py_error + job_validation_error" where
  "job_validation_error_from_pb rt e =
     bind_res (case pbve_rejection e of
                 Some r \<Rightarrow> job_rejection_from_pb rt r
               | None \<Rightarrow> Inr UnknownRejection)
       (\<lambda>rej. Inr \<lparr>jve_index = uint (pbve_index e), jve_rejection = rej\<rparr>)"

section \<open>Server information\<close>

definition server_info_from_pb :: "pb_runtime \<Rightarrow> pb_server_info \<Rightarrow> py_exn + server_info" where
  "server_info_from_pb rt r =
     (if pbs_server_version r = '''' then
        Inl (Sepp (ServerInfoError ''server info is missing required field `server_version`''))
      else bind_res (lift_py (timestamp_to_datetime rt (get_timestamp (pbs_server_time r))))
        (\<lambda>server_time. case server_time of
           None \<Rightarrow> bind_res (lift_py (rt_ToJsonString rt (get_timestamp (pbs_server_time r))))
             (\<lambda>js. Inl (Sepp (ServerInfoError
                (''server_time is not a representable time ('' @ js @ '')''))))
         | Some st \<Rightarrow>
             bind_res (lift_py (rt_ToTimedelta rt (get_duration (pbs_max_schedule_horizon r))))
               (\<lambda>horizon.
             bind_res (lift_py (rt_ToTimedelta rt (get_duration (pbs_max_wait_timeout r))))
               (\<lambda>wait.
             bind_res (lift_py (rt_ToTimedelta rt (get_duration (pbs_max_lease_duration r))))
               (\<lambda>lease. Inr
         \<lparr>si_version = pbs_server_version r,
          si_supported_protocol_versions = pbs_supported_protocol_versions r,
          si_server_time = st,
          si_restricts_encodings = pbs_restricts_encodings r,
          si_allowed_encodings = pbs_allowed_encodings r,
          si_max_payload_bytes = uint (pbs_max_payload_bytes r),
          si_max_custom_entries = uint (pbs_max_custom_entries r),
          si_max_custom_total_bytes = uint (pbs_max_custom_total_bytes r),
          si_max_custom_key_bytes = uint (pbs_max_custom_key_bytes r),
          si_max_queue_name_bytes = uint (pbs_max_queue_name_bytes r),
          si_max_job_type_bytes = uint (pbs_max_job_type_bytes r),
          si_max_idempotency_key_bytes = uint (pbs_max_idempotency_key_bytes r),
          si_max_schedule_horizon = horizon,
          si_max_enqueue_batch = uint (pbs_max_enqueue_batch r),
          si_max_reserve_batch = uint (pbs_max_reserve_batch r),
          si_max_reserve_queues = uint (pbs_max_reserve_queues r),
          si_max_wait_timeout = wait,
          si_max_lease_duration = lease,
          si_strict_queues = pbs_strict_queues r,
          si_dead_letter_retention_enabled = pbs_dead_letter_retention_enabled r\<rparr>)))))"

section \<open>Jobs and dead letters\<close>

definition conversion_error :: "string \<Rightarrow> py_exn + 'a" where
  "conversion_error msg = Inl (Sepp (JobConversionError msg))"

text \<open>The checks on id, job type and priority that jobs and dead letters share.\<close>

definition job_head_from_pb :: "pb_job \<Rightarrow> py_exn + priority" where
  "job_head_from_pb j =
     (if pbj_id j = '''' then conversion_error ''job is missing required field `id`''
      else if pbj_job_type j = '''' then
        conversion_error ''job is missing required field `job_type`''
      else case priority_new (VInt (uint (pbj_priority j))) of
        Inr p \<Rightarrow> Inr p
      | Inl (PriorityOutOfRangeError _) \<Rightarrow>
          conversion_error (''job priority '' @ py_str_int (uint (pbj_priority j))
            @ '' is out of range (expected 0-9)'')
      | Inl e \<Rightarrow> Inl (Py e))"

text \<open>A required timestamp; the error message renders it with \<open>ToJsonString\<close>, which may raise.\<close>

definition required_time :: "pb_runtime \<Rightarrow> string \<Rightarrow> pb_timestamp \<Rightarrow> py_exn + datetime" where
  "required_time rt field ts =
     bind_res (lift_py (timestamp_to_datetime rt ts)) (\<lambda>r. case r of
        Some dt \<Rightarrow> Inr dt
      | None \<Rightarrow> bind_res (lift_py (rt_ToJsonString rt ts)) (\<lambda>js.
          conversion_error (field @ '' is not a representable time ('' @ js @ '')'')))"

fun custom_from_pb ::
    "custom_map \<Rightarrow> pb_map \<Rightarrow> py_exn + custom_map" where
  "custom_from_pb custom [] = Inr custom"
| "custom_from_pb custom ((key, pv) # items) =
     (case primitive_from_pb pv of
        None \<Rightarrow> conversion_error (''custom value for key `'' @ key @ ''` has no value set'')
      | Some value \<Rightarrow> custom_from_pb (AList.update key value custom) items)"

definition optional_trace :: "pb_trace_context option \<Rightarrow> py_error + trace_context option" where
  "optional_trace m = (case m of None \<Rightarrow> Inr None | Some tc \<Rightarrow> trace_context_from_pb tc)"

definition scheduled_at_from_pb :: "pb_runtime \<Rightarrow> pb_job \<Rightarrow> py_error + datetime option" where
  "scheduled_at_from_pb rt j =
     (case pbj_scheduled_at j of None \<Rightarrow> Inr None | Some ts \<Rightarrow> timestamp_to_datetime rt ts)"

definition job_from_pb :: "pb_runtime \<Rightarrow> pb_job \<Rightarrow> string option \<Rightarrow> py_exn + job" where
  "job_from_pb rt j worker_id =
     bind_res (job_head_from_pb j) (\<lambda>priority.
     bind_res (required_time rt ''job timestamp `enqueued_at`'' (get_timestamp (pbj_enqueued_at j)))
       (\<lambda>enqueued_at.
     bind_res (required_time rt ''job timestamp `lease_expires_at`''
                 (get_timestamp (pbj_lease_expires_at j))) (\<lambda>lease_expires_at.
     bind_res (custom_from_pb [] (pbj_custom j)) (\<lambda>custom.
     bind_res (lift_py (optional_trace (pbj_trace_context j))) (\<lambda>trace_context.
     bind_res (lift_py (scheduled_at_from_pb rt j)) (\<lambda>scheduled_at. Inr
       \<lparr>job_payload = map_option payload_from_pb (pbj_payload j),
        job_ctx =
          \<lparr>jc_id = pbj_id j, jc_queue = pbj_queue j, jc_job_type = pbj_job_type j,
           jc_priority = priority, jc_attempt = uint (pbj_attempt j),
           jc_max_attempts = uint (pbj_max_attempts j), jc_enqueued_at = enqueued_at,
           jc_custom = custom, jc_trace_context = trace_context,
           jc_lease_expires_at = lease_expires_at, jc_scheduled_at = scheduled_at,
           jc_lease = Some (lease_new (pbj_id j) (uint (pbj_attempt j)) lease_expires_at
                              worker_id)\<rparr>\<rparr>))))))"

definition cause_from_pb :: "int \<Rightarrow> dead_letter_cause" where
  "cause_from_pb c =
     (if c = 1 then CauseAttemptsExhausted else if c = 2 then CauseRejected
      else if c = 3 then CauseLeaseExpired else if c = 4 then CauseAdmin
      else CauseUnspecified)"

definition dead_letter_record_from_pb ::
    "pb_runtime \<Rightarrow> pb_dead_letter_record \<Rightarrow> py_exn + dead_letter_record" where
  "dead_letter_record_from_pb rt r =
     (case pbd_job r of
        None \<Rightarrow> conversion_error ''dead-letter record is missing required field `job`''
      | Some j \<Rightarrow>
     bind_res (job_head_from_pb j) (\<lambda>priority.
     bind_res (required_time rt ''job timestamp `enqueued_at`'' (get_timestamp (pbj_enqueued_at j)))
       (\<lambda>enqueued_at.
     bind_res (required_time rt ''dead-letter timestamp `failed_at`''
                 (get_timestamp (pbd_failed_at r))) (\<lambda>failed_at.
     bind_res (custom_from_pb [] (pbj_custom j)) (\<lambda>custom.
     bind_res (lift_py (optional_trace (pbj_trace_context j))) (\<lambda>trace_context.
     bind_res (lift_py (scheduled_at_from_pb rt j)) (\<lambda>scheduled_at. Inr
       \<lparr>dl_queue = pbj_queue j, dl_job_id = pbj_id j, dl_job_type = pbj_job_type j,
        dl_payload = map_option payload_from_pb (pbj_payload j), dl_priority = priority,
        dl_max_attempts = uint (pbj_max_attempts j), dl_custom = custom,
        dl_trace_context = trace_context, dl_enqueued_at = enqueued_at,
        dl_scheduled_at = scheduled_at, dl_cause = cause_from_pb (pbd_cause r),
        dl_failed_at = failed_at, dl_final_attempt = uint (pbd_final_attempt r),
        dl_last_reason = pbd_last_reason r\<rparr>)))))))"

section \<open>What the conversions compute\<close>

text \<open>The timestamps the client can represent: valid ones that are not before the epoch.\<close>

definition repr_time :: "pb_timestamp \<Rightarrow> bool" where
  "repr_time ts \<longleftrightarrow> 0 \<le> ts_seconds ts \<and> ts_seconds ts \<le> 253402300799
     \<and> 0 \<le> ts_nanos ts \<and> ts_nanos ts < 10 ^ 9"

lemma repr_time_valid: "repr_time ts \<Longrightarrow> ts_valid ts"
  by (simp add: repr_time_def ts_valid_def)

lemma timestamp_to_datetime_eq:
  assumes "pb_runtime_ok rt"
  shows "timestamp_to_datetime rt ts =
           Inr (if repr_time ts then Some (utc (ts_micros ts)) else None)"
proof (cases "ts_valid ts")
  case True
  then show ?thesis
    using rt_ToDatetime_ok [OF assms True]
    by (auto simp: timestamp_to_datetime_def repr_time_def ts_valid_def)
next
  case False
  obtain e where "rt_ToDatetime rt ts = Inl e" "is_ValueError e"
    using rt_ToDatetime_bad [OF assms False] by (rule raises_ValueErrorE)
  moreover have "\<not> repr_time ts" using False repr_time_valid by blast
  ultimately show ?thesis by (simp add: timestamp_to_datetime_def)
qed

lemma timestamp_roundtrip:
  assumes "pb_runtime_ok rt" and "0 \<le> utc_micros dt" and "utc_micros dt \<le> max_wall"
  shows "timestamp_to_datetime rt (timestamp_of dt) = Inr (Some (utc (utc_micros dt)))"
proof -
  have "min_wall \<le> utc_micros dt" using assms(2) by (simp add: min_wall_def)
  then have "ts_valid (timestamp_of dt)" using assms(3) by (rule ts_valid_timestamp_of)
  then have "repr_time (timestamp_of dt)"
    using assms(2) by (simp add: repr_time_def ts_valid_def timestamp_of_def
        pos_imp_zdiv_nonneg_iff)
  then show ?thesis by (simp add: timestamp_to_datetime_eq assms(1))
qed

text \<open>A value the wire can carry: one of the four types, an integer only if it fits in 64 bits.\<close>

fun wire_primitive :: "pyval \<Rightarrow> bool" where
  "wire_primitive (VInt n) \<longleftrightarrow> - (2 ^ 63) \<le> n \<and> n < 2 ^ 63"
| "wire_primitive (VOther _) \<longleftrightarrow> False"
| "wire_primitive _ \<longleftrightarrow> True"

lemma sint_word_of_int64:
  "- (2 ^ 63) \<le> n \<Longrightarrow> n < 2 ^ 63 \<Longrightarrow> sint (word_of_int n :: 64 word) = n"
  by (simp add: signed_take_bit_int_eq_self sint_sbintrunc')

lemma primitive_to_pb_wire:
  assumes "pb_runtime_ok rt" and "wire_primitive v"
  shows "\<exists>pv. primitive_to_pb rt v = Inr pv \<and> primitive_from_pb pv = Some v"
  using assms
  by (cases v) (auto simp: primitive_to_pb_def primitive_from_pb_def rt_int64_ok sint_word_of_int64)

lemma primitive_to_pb_not_wire:
  assumes "pb_runtime_ok rt" and "\<not> wire_primitive v"
  shows "\<exists>e. primitive_to_pb rt v = Inl e"
proof (cases v)
  case (VInt n)
  with assms(2) have "\<not> (- (2 ^ 63) \<le> n \<and> n < 2 ^ 63)" by simp
  then have "raises_ValueError (rt_int64 rt n)"
    using assms(1) unfolding pb_runtime_ok_def by presburger
  then show ?thesis by (auto simp: VInt primitive_to_pb_def elim!: raises_ValueErrorE)
qed (use assms in \<open>auto simp: primitive_to_pb_def\<close>)

lemma primitive_roundtrip:
  assumes "pb_runtime_ok rt" and "primitive_to_pb rt v = Inr pv"
  shows "primitive_from_pb pv = Some v"
  using primitive_to_pb_wire [OF assms(1), of v] primitive_to_pb_not_wire [OF assms(1), of v]
    assms(2) by fastforce

lemma payload_roundtrip [simp]: "payload_from_pb (payload_to_pb p) = p"
  "payload_to_pb (payload_from_pb q) = q"
  by (simp_all add: payload_from_pb_def payload_to_pb_def)

lemma map_payload_roundtrip [simp]: "map_option payload_to_pb (map_option payload_from_pb p) = p"
  by (cases p) simp_all

text \<open>Reading a trace context never raises: a malformed one is dropped.\<close>

definition decode_trace :: "pb_trace_context option \<Rightarrow> trace_context option" where
  "decode_trace m = (case m of None \<Rightarrow> None
     | Some t \<Rightarrow> if w3c_traceparent (pbt_traceparent t)
         then Some \<lparr>tc_traceparent = pbt_traceparent t, tc_tracestate = pbt_tracestate t\<rparr>
         else None)"

lemma trace_context_from_pb_eq: "trace_context_from_pb m = Inr (decode_trace (Some m))"
proof (cases "trace_context_new (pbt_traceparent m) (pbt_tracestate m)")
  case (Inl e)
  then have "is_ValueError e" "\<not> w3c_traceparent (pbt_traceparent m)"
    using trace_context_new_Inl trace_context_new_Inr by (blast, metis Inl_Inr_False)
  with Inl show ?thesis by (simp add: trace_context_from_pb_def decode_trace_def)
next
  case (Inr tc)
  then have "w3c_traceparent (pbt_traceparent m)"
      "tc = \<lparr>tc_traceparent = pbt_traceparent m, tc_tracestate = pbt_tracestate m\<rparr>"
    by (simp_all add: trace_context_new_Inr)
  with Inr show ?thesis by (simp add: trace_context_from_pb_def decode_trace_def)
qed

lemma optional_trace_eq: "optional_trace m = Inr (decode_trace m)"
  by (cases m) (simp_all add: optional_trace_def trace_context_from_pb_eq decode_trace_def)

lemma decode_trace_to_pb:
  "w3c_traceparent (tc_traceparent tc) \<Longrightarrow> decode_trace (Some (trace_context_to_pb tc)) = Some tc"
  by (simp add: decode_trace_def trace_context_to_pb_def)

section \<open>Custom maps\<close>

lemma AList_update_fresh: "k \<notin> fst ` set xs \<Longrightarrow> AList.update k v xs = xs @ [(k, v)]"
  by (induction xs) auto

definition decode_custom :: "pb_map \<Rightarrow> custom_map" where
  "decode_custom items = map (\<lambda>(k, pv). (k, the (primitive_from_pb pv))) items"

lemma primitive_from_pb_None [simp]: "primitive_from_pb pv = None \<longleftrightarrow> pv = None"
  by (auto simp: primitive_from_pb_def split: option.splits pb_primitive_value.splits)

lemma primitive_from_pb_unset [simp]: "primitive_from_pb None = None"
  by (simp add: primitive_from_pb_def)

lemma custom_from_pb_acc:
  assumes "distinct (map fst items)" and "fst ` set acc \<inter> fst ` set items = {}"
    and "\<forall>pv \<in> snd ` set items. pv \<noteq> None"
  shows "custom_from_pb acc items = Inr (acc @ decode_custom items)"
  using assms
proof (induction items arbitrary: acc)
  case Nil
  then show ?case by (simp add: decode_custom_def)
next
  case (Cons kv items)
  obtain k pv where kv: "kv = (k, pv)" by (cases kv)
  from Cons.prems(3) obtain v where v: "primitive_from_pb pv = Some v"
    using kv primitive_from_pb_None [of pv] by (cases "primitive_from_pb pv") auto
  have "custom_from_pb (acc @ [(k, v)]) items = Inr ((acc @ [(k, v)]) @ decode_custom items)"
    using Cons.prems kv by (intro Cons.IH) auto
  moreover have "AList.update k v acc = acc @ [(k, v)]"
    using Cons.prems(2) kv by (intro AList_update_fresh) auto
  ultimately show ?case using v kv by (simp add: decode_custom_def)
qed

lemma custom_from_pb_Inr:
  "distinct (map fst items) \<Longrightarrow> \<forall>pv \<in> snd ` set items. pv \<noteq> None \<Longrightarrow>
     custom_from_pb [] items = Inr (decode_custom items)"
  using custom_from_pb_acc [of items "[]"] by simp

lemma custom_from_pb_unset:
  "\<not> (\<forall>pv \<in> snd ` set items. pv \<noteq> None) \<Longrightarrow> \<exists>msg. custom_from_pb acc items = conversion_error msg"
  by (induction acc items rule: custom_from_pb.induct) (auto split: option.splits)

text \<open>
  The message's map holds the encoded entries of the dict, in an order of its own; so it reads back
  as a dict with the same entries.
\<close>

lemma custom_to_pb_acc:
  assumes "pb_runtime_ok rt" and "distinct (map fst items)" and "distinct (map fst acc)"
    and "custom_to_pb rt acc items = Inr m"
  shows "\<exists>new. map fst new = map fst items \<and> decode_custom new = items
           \<and> (\<forall>pv \<in> snd ` set new. pv \<noteq> None)
           \<and> distinct (map fst m) \<and> map_of m = map_of acc ++ map_of new"
  using assms(2-)
proof (induction items arbitrary: acc)
  case Nil
  then show ?case by (simp add: decode_custom_def)
next
  case (Cons kv items)
  obtain k v where kv: "kv = (k, v)" by (cases kv)
  from Cons.prems(3) kv obtain pv where pv: "primitive_to_pb rt v = Inr pv"
    and rest: "custom_to_pb rt (rt_map_set rt acc k pv) items = Inr m"
    by (auto simp: bind_res_eq_Inr)
  have set: "distinct (map fst (rt_map_set rt acc k pv))"
      "map_of (rt_map_set rt acc k pv) = (map_of acc)(k \<mapsto> pv)"
    using rt_map_set_ok [OF assms(1) Cons.prems(2)] by simp_all
  have "distinct (map fst items)" using Cons.prems(1) kv by simp
  from Cons.IH [OF this set(1) rest]
  obtain new where new: "map fst new = map fst items" "decode_custom new = items"
      "\<forall>pv \<in> snd ` set new. pv \<noteq> None" "distinct (map fst m)"
      "map_of m = (map_of acc)(k \<mapsto> pv) ++ map_of new"
    unfolding set(2) by blast
  have "k \<notin> fst ` set new" using Cons.prems(1) kv new(1) by (metis distinct.simps(2) fst_conv list.simps(9) set_map)
  then have maps: "map_of m = map_of acc ++ map_of ((k, pv) # new)"
    by (simp add: new(5) map_add_upd_left dom_map_of_conv_image_fst)
  have v: "primitive_from_pb pv = Some v" using primitive_roundtrip [OF assms(1) pv] .
  then have "pv \<noteq> None" using primitive_from_pb_None [of pv] by force
  then have "map fst ((k, pv) # new) = map fst (kv # items)" "decode_custom ((k, pv) # new) = kv # items"
      "\<forall>pv \<in> snd ` set ((k, pv) # new). pv \<noteq> None"
    using new(1-3) kv v by (simp_all add: decode_custom_def)
  with new(4) maps show ?case by blast
qed

lemma map_of_decode_custom:
  "map_of (decode_custom m) = map_option (\<lambda>pv. the (primitive_from_pb pv)) \<circ> map_of m"
  by (simp add: decode_custom_def map_of_map)

lemma fst_decode_custom [simp]: "map fst (decode_custom m) = map fst m"
  by (simp add: decode_custom_def comp_def split_def)

lemma custom_to_pb_map:
  assumes "pb_runtime_ok rt" and "distinct (map fst items)" and "custom_to_pb rt [] items = Inr m"
  shows "distinct (map fst m)" and "\<forall>pv \<in> snd ` set m. pv \<noteq> None"
    and "map_of (decode_custom m) = map_of items"
proof -
  obtain new where new: "map fst new = map fst items" "decode_custom new = items"
      "\<forall>pv \<in> snd ` set new. pv \<noteq> None" "distinct (map fst m)" "map_of m = map_of new"
    using custom_to_pb_acc [OF assms(1,2) _ assms(3)] by auto
  have "set m = set new" using new assms(2) map_of_inject_set [of m new] by simp
  with new(3,4) show "distinct (map fst m)" and "\<forall>pv \<in> snd ` set m. pv \<noteq> None" by simp_all
  have "map_of (decode_custom m) = map_of (decode_custom new)"
    by (simp add: map_of_decode_custom new(5))
  then show "map_of (decode_custom m) = map_of items" by (simp only: new(2))
qed

lemma custom_roundtrip:
  assumes "pb_runtime_ok rt" and "distinct (map fst items)" and "custom_to_pb rt [] items = Inr m"
  shows "\<exists>custom. custom_from_pb [] m = Inr custom \<and> distinct (map fst custom)
    \<and> map_of custom = map_of items"
  using custom_from_pb_Inr [OF custom_to_pb_map(1,2) [OF assms]] custom_to_pb_map [OF assms] by simp

lemma custom_to_pb_ok:
  "pb_runtime_ok rt \<Longrightarrow> \<forall>v \<in> snd ` set items. wire_primitive v \<Longrightarrow>
     \<exists>m. custom_to_pb rt acc items = Inr m"
proof (induction items arbitrary: acc)
  case Nil
  then show ?case by simp
next
  case (Cons kv items)
  then show ?case
    using primitive_to_pb_wire [of rt "snd kv"] by (cases kv) fastforce
qed

section \<open>Jobs and dead letters from the wire\<close>

text \<open>The jobs the client accepts, and what it makes of one.\<close>

definition job_head_wf :: "pb_job \<Rightarrow> bool" where
  "job_head_wf j \<longleftrightarrow> pbj_id j \<noteq> '''' \<and> pbj_job_type j \<noteq> '''' \<and> uint (pbj_priority j) \<le> 9"

definition customs_set :: "pb_job \<Rightarrow> bool" where
  "customs_set j \<longleftrightarrow> (\<forall>pv \<in> snd ` set (pbj_custom j). pv \<noteq> None)"

definition pb_job_wf :: "pb_job \<Rightarrow> bool" where
  "pb_job_wf j \<longleftrightarrow> job_head_wf j \<and> repr_time (get_timestamp (pbj_enqueued_at j))
     \<and> repr_time (get_timestamp (pbj_lease_expires_at j)) \<and> customs_set j"

definition wire_time :: "pb_timestamp option \<Rightarrow> datetime" where
  "wire_time t = utc (ts_micros (get_timestamp t))"

definition decode_scheduled :: "pb_job \<Rightarrow> datetime option" where
  "decode_scheduled j = (case pbj_scheduled_at j of None \<Rightarrow> None
     | Some ts \<Rightarrow> if repr_time ts then Some (utc (ts_micros ts)) else None)"

definition decode_job :: "pb_job \<Rightarrow> string option \<Rightarrow> job" where
  "decode_job j worker_id =
     \<lparr>job_payload = map_option payload_from_pb (pbj_payload j),
      job_ctx =
        \<lparr>jc_id = pbj_id j, jc_queue = pbj_queue j, jc_job_type = pbj_job_type j,
         jc_priority = Priority (uint (pbj_priority j)), jc_attempt = uint (pbj_attempt j),
         jc_max_attempts = uint (pbj_max_attempts j),
         jc_enqueued_at = wire_time (pbj_enqueued_at j),
         jc_custom = decode_custom (pbj_custom j),
         jc_trace_context = decode_trace (pbj_trace_context j),
         jc_lease_expires_at = wire_time (pbj_lease_expires_at j),
         jc_scheduled_at = decode_scheduled j,
         jc_lease = Some (lease_new (pbj_id j) (uint (pbj_attempt j))
                            (wire_time (pbj_lease_expires_at j)) worker_id)\<rparr>\<rparr>"

lemma job_head_from_pb_wf:
  "job_head_wf j \<Longrightarrow> job_head_from_pb j = Inr (Priority (uint (pbj_priority j)))"
  by (simp add: job_head_from_pb_def job_head_wf_def)

lemma job_head_from_pb_bad:
  "\<not> job_head_wf j \<Longrightarrow> \<exists>msg. job_head_from_pb j = conversion_error msg"
  by (auto simp: job_head_from_pb_def job_head_wf_def)

lemma required_time_repr:
  "pb_runtime_ok rt \<Longrightarrow> repr_time ts \<Longrightarrow> required_time rt field ts = Inr (utc (ts_micros ts))"
  by (simp add: required_time_def timestamp_to_datetime_eq)

lemma required_time_bad:
  "pb_runtime_ok rt \<Longrightarrow> \<not> repr_time ts \<Longrightarrow>
     required_time rt field ts =
       bind_res (lift_py (rt_ToJsonString rt ts)) (\<lambda>js.
          conversion_error (field @ '' is not a representable time ('' @ js @ '')''))"
  by (simp add: required_time_def timestamp_to_datetime_eq)

lemma scheduled_at_from_pb_eq:
  "pb_runtime_ok rt \<Longrightarrow> scheduled_at_from_pb rt j = Inr (decode_scheduled j)"
  by (simp add: scheduled_at_from_pb_def decode_scheduled_def timestamp_to_datetime_eq
      split: option.splits)

lemma job_from_pb_wf:
  assumes "pb_runtime_ok rt" and "distinct (map fst (pbj_custom j))" and "pb_job_wf j"
  shows "job_from_pb rt j worker_id = Inr (decode_job j worker_id)"
proof -
  have "custom_from_pb [] (pbj_custom j) = Inr (decode_custom (pbj_custom j))"
    using assms by (simp add: custom_from_pb_Inr pb_job_wf_def customs_set_def)
  then show ?thesis
    using assms by (simp add: job_from_pb_def decode_job_def pb_job_wf_def job_head_from_pb_wf
        required_time_repr optional_trace_eq scheduled_at_from_pb_eq wire_time_def)
qed

text \<open>
  A job that is not well-formed is refused with a conversion error, unless rendering one of its
  timestamps for the message raises an error of its own.
\<close>

definition renders :: "pb_runtime \<Rightarrow> pb_timestamp \<Rightarrow> bool" where
  "renders rt ts \<longleftrightarrow> (case rt_ToJsonString rt ts of Inl _ \<Rightarrow> False | Inr _ \<Rightarrow> True)"

lemma required_time_error:
  assumes "pb_runtime_ok rt" and "\<not> repr_time ts" and "renders rt ts"
  shows "\<exists>msg. required_time rt field ts = conversion_error msg"
  using assms by (auto simp: required_time_bad renders_def split: sum.splits)

lemma conversion_error_bind [simp]: "bind_res (conversion_error msg) k = conversion_error msg"
  by (simp add: conversion_error_def)

lemma job_from_pb_not_wf:
  assumes ok: "pb_runtime_ok rt" and bad: "\<not> pb_job_wf j"
    and r1: "renders rt (get_timestamp (pbj_enqueued_at j))"
    and r2: "renders rt (get_timestamp (pbj_lease_expires_at j))"
  shows "\<exists>msg. job_from_pb rt j worker_id = conversion_error msg"
proof -
  let ?e = "get_timestamp (pbj_enqueued_at j)" and ?l = "get_timestamp (pbj_lease_expires_at j)"
  consider (head) "\<not> job_head_wf j" | (enq) "job_head_wf j" "\<not> repr_time ?e"
    | (lea) "job_head_wf j" "repr_time ?e" "\<not> repr_time ?l"
    | (cus) "job_head_wf j" "repr_time ?e" "repr_time ?l" "\<not> customs_set j"
    using bad by (auto simp: pb_job_wf_def)
  then show ?thesis
  proof cases
    case head
    then obtain msg where "job_head_from_pb j = conversion_error msg"
      using job_head_from_pb_bad by blast
    then show ?thesis by (auto simp: job_from_pb_def)
  next
    case enq
    then obtain msg where "required_time rt ''job timestamp `enqueued_at`'' ?e
        = (conversion_error msg :: py_exn + datetime)"
      using required_time_error [OF ok enq(2) r1] by blast
    with enq show ?thesis by (auto simp: job_from_pb_def job_head_from_pb_wf)
  next
    case lea
    then obtain msg where "required_time rt ''job timestamp `lease_expires_at`'' ?l
        = (conversion_error msg :: py_exn + datetime)"
      using required_time_error [OF ok lea(3) r2] by blast
    with lea show ?thesis
      by (auto simp: job_from_pb_def job_head_from_pb_wf required_time_repr [OF ok])
  next
    case cus
    from custom_from_pb_unset [OF cus(4) [unfolded customs_set_def], of "[]"]
    obtain msg where "custom_from_pb [] (pbj_custom j) = conversion_error msg" by (elim exE)
    with cus show ?thesis
      by (auto simp: job_from_pb_def job_head_from_pb_wf required_time_repr [OF ok])
  qed
qed

text \<open>The unprotected rendering: its error replaces the conversion error.\<close>

lemma job_from_pb_render_raises:
  assumes "pb_runtime_ok rt" and "job_head_wf j"
    and "\<not> repr_time (get_timestamp (pbj_enqueued_at j))"
    and "rt_ToJsonString rt (get_timestamp (pbj_enqueued_at j)) = Inl e"
  shows "job_from_pb rt j worker_id = Inl (Py e)"
  using assms by (simp add: job_from_pb_def job_head_from_pb_wf required_time_bad)

text \<open>The accepted dead letters.\<close>

definition pb_dead_letter_wf :: "pb_dead_letter_record \<Rightarrow> pb_job \<Rightarrow> bool" where
  "pb_dead_letter_wf r j \<longleftrightarrow> pbd_job r = Some j \<and> job_head_wf j
     \<and> repr_time (get_timestamp (pbj_enqueued_at j)) \<and> repr_time (get_timestamp (pbd_failed_at r))
     \<and> customs_set j"

definition decode_dead_letter :: "pb_dead_letter_record \<Rightarrow> pb_job \<Rightarrow> dead_letter_record" where
  "decode_dead_letter r j =
     \<lparr>dl_queue = pbj_queue j, dl_job_id = pbj_id j, dl_job_type = pbj_job_type j,
      dl_payload = map_option payload_from_pb (pbj_payload j),
      dl_priority = Priority (uint (pbj_priority j)),
      dl_max_attempts = uint (pbj_max_attempts j), dl_custom = decode_custom (pbj_custom j),
      dl_trace_context = decode_trace (pbj_trace_context j),
      dl_enqueued_at = wire_time (pbj_enqueued_at j), dl_scheduled_at = decode_scheduled j,
      dl_cause = cause_from_pb (pbd_cause r), dl_failed_at = wire_time (pbd_failed_at r),
      dl_final_attempt = uint (pbd_final_attempt r), dl_last_reason = pbd_last_reason r\<rparr>"

lemma dead_letter_record_from_pb_wf:
  assumes "pb_runtime_ok rt" and "distinct (map fst (pbj_custom j))" and "pb_dead_letter_wf r j"
  shows "dead_letter_record_from_pb rt r = Inr (decode_dead_letter r j)"
proof -
  have "custom_from_pb [] (pbj_custom j) = Inr (decode_custom (pbj_custom j))"
    using assms by (simp add: custom_from_pb_Inr pb_dead_letter_wf_def customs_set_def)
  then show ?thesis
    using assms by (simp add: dead_letter_record_from_pb_def decode_dead_letter_def
        pb_dead_letter_wf_def job_head_from_pb_wf required_time_repr optional_trace_eq
        scheduled_at_from_pb_eq wire_time_def)
qed

section \<open>Enqueue requests to the wire, and replays\<close>

text \<open>The integers of a request the wire can carry; a Python integer is unbounded.\<close>

text \<open>The schedules the wire can carry: up to the end of the year 9999, in UTC.\<close>

definition wire_schedule :: "datetime option \<Rightarrow> bool" where
  "wire_schedule v \<longleftrightarrow> (\<forall>dt. v = Some dt \<longrightarrow> utc_micros dt \<le> max_wall)"

definition wire_request :: "enqueue_request \<Rightarrow> bool" where
  "wire_request req \<longleftrightarrow> enqueue_request_ok req
     \<and> (\<forall>n. er_max_attempts req = Some n \<longrightarrow> 0 \<le> n \<and> n < 2 ^ 32)
     \<and> distinct (map fst (er_custom req)) \<and> (\<forall>v \<in> snd ` set (er_custom req). wire_primitive v)
     \<and> wire_schedule (er_scheduled_at req)"

definition encode_scheduled :: "datetime option \<Rightarrow> pb_timestamp option" where
  "encode_scheduled v = (case v of None \<Rightarrow> None
     | Some dt \<Rightarrow> if 0 \<le> utc_micros dt then Some (timestamp_of dt) else None)"

lemma scheduled_at_to_pb_eq:
  assumes "pb_runtime_ok rt" and "wire_schedule v"
  shows "scheduled_at_to_pb rt v = Inr (encode_scheduled v)"
proof (cases v)
  case None
  then show ?thesis by (simp add: scheduled_at_to_pb_def encode_scheduled_def)
next
  case (Some dt)
  have "ts_valid (timestamp_of dt)" if "0 \<le> utc_micros dt"
    using assms(2) Some that
    by (intro ts_valid_timestamp_of) (simp_all add: wire_schedule_def min_wall_def)
  then show ?thesis
    using Some assms(1) by (simp add: scheduled_at_to_pb_def encode_scheduled_def
        datetime_to_millis_nonneg_iff rt_FromDatetime_ok)
qed

lemma set_uint32_ok:
  "pb_runtime_ok rt \<Longrightarrow> (\<And>n. v = Some n \<Longrightarrow> 0 \<le> n \<and> n < 2 ^ 32) \<Longrightarrow>
     set_uint32 rt v = Inr (map_option word_of_int v)"
  by (auto simp: set_uint32_def rt_uint32_ok split: option.splits)

lemma enqueue_request_to_pb_ok:
  assumes "pb_runtime_ok rt" and "wire_request req"
  shows "\<exists>m. enqueue_request_to_pb rt req = Inr m \<and> pbe_queue m = er_queue req
           \<and> pbe_job_type m = er_job_type req
           \<and> map_option payload_from_pb (pbe_payload m) = er_payload req
           \<and> pbe_idempotency_key m = er_idempotency_key req
           \<and> map_option (\<lambda>w. Priority (uint w)) (pbe_priority m) = er_priority req
           \<and> map_option uint (pbe_max_attempts m) = er_max_attempts req
           \<and> pbe_trace_context m = map_option trace_context_to_pb (er_trace_context req)
           \<and> (\<exists>custom. custom_from_pb [] (pbe_custom m) = Inr custom \<and> distinct (map fst custom)
                \<and> map_of custom = map_of (er_custom req))
           \<and> pbe_scheduled_at m = encode_scheduled (er_scheduled_at req)"
proof -
  obtain c where c: "custom_to_pb rt [] (er_custom req) = Inr c"
    using custom_to_pb_ok [OF assms(1), of "er_custom req" "[]"] assms(2)
    unfolding wire_request_def by blast
  have c': "\<exists>custom. custom_from_pb [] c = Inr custom \<and> distinct (map fst custom)
      \<and> map_of custom = map_of (er_custom req)"
    using custom_roundtrip [OF assms(1) _ c] assms(2) by (simp add: wire_request_def)
  have p: "set_uint32 rt (map_option priority_value (er_priority req))
      = Inr (map_option word_of_int (map_option priority_value (er_priority req)))"
    using assms by (intro set_uint32_ok)
      (auto simp: wire_request_def enqueue_request_ok_def priority_ok_def)
  have m: "set_uint32 rt (er_max_attempts req) = Inr (map_option word_of_int (er_max_attempts req))"
    using assms by (intro set_uint32_ok) (auto simp: wire_request_def)
  have sched: "scheduled_at_to_pb rt (er_scheduled_at req) = Inr (encode_scheduled (er_scheduled_at req))"
    using assms by (simp add: scheduled_at_to_pb_eq wire_request_def)
  have u: "0 \<le> n \<Longrightarrow> n < 2 ^ 32 \<Longrightarrow> uint (word_of_int n :: u32) = n" for n
    by (simp add: uint_word_of_int)
  have pr: "map_option (\<lambda>w. Priority (uint w))
        (map_option (word_of_int :: int \<Rightarrow> u32) (map_option priority_value (er_priority req)))
      = er_priority req"
    using assms(2) by (cases "er_priority req")
      (auto simp: wire_request_def enqueue_request_ok_def priority_ok_def u)
  have ma: "map_option uint (map_option (word_of_int :: int \<Rightarrow> u32) (er_max_attempts req))
      = er_max_attempts req"
    using assms(2) by (cases "er_max_attempts req") (auto simp: wire_request_def u)
  have pl: "map_option payload_from_pb (map_option payload_to_pb (er_payload req)) = er_payload req"
    by (cases "er_payload req") simp_all
  show ?thesis
    unfolding enqueue_request_to_pb_def p m c sched
    using c' pr ma pl by simp
qed

section \<open>A concrete job\<close>

definition sample_pb_job :: pb_job where
  "sample_pb_job =
     \<lparr>pbj_id = ''j1'', pbj_job_type = ''t'',
      pbj_payload = Some \<lparr>pbp_data = [123, 125], pbp_encoding = ''json''\<rparr>, pbj_priority = 7,
      pbj_trace_context = None,
      pbj_enqueued_at = Some \<lparr>ts_seconds = 1700000000, ts_nanos = 500000000\<rparr>, pbj_attempt = 1,
      pbj_max_attempts = 3,
      pbj_lease_expires_at = Some \<lparr>ts_seconds = 1700000060, ts_nanos = 0\<rparr>,
      pbj_custom = [(''k'', Some (IntValue 5)), (''vip'', Some (BoolValue True))],
      pbj_scheduled_at = None, pbj_queue = ''emails''\<rparr>"

lemma sample_pb_job_wf:
  "pb_job_wf sample_pb_job" "distinct (map fst (pbj_custom sample_pb_job))"
  by (simp_all add: sample_pb_job_def pb_job_wf_def job_head_wf_def customs_set_def repr_time_def
      get_timestamp_def)

section \<open>Further facts\<close>

text \<open>
  A custom value is accepted exactly when it is a string, a float, a bool or an integer between
  -2^63 and 2^63 - 1, and then the wire value reads back as the same value.
\<close>

theorem primitive_accepted_iff:
  assumes "pb_runtime_ok rt"
  shows "((\<exists>pv. primitive_to_pb rt v = Inr pv) \<longleftrightarrow> wire_primitive v)
    \<and> (\<forall>pv. primitive_to_pb rt v = Inr pv \<longrightarrow> primitive_from_pb pv = Some v)"
  using primitive_to_pb_wire [OF assms, of v] primitive_to_pb_not_wire [OF assms, of v]
    primitive_roundtrip [OF assms, of v] by fastforce

theorem primitive_accepted_iff_witness:
  "\<not> (\<exists>pv. primitive_to_pb ref_runtime (VInt (2 ^ 63)) = Inr pv)
   \<and> (\<exists>pv. primitive_to_pb ref_runtime (VInt (2 ^ 63 - 1)) = Inr pv)"
  using primitive_accepted_iff [OF ref_runtime_ok, of "VInt (2 ^ 63)"]
    primitive_accepted_iff [OF ref_runtime_ok, of "VInt (2 ^ 63 - 1)"] by simp

text \<open>
  A schedule that is not before the epoch is sent as a timestamp that reads back as the same
  instant, in UTC and to the microsecond; an earlier one is not sent.
\<close>

theorem timestamp_read_back:
  assumes "pb_runtime_ok rt" and "utc_micros dt \<le> max_wall"
  shows "\<exists>ts. scheduled_at_to_pb rt (Some dt) = Inr ts
    \<and> (if 0 \<le> utc_micros dt
       then ts \<noteq> None \<and> timestamp_to_datetime rt (the ts) = Inr (Some (utc (utc_micros dt)))
       else ts = None)"
proof -
  have "scheduled_at_to_pb rt (Some dt) = Inr (encode_scheduled (Some dt))"
    using assms by (simp add: scheduled_at_to_pb_eq wire_schedule_def)
  then show ?thesis
    using timestamp_roundtrip [OF assms(1) _ assms(2)]
    by (cases "0 \<le> utc_micros dt") (simp_all add: encode_scheduled_def)
qed

theorem timestamp_read_back_witness:
  "timestamp_to_datetime ref_runtime (timestamp_of \<lparr>dt_wall = 3600000000, dt_tz = Some 3600000000\<rparr>)
     = Inr (Some (utc 0))"
  using timestamp_read_back [OF ref_runtime_ok, of "\<lparr>dt_wall = 3600000000, dt_tz = Some 3600000000\<rparr>"]
  by (simp add: scheduled_at_to_pb_eq [OF ref_runtime_ok] wire_schedule_def encode_scheduled_def utc_micros_def
      dt_offset_def max_wall_def)

section \<open>Properties\<close>

text \<open>
  C11: a job on the wire that passes the client's checks is decoded field by field, with its
  lease handle carrying the same id and attempt and the granted expiry.
\<close>

theorem job_from_pb_decodes:
  assumes "pb_runtime_ok rt" and "distinct (map fst (pbj_custom j))" and "pb_job_wf j"
  shows "job_from_pb rt j worker_id = Inr (decode_job j worker_id)"
  using assms by (rule job_from_pb_wf)

theorem job_from_pb_decodes_witness:
  "job_from_pb ref_runtime sample_pb_job (Some ''w'') = Inr (decode_job sample_pb_job (Some ''w''))
   \<and> jc_job_type (job_ctx (decode_job sample_pb_job (Some ''w''))) = ''t''"
  using job_from_pb_decodes [OF ref_runtime_ok sample_pb_job_wf(2,1), of "Some ''w''"]
  by (simp add: decode_job_def sample_pb_job_def)

text \<open>
  C25: an enqueue request whose numbers fit the wire is encoded, and every field can be read
  back from the message: queue, type, payload, key, priority, attempts, trace context and custom
  map (the same entries; the order in which protobuf iterates a map is its own); the schedule is
  sent unless it lies before the epoch.
\<close>

theorem enqueue_request_encoded:
  assumes "pb_runtime_ok rt" and "wire_request req"
  shows "\<exists>m. enqueue_request_to_pb rt req = Inr m \<and> pbe_queue m = er_queue req
           \<and> pbe_job_type m = er_job_type req
           \<and> map_option payload_from_pb (pbe_payload m) = er_payload req
           \<and> pbe_idempotency_key m = er_idempotency_key req
           \<and> map_option (\<lambda>w. Priority (uint w)) (pbe_priority m) = er_priority req
           \<and> map_option uint (pbe_max_attempts m) = er_max_attempts req
           \<and> pbe_trace_context m = map_option trace_context_to_pb (er_trace_context req)
           \<and> (\<exists>custom. custom_from_pb [] (pbe_custom m) = Inr custom \<and> distinct (map fst custom)
                \<and> map_of custom = map_of (er_custom req))
           \<and> pbe_scheduled_at m = encode_scheduled (er_scheduled_at req)"
  by (rule enqueue_request_to_pb_ok [OF assms])

theorem enqueue_request_encoded_witness:
  "\<exists>m. enqueue_request_to_pb ref_runtime
         \<lparr>er_queue = ''q'', er_job_type = ''t'', er_payload = None, er_idempotency_key = None,
          er_priority = Some (Priority 3), er_max_attempts = Some 5, er_custom = [(''k'', VInt (- 4))],
          er_trace_context = None, er_scheduled_at = Some (utc (- 1))\<rparr> = Inr m
       \<and> pbe_scheduled_at m = None"
  using enqueue_request_encoded [OF ref_runtime_ok, of
      "\<lparr>er_queue = ''q'', er_job_type = ''t'', er_payload = None, er_idempotency_key = None,
          er_priority = Some (Priority 3), er_max_attempts = Some 5, er_custom = [(''k'', VInt (- 4))],
          er_trace_context = None, er_scheduled_at = Some (utc (- 1))\<rparr>"]
  by (auto simp: wire_request_def wire_schedule_def enqueue_request_ok_def priority_ok_def
      encode_scheduled_def max_wall_def)

lemma primitive_from_pb_inj:
  "primitive_from_pb a = Some v \<Longrightarrow> primitive_from_pb b = Some v \<Longrightarrow> a = b"
  by (auto simp: primitive_from_pb_def dest: word_eq_iff_signed [THEN iffD2]
      split: option.splits pb_primitive_value.splits)

lemma wire_primitive_decoded: "primitive_from_pb pv = Some v \<Longrightarrow> wire_primitive v"
proof -
  have "- (2 ^ 63) \<le> sint w \<and> sint w < 2 ^ 63" for w :: "64 word"
    using sint_greater_eq [of w] sint_lt [of w] by simp
  then show "primitive_from_pb pv = Some v \<Longrightarrow> wire_primitive v"
    by (auto simp: primitive_from_pb_def split: option.splits pb_primitive_value.splits)
qed

lemma decode_custom_inj:
  assumes "\<forall>pv \<in> snd ` set a. pv \<noteq> None" and "\<forall>pv \<in> snd ` set b. pv \<noteq> None"
    and "map_of (decode_custom a) = map_of (decode_custom b)"
  shows "map_of a = map_of b"
proof
  fix k
  have e: "map_option (\<lambda>pv. the (primitive_from_pb pv)) (map_of a k)
      = map_option (\<lambda>pv. the (primitive_from_pb pv)) (map_of b k)"
    using fun_cong [OF assms(3), of k] by (simp add: map_of_decode_custom)
  show "map_of a k = map_of b k"
  proof (cases "map_of a k")
    case (Some x)
    then obtain y where y: "map_of b k = Some y"
        "the (primitive_from_pb x) = the (primitive_from_pb y)"
      using e by (cases "map_of b k") auto
    have "x \<noteq> None" "y \<noteq> None"
      using assms(1,2) Some y(1) by (metis imageI map_of_SomeD snd_conv)+
    then have "x = y"
      using y(2) primitive_from_pb_inj primitive_from_pb_None by (metis option.collapse)
    then show ?thesis using Some y(1) by simp
  qed (use e in simp)
qed

lemma custom_wire_roundtrip:
  assumes "pb_runtime_ok rt" and "distinct (map fst items)" and "\<forall>pv \<in> snd ` set items. pv \<noteq> None"
  shows "\<exists>m. custom_to_pb rt [] (decode_custom items) = Inr m \<and> distinct (map fst m)
    \<and> map_of m = map_of items"
proof -
  have "\<forall>v \<in> snd ` set (decode_custom items). wire_primitive v"
  proof
    fix v assume "v \<in> snd ` set (decode_custom items)"
    then obtain k pv where kv: "(k, pv) \<in> set items" "v = the (primitive_from_pb pv)"
      by (auto simp: decode_custom_def)
    then have "pv \<noteq> None" using assms(3) by force
    then have "primitive_from_pb pv = Some v" using kv(2) primitive_from_pb_None [of pv] by auto
    then show "wire_primitive v" by (rule wire_primitive_decoded)
  qed
  then obtain m where m: "custom_to_pb rt [] (decode_custom items) = Inr m"
    using custom_to_pb_ok [OF assms(1)] by blast
  then show ?thesis
    using custom_to_pb_map [OF assms(1) _ m] assms(2,3) decode_custom_inj [of m items] by simp
qed

text \<open>
  C26: replaying a drained dead letter sends the job it held: the message built from
  \<open>to_enqueue_request\<close> has the queue, type, payload bytes, priority and custom map
  the dead job had on the wire, its attempt limit unless that was zero, and neither an
  idempotency key nor a schedule.
\<close>

theorem dead_letter_replay:
  assumes "pb_runtime_ok rt" and "distinct (map fst (pbj_custom j))" and "pb_dead_letter_wf r j"
    and "pbj_queue j \<noteq> ''''"
  shows "\<exists>d req m. dead_letter_record_from_pb rt r = Inr d \<and> to_enqueue_request d = Inr req
    \<and> enqueue_request_to_pb rt req = Inr m
    \<and> pbe_queue m = pbj_queue j \<and> pbe_job_type m = pbj_job_type j
    \<and> pbe_payload m = pbj_payload j \<and> pbe_priority m = Some (pbj_priority j)
    \<and> pbe_max_attempts m = (if pbj_max_attempts j = 0 then None else Some (pbj_max_attempts j))
    \<and> distinct (map fst (pbe_custom m)) \<and> map_of (pbe_custom m) = map_of (pbj_custom j)
    \<and> pbe_idempotency_key m = None \<and> pbe_scheduled_at m = None"
proof -
  let ?d = "decode_dead_letter r j"
  have head: "pbj_job_type j \<noteq> ''''" "customs_set j"
    using assms(3) by (simp_all add: pb_dead_letter_wf_def job_head_wf_def)
  obtain req where req: "to_enqueue_request ?d = Inr req"
    using head(1) assms(4)
    by (simp add: to_enqueue_request_def enqueue_request_new_def decode_dead_letter_def)
  then have fields: "er_queue req = pbj_queue j" "er_job_type req = pbj_job_type j"
      "er_payload req = map_option payload_from_pb (pbj_payload j)"
      "er_priority req = Some (Priority (uint (pbj_priority j)))"
      "er_max_attempts req = (if pbj_max_attempts j = 0 then None else Some (uint (pbj_max_attempts j)))"
      "er_custom req = decode_custom (pbj_custom j)" "er_idempotency_key req = None"
      "er_scheduled_at req = None"
    using head(1) assms(4)
    by (auto simp: to_enqueue_request_def enqueue_request_new_def decode_dead_letter_def uint_0_iff)
  have "set_uint32 rt (Some (uint x)) = Inr (Some x)" for x :: u32
    using set_uint32_ok [OF assms(1), of "Some (uint x)"] uint_lt2p [of x] by simp
  moreover have "set_uint32 rt None = Inr None" by (simp add: set_uint32_def)
  moreover obtain c where "custom_to_pb rt [] (decode_custom (pbj_custom j)) = Inr c"
      "distinct (map fst c)" "map_of c = map_of (pbj_custom j)"
    using custom_wire_roundtrip [OF assms(1,2)] head(2) by (auto simp: customs_set_def)
  moreover have "scheduled_at_to_pb rt None = Inr None" by (simp add: scheduled_at_to_pb_def)
  ultimately show ?thesis
    using dead_letter_record_from_pb_wf [OF assms(1-3)] req fields
    by (auto simp: enqueue_request_to_pb_def intro!: exI [of _ ?d] exI [of _ req])
qed

theorem dead_letter_replay_witness:
  "\<exists>d req m. dead_letter_record_from_pb ref_runtime
       \<lparr>pbd_job = Some sample_pb_job, pbd_cause = 3, pbd_failed_at = None, pbd_final_attempt = 3,
        pbd_last_reason = Some ''boom''\<rparr> = Inr d
     \<and> to_enqueue_request d = Inr req \<and> enqueue_request_to_pb ref_runtime req = Inr m
     \<and> pbe_payload m = pbj_payload sample_pb_job"
proof -
  have "pb_dead_letter_wf \<lparr>pbd_job = Some sample_pb_job, pbd_cause = 3, pbd_failed_at = None,
      pbd_final_attempt = 3, pbd_last_reason = Some ''boom''\<rparr> sample_pb_job"
    using sample_pb_job_wf(1) by (simp add: pb_dead_letter_wf_def pb_job_wf_def repr_time_def
        get_timestamp_def default_timestamp_def)
  moreover have "pbj_queue sample_pb_job \<noteq> ''''" by (simp add: sample_pb_job_def)
  ultimately show ?thesis
    using dead_letter_replay [OF ref_runtime_ok sample_pb_job_wf(2)] by blast
qed

text \<open>
  C27: a job without an id or a type, with a priority above 9, with an
  \<open>enqueued_at\<close> or \<open>lease_expires_at\<close> the client cannot represent, or
  with a custom value that has none set is refused with a \<open>JobConversionError\<close>,
  when the runtime can render its two timestamps.
\<close>

theorem malformed_job_refused:
  assumes "pb_runtime_ok rt" and "\<not> pb_job_wf j"
    and "renders rt (get_timestamp (pbj_enqueued_at j))"
    and "renders rt (get_timestamp (pbj_lease_expires_at j))"
  shows "\<exists>msg. job_from_pb rt j worker_id = Inl (Sepp (JobConversionError msg))"
  using job_from_pb_not_wf [OF assms, of worker_id] by (simp add: conversion_error_def)

theorem malformed_job_refused_witness:
  "\<exists>msg. job_from_pb ref_runtime (sample_pb_job\<lparr>pbj_priority := 10\<rparr>) None
     = Inl (Sepp (JobConversionError msg))"
  by (rule malformed_job_refused [OF ref_runtime_ok])
    (simp_all add: pb_job_wf_def job_head_wf_def renders_def sample_pb_job_def get_timestamp_def
      ref_runtime_def ts_valid_def)

end
