(* ===== verification/Sepp_Otel.thy ===== *)
theory Sepp_Otel
  imports Sepp_Convert
begin

text \<open>
  \<^verbatim>\<open>src/sepp/_otel.py\<close>: the optional OpenTelemetry integration. OpenTelemetry itself is not in the
  repository; what the package calls of it is the record \<open>otel\<close>, a parameter over the world \<open>'w\<close>
  and the type \<open>'c\<close> of span contexts. With \<open>ot_available\<close> false every entry point is a no-op.
  The instruments of \<open>WorkerMetrics\<close> are counters; the log wrapper is in \<open>Sepp_Log\<close>.
\<close>

datatype span_kind = CLIENT | CONSUMER

type_synonym carrier = "(string \<times> string) list"

record ('w, 'c) otel =
  ot_available :: bool
  ot_inject :: "'w \<Rightarrow> carrier"
  ot_start_span :: "string \<Rightarrow> span_kind \<Rightarrow> 'c list \<Rightarrow> 'w \<Rightarrow> 'w"
  ot_end_span :: "'w \<Rightarrow> 'w"
  ot_attach :: "carrier \<Rightarrow> 'w \<Rightarrow> 'w"
  ot_detach :: "'w \<Rightarrow> 'w"
  ot_span_context :: "carrier \<Rightarrow> 'c"
  ot_is_valid :: "'c \<Rightarrow> bool"

section \<open>Trace headers\<close>

definition inject_context_metadata ::
    "('w, 'c, 'z) otel_scheme \<Rightarrow> carrier \<Rightarrow> 'w \<Rightarrow> carrier" where
  "inject_context_metadata ot metadata w =
     (if \<not> ot_available ot then metadata
      else let carrier = map_of (ot_inject ot w);
               m = (case carrier ''traceparent'' of
                      None \<Rightarrow> metadata | Some tp \<Rightarrow> metadata @ [(''traceparent'', tp)])
           in case carrier ''tracestate'' of
                None \<Rightarrow> m
              | Some ts \<Rightarrow> if ts = '''' then m else m @ [(''tracestate'', ts)])"

definition current_trace_headers ::
    "('w, 'c, 'z) otel_scheme \<Rightarrow> 'w \<Rightarrow> (string \<times> string option) option" where
  "current_trace_headers ot w =
     (if \<not> ot_available ot then None
      else let carrier = map_of (ot_inject ot w)
           in case carrier ''traceparent'' of
                None \<Rightarrow> None
              | Some tp \<Rightarrow> Some (tp, carrier ''tracestate''))"

definition trace_context_from_current ::
    "('w, 'c, 'z) otel_scheme \<Rightarrow> 'w \<Rightarrow> py_error + trace_context option" where
  "trace_context_from_current ot w =
     (case current_trace_headers ot w of
        None \<Rightarrow> Inr None
      | Some (tp, ts) \<Rightarrow>
          (case trace_context_new tp ts of
             Inr tc \<Rightarrow> Inr (Some tc)
           | Inl (TraceContextError _) \<Rightarrow> Inr None
           | Inl e \<Rightarrow> Inl e))"

text \<open>The carrier of a trace context.\<close>

definition trace_carrier :: "trace_context \<Rightarrow> carrier" where
  "trace_carrier tc =
     (''traceparent'', tc_traceparent tc)
     # (case tc_tracestate tc of None \<Rightarrow> [] | Some ts \<Rightarrow> [(''tracestate'', ts)])"

section \<open>Spans: context managers around an effect\<close>

definition attach_trace_context ::
    "('w, 'c, 'z) otel_scheme \<Rightarrow> trace_context \<Rightarrow> ('w, 'e, 'a) io \<Rightarrow> ('w, 'e, 'a) io" where
  "attach_trace_context ot tc body =
     (if \<not> ot_available ot then body
      else (\<lambda>w. case body (ot_attach ot (trace_carrier tc) w) of (r, w') \<Rightarrow> (r, ot_detach ot w')))"

definition span_context_from_trace_context ::
    "('w, 'c, 'z) otel_scheme \<Rightarrow> trace_context \<Rightarrow> 'c option" where
  "span_context_from_trace_context ot tc =
     (if \<not> ot_available ot then None
      else let sc = ot_span_context ot (trace_carrier tc)
           in if ot_is_valid ot sc then Some sc else None)"

definition in_span ::
    "('w, 'c, 'z) otel_scheme \<Rightarrow> string \<Rightarrow> span_kind \<Rightarrow> 'c list \<Rightarrow> ('w, 'e, 'a) io
     \<Rightarrow> ('w, 'e, 'a) io" where
  "in_span ot name kind links body =
     (\<lambda>w. case body (ot_start_span ot name kind links w) of (r, w') \<Rightarrow> (r, ot_end_span ot w'))"

definition client_span ::
    "('w, 'c, 'z) otel_scheme \<Rightarrow> string \<Rightarrow> ('w, 'e, 'a) io \<Rightarrow> ('w, 'e, 'a) io" where
  "client_span ot name body =
     (if \<not> ot_available ot then body else in_span ot name CLIENT [] body)"

text \<open>The links of a consumer span: one to the producer's span, when there is one.\<close>

definition consumer_links ::
    "('w, 'c, 'z) otel_scheme \<Rightarrow> trace_context option \<Rightarrow> 'c list" where
  "consumer_links ot producer =
     (case producer of
        None \<Rightarrow> []
      | Some tc \<Rightarrow>
          (case span_context_from_trace_context ot tc of None \<Rightarrow> [] | Some sc \<Rightarrow> [sc]))"

definition consumer_span ::
    "('w, 'c, 'z) otel_scheme \<Rightarrow> string \<Rightarrow> trace_context option \<Rightarrow> ('w, 'e, 'a) io
     \<Rightarrow> ('w, 'e, 'a) io" where
  "consumer_span ot name producer body =
     (if \<not> ot_available ot then body
      else in_span ot name CONSUMER (consumer_links ot producer) body)"

text \<open>
  A span changes the world it runs in and nothing of the body's result: whatever the body returns
  or raises from the opened span is what the \<open>with\<close> block returns or raises.
\<close>

definition enter_span ::
    "('w, 'c, 'z) otel_scheme \<Rightarrow> string \<Rightarrow> span_kind \<Rightarrow> 'c list \<Rightarrow> 'w \<Rightarrow> 'w" where
  "enter_span ot name kind links w =
     (if ot_available ot then ot_start_span ot name kind links w else w)"

definition leave_span :: "('w, 'c, 'z) otel_scheme \<Rightarrow> 'w \<Rightarrow> 'w" where
  "leave_span ot w = (if ot_available ot then ot_end_span ot w else w)"

lemma client_span_apply:
  "client_span ot name body w =
     (case body (enter_span ot name CLIENT [] w) of (r, w') \<Rightarrow> (r, leave_span ot w'))"
  by (simp add: client_span_def in_span_def enter_span_def leave_span_def split: prod.splits)

lemma consumer_span_apply:
  "consumer_span ot name producer body w =
     (case body (enter_span ot name CONSUMER (consumer_links ot producer) w) of
        (r, w') \<Rightarrow> (r, leave_span ot w'))"
  by (simp add: consumer_span_def in_span_def enter_span_def leave_span_def split: prod.splits)

lemma fst_client_span:
  "fst (client_span ot name body w) = fst (body (enter_span ot name CLIENT [] w))"
  by (simp add: client_span_apply split: prod.splits)

lemma snd_client_span:
  "snd (client_span ot name body w) = leave_span ot (snd (body (enter_span ot name CLIENT [] w)))"
  by (simp add: client_span_apply split: prod.splits)

section \<open>Worker metrics\<close>

record worker_metrics =
  wm_enabled :: bool
  wm_processed :: int
  wm_nacked_retry :: int
  wm_nacked_dead_letter :: int
  wm_in_flight :: int
  wm_reserves_some :: int
  wm_reserves_empty :: int
  wm_reserves_failed :: int

definition worker_metrics_new :: "('w, 'c, 'z) otel_scheme \<Rightarrow> worker_metrics" where
  "worker_metrics_new ot =
     \<lparr>wm_enabled = ot_available ot, wm_processed = 0, wm_nacked_retry = 0,
      wm_nacked_dead_letter = 0, wm_in_flight = 0, wm_reserves_some = 0, wm_reserves_empty = 0,
      wm_reserves_failed = 0\<rparr>"

definition record_processed :: "worker_metrics \<Rightarrow> worker_metrics" where
  "record_processed m = (if wm_enabled m then m\<lparr>wm_processed := wm_processed m + 1\<rparr> else m)"

definition record_nacked :: "bool \<Rightarrow> worker_metrics \<Rightarrow> worker_metrics" where
  "record_nacked dead_lettered m =
     (if wm_enabled m then
        (if dead_lettered then m\<lparr>wm_nacked_dead_letter := wm_nacked_dead_letter m + 1\<rparr>
         else m\<lparr>wm_nacked_retry := wm_nacked_retry m + 1\<rparr>)
      else m)"

definition record_in_flight_delta :: "int \<Rightarrow> worker_metrics \<Rightarrow> worker_metrics" where
  "record_in_flight_delta delta m =
     (if wm_enabled m then m\<lparr>wm_in_flight := wm_in_flight m + delta\<rparr> else m)"

definition record_reserve_ok :: "bool \<Rightarrow> worker_metrics \<Rightarrow> worker_metrics" where
  "record_reserve_ok no_jobs m =
     (if wm_enabled m then
        (if no_jobs then m\<lparr>wm_reserves_empty := wm_reserves_empty m + 1\<rparr>
         else m\<lparr>wm_reserves_some := wm_reserves_some m + 1\<rparr>)
      else m)"

definition record_reserve_failed :: "worker_metrics \<Rightarrow> worker_metrics" where
  "record_reserve_failed m =
     (if wm_enabled m then m\<lparr>wm_reserves_failed := wm_reserves_failed m + 1\<rparr> else m)"

lemmas metrics_defs = record_processed_def record_nacked_def record_in_flight_delta_def
  record_reserve_ok_def record_reserve_failed_def

text \<open>Whatever OpenTelemetry hands out as the current context, a captured one is well-formed.\<close>

lemma trace_context_from_current_total:
  "\<exists>tc. trace_context_from_current ot w = Inr tc
     \<and> (\<forall>c. tc = Some c \<longrightarrow> w3c_traceparent (tc_traceparent c))"
proof (cases "current_trace_headers ot w")
  case None
  then show ?thesis by (simp add: trace_context_from_current_def)
next
  case (Some h)
  obtain tp ts where h: "h = (tp, ts)" by (cases h)
  show ?thesis
  proof (cases "trace_context_new tp ts")
    case (Inr tc)
    then have "w3c_traceparent (tc_traceparent tc)" by (auto simp: trace_context_new_Inr)
    then show ?thesis using Some h Inr by (simp add: trace_context_from_current_def)
  next
    case (Inl e)
    then have "\<exists>m. e = TraceContextError m"
      by (auto simp: trace_context_new_def bind_res_eq_Inl validate_traceparent_def Let_def
          trace_error_def split: if_splits dest: check_fields_TraceContextError)
    then show ?thesis using Some h Inl by (auto simp: trace_context_from_current_def)
  qed
qed

end
