(* ===== verification/Sepp_Retry.thy ===== *)
theory Sepp_Retry
  imports Sepp_Otel
begin

text \<open>
  \<open>RetryPolicy\<close> and \<open>SeppClient._with_retry\<close> of \<^verbatim>\<open>src/sepp/client.py\<close>: the loop that repeats an
  RPC while it fails with a retryable code, at most \<open>max_attempts\<close> times, sleeping between attempts
  for a capped, growing and optionally jittered backoff. The clock and the random source are the
  record \<open>timer\<close>; delays are binary64 seconds.
\<close>

section \<open>Policy\<close>

record retry_policy =
  rp_max_attempts :: int
  rp_initial_backoff :: timedelta
  rp_max_backoff :: timedelta
  rp_multiplier :: rat
  rp_jitter :: bool

definition retry_policy_new ::
    "int \<Rightarrow> timedelta \<Rightarrow> timedelta \<Rightarrow> rat \<Rightarrow> bool \<Rightarrow> retry_policy" where
  "retry_policy_new max_attempts initial_backoff max_backoff multiplier jitter =
     \<lparr>rp_max_attempts = max 1 max_attempts, rp_initial_backoff = initial_backoff,
      rp_max_backoff = max_backoff, rp_multiplier = max 1 multiplier, rp_jitter = jitter\<rparr>"

definition default_retry_policy :: retry_policy where
  "default_retry_policy = retry_policy_new 1 (milliseconds 100) (seconds 10) 2 True"

text \<open>What \<^verbatim>\<open>__post_init__\<close> establishes.\<close>

definition policy_ok :: "retry_policy \<Rightarrow> bool" where
  "policy_ok p \<longleftrightarrow> 1 \<le> rp_max_attempts p \<and> 1 \<le> rp_multiplier p"

lemma retry_policy_new_ok: "policy_ok (retry_policy_new n i m k j)"
  by (simp add: policy_ok_def retry_policy_new_def)

section \<open>The pause between two attempts\<close>

text \<open>\<open>random.random()\<close>, and \<open>asyncio.sleep\<close>, which completes or is cancelled (\<open>True\<close>).\<close>

record 'w timer =
  tm_random :: "'w \<Rightarrow> rat \<times> 'w"
  tm_sleep :: "rat \<Rightarrow> 'w \<Rightarrow> bool \<times> 'w"

text \<open>Equal jitter: \<open>delay * (0.5 + 0.5 * random())\<close>, each operation rounded.\<close>

definition jittered :: "rat \<Rightarrow> rat \<Rightarrow> rat" where
  "jittered delay r = rnd (delay * rnd (1/2 + rnd (1/2 * r)))"

definition retry_delay :: "'w timer \<Rightarrow> retry_policy \<Rightarrow> timedelta \<Rightarrow> 'w \<Rightarrow> rat \<times> 'w" where
  "retry_delay tm policy backoff w =
     (if rp_jitter policy
      then (case tm_random tm w of (r, w') \<Rightarrow> (jittered (total_seconds backoff) r, w'))
      else (total_seconds backoff, w))"

definition pause :: "'w timer \<Rightarrow> retry_policy \<Rightarrow> timedelta \<Rightarrow> ('w, py_exn, unit) io" where
  "pause tm policy backoff w =
     (case retry_delay tm policy backoff w of (delay, w') \<Rightarrow>
        (case tm_sleep tm delay w' of
           (cancelled, w'') \<Rightarrow> (if cancelled then Inl CancelledError else Inr (), w'')))"

lemma pause_Inl: "pause tm policy backoff w = (Inl e, w') \<Longrightarrow> e = CancelledError"
  by (auto simp: pause_def split: prod.splits if_splits)

definition next_backoff :: "retry_policy \<Rightarrow> timedelta \<Rightarrow> timedelta" where
  "next_backoff policy backoff =
     timedelta_seconds (min (rnd (total_seconds backoff * rp_multiplier policy))
                            (total_seconds (rp_max_backoff policy)))"

section \<open>The loop\<close>

function retry_loop ::
    "'w timer \<Rightarrow> retry_policy \<Rightarrow> status_code set \<Rightarrow> ('w, py_exn, 'a) io \<Rightarrow> int \<Rightarrow> timedelta
     \<Rightarrow> ('w, py_exn, 'a) io" where
  "retry_loop tm policy retryable_codes call attempt backoff w =
     (case call w of
        (Inl (Rpc err), w1) \<Rightarrow>
          (if attempt \<ge> rp_max_attempts policy \<or> rpc_code err \<notin> retryable_codes
           then (Inl (Rpc err), w1)
           else (case pause tm policy backoff w1 of
                   (Inl e, w2) \<Rightarrow> (Inl e, w2)
                 | (Inr _, w2) \<Rightarrow>
                     retry_loop tm policy retryable_codes call (attempt + 1)
                       (next_backoff policy backoff) w2))
      | (r, w1) \<Rightarrow> (r, w1))"
  by pat_completeness auto
termination
  by (relation "measure (\<lambda>(tm, policy, codes, call, attempt, backoff, w).
                           nat (rp_max_attempts policy - attempt))") auto

declare retry_loop.simps [simp del]

definition with_retry ::
    "'w timer \<Rightarrow> retry_policy \<Rightarrow> status_code set \<Rightarrow> ('w, py_exn, 'a) io
     \<Rightarrow> ('w, py_exn, 'a) io" where
  "with_retry tm policy retryable_codes call =
     retry_loop tm policy retryable_codes call 1 (rp_initial_backoff policy)"

section \<open>The specification: a run of calls\<close>

text \<open>
  \<open>call_run tm p codes call b n w r w'\<close>: starting with backoff \<open>b\<close> in world \<open>w\<close>, \<open>n\<close> calls were
  made, every one but the last failed with a code of \<open>codes\<close> and was followed by a completed pause,
  and the last one (or a pause that was interrupted) gave the result \<open>r\<close> in world \<open>w'\<close>.
\<close>

inductive call_run ::
    "'w timer \<Rightarrow> retry_policy \<Rightarrow> status_code set \<Rightarrow> ('w, py_exn, 'a) io \<Rightarrow> timedelta \<Rightarrow> nat
     \<Rightarrow> 'w \<Rightarrow> py_exn + 'a \<Rightarrow> 'w \<Rightarrow> bool"
  for tm p codes call where
  last_call: "call w = (r, w') \<Longrightarrow> call_run tm p codes call b (Suc 0) w r w'"
| interrupted: "call w = (Inl (Rpc err), w1) \<Longrightarrow> rpc_code err \<in> codes
     \<Longrightarrow> pause tm p b w1 = (Inl e, w2) \<Longrightarrow> call_run tm p codes call b (Suc 0) w (Inl e) w2"
| retried: "call w = (Inl (Rpc err), w1) \<Longrightarrow> rpc_code err \<in> codes
     \<Longrightarrow> pause tm p b w1 = (Inr u, w2)
     \<Longrightarrow> call_run tm p codes call (next_backoff p b) n w2 r w'
     \<Longrightarrow> call_run tm p codes call b (Suc n) w r w'"

lemma retry_loop_call_run:
  assumes "attempt \<le> rp_max_attempts p" and "retry_loop tm p codes call attempt b w = (r, w')"
  shows "\<exists>n. call_run tm p codes call b n w r w' \<and> 1 \<le> n
           \<and> int n \<le> rp_max_attempts p - attempt + 1
           \<and> (\<forall>err. r = Inl (Rpc err) \<and> rpc_code err \<in> codes
                \<longrightarrow> int n = rp_max_attempts p - attempt + 1)"
  using assms
proof (induction "nat (rp_max_attempts p - attempt)" arbitrary: attempt b w rule: less_induct)
  case less
  note IH = less.hyps and le = less.prems(1) and eq = less.prems(2)
  obtain c w1 where c: "call w = (c, w1)" by (cases "call w")
  show ?case
  proof (cases "\<exists>err. c = Inl (Rpc err) \<and> attempt < rp_max_attempts p \<and> rpc_code err \<in> codes")
    case False
    then have "retry_loop tm p codes call attempt b w = (c, w1)"
      by (subst retry_loop.simps) (auto simp: c split: sum.splits py_exn.splits)
    with eq have r: "r = c" "w' = w1" by simp_all
    have "call_run tm p codes call b 1 w r w'" using c r by (simp add: last_call)
    with False le r show ?thesis by (intro exI [of _ 1]) auto
  next
    case True
    then obtain err where err: "c = Inl (Rpc err)" "attempt < rp_max_attempts p"
        "rpc_code err \<in> codes" by blast
    obtain s w2 where s: "pause tm p b w1 = (s, w2)" by (cases "pause tm p b w1")
    show ?thesis
    proof (cases s)
      case (Inl e)
      then have "retry_loop tm p codes call attempt b w = (Inl e, w2)"
        using err s by (subst retry_loop.simps) (simp add: c)
      with eq have r: "r = Inl e" "w' = w2" by simp_all
      have run: "call_run tm p codes call b 1 w r w'"
        using interrupted [of call w err w1 codes tm p b e w2] c err s Inl r by simp
      have "e = CancelledError" using pause_Inl [of tm p b w1 e w2] s Inl by simp
      with run err r show ?thesis by (intro exI [of _ 1]) auto
    next
      case (Inr u)
      then have "retry_loop tm p codes call (attempt + 1) (next_backoff p b) w2 = (r, w')"
        using err s eq by (subst (asm) retry_loop.simps) (simp add: c)
      then obtain n where n: "call_run tm p codes call (next_backoff p b) n w2 r w'" "1 \<le> n"
          "int n \<le> rp_max_attempts p - (attempt + 1) + 1"
          "\<forall>err. r = Inl (Rpc err) \<and> rpc_code err \<in> codes
             \<longrightarrow> int n = rp_max_attempts p - (attempt + 1) + 1"
        using IH [of "attempt + 1" "next_backoff p b" w2] err(2) by auto
      have "call_run tm p codes call b (Suc n) w r w'"
        using c err s Inr n(1) by (auto intro: retried)
      with n show ?thesis by (intro exI [of _ "Suc n"]) auto
    qed
  qed
qed

text \<open>With a single attempt, and after an error that is not retryable, there is one call and no pause.\<close>

lemma with_retry_once:
  assumes "rp_max_attempts p \<le> 1"
  shows "with_retry tm p codes call w = call w"
  unfolding with_retry_def using assms
  by (subst retry_loop.simps) (auto split: prod.splits sum.splits py_exn.splits)

lemma with_retry_final:
  assumes "call w = (r, w')" and "\<And>err. r = Inl (Rpc err) \<Longrightarrow> rpc_code err \<notin> codes"
  shows "with_retry tm p codes call w = (r, w')"
  unfolding with_retry_def using assms
  by (subst retry_loop.simps) (auto split: sum.splits py_exn.splits)

lemma with_retry_call_run:
  assumes "policy_ok p" and "with_retry tm p codes call w = (r, w')"
  shows "\<exists>n. call_run tm p codes call (rp_initial_backoff p) n w r w' \<and> 1 \<le> n
           \<and> int n \<le> rp_max_attempts p
           \<and> (\<forall>err. r = Inl (Rpc err) \<and> rpc_code err \<in> codes \<longrightarrow> int n = rp_max_attempts p)"
  using retry_loop_call_run [of 1 p tm codes call "rp_initial_backoff p" w r w'] assms
  by (auto simp: policy_ok_def with_retry_def)

text \<open>A run gives a result of the call, or the cancellation of a pause.\<close>

lemma call_run_result:
  "call_run tm p codes call b n w r w' \<Longrightarrow> r = Inl CancelledError \<or> (\<exists>v. call v = (r, w'))"
  by (induction rule: call_run.induct) (auto dest: pause_Inl)

text \<open>An invariant of the world that the call, the clock and the random source keep.\<close>

definition timer_keeps :: "('w \<Rightarrow> bool) \<Rightarrow> 'w timer \<Rightarrow> bool" where
  "timer_keeps P tm \<longleftrightarrow> (\<forall>w. P w \<longrightarrow> P (snd (tm_random tm w)))
     \<and> (\<forall>d w. P w \<longrightarrow> P (snd (tm_sleep tm d w)))"

lemma pause_keeps:
  assumes "timer_keeps P tm" and "P w"
  shows "P (snd (pause tm p b w))"
proof -
  obtain d v where d: "retry_delay tm p b w = (d, v)" by (cases "retry_delay tm p b w")
  have "P v"
    using assms d by (cases "tm_random tm w")
      (auto simp: retry_delay_def timer_keeps_def dest!: spec [of _ w] split: if_splits)
  then have "P (snd (tm_sleep tm d v))" using assms(1) by (simp add: timer_keeps_def)
  then show ?thesis by (auto simp: pause_def d split: prod.splits)
qed

lemma call_run_keeps:
  assumes "timer_keeps P tm" and "\<And>v. P v \<Longrightarrow> P (snd (call v))"
    and "call_run tm p codes call b n w r w'" and "P w"
  shows "P w'"
  using assms(3,4)
proof (induction rule: call_run.induct)
  case (last_call w r w' b)
  then show ?case using assms(2) [of w] by simp
next
  case (interrupted w err w1 b e w2)
  then show ?case using assms(2) [of w] pause_keeps [OF assms(1), of w1 p b] by simp
next
  case (retried w err w1 b u w2 n r w')
  then show ?case using assms(2) [of w] pause_keeps [OF assms(1), of w1 p b] by simp
qed

section \<open>The backoff sequence and the jitter\<close>

lemma next_backoff_le_max:
  assumes "policy_ok p" and "0 \<le> b" and "0 \<le> rp_max_backoff p" and "rp_max_backoff p \<le> exact_td"
  shows "next_backoff p b \<le> rp_max_backoff p"
proof -
  let ?x = "min (rnd (total_seconds b * rp_multiplier p)) (total_seconds (rp_max_backoff p))"
  have "0 \<le> ?x"
    using assms by (simp add: policy_ok_def rnd_nonneg total_seconds_nonneg)
  then have "timedelta_seconds ?x \<le> timedelta_seconds (total_seconds (rp_max_backoff p))"
    by (rule timedelta_seconds_mono) simp
  then show ?thesis using assms by (simp add: next_backoff_def timedelta_seconds_total_seconds)
qed

lemma next_backoff_ge:
  assumes "policy_ok p" and "0 \<le> b" and "b \<le> rp_max_backoff p" and "rp_max_backoff p \<le> exact_td"
  shows "b \<le> next_backoff p b"
proof -
  let ?x = "min (rnd (total_seconds b * rp_multiplier p)) (total_seconds (rp_max_backoff p))"
  have "total_seconds b * 1 \<le> total_seconds b * rp_multiplier p"
    using assms by (intro mult_left_mono) (simp_all add: policy_ok_def total_seconds_nonneg)
  then have "total_seconds b \<le> rnd (total_seconds b * rp_multiplier p)"
    by (intro rnd_ge_float) (simp_all add: total_seconds_is_float)
  then have "total_seconds b \<le> ?x" using assms by (simp add: total_seconds_mono)
  then have "timedelta_seconds (total_seconds b) \<le> timedelta_seconds ?x"
    using assms by (intro timedelta_seconds_mono) (simp_all add: total_seconds_nonneg)
  then show ?thesis using assms by (simp add: next_backoff_def timedelta_seconds_total_seconds)
qed

lemma backoff_iterates:
  assumes "policy_ok p" and "0 \<le> b" and "b \<le> rp_max_backoff p" and "rp_max_backoff p \<le> exact_td"
  shows "b \<le> (next_backoff p ^^ k) b \<and> (next_backoff p ^^ k) b \<le> rp_max_backoff p"
proof (induction k)
  case 0
  then show ?case using assms by simp
next
  case (Suc k)
  then show ?case
    using assms next_backoff_ge [of p "(next_backoff p ^^ k) b"]
      next_backoff_le_max [of p "(next_backoff p ^^ k) b"] by simp
qed

lemma half_is_float: "is_float (1/2)"
  using is_float_half [of 1] is_float_int [of 1] by simp

lemma jittered_bounds:
  assumes "is_float d" and "0 \<le> d" and "is_float r" and "0 \<le> r" and "r \<le> 1"
  shows "d / 2 \<le> jittered d r" and "jittered d r \<le> d"
proof -
  let ?h = "rnd (1/2 * r)" and ?f = "rnd (1/2 + rnd (1/2 * r))"
  have h: "0 \<le> ?h" "?h \<le> 1/2"
    using assms rnd_le_float [of "1/2 * r" "1/2"] half_is_float by (simp_all add: rnd_nonneg)
  have f: "1/2 \<le> ?f" "?f \<le> 1"
    using h is_float_int [of 1] rnd_ge_float [of "1/2" "1/2 + ?h"] rnd_le_float [of "1/2 + ?h" 1]
      half_is_float by simp_all
  have "d * (1/2) \<le> d * ?f" "d * ?f \<le> d * 1"
    using f assms(2) by (intro mult_left_mono; simp)+
  then show "d / 2 \<le> jittered d r" "jittered d r \<le> d"
    using assms(1) rnd_ge_float [of "d / 2" "d * ?f"] rnd_le_float [of "d * ?f" d]
    by (simp_all add: jittered_def is_float_half)
qed

text \<open>The upper end is reached: the largest value \<open>random()\<close> returns leaves the delay whole.\<close>

lemma jittered_top:
  assumes "is_float d"
  shows "jittered d (1 - 1 / 2 ^ 53) = d"
proof -
  have "rnd (1/2 + rnd (1/2 * (1 - 1 / 2 ^ 53))) = 1" by code_simp
  then show ?thesis using assms by (simp add: jittered_def rnd_float)
qed

section \<open>A concrete timer and call\<close>

text \<open>The world of the examples is the log of what was done to it.\<close>

definition sample_timer :: "string list timer" where
  "sample_timer =
     \<lparr>tm_random = (\<lambda>w. (1/2, w)), tm_sleep = (\<lambda>d w. (False, w @ [''sleep'']))\<rparr>"

text \<open>A call that fails with \<open>UNAVAILABLE\<close> the first \<open>k\<close> times.\<close>

definition flaky_call :: "nat \<Rightarrow> (string list, py_exn, int) io" where
  "flaky_call k w =
     (if length (filter ((=) ''call'') w) < k
      then Inl (Rpc \<lparr>rpc_code = UNAVAILABLE, rpc_details = None\<rparr>) else Inr 7, w @ [''call''])"

definition sample_policy :: retry_policy where
  "sample_policy = retry_policy_new 3 (milliseconds 100) (seconds 10) 2 False"

lemma sample_policy_ok: "policy_ok sample_policy" "policy_ok default_retry_policy"
  by (simp_all add: sample_policy_def default_retry_policy_def retry_policy_new_ok)

lemma flaky_call_retried:
  "with_retry sample_timer sample_policy RETRYABLE_CODES (flaky_call 1) []
     = (Inr 7, [''call'', ''sleep'', ''call''])"
  by (simp add: with_retry_def retry_loop.simps flaky_call_def sample_policy_def retry_policy_new_def
      pause_def retry_delay_def sample_timer_def RETRYABLE_CODES_def)

section \<open>Properties\<close>

text \<open>
  C10: a retried call returns after at least one and at most \<open>max_attempts\<close> calls:
  it calls again only after a retryable code and a completed pause, with the next backoff each
  time, returns the first success or other error at once, and reports a retryable code only with
  the attempts used up.
\<close>

theorem with_retry_bounded:
  assumes "policy_ok p"
  shows "\<exists>n. call_run tm p codes call (rp_initial_backoff p) n w
               (fst (with_retry tm p codes call w)) (snd (with_retry tm p codes call w))
           \<and> 1 \<le> n \<and> int n \<le> rp_max_attempts p
           \<and> (\<forall>err. fst (with_retry tm p codes call w) = Inl (Rpc err) \<and> rpc_code err \<in> codes
                \<longrightarrow> int n = rp_max_attempts p)"
  using with_retry_call_run [OF assms, of tm codes call w] by simp

theorem with_retry_bounded_witness:
  "\<exists>n. call_run sample_timer sample_policy RETRYABLE_CODES (flaky_call 1) (milliseconds 100) n []
         (Inr 7) [''call'', ''sleep'', ''call''] \<and> int n \<le> 3"
proof -
  have "rp_max_attempts sample_policy = 3" "rp_initial_backoff sample_policy = milliseconds 100"
    by (simp_all add: sample_policy_def retry_policy_new_def)
  then show ?thesis
    using with_retry_bounded [OF sample_policy_ok(1), of sample_timer RETRYABLE_CODES
        "flaky_call 1" "[]"]
    unfolding flaky_call_retried by auto
qed

text \<open>
  C33: for a policy whose initial backoff is not above its maximum, the backoffs never shrink
  and never pass the maximum, with the rounding of the floating-point seconds taken into account
  (up to \<open>exact_td\<close>, 2 to the 51 microseconds, about 71 years).
\<close>

theorem backoff_grows_to_cap:
  assumes "p = retry_policy_new n initial cap k jit" and "0 \<le> initial" and "initial \<le> cap"
    and "cap \<le> exact_td"
  shows "initial \<le> (next_backoff p ^^ i) initial
    \<and> (next_backoff p ^^ i) initial \<le> (next_backoff p ^^ Suc i) initial
    \<and> (next_backoff p ^^ Suc i) initial \<le> cap"
proof -
  have ok: "policy_ok p" "rp_max_backoff p = cap"
    using assms(1) by (simp_all add: retry_policy_new_ok) (simp add: retry_policy_new_def)
  have it: "initial \<le> (next_backoff p ^^ m) initial" "(next_backoff p ^^ m) initial \<le> cap" for m
    using backoff_iterates [OF ok(1) assms(2), of m] assms(3,4) ok(2) by auto
  have "(next_backoff p ^^ i) initial \<le> next_backoff p ((next_backoff p ^^ i) initial)"
    using next_backoff_ge [OF ok(1)] it [of i] assms(2,4) ok(2) by auto
  then show ?thesis using it(1) [of i] it(2) [of "Suc i"] by simp
qed

theorem backoff_grows_to_cap_witness:
  "(next_backoff default_retry_policy ^^ Suc 4) (milliseconds 100) \<le> seconds 10"
  using backoff_grows_to_cap [OF default_retry_policy_def, of 4]
  by (simp add: milliseconds_def seconds_def exact_td_def)

text \<open>
  C39: the jittered delay lies between half of the backoff and the whole of it for every float
  that \<open>random()\<close> can return, and the whole is reached: for the largest value below
  1, rounding leaves the delay as it is.
\<close>

theorem jitter_halves_at_most:
  assumes "is_float r" and "0 \<le> r" and "r < 1" and "0 \<le> backoff"
  shows "total_seconds backoff / 2 \<le> jittered (total_seconds backoff) r
    \<and> jittered (total_seconds backoff) r \<le> total_seconds backoff
    \<and> jittered (total_seconds backoff) (1 - 1 / 2 ^ 53) = total_seconds backoff"
  using jittered_bounds [OF total_seconds_is_float total_seconds_nonneg, of backoff r]
    jittered_top [OF total_seconds_is_float] assms by simp

theorem jitter_halves_at_most_witness:
  "jittered (total_seconds (milliseconds 100)) (1/2) \<le> total_seconds (milliseconds 100)"
  using jitter_halves_at_most [OF half_is_float, of "milliseconds 100"] by (simp add: milliseconds_def)

end
