(* ===== verification/Sepp_Client.thy ===== *)
theory Sepp_Client
  imports Sepp_Retry
begin

text \<open>
  \<open>SeppClient\<close>, \<open>Lease\<close> and \<open>RetryDirective\<close> of \<^verbatim>\<open>src/sepp/client.py\<close>, and \<open>JobCtx.extend\<close> of
  \<^verbatim>\<open>src/sepp/types.py\<close>. The generated stub, the channel, OpenTelemetry, the protobuf runtime and the
  clock are the record \<open>env\<close>, a parameter of every operation; a stub call takes the request, the
  deadline in seconds and the call metadata. Every RPC method is a coroutine: a function of the
  world into a result and the world after it.
\<close>

section \<open>The environment\<close>

datatype channel_option = IntOption int | StrOption string

datatype channel_credentials = GivenCredentials string | SslCredentials "bytes option"

record channel_spec =
  ch_target :: string
  ch_credentials :: "channel_credentials option"
  ch_options :: "(string \<times> channel_option) list"

type_synonym ('w, 'r, 'a) stub = "'r \<Rightarrow> rat \<Rightarrow> carrier \<Rightarrow> ('w, py_exn, 'a) io"

record ('w, 'c) env = "('w, 'c) otel" +
  en_rt :: pb_runtime
  en_timer :: "'w timer"
  en_version :: string
  en_channel_ready :: "channel_spec \<Rightarrow> rat \<Rightarrow> ('w, py_exn, unit) io"
  en_channel_close :: "channel_spec \<Rightarrow> 'w \<Rightarrow> 'w"
  en_EnqueueBatch :: "('w, pb_enqueue_request list, pb_job_result list) stub"
  en_EnqueueAtomic :: "('w, pb_enqueue_request list, pb_atomic_outcome option) stub"
  en_Reserve :: "('w, pb_reserve_request, pb_job list) stub"
  en_Ack :: "('w, pb_ack_request, unit) stub"
  en_Nack :: "('w, pb_nack_request, pb_nack_response) stub"
  en_Extend :: "('w, pb_extend_request, pb_extend_response) stub"
  en_GetServerInfo :: "('w, unit, pb_server_info) stub"
  en_DrainDeadLetters :: "('w, pb_drain_request, pb_dead_letter_record list) stub"

section \<open>The client and its construction\<close>

definition RESERVE_DEADLINE_SLACK :: timedelta where "RESERVE_DEADLINE_SLACK = seconds 10"
definition DEFAULT_CONNECT_TIMEOUT :: timedelta where "DEFAULT_CONNECT_TIMEOUT = seconds 5"
definition DEFAULT_RPC_TIMEOUT :: timedelta where "DEFAULT_RPC_TIMEOUT = seconds 30"

record client =
  cl_retry_policy :: retry_policy
  cl_auth_metadata :: carrier
  cl_rpc_timeout :: rat

definition client_new :: "retry_policy option \<Rightarrow> carrier option \<Rightarrow> timedelta \<Rightarrow> client" where
  "client_new policy auth_metadata rpc_timeout =
     \<lparr>cl_retry_policy = (case policy of None \<Rightarrow> default_retry_policy | Some p \<Rightarrow> p),
      cl_auth_metadata = (case auth_metadata of None \<Rightarrow> [] | Some m \<Rightarrow> m),
      cl_rpc_timeout = total_seconds rpc_timeout\<rparr>"

definition from_channel :: "retry_policy option \<Rightarrow> timedelta \<Rightarrow> client" where
  "from_channel policy rpc_timeout = client_new policy None rpc_timeout"

definition normalize_target :: "string \<Rightarrow> string \<times> bool" where
  "normalize_target addr =
     (if startswith ''http://'' addr then (drop 7 addr, False)
      else if startswith ''https://'' addr then (drop 8 addr, True)
      else (addr, False))"

definition is_ascii :: "string \<Rightarrow> bool" where
  "is_ascii s \<longleftrightarrow> list_all (\<lambda>c. (of_char c :: nat) < 128) s"

definition auth_metadata_for :: "string option \<Rightarrow> sepp_error + carrier" where
  "auth_metadata_for api_key =
     (case api_key of
        None \<Rightarrow> Inr []
      | Some key \<Rightarrow>
          if CHR 0x0A \<in> set key \<or> CHR 0x0D \<in> set key then Inl InvalidApiKeyError
          else if \<not> is_ascii key then Inl InvalidApiKeyError
          else Inr [(''authorization'', ''Bearer '' @ key)])"

definition CHANNEL_OPTIONS :: "string \<Rightarrow> (string \<times> channel_option) list" where
  "CHANNEL_OPTIONS version =
     [(''grpc.keepalive_time_ms'', IntOption 30000),
      (''grpc.keepalive_timeout_ms'', IntOption 10000),
      (''grpc.keepalive_permit_without_calls'', IntOption 1),
      (''grpc.primary_user_agent'', StrOption (''sepp-py/'' @ version))]"

record connect_options =
  co_api_key :: "string option"
  co_retry_policy :: "retry_policy option"
  co_tls :: bool
  co_tls_ca_cert :: "bytes option"
  co_tls_domain :: "string option"
  co_credentials :: "string option"
  co_connect_timeout :: timedelta
  co_rpc_timeout :: timedelta
  co_max_receive_message_bytes :: "int option"

definition channel_for :: "string \<Rightarrow> string \<Rightarrow> connect_options \<Rightarrow> channel_spec" where
  "channel_for version addr opts =
     (let (target, scheme_is_tls) = normalize_target addr;
          use_tls = co_tls opts \<or> scheme_is_tls \<or> co_tls_ca_cert opts \<noteq> None
                    \<or> co_tls_domain opts \<noteq> None
      in \<lparr>ch_target = target,
          ch_credentials = (case co_credentials opts of
             Some creds \<Rightarrow> Some (GivenCredentials creds)
           | None \<Rightarrow> if use_tls then Some (SslCredentials (co_tls_ca_cert opts)) else None),
          ch_options = CHANNEL_OPTIONS version
            @ (case co_tls_domain opts of None \<Rightarrow> []
               | Some d \<Rightarrow> [(''grpc.ssl_target_name_override'', StrOption d)])
            @ (case co_max_receive_message_bytes opts of None \<Rightarrow> []
               | Some n \<Rightarrow> [(''grpc.max_receive_message_length'', IntOption n)])\<rparr>)"

text \<open>Why the wait for the channel failed: \<open>err.details() or "connection failed"\<close>, or a timeout.\<close>

definition connect_failure :: "string \<Rightarrow> py_exn \<Rightarrow> sepp_error option" where
  "connect_failure addr e =
     (case e of
        Rpc err \<Rightarrow> Some (ConnectError addr
          (if details_or_empty err = '''' then ''connection failed'' else details_or_empty err))
      | Py TimeoutError \<Rightarrow> Some (ConnectError addr ''timed out'')
      | _ \<Rightarrow> None)"

definition connect ::
    "('w, 'c, 'z) env_scheme \<Rightarrow> string \<Rightarrow> connect_options
     \<Rightarrow> ('w, py_exn, client \<times> channel_spec) io" where
  "connect env addr opts =
     (case auth_metadata_for (co_api_key opts) of
        Inl e \<Rightarrow> io_raise (Sepp e)
      | Inr auth_metadata \<Rightarrow>
          (\<lambda>w. let channel = channel_for (en_version env) addr opts in
           case en_channel_ready env channel (total_seconds (co_connect_timeout opts)) w of
             (Inl e, w') \<Rightarrow>
               (case connect_failure addr e of
                  None \<Rightarrow> (Inl e, w')
                | Some ce \<Rightarrow> (Inl (Sepp ce), en_channel_close env channel w'))
           | (Inr _, w') \<Rightarrow>
               (Inr (client_new (co_retry_policy opts) (Some auth_metadata) (co_rpc_timeout opts),
                     channel), w')))"

section \<open>Call metadata and trace injection\<close>

text \<open>\<open>_VERSION\<close>: what \<open>importlib.metadata\<close> says, if it can be imported and knows the package.\<close>

datatype version_lookup = VersionFound string | PackageNotFoundError | NoImportlibMetadata

definition client_version :: "version_lookup \<Rightarrow> string" where
  "client_version found =
     (case found of VersionFound v \<Rightarrow> v | PackageNotFoundError \<Rightarrow> ''0.1.0''
      | NoImportlibMetadata \<Rightarrow> ''0.1.0'')"

text \<open>
  \<open>close\<close> closes the channel. As a context manager (\<open>__aenter__\<close>, \<open>__aexit__\<close>) the client gives itself
  to the body and is closed when the body ends, whatever it returns or raises.
\<close>

definition close_client ::
    "('w, 'c, 'z) env_scheme \<Rightarrow> channel_spec \<Rightarrow> ('w, py_exn, unit) io" where
  "close_client env channel = (\<lambda>w. (Inr (), en_channel_close env channel w))"

definition client_aenter :: "client \<Rightarrow> ('w, py_exn, client) io" where
  "client_aenter c = io_return c"

definition client_aexit ::
    "('w, 'c, 'z) env_scheme \<Rightarrow> channel_spec \<Rightarrow> ('w, py_exn, unit) io" where
  "client_aexit env channel = close_client env channel"

definition with_client ::
    "('w, 'c, 'z) env_scheme \<Rightarrow> channel_spec \<Rightarrow> client \<Rightarrow> (client \<Rightarrow> ('w, py_exn, 'a) io)
     \<Rightarrow> ('w, py_exn, 'a) io" where
  "with_client env channel c body =
     io_bind (client_aenter c) (\<lambda>c'. \<lambda>w.
       case body c' w of (r, w') \<Rightarrow>
         (case client_aexit env channel w' of
            (Inr _, w'') \<Rightarrow> (r, w'')
          | (Inl e, w'') \<Rightarrow> (Inl e, w'')))"

lemma with_client_closes:
  "with_client env channel c body w =
     (fst (body c w), en_channel_close env channel (snd (body c w)))"
  by (simp add: with_client_def client_aenter_def client_aexit_def close_client_def io_bind_apply
      io_return_def split: prod.splits)

definition call_metadata :: "('w, 'c, 'z) env_scheme \<Rightarrow> client \<Rightarrow> 'w \<Rightarrow> carrier" where
  "call_metadata env c w = inject_context_metadata env (cl_auth_metadata c) w"

definition inject_trace :: "string \<times> string option \<Rightarrow> pb_enqueue_request \<Rightarrow> pb_enqueue_request" where
  "inject_trace headers job =
     (if pbe_trace_context job \<noteq> None then job
      else job\<lparr>pbe_trace_context := Some
        \<lparr>pbt_traceparent = fst headers,
         pbt_tracestate = (if snd headers = Some '''' then None else snd headers)\<rparr>\<rparr>)"

definition inject_trace_into_jobs ::
    "('w, 'c, 'z) env_scheme \<Rightarrow> 'w \<Rightarrow> pb_enqueue_request list \<Rightarrow> pb_enqueue_request list" where
  "inject_trace_into_jobs env w pb_jobs =
     (case current_trace_headers env w of
        None \<Rightarrow> pb_jobs
      | Some headers \<Rightarrow> map (inject_trace headers) pb_jobs)"

definition enqueue_retryable_codes :: "pb_enqueue_request list \<Rightarrow> status_code set" where
  "enqueue_retryable_codes pb_jobs =
     (if list_all (\<lambda>j. pbe_idempotency_key j \<noteq> None) pb_jobs then RETRYABLE_CODES
      else KEYLESS_ENQUEUE_RETRYABLE_CODES)"

section \<open>The shape of a unary call\<close>

text \<open>\<open>except grpc.aio.AioRpcError as err: raise f(err) from err\<close>.\<close>

definition map_rpc ::
    "(rpc_error \<Rightarrow> sepp_error) \<Rightarrow> ('w, py_exn, 'a) io \<Rightarrow> ('w, py_exn, 'a) io" where
  "map_rpc f m = io_catch m (\<lambda>e. case e of Rpc err \<Rightarrow> io_raise (Sepp (f err)) | _ \<Rightarrow> io_raise e)"

text \<open>A stub call of the client: the metadata is built anew for each attempt.\<close>

definition stub_call ::
    "('w, 'c, 'z) env_scheme \<Rightarrow> client \<Rightarrow> ('w, 'r, 'a) stub \<Rightarrow> 'r \<Rightarrow> ('w, py_exn, 'a) io" where
  "stub_call env c stub req = (\<lambda>w. stub req (cl_rpc_timeout c) (call_metadata env c w) w)"

definition retried_call ::
    "('w, 'c, 'z) env_scheme \<Rightarrow> client \<Rightarrow> status_code set \<Rightarrow> ('w, 'r, 'a) stub \<Rightarrow> 'r
     \<Rightarrow> ('w, py_exn, 'a) io" where
  "retried_call env c codes stub req =
     with_retry (en_timer env) (cl_retry_policy c) codes (stub_call env c stub req)"

section \<open>Enqueuing\<close>

datatype enqueue_result = Accepted enqueue_ack | Refused job_rejection

definition job_result_from_pb :: "pb_runtime \<Rightarrow> pb_job_result \<Rightarrow> py_exn + enqueue_result" where
  "job_result_from_pb rt jr =
     (case jr of
        Some (JobSuccess r) \<Rightarrow> Inr (Accepted (enqueue_ack_from_pb r))
      | Some (JobRejected r) \<Rightarrow>
          bind_res (lift_py (job_rejection_from_pb rt r)) (\<lambda>rej. Inr (Refused rej))
      | None \<Rightarrow> Inl (Sepp (MalformedResponseError ''missing outcome in job result'')))"

definition batch_results ::
    "pb_runtime \<Rightarrow> nat \<Rightarrow> pb_job_result list \<Rightarrow> py_exn + enqueue_result list" where
  "batch_results rt n results =
     (if length results \<noteq> n
      then Inl (Sepp (BatchResultCountMismatchError (int n) (int (length results))))
      else traverse (job_result_from_pb rt) results)"

definition enqueue_batch ::
    "('w, 'c, 'z) env_scheme \<Rightarrow> client \<Rightarrow> enqueue_request list
     \<Rightarrow> ('w, py_exn, enqueue_result list) io" where
  "enqueue_batch env c jobs =
     io_bind (io_lift (lift_py (traverse (enqueue_request_to_pb (en_rt env)) jobs))) (\<lambda>pb_jobs.
     if pb_jobs = [] then io_raise (Sepp EmptyBatchError)
     else io_bind
       (client_span env ''sepp.enqueue'' (\<lambda>w.
          let req = inject_trace_into_jobs env w pb_jobs
          in map_rpc client_error_from_rpc
               (retried_call env c (enqueue_retryable_codes req) (en_EnqueueBatch env) req) w))
       (\<lambda>results. io_lift (batch_results (en_rt env) (length pb_jobs) results)))"

definition enqueue ::
    "('w, 'c, 'z) env_scheme \<Rightarrow> client \<Rightarrow> enqueue_request \<Rightarrow> ('w, py_exn, enqueue_ack) io" where
  "enqueue env c job =
     io_bind (enqueue_batch env c [job]) (\<lambda>results. case results of
        [] \<Rightarrow> io_raise (Py (IndexError ''list index out of range''))
      | Refused rej # _ \<Rightarrow> io_raise (Sepp (JobRejectedError rej))
      | Accepted ack # _ \<Rightarrow> io_return ack)"

definition atomic_results ::
    "pb_runtime \<Rightarrow> nat \<Rightarrow> pb_atomic_outcome option \<Rightarrow> py_exn + enqueue_ack list" where
  "atomic_results rt n outcome =
     (case outcome of
        Some (AtomicSuccess responses) \<Rightarrow>
          if length responses \<noteq> n
          then Inl (Sepp (BatchResultCountMismatchError (int n) (int (length responses))))
          else Inr (map enqueue_ack_from_pb responses)
      | Some (AtomicRejection errs) \<Rightarrow>
          bind_res (lift_py (traverse (job_validation_error_from_pb rt) errs))
            (\<lambda>es. Inl (Sepp (BatchValidationError es)))
      | None \<Rightarrow>
          Inl (Sepp (MalformedResponseError ''missing outcome in EnqueueAtomicResponse'')))"

definition enqueue_atomic ::
    "('w, 'c, 'z) env_scheme \<Rightarrow> client \<Rightarrow> enqueue_request list
     \<Rightarrow> ('w, py_exn, enqueue_ack list) io" where
  "enqueue_atomic env c jobs =
     io_bind (io_lift (lift_py (traverse (enqueue_request_to_pb (en_rt env)) jobs))) (\<lambda>pb_jobs.
     if pb_jobs = [] then io_raise (Sepp EmptyBatchError)
     else io_bind
       (client_span env ''sepp.enqueue_atomic'' (\<lambda>w.
          let req = inject_trace_into_jobs env w pb_jobs
          in map_rpc client_error_from_rpc
               (retried_call env c (enqueue_retryable_codes req) (en_EnqueueAtomic env) req) w))
       (\<lambda>outcome. io_lift (atomic_results (en_rt env) (length pb_jobs) outcome)))"

section \<open>Reserving and draining\<close>

text \<open>Decoding a repeated field: a malformed entry is logged and skipped.\<close>

fun decode_skipping :: "('a \<Rightarrow> py_exn + 'b) \<Rightarrow> 'a list \<Rightarrow> py_exn + 'b list" where
  "decode_skipping dec [] = Inr []"
| "decode_skipping dec (x # xs) =
     (case dec x of
        Inr y \<Rightarrow> bind_res (decode_skipping dec xs) (\<lambda>ys. Inr (y # ys))
      | Inl (Sepp (JobConversionError _)) \<Rightarrow> decode_skipping dec xs
      | Inl e \<Rightarrow> Inl e)"

text \<open>
  The request and the deadline of a reserve, the wait with some slack; the sum may be no \<open>timedelta\<close>.
\<close>

definition reserve_request ::
    "pb_runtime \<Rightarrow> reserve_options \<Rightarrow> py_error + pb_reserve_request \<times> rat" where
  "reserve_request rt opts =
     bind_res (reserve_options_to_pb rt opts) (\<lambda>req.
     bind_res (timedelta_add (ro_wait_timeout opts) RESERVE_DEADLINE_SLACK) (\<lambda>t.
       Inr (req, total_seconds t)))"

definition reserve ::
    "('w, 'c, 'z) env_scheme \<Rightarrow> client \<Rightarrow> reserve_options \<Rightarrow> ('w, py_exn, job list option) io" where
  "reserve env c opts =
     io_bind (io_lift (lift_py (reserve_request (en_rt env) opts))) (\<lambda>(req, timeout).
     io_bind
       (client_span env ''sepp.reserve'' (map_rpc reserve_error_from_rpc
          (\<lambda>w. en_Reserve env req timeout (call_metadata env c w) w)))
       (\<lambda>pb_jobs. io_lift
          (bind_res (decode_skipping (\<lambda>j. job_from_pb (en_rt env) j (ro_worker_id opts)) pb_jobs)
             (\<lambda>jobs. Inr (if jobs = [] then None else Some jobs)))))"

definition drain_request ::
    "pb_runtime \<Rightarrow> string option \<Rightarrow> int \<Rightarrow> py_error + pb_drain_request" where
  "drain_request rt queue max_records =
     bind_res (rt_uint32 rt (max max_records 1)) (\<lambda>n.
       Inr \<lparr>pbdr_queue = queue, pbdr_max = Some n\<rparr>)"

definition drain_dead_letters ::
    "('w, 'c, 'z) env_scheme \<Rightarrow> client \<Rightarrow> string option \<Rightarrow> int
     \<Rightarrow> ('w, py_exn, dead_letter_record list) io" where
  "drain_dead_letters env c queue max_records =
     io_bind (io_lift (lift_py (drain_request (en_rt env) queue max_records))) (\<lambda>req.
     io_bind
       (client_span env ''sepp.drain_dead_letters'' (map_rpc client_error_from_rpc
          (stub_call env c (en_DrainDeadLetters env) req)))
       (\<lambda>records. io_lift (decode_skipping (dead_letter_record_from_pb (en_rt env)) records)))"

section \<open>Acknowledging\<close>

definition ctx_worker_id :: "job_ctx \<Rightarrow> string option" where
  "ctx_worker_id ctx = (case jc_lease ctx of None \<Rightarrow> None | Some l \<Rightarrow> ls_worker_id l)"

definition ack_request :: "pb_runtime \<Rightarrow> job_ctx \<Rightarrow> py_error + pb_ack_request" where
  "ack_request rt ctx =
     bind_res (rt_uint32 rt (jc_attempt ctx)) (\<lambda>attempt.
       Inr \<lparr>pba_job_id = jc_id ctx, pba_attempt = attempt, pba_worker_id = ctx_worker_id ctx\<rparr>)"

definition ack :: "('w, 'c, 'z) env_scheme \<Rightarrow> client \<Rightarrow> job_ctx \<Rightarrow> ('w, py_exn, unit) io" where
  "ack env c ctx =
     io_bind (io_lift (lift_py (ack_request (en_rt env) ctx))) (\<lambda>req.
       client_span env ''sepp.ack'' (map_rpc lease_error_from_rpc
         (retried_call env c RETRYABLE_CODES (en_Ack env) req)))"

record retry_directive =
  rd_kind :: string
  rd_delay :: "timedelta option"

definition RetryDirective_default :: retry_directive where
  "RetryDirective_default = \<lparr>rd_kind = ''default'', rd_delay = None\<rparr>"

definition RetryDirective_after :: "timedelta \<Rightarrow> retry_directive" where
  "RetryDirective_after delay = \<lparr>rd_kind = ''after'', rd_delay = Some delay\<rparr>"

definition RetryDirective_dead_letter :: retry_directive where
  "RetryDirective_dead_letter = \<lparr>rd_kind = ''dead_letter'', rd_delay = None\<rparr>"

definition nack_retry :: "pb_runtime \<Rightarrow> retry_directive \<Rightarrow> py_error + pb_nack_retry" where
  "nack_retry rt retry =
     (if rd_kind retry = ''after'' then
        (case rd_delay retry of
           None \<Rightarrow> Inl AssertionError
         | Some delay \<Rightarrow> bind_res (rt_FromTimedelta rt delay) (\<lambda>d. Inr (RetryDelay d)))
      else if rd_kind retry = ''dead_letter'' then Inr RetryDeadLetter
      else Inr RetryDefault)"

definition nack_request ::
    "pb_runtime \<Rightarrow> job_ctx \<Rightarrow> retry_directive \<Rightarrow> string \<Rightarrow> py_error + pb_nack_request" where
  "nack_request rt ctx retry reason =
     bind_res (nack_retry rt retry) (\<lambda>r.
     bind_res (rt_uint32 rt (jc_attempt ctx)) (\<lambda>attempt. Inr
       \<lparr>pbn_job_id = jc_id ctx, pbn_attempt = attempt,
        pbn_reason = (if reason = '''' then None else Some reason), pbn_retry = Some r,
        pbn_worker_id = ctx_worker_id ctx\<rparr>))"

definition nack ::
    "('w, 'c, 'z) env_scheme \<Rightarrow> client \<Rightarrow> job_ctx \<Rightarrow> retry_directive \<Rightarrow> string
     \<Rightarrow> ('w, py_exn, bool) io" where
  "nack env c ctx retry reason =
     io_bind (io_lift (lift_py (nack_request (en_rt env) ctx retry reason))) (\<lambda>req.
     io_bind
       (client_span env ''sepp.nack'' (map_rpc lease_error_from_rpc
         (retried_call env c RETRYABLE_CODES (en_Nack env) req)))
       (\<lambda>resp. io_return (pbnr_dead_lettered resp)))"

section \<open>Extending a lease\<close>

definition extend_request ::
    "pb_runtime \<Rightarrow> string \<Rightarrow> int \<Rightarrow> timedelta \<Rightarrow> string option \<Rightarrow> py_error + pb_extend_request" where
  "extend_request rt job_id attempt extension worker_id =
     bind_res (rt_uint32 rt attempt) (\<lambda>n.
     bind_res (rt_FromTimedelta rt extension) (\<lambda>d. Inr
       \<lparr>pbx_job_id = job_id, pbx_attempt = n, pbx_lease_duration = Some d,
        pbx_worker_id = worker_id\<rparr>))"

definition extend_expiry :: "pb_runtime \<Rightarrow> pb_extend_response \<Rightarrow> py_exn + datetime" where
  "extend_expiry rt resp =
     bind_res (lift_py (timestamp_to_datetime rt (get_timestamp (pbxr_lease_expires_at resp))))
       (\<lambda>expiry. case expiry of
          None \<Rightarrow> Inl (Sepp (MalformedResponseError ''extend returned an invalid lease_expires_at''))
        | Some dt \<Rightarrow> Inr dt)"

definition extend_inner ::
    "('w, 'c, 'z) env_scheme \<Rightarrow> client \<Rightarrow> string \<Rightarrow> int \<Rightarrow> timedelta \<Rightarrow> string option
     \<Rightarrow> ('w, py_exn, datetime) io" where
  "extend_inner env c job_id attempt extension worker_id =
     io_bind (io_lift (lift_py (extend_request (en_rt env) job_id attempt extension worker_id)))
       (\<lambda>req.
     io_bind
       (client_span env ''sepp.extend'' (map_rpc lease_error_from_rpc
         (retried_call env c RETRYABLE_CODES (en_Extend env) req)))
       (\<lambda>resp. io_lift (extend_expiry (en_rt env) resp)))"

definition extend ::
    "('w, 'c, 'z) env_scheme \<Rightarrow> client \<Rightarrow> job_ctx \<Rightarrow> timedelta \<Rightarrow> ('w, py_exn, datetime) io" where
  "extend env c ctx extension =
     extend_inner env c (jc_id ctx) (jc_attempt ctx) extension (ctx_worker_id ctx)"

text \<open>
  \<open>Lease.extend\<close> awaits the call for its job, attempt and worker, and then, if that returned, remembers
  the expiry it was given. The handle is part of the state, which a failure leaves as it was.
\<close>

definition lease_call ::
    "('w, 'c, 'z) env_scheme \<Rightarrow> client \<Rightarrow> lease \<Rightarrow> timedelta \<Rightarrow> ('w, py_exn, datetime) io" where
  "lease_call env c l by = extend_inner env c (ls_job_id l) (ls_attempt l) by (ls_worker_id l)"

definition lease_renewed :: "lease \<Rightarrow> datetime \<Rightarrow> lease" where
  "lease_renewed l new_expiry = l\<lparr>ls_known_expiry_ms := datetime_to_millis new_expiry\<rparr>"

definition lease_extend ::
    "('w, 'c, 'z) env_scheme \<Rightarrow> client \<Rightarrow> timedelta \<Rightarrow> ('w \<times> lease, py_exn, datetime) io" where
  "lease_extend env c by =
     (\<lambda>(w, l). case lease_call env c l by w of
        (Inr new_expiry, w') \<Rightarrow> (Inr new_expiry, (w', lease_renewed l new_expiry))
      | (Inl e, w') \<Rightarrow> (Inl e, (w', l)))"

definition job_ctx_extend ::
    "('w, 'c, 'z) env_scheme \<Rightarrow> client \<Rightarrow> timedelta \<Rightarrow> ('w \<times> job_ctx, py_exn, datetime) io" where
  "job_ctx_extend env c extension =
     (\<lambda>(w, ctx). case jc_lease ctx of
        None \<Rightarrow> (Inl (Py (RuntimeError
          ''JobCtx has no lease handle; it was not produced by reserve()'')), (w, ctx))
      | Some l \<Rightarrow>
          (case lease_extend env c extension (w, l) of
             (r, (w', l')) \<Rightarrow> (r, (w', ctx\<lparr>jc_lease := Some l'\<rparr>))))"

section \<open>Server information\<close>

definition malformed_server_info :: "py_exn + 'a \<Rightarrow> py_exn + 'a" where
  "malformed_server_info r =
     catch_res r (\<lambda>e. case e of
        Sepp (ServerInfoError m) \<Rightarrow> Inl (Sepp (MalformedServerInfoError (ServerInfoError m)))
      | _ \<Rightarrow> Inl e)"

definition get_server_info ::
    "('w, 'c, 'z) env_scheme \<Rightarrow> client \<Rightarrow> ('w, py_exn, server_info) io" where
  "get_server_info env c =
     io_bind
       (client_span env ''sepp.get_server_info'' (map_rpc client_error_from_rpc
          (retried_call env c RETRYABLE_CODES (en_GetServerInfo env) ())))
       (\<lambda>resp. io_lift (malformed_server_info (server_info_from_pb (en_rt env) resp)))"

section \<open>What a unary call does\<close>

lemma map_rpc_apply:
  "map_rpc f m w =
     (case m w of
        (Inl (Rpc err), w') \<Rightarrow> (Inl (Sepp (f err)), w')
      | (r, w') \<Rightarrow> (r, w'))"
  by (simp add: map_rpc_def io_catch_apply split: prod.splits sum.splits py_exn.splits)

text \<open>How \<open>map_rpc\<close> turns the result of the calls into what the caller sees.\<close>

definition seen_result :: "(rpc_error \<Rightarrow> sepp_error) \<Rightarrow> py_exn + 'a \<Rightarrow> py_exn + 'a" where
  "seen_result f r = (case r of Inl (Rpc err) \<Rightarrow> Inl (Sepp (f err)) | _ \<Rightarrow> r)"

lemma seen_result_simps [simp]:
  "seen_result f (Inr x) = Inr x" "seen_result f (Inl (Rpc err)) = Inl (Sepp (f err))"
  "seen_result f (Inl (Sepp e)) = Inl (Sepp e)" "seen_result f (Inl (Py p)) = Inl (Py p)"
  "seen_result f (Inl CancelledError) = Inl CancelledError"
  by (simp_all add: seen_result_def)

lemma map_rpc_seen: "map_rpc f m w = (seen_result f (fst (m w)), snd (m w))"
  by (simp add: map_rpc_apply seen_result_def split: prod.splits sum.splits py_exn.splits)

text \<open>
  \<open>unary_run env c f codes stub req w r w'\<close>: the request \<open>req\<close> was sent at least once and at most
  \<open>max_attempts\<close> times, again only after a code of \<open>codes\<close>; the last reply was \<open>r0\<close>, of which the
  caller sees \<open>r\<close>. When the caller sees a retryable failure the attempts were used up.
\<close>

definition unary_run ::
    "('w, 'c, 'z) env_scheme \<Rightarrow> client \<Rightarrow> string \<Rightarrow> (rpc_error \<Rightarrow> sepp_error) \<Rightarrow> status_code set
     \<Rightarrow> ('w, 'r, 'a) stub \<Rightarrow> 'r \<Rightarrow> 'w \<Rightarrow> py_exn + 'a \<Rightarrow> 'w \<Rightarrow> bool" where
  "unary_run env c name f codes stub req w r w' \<longleftrightarrow>
     (\<exists>n r0 v. call_run (en_timer env) (cl_retry_policy c) codes (stub_call env c stub req)
                 (rp_initial_backoff (cl_retry_policy c)) n (enter_span env name CLIENT [] w) r0 v
        \<and> 1 \<le> n \<and> int n \<le> rp_max_attempts (cl_retry_policy c)
        \<and> (\<forall>err. r0 = Inl (Rpc err) \<and> rpc_code err \<in> codes
             \<longrightarrow> int n = rp_max_attempts (cl_retry_policy c))
        \<and> r = seen_result f r0 \<and> w' = leave_span env v)"

lemma unary_span:
  assumes "policy_ok (cl_retry_policy c)"
    and "client_span env name (map_rpc f (retried_call env c codes stub req)) w = (r, w')"
  shows "unary_run env c name f codes stub req w r w'"
proof -
  let ?w = "enter_span env name CLIENT [] w"
  obtain r0 v where 0: "retried_call env c codes stub req ?w = (r0, v)"
    by (cases "retried_call env c codes stub req ?w")
  then have "r = seen_result f r0" "w' = leave_span env v"
    using assms(2) by (auto simp: client_span_apply map_rpc_seen)
  with with_retry_call_run [OF assms(1) 0 [unfolded retried_call_def]]
  show ?thesis unfolding unary_run_def by blast
qed

text \<open>No gRPC error escapes an operation of the client.\<close>

definition no_rpc :: "('w, py_exn, 'a) io \<Rightarrow> bool" where
  "no_rpc m \<longleftrightarrow> (\<forall>w err. fst (m w) \<noteq> Inl (Rpc err))"

lemma no_rpc_map_rpc: "no_rpc (client_span env name (\<lambda>w. map_rpc f (m w) w))"
  by (auto simp: no_rpc_def fst_client_span map_rpc_seen seen_result_def
      split: sum.splits py_exn.splits)

lemma no_rpc_span: "no_rpc (client_span env name (map_rpc f m))"
  using no_rpc_map_rpc [of env name f "\<lambda>_. m"] by simp

lemma no_rpc_bind:
  "no_rpc m \<Longrightarrow> (\<And>x. no_rpc (k x)) \<Longrightarrow> no_rpc (io_bind m k)"
  by (auto simp: no_rpc_def io_bind_apply split: prod.splits sum.splits) (metis fst_conv)+

lemma no_rpc_lift: "(\<And>err. r \<noteq> Inl (Rpc err)) \<Longrightarrow> no_rpc (io_lift r)"
  by (simp add: no_rpc_def)

lemma no_rpc_lift_py [simp]: "no_rpc (io_lift (lift_py r))"
  by (simp add: no_rpc_def lift_py_eq)

lemma no_rpc_return [simp]: "no_rpc (io_return x)"
  by (simp add: no_rpc_def)

text \<open>The conversions of the responses raise no gRPC error.\<close>

definition pure_exn :: "py_exn + 'a \<Rightarrow> bool" where
  "pure_exn r \<longleftrightarrow> (\<forall>err. r \<noteq> Inl (Rpc err)) \<and> r \<noteq> Inl CancelledError"

lemma pure_exn_simps [simp]:
  "pure_exn (Inr x)" "pure_exn (Inl (Sepp e))" "pure_exn (Inl (Py p))" "pure_exn (lift_py r)"
  "pure_exn (conversion_error m)" "\<not> pure_exn (Inl (Rpc err))" "\<not> pure_exn (Inl CancelledError)"
  by (auto simp: pure_exn_def conversion_error_def lift_py_eq)

lemma pure_exn_bind [intro]:
  "pure_exn r \<Longrightarrow> (\<And>x. pure_exn (k x)) \<Longrightarrow> pure_exn (bind_res r k)"
  by (auto simp: pure_exn_def bind_res_eq_Inl)

lemma pure_exn_traverse: "(\<And>x. pure_exn (f x)) \<Longrightarrow> pure_exn (traverse f xs)"
  by (induction xs) (simp_all add: pure_exn_bind)

lemma pure_exn_required_time: "pure_exn (required_time rt field ts)"
  unfolding required_time_def by (intro pure_exn_bind) (auto split: option.split intro: pure_exn_bind)

lemma pure_exn_custom: "pure_exn (custom_from_pb acc items)"
  by (induction acc items rule: custom_from_pb.induct) (auto split: option.split)

lemma pure_exn_head: "pure_exn (job_head_from_pb j)"
  by (auto simp: job_head_from_pb_def split: sum.split py_error.split)

lemma pure_exn_job: "pure_exn (job_from_pb rt j wid)"
  unfolding job_from_pb_def
  by (intro pure_exn_bind pure_exn_head pure_exn_required_time pure_exn_custom) simp_all

lemma pure_exn_dead_letter: "pure_exn (dead_letter_record_from_pb rt r)"
  unfolding dead_letter_record_from_pb_def
  by (auto split: option.split
      intro!: pure_exn_bind pure_exn_head pure_exn_required_time pure_exn_custom)

lemma pure_exn_decode_skipping: "(\<And>x. pure_exn (dec x)) \<Longrightarrow> pure_exn (decode_skipping dec xs)"
proof (induction xs)
  case (Cons x xs)
  then show ?case using Cons.prems [of x]
    by (cases "dec x") (auto split: py_exn.split sepp_error.split)
qed simp

lemma pure_exn_job_result: "pure_exn (job_result_from_pb rt jr)"
  by (auto simp: job_result_from_pb_def split: option.split pb_job_outcome.split)

lemma pure_exn_batch_results: "pure_exn (batch_results rt n rs)"
  by (simp add: batch_results_def pure_exn_traverse pure_exn_job_result)

lemma pure_exn_no_rpc: "pure_exn r \<Longrightarrow> no_rpc (io_lift r)"
  by (auto simp: pure_exn_def no_rpc_def)

lemma reserve_no_rpc: "no_rpc (reserve env c opts)"
  unfolding reserve_def
  by (auto intro!: no_rpc_bind no_rpc_span pure_exn_no_rpc pure_exn_bind pure_exn_decode_skipping
      pure_exn_job split: prod.split)

lemma ack_no_rpc: "no_rpc (ack env c ctx)"
  unfolding ack_def by (auto intro!: no_rpc_bind no_rpc_span)

lemma nack_no_rpc: "no_rpc (nack env c ctx retry reason)"
  unfolding nack_def by (auto intro!: no_rpc_bind no_rpc_span)

lemma extend_expiry_pure: "pure_exn (extend_expiry rt resp)"
  unfolding extend_expiry_def by (intro pure_exn_bind) (auto split: option.split)

lemma extend_inner_no_rpc: "no_rpc (extend_inner env c i a by wid)"
  unfolding extend_inner_def
  by (auto intro!: no_rpc_bind no_rpc_span pure_exn_no_rpc extend_expiry_pure)

lemma lease_call_no_rpc: "no_rpc (lease_call env c l by)"
  unfolding lease_call_def by (rule extend_inner_no_rpc)

lemma enqueue_batch_no_rpc: "no_rpc (enqueue_batch env c jobs)"
  unfolding enqueue_batch_def Let_def
  by (auto intro!: no_rpc_bind no_rpc_map_rpc pure_exn_no_rpc pure_exn_batch_results
      simp: no_rpc_def [of "io_raise _"])

end
