(* ===== verification/Sepp_Contract.thy ===== *)
theory Sepp_Contract
  imports Sepp_Client
begin

text \<open>
  What the operations of \<open>SeppClient\<close> promise. The decoding of a repeated field is an interface,
  the locale \<open>record_decoder\<close>, that jobs and dead letters implement. Every retried call is
  described by \<open>unary_run\<close>: the one request it sends, how often, and what the caller sees.
\<close>

section \<open>Decoding a repeated field\<close>

locale record_decoder =
  fixes dec :: "pb_runtime \<Rightarrow> 'a \<Rightarrow> py_exn + 'b"
    and wf :: "'a \<Rightarrow> bool"
    and meaning :: "'a \<Rightarrow> 'b"
    and readable :: "pb_runtime \<Rightarrow> 'a \<Rightarrow> bool"
  assumes dec_wf: "pb_runtime_ok rt \<Longrightarrow> readable rt x \<Longrightarrow> wf x \<Longrightarrow> dec rt x = Inr (meaning x)"
    and dec_malformed: "pb_runtime_ok rt \<Longrightarrow> readable rt x \<Longrightarrow> \<not> wf x
      \<Longrightarrow> \<exists>msg. dec rt x = conversion_error msg"
begin

lemma skips_malformed:
  assumes "pb_runtime_ok rt" and "\<forall>x \<in> set xs. readable rt x"
  shows "decode_skipping (dec rt) xs = Inr (map meaning (filter wf xs))"
  using assms(2)
proof (induction xs)
  case Nil
  then show ?case by simp
next
  case (Cons x xs)
  then have IH: "decode_skipping (dec rt) xs = Inr (map meaning (filter wf xs))"
    and r: "readable rt x" by simp_all
  show ?case
  proof (cases "wf x")
    case True
    then show ?thesis using dec_wf [OF assms(1) r] IH by simp
  next
    case False
    then obtain msg where "dec rt x = conversion_error msg"
      using dec_malformed [OF assms(1) r] by blast
    then show ?thesis using IH False by (simp add: conversion_error_def)
  qed
qed

end

text \<open>
  A wire job is readable when its map keys are distinct (a protobuf map) and the runtime can render
  its timestamps in an error message; \<open>ToJsonString\<close> raises on an invalid timestamp.
\<close>

definition job_readable :: "pb_runtime \<Rightarrow> pb_job \<Rightarrow> bool" where
  "job_readable rt j \<longleftrightarrow> distinct (map fst (pbj_custom j))
     \<and> renders rt (get_timestamp (pbj_enqueued_at j))
     \<and> renders rt (get_timestamp (pbj_lease_expires_at j))"

definition dead_letter_readable :: "pb_runtime \<Rightarrow> pb_dead_letter_record \<Rightarrow> bool" where
  "dead_letter_readable rt r \<longleftrightarrow> renders rt (get_timestamp (pbd_failed_at r))
     \<and> (\<forall>j. pbd_job r = Some j \<longrightarrow> distinct (map fst (pbj_custom j))
          \<and> renders rt (get_timestamp (pbj_enqueued_at j)))"

definition dead_letter_wf :: "pb_dead_letter_record \<Rightarrow> bool" where
  "dead_letter_wf r \<longleftrightarrow> (case pbd_job r of None \<Rightarrow> False | Some j \<Rightarrow> pb_dead_letter_wf r j)"

definition dead_letter_meaning :: "pb_dead_letter_record \<Rightarrow> dead_letter_record" where
  "dead_letter_meaning r = decode_dead_letter r (the (pbd_job r))"

lemma dead_letter_malformed:
  assumes ok: "pb_runtime_ok rt" and r: "dead_letter_readable rt r" and bad: "\<not> dead_letter_wf r"
  shows "\<exists>msg. dead_letter_record_from_pb rt r = conversion_error msg"
proof (cases "pbd_job r")
  case None
  then show ?thesis unfolding dead_letter_record_from_pb_def by auto
next
  case (Some j)
  let ?e = "get_timestamp (pbj_enqueued_at j)" and ?f = "get_timestamp (pbd_failed_at r)"
  have rd: "renders rt ?e" "renders rt ?f"
    using r Some by (simp_all add: dead_letter_readable_def)
  consider "\<not> job_head_wf j" | "job_head_wf j" "\<not> repr_time ?e"
    | "job_head_wf j" "repr_time ?e" "\<not> repr_time ?f"
    | "job_head_wf j" "repr_time ?e" "repr_time ?f" "\<not> customs_set j"
    using bad Some by (auto simp: dead_letter_wf_def pb_dead_letter_wf_def)
  then show ?thesis
  proof cases
    case 1
    then obtain msg where "job_head_from_pb j = conversion_error msg"
      using job_head_from_pb_bad by blast
    then show ?thesis using Some by (auto simp: dead_letter_record_from_pb_def)
  next
    case 2
    then obtain msg where
        "required_time rt ''job timestamp `enqueued_at`'' ?e = conversion_error msg"
      using required_time_error [OF ok _ rd(1)] by blast
    then show ?thesis
      using Some 2 by (auto simp: dead_letter_record_from_pb_def job_head_from_pb_wf)
  next
    case 3
    then obtain msg where
        "required_time rt ''dead-letter timestamp `failed_at`'' ?f = conversion_error msg"
      using required_time_error [OF ok _ rd(2)] by blast
    then show ?thesis
      using Some 3 ok
      by (auto simp: dead_letter_record_from_pb_def job_head_from_pb_wf required_time_repr)
  next
    case 4
    then obtain msg where "custom_from_pb [] (pbj_custom j) = conversion_error msg"
      unfolding customs_set_def using custom_from_pb_unset by blast
    then show ?thesis
      using Some 4 ok
      by (auto simp: dead_letter_record_from_pb_def job_head_from_pb_wf required_time_repr)
  qed
qed

interpretation jobs: record_decoder "\<lambda>rt j. job_from_pb rt j wid" pb_job_wf
    "\<lambda>j. decode_job j wid" job_readable for wid
  by unfold_locales (simp_all add: job_from_pb_wf job_from_pb_not_wf job_readable_def)

interpretation dead_letters: record_decoder dead_letter_record_from_pb dead_letter_wf
    dead_letter_meaning dead_letter_readable
proof unfold_locales
  fix rt r
  assume "pb_runtime_ok rt" "dead_letter_readable rt r" "dead_letter_wf r"
  then show "dead_letter_record_from_pb rt r = Inr (dead_letter_meaning r)"
    by (auto simp: dead_letter_wf_def dead_letter_meaning_def dead_letter_readable_def
        dead_letter_record_from_pb_wf split: option.splits)
next
  fix rt r
  assume "pb_runtime_ok rt" "dead_letter_readable rt r" "\<not> dead_letter_wf r"
  then show "\<exists>msg. dead_letter_record_from_pb rt r = conversion_error msg"
    by (rule dead_letter_malformed)
qed

section \<open>Reserve and drain\<close>

lemma reserve_options_to_pb_ok:
  assumes "pb_runtime_ok rt" and "\<bar>ro_wait_timeout opts\<bar> \<le> max_duration_seconds * 10 ^ 6"
    and "\<bar>ro_lease_duration opts\<bar> \<le> max_duration_seconds * 10 ^ 6"
    and "\<And>n. ro_max_jobs opts = Some n \<Longrightarrow> 0 \<le> n \<and> n < 2 ^ 32"
  shows "reserve_options_to_pb rt opts = Inr
    \<lparr>pbr_queues = ro_queues opts, pbr_wait_timeout = Some (duration_of (ro_wait_timeout opts)),
     pbr_lease_duration = Some (duration_of (ro_lease_duration opts)),
     pbr_worker_id = ro_worker_id opts, pbr_max_jobs = map_option word_of_int (ro_max_jobs opts)\<rparr>"
  using assms
  by (simp add: reserve_options_to_pb_def rt_FromTimedelta_ok du_valid_duration_of set_uint32_ok)

lemma reserve_request_ok:
  assumes "pb_runtime_ok rt" and "\<bar>ro_wait_timeout opts\<bar> \<le> max_duration_seconds * 10 ^ 6"
    and "\<bar>ro_lease_duration opts\<bar> \<le> max_duration_seconds * 10 ^ 6"
    and "\<And>n. ro_max_jobs opts = Some n \<Longrightarrow> 0 \<le> n \<and> n < 2 ^ 32"
  shows "reserve_request rt opts = Inr
    (\<lparr>pbr_queues = ro_queues opts, pbr_wait_timeout = Some (duration_of (ro_wait_timeout opts)),
      pbr_lease_duration = Some (duration_of (ro_lease_duration opts)),
      pbr_worker_id = ro_worker_id opts, pbr_max_jobs = map_option word_of_int (ro_max_jobs opts)\<rparr>,
     total_seconds (ro_wait_timeout opts + RESERVE_DEADLINE_SLACK))"
proof -
  have "timedelta_add (ro_wait_timeout opts) RESERVE_DEADLINE_SLACK
      = Inr (ro_wait_timeout opts + RESERVE_DEADLINE_SLACK)"
    using assms(2) by (auto simp: timedelta_add_def in_timedelta_def max_timedelta_def
        max_duration_seconds_def RESERVE_DEADLINE_SLACK_def seconds_def)
  then show ?thesis by (simp add: reserve_request_def reserve_options_to_pb_ok [OF assms])
qed

definition reserve_call ::
    "('w, 'c, 'z) env_scheme \<Rightarrow> client \<Rightarrow> pb_reserve_request \<Rightarrow> rat \<Rightarrow> 'w
     \<Rightarrow> (py_exn + pb_job list) \<times> 'w" where
  "reserve_call env c req timeout w =
     (let w0 = enter_span env ''sepp.reserve'' CLIENT [] w
      in en_Reserve env req timeout (call_metadata env c w0) w0)"

lemma reserve_apply:
  assumes "reserve_request (en_rt env) opts = Inr (req, timeout)"
  shows "reserve env c opts w =
    (case reserve_call env c req timeout w of
       (Inl (Rpc err), w1) \<Rightarrow> (Inl (Sepp (reserve_error_from_rpc err)), leave_span env w1)
     | (Inl e, w1) \<Rightarrow> (Inl e, leave_span env w1)
     | (Inr pb_jobs, w1) \<Rightarrow>
         (bind_res (decode_skipping (\<lambda>j. job_from_pb (en_rt env) j (ro_worker_id opts)) pb_jobs)
            (\<lambda>jobs. Inr (if jobs = [] then None else Some jobs)), leave_span env w1))"
  by (simp add: reserve_def assms io_bind_apply client_span_apply map_rpc_apply reserve_call_def
      Let_def split: prod.splits sum.splits py_exn.splits)

lemma reserve_nonempty: "reserve env c opts w = (Inr (Some js), w') \<Longrightarrow> js \<noteq> []"
  by (auto simp: reserve_def io_bind_apply bind_res_eq_Inr split: prod.splits sum.splits if_splits)

lemma drain_apply:
  assumes "pb_runtime_ok (en_rt env)" and "max_records < 2 ^ 32"
    and "client_span env ''sepp.drain_dead_letters'' (map_rpc client_error_from_rpc
           (stub_call env c (en_DrainDeadLetters env)
              \<lparr>pbdr_queue = queue, pbdr_max = Some (word_of_int (max max_records 1))\<rparr>)) w
         = (r, w')"
  shows "drain_dead_letters env c queue max_records w =
    (bind_res r (decode_skipping (dead_letter_record_from_pb (en_rt env))), w')"
proof -
  have "drain_request (en_rt env) queue max_records
      = Inr \<lparr>pbdr_queue = queue, pbdr_max = Some (word_of_int (max max_records 1))\<rparr>"
    using assms(2) rt_uint32_ok [OF assms(1), of "max max_records 1"]
    by (simp add: drain_request_def)
  then show ?thesis
    using assms(3) by (cases r) (simp_all add: drain_dead_letters_def io_bind_apply)
qed

section \<open>Retried calls\<close>

lemma io_bind_return_map:
  "io_bind m (\<lambda>x. io_return (f x)) w = (map_sum id f (fst (m w)), snd (m w))"
  by (simp add: io_bind_apply split: prod.splits sum.splits)

lemma io_bind_lift_res:
  "io_bind m (\<lambda>x. io_lift (k x)) w = (bind_res (fst (m w)) k, snd (m w))"
  by (simp add: io_bind_apply split: prod.splits sum.splits)

definition attempt_ok :: "int \<Rightarrow> bool" where
  "attempt_ok n \<longleftrightarrow> 0 \<le> n \<and> n < 2 ^ 32"

lemma ack_sends:
  assumes "policy_ok (cl_retry_policy c)" and "pb_runtime_ok (en_rt env)"
    and "attempt_ok (jc_attempt ctx)" and "ack env c ctx w = (r, w')"
  shows "unary_run env c ''sepp.ack'' lease_error_from_rpc RETRYABLE_CODES (en_Ack env)
           \<lparr>pba_job_id = jc_id ctx, pba_attempt = word_of_int (jc_attempt ctx),
            pba_worker_id = ctx_worker_id ctx\<rparr> w r w'"
proof (rule unary_span [OF assms(1)])
  show "client_span env ''sepp.ack'' (map_rpc lease_error_from_rpc
      (retried_call env c RETRYABLE_CODES (en_Ack env)
        \<lparr>pba_job_id = jc_id ctx, pba_attempt = word_of_int (jc_attempt ctx),
         pba_worker_id = ctx_worker_id ctx\<rparr>)) w = (r, w')"
    using assms(2-4)
    by (simp add: ack_def ack_request_def attempt_ok_def rt_uint32_ok io_bind_apply)
qed

text \<open>The wire form of a directive that carries a delay only when it is an \<open>after\<close>.\<close>

definition directive_ok :: "retry_directive \<Rightarrow> bool" where
  "directive_ok d \<longleftrightarrow> d = RetryDirective_default \<or> d = RetryDirective_dead_letter
     \<or> (\<exists>delay. d = RetryDirective_after delay \<and> \<bar>delay\<bar> \<le> max_duration_seconds * 10 ^ 6)"

definition wire_directive :: "retry_directive \<Rightarrow> pb_nack_retry" where
  "wire_directive d =
     (case rd_delay d of
        Some delay \<Rightarrow> RetryDelay (duration_of delay)
      | None \<Rightarrow> if d = RetryDirective_dead_letter then RetryDeadLetter else RetryDefault)"

lemmas directive_defs = RetryDirective_default_def RetryDirective_after_def
  RetryDirective_dead_letter_def

lemma nack_retry_ok:
  "pb_runtime_ok rt \<Longrightarrow> directive_ok d \<Longrightarrow> nack_retry rt d = Inr (wire_directive d)"
  by (auto simp: directive_ok_def directive_defs nack_retry_def wire_directive_def
      rt_FromTimedelta_ok du_valid_duration_of)

definition wire_nack :: "job_ctx \<Rightarrow> retry_directive \<Rightarrow> string \<Rightarrow> pb_nack_request" where
  "wire_nack ctx d reason =
     \<lparr>pbn_job_id = jc_id ctx, pbn_attempt = word_of_int (jc_attempt ctx),
      pbn_reason = (if reason = '''' then None else Some reason),
      pbn_retry = Some (wire_directive d), pbn_worker_id = ctx_worker_id ctx\<rparr>"

lemma nack_sends:
  assumes "policy_ok (cl_retry_policy c)" and "pb_runtime_ok (en_rt env)"
    and "attempt_ok (jc_attempt ctx)" and "directive_ok d" and "nack env c ctx d reason w = (r, w')"
  shows "\<exists>r0. unary_run env c ''sepp.nack'' lease_error_from_rpc RETRYABLE_CODES (en_Nack env)
                (wire_nack ctx d reason) w r0 w'
            \<and> r = map_sum id pbnr_dead_lettered r0"
proof -
  let ?m = "client_span env ''sepp.nack'' (map_rpc lease_error_from_rpc
      (retried_call env c RETRYABLE_CODES (en_Nack env) (wire_nack ctx d reason)))"
  have "nack_request (en_rt env) ctx d reason = Inr (wire_nack ctx d reason)"
    using assms(2-4) by (simp add: nack_request_def nack_retry_ok attempt_ok_def rt_uint32_ok
        wire_nack_def)
  then have "nack env c ctx d reason w = io_bind ?m (\<lambda>resp. io_return (pbnr_dead_lettered resp)) w"
    by (simp add: nack_def io_bind_apply [of "io_lift _"])
  then have "r = map_sum id pbnr_dead_lettered (fst (?m w))" "w' = snd (?m w)"
    using assms(5) by (simp_all only: io_bind_return_map prod.inject)
  moreover have "unary_run env c ''sepp.nack'' lease_error_from_rpc RETRYABLE_CODES (en_Nack env)
      (wire_nack ctx d reason) w (fst (?m w)) (snd (?m w))"
    by (rule unary_span [OF assms(1)]) simp
  ultimately show ?thesis by blast
qed

definition wire_extend :: "lease \<Rightarrow> timedelta \<Rightarrow> pb_extend_request" where
  "wire_extend l by =
     \<lparr>pbx_job_id = ls_job_id l, pbx_attempt = word_of_int (ls_attempt l),
      pbx_lease_duration = Some (duration_of by), pbx_worker_id = ls_worker_id l\<rparr>"

text \<open>
  What a reply to an extend means: what the caller gets, and the handle. Only a response with an
  expiry that can be represented renews it.
\<close>

definition renewed :: "lease \<Rightarrow> py_exn + pb_extend_response \<Rightarrow> (py_exn + datetime) \<times> lease" where
  "renewed l r =
     (case r of
        Inl e \<Rightarrow> (Inl e, l)
      | Inr resp \<Rightarrow>
          (let ts = get_timestamp (pbxr_lease_expires_at resp) in
           if repr_time ts
           then (Inr (utc (ts_micros ts)), l\<lparr>ls_known_expiry_ms := ts_micros ts div 1000\<rparr>)
           else (Inl (Sepp (MalformedResponseError ''extend returned an invalid lease_expires_at'')),
                 l)))"

lemma extend_expiry_eq:
  "pb_runtime_ok rt \<Longrightarrow> extend_expiry rt resp =
     (let ts = get_timestamp (pbxr_lease_expires_at resp) in
      if repr_time ts then Inr (utc (ts_micros ts))
      else Inl (Sepp (MalformedResponseError ''extend returned an invalid lease_expires_at'')))"
  by (simp add: extend_expiry_def timestamp_to_datetime_eq Let_def)

lemma lease_call_apply:
  assumes "pb_runtime_ok (en_rt env)"
    and "attempt_ok (ls_attempt l)" and "\<bar>by\<bar> \<le> max_duration_seconds * 10 ^ 6"
    and "client_span env ''sepp.extend'' (map_rpc lease_error_from_rpc
      (retried_call env c RETRYABLE_CODES (en_Extend env) (wire_extend l by))) w = (r, w')"
  shows "lease_call env c l by w = (bind_res r (extend_expiry (en_rt env)), w')"
proof -
  have "extend_request (en_rt env) (ls_job_id l) (ls_attempt l) by (ls_worker_id l)
      = Inr (wire_extend l by)"
    using assms(1-3) by (simp add: extend_request_def attempt_ok_def rt_uint32_ok wire_extend_def
        rt_FromTimedelta_ok du_valid_duration_of)
  then show ?thesis
    using assms(4) by (cases r) (simp_all add: lease_call_def extend_inner_def io_bind_apply)
qed

lemma lease_extend_sends:
  assumes "policy_ok (cl_retry_policy c)" and "pb_runtime_ok (en_rt env)"
    and "attempt_ok (ls_attempt l)" and "\<bar>by\<bar> \<le> max_duration_seconds * 10 ^ 6"
  shows "\<exists>r0 w'. unary_run env c ''sepp.extend'' lease_error_from_rpc RETRYABLE_CODES (en_Extend env)
                (wire_extend l by) w r0 w'
            \<and> lease_extend env c by (w, l) = (fst (renewed l r0), (w', snd (renewed l r0)))"
proof -
  obtain r w' where call: "client_span env ''sepp.extend'' (map_rpc lease_error_from_rpc
      (retried_call env c RETRYABLE_CODES (en_Extend env) (wire_extend l by))) w = (r, w')"
    by (metis surj_pair)
  have "lease_extend env c by (w, l) = (fst (renewed l r), (w', snd (renewed l r)))"
    using assms(2) lease_call_apply [OF assms(2-4) call]
    by (cases r) (simp_all add: lease_extend_def extend_expiry_eq renewed_def lease_renewed_def Let_def)
  with unary_span [OF assms(1) call] show ?thesis by blast
qed

section \<open>Enqueuing\<close>

text \<open>The jobs as they are sent: converted, then given the trace context of the enqueue span.\<close>

definition sent_jobs ::
    "('w, 'c, 'z) env_scheme \<Rightarrow> string \<Rightarrow> pb_enqueue_request list \<Rightarrow> 'w \<Rightarrow> pb_enqueue_request list" where
  "sent_jobs env name pb_jobs w =
     inject_trace_into_jobs env (enter_span env name CLIENT [] w) pb_jobs"

lemma length_sent_jobs [simp]: "length (sent_jobs env name pb_jobs w) = length pb_jobs"
  by (simp add: sent_jobs_def inject_trace_into_jobs_def split: option.splits)

lemma inject_trace_keeps:
  "pbe_idempotency_key (inject_trace h j) = pbe_idempotency_key j"
  "pbe_trace_context j = Some tc \<Longrightarrow> inject_trace h j = j"
  "pbe_trace_context j = None \<Longrightarrow> \<exists>tc. inject_trace h j = j\<lparr>pbe_trace_context := Some tc\<rparr>"
  by (auto simp: inject_trace_def)

lemma sent_jobs_keys:
  "map pbe_idempotency_key (sent_jobs env name pb_jobs w) = map pbe_idempotency_key pb_jobs"
  by (simp add: sent_jobs_def inject_trace_into_jobs_def inject_trace_keeps split: option.splits)

lemma sent_jobs_codes:
  "enqueue_retryable_codes (sent_jobs env name pb_jobs w) = enqueue_retryable_codes pb_jobs"
proof -
  have "list_all (\<lambda>j. pbe_idempotency_key j \<noteq> None) js
      \<longleftrightarrow> None \<notin> set (map pbe_idempotency_key js)" for js :: "pb_enqueue_request list"
    by (induction js) auto
  then show ?thesis by (simp only: enqueue_retryable_codes_def sent_jobs_keys)
qed

text \<open>The call both enqueue operations make, with the reply still to be read.\<close>

definition enqueue_call ::
    "('w, 'c, 'z) env_scheme \<Rightarrow> client \<Rightarrow> string \<Rightarrow> ('w, pb_enqueue_request list, 'a) stub
     \<Rightarrow> pb_enqueue_request list \<Rightarrow> ('w, py_exn, 'a) io" where
  "enqueue_call env c name stub pb_jobs w =
     client_span env name (map_rpc client_error_from_rpc
       (retried_call env c (enqueue_retryable_codes pb_jobs) stub (sent_jobs env name pb_jobs w))) w"

lemma enqueue_span_call:
  "client_span env name (\<lambda>w.
      let req = inject_trace_into_jobs env w pb_jobs
      in map_rpc client_error_from_rpc
           (retried_call env c (enqueue_retryable_codes req) stub req) w) w
   = enqueue_call env c name stub pb_jobs w"
  by (simp add: enqueue_call_def client_span_apply Let_def sent_jobs_def [symmetric]
      sent_jobs_codes)

lemma enqueue_batch_apply:
  assumes "traverse (enqueue_request_to_pb (en_rt env)) jobs = Inr pb_jobs" and "pb_jobs \<noteq> []"
  shows "enqueue_batch env c jobs w =
    (case enqueue_call env c ''sepp.enqueue'' (en_EnqueueBatch env) pb_jobs w of
       (r, w') \<Rightarrow> (bind_res r (batch_results (en_rt env) (length pb_jobs)), w'))"
  using assms
  by (simp add: enqueue_batch_def io_bind_apply enqueue_span_call split: prod.splits sum.splits)

lemma enqueue_atomic_apply:
  assumes "traverse (enqueue_request_to_pb (en_rt env)) jobs = Inr pb_jobs" and "pb_jobs \<noteq> []"
  shows "enqueue_atomic env c jobs w =
    (case enqueue_call env c ''sepp.enqueue_atomic'' (en_EnqueueAtomic env) pb_jobs w of
       (r, w') \<Rightarrow> (bind_res r (atomic_results (en_rt env) (length pb_jobs)), w'))"
  using assms
  by (simp add: enqueue_atomic_def io_bind_apply enqueue_span_call split: prod.splits sum.splits)

lemma enqueue_empty:
  "enqueue_batch env c [] w = (Inl (Sepp EmptyBatchError), w)"
  "enqueue_atomic env c [] w = (Inl (Sepp EmptyBatchError), w)"
  by (simp_all add: enqueue_batch_def enqueue_atomic_def io_bind_apply)

text \<open>A call returned: the reply that produced it.\<close>

lemma call_run_Inr:
  "call_run tm p codes call b n w r w' \<Longrightarrow> r = Inr x \<Longrightarrow> \<exists>v. call v = (Inr x, w')"
  by (induction rule: call_run.induct) auto

lemma enqueue_call_run:
  assumes "policy_ok (cl_retry_policy c)" and "enqueue_call env c name stub pb_jobs w = (r, w')"
  shows "unary_run env c name client_error_from_rpc (enqueue_retryable_codes pb_jobs) stub
           (sent_jobs env name pb_jobs w) w r w'"
  using assms unfolding enqueue_call_def by (rule unary_span)

lemma unary_run_Inr:
  assumes "unary_run env c name f codes stub req w (Inr x) w'"
  shows "\<exists>v v'. stub_call env c stub req v = (Inr x, v')"
proof -
  obtain n r0 v where run: "call_run (en_timer env) (cl_retry_policy c) codes
      (stub_call env c stub req) (rp_initial_backoff (cl_retry_policy c)) n
      (enter_span env name CLIENT [] w) r0 v" and r: "Inr x = seen_result f r0"
    using assms unfolding unary_run_def by blast
  have "r0 = Inr x" using r by (auto simp: seen_result_def split: sum.splits py_exn.splits)
  with call_run_Inr [OF run] show ?thesis by blast
qed

lemma enqueue_batch_Inr:
  assumes "policy_ok (cl_retry_policy c)" and "enqueue_batch env c jobs w = (Inr rs, w')"
  shows "\<exists>pb_jobs results v v'. traverse (enqueue_request_to_pb (en_rt env)) jobs = Inr pb_jobs
     \<and> pb_jobs \<noteq> []
     \<and> stub_call env c (en_EnqueueBatch env) (sent_jobs env ''sepp.enqueue'' pb_jobs w) v
         = (Inr results, v')
     \<and> length results = length jobs
     \<and> list_all2 (\<lambda>jr r. job_result_from_pb (en_rt env) jr = Inr r) results rs"
proof -
  obtain pb_jobs where pb: "traverse (enqueue_request_to_pb (en_rt env)) jobs = Inr pb_jobs"
    using assms(2)
    by (cases "traverse (enqueue_request_to_pb (en_rt env)) jobs")
      (auto simp: enqueue_batch_def io_bind_apply)
  have ne: "pb_jobs \<noteq> []" using assms(2) pb by (auto simp: enqueue_batch_def io_bind_apply)
  obtain r v where call: "enqueue_call env c ''sepp.enqueue'' (en_EnqueueBatch env) pb_jobs w = (r, v)"
    by (cases "enqueue_call env c ''sepp.enqueue'' (en_EnqueueBatch env) pb_jobs w")
  then obtain results where results: "r = Inr results"
      "batch_results (en_rt env) (length pb_jobs) results = Inr rs"
    using assms(2) by (auto simp: enqueue_batch_apply [OF pb ne] bind_res_eq_Inr)
  have "\<exists>v v'. stub_call env c (en_EnqueueBatch env) (sent_jobs env ''sepp.enqueue'' pb_jobs w) v
         = (Inr results, v')"
    using enqueue_call_run [OF assms(1) call] results(1) by (auto dest: unary_run_Inr)
  moreover have "length results = length jobs"
      "list_all2 (\<lambda>jr r. job_result_from_pb (en_rt env) jr = Inr r) results rs"
    using results(2) traverse_length [OF pb]
    by (auto simp: batch_results_def traverse_eq_Inr split: if_splits)
  ultimately show ?thesis using pb ne by blast
qed

lemma enqueue_atomic_Inr:
  assumes "policy_ok (cl_retry_policy c)" and "enqueue_atomic env c jobs w = (Inr acks, w')"
  shows "\<exists>pb_jobs responses v v'. traverse (enqueue_request_to_pb (en_rt env)) jobs = Inr pb_jobs
     \<and> stub_call env c (en_EnqueueAtomic env) (sent_jobs env ''sepp.enqueue_atomic'' pb_jobs w) v
         = (Inr (Some (AtomicSuccess responses)), v')
     \<and> length responses = length jobs \<and> acks = map enqueue_ack_from_pb responses"
proof -
  obtain pb_jobs where pb: "traverse (enqueue_request_to_pb (en_rt env)) jobs = Inr pb_jobs"
    using assms(2)
    by (cases "traverse (enqueue_request_to_pb (en_rt env)) jobs")
      (auto simp: enqueue_atomic_def io_bind_apply)
  have ne: "pb_jobs \<noteq> []" using assms(2) pb by (auto simp: enqueue_atomic_def io_bind_apply)
  let ?call = "enqueue_call env c ''sepp.enqueue_atomic'' (en_EnqueueAtomic env) pb_jobs w"
  obtain r v where call: "?call = (r, v)" by (cases ?call)
  then obtain outcome where out: "r = Inr outcome"
      "atomic_results (en_rt env) (length pb_jobs) outcome = Inr acks"
    using assms(2) by (auto simp: enqueue_atomic_apply [OF pb ne] bind_res_eq_Inr)
  then obtain responses where "outcome = Some (AtomicSuccess responses)"
      "length responses = length pb_jobs" "acks = map enqueue_ack_from_pb responses"
    by (auto simp: atomic_results_def bind_res_eq_Inr
        split: option.splits pb_atomic_outcome.splits if_splits)
  moreover have "\<exists>v v'. stub_call env c (en_EnqueueAtomic env)
      (sent_jobs env ''sepp.enqueue_atomic'' pb_jobs w) v = (Inr outcome, v')"
    using enqueue_call_run [OF assms(1) call] out(1) by (auto dest: unary_run_Inr)
  ultimately show ?thesis using pb traverse_length [OF pb] by auto
qed

text \<open>An error that is not retryable for the request ends the enqueue after the one call.\<close>

lemma enqueue_call_final:
  assumes "stub_call env c stub (sent_jobs env name pb_jobs w) (enter_span env name CLIENT [] w)
      = (Inl (Rpc err), v)"
    and "rpc_code err \<notin> enqueue_retryable_codes pb_jobs"
  shows "enqueue_call env c name stub pb_jobs w
      = (Inl (Sepp (client_error_from_rpc err)), leave_span env v)"
  using assms(2) with_retry_final [where call = "stub_call env c stub (sent_jobs env name pb_jobs w)"
      and codes = "enqueue_retryable_codes pb_jobs", OF assms(1)]
  by (simp add: enqueue_call_def client_span_apply map_rpc_seen retried_call_def)

lemma keyless_codes:
  "\<exists>j \<in> set pb_jobs. pbe_idempotency_key j = None \<Longrightarrow>
     enqueue_retryable_codes pb_jobs = {UNAVAILABLE, RESOURCE_EXHAUSTED}"
  by (auto simp: enqueue_retryable_codes_def list_all_iff KEYLESS_ENQUEUE_RETRYABLE_CODES_def)

lemma traverse_key:
  "traverse (enqueue_request_to_pb rt) jobs = Inr pb_jobs \<Longrightarrow>
     map pbe_idempotency_key pb_jobs = map er_idempotency_key jobs"
proof (induction jobs arbitrary: pb_jobs)
  case (Cons j jobs)
  then show ?case
    by (auto simp: bind_res_eq_Inr enqueue_request_to_pb_def)
qed simp

section \<open>Connecting\<close>

lemma auth_metadata_for_iff:
  "auth_metadata_for (Some key) = Inl InvalidApiKeyError
     \<longleftrightarrow> CHR 0x0A \<in> set key \<or> CHR 0x0D \<in> set key \<or> \<not> is_ascii key"
  "(\<exists>m. auth_metadata_for (Some key) = Inr m) \<longleftrightarrow>
     CHR 0x0A \<notin> set key \<and> CHR 0x0D \<notin> set key \<and> is_ascii key"
  by (auto simp: auth_metadata_for_def)

lemma connect_bad_key:
  "auth_metadata_for (co_api_key opts) = Inl e \<Longrightarrow> connect env addr opts w = (Inl (Sepp e), w)"
  by (simp add: connect_def)

lemma connect_Inr:
  "connect env addr opts w = (Inr (c, ch), w') \<Longrightarrow>
     ch = channel_for (en_version env) addr opts
     \<and> auth_metadata_for (co_api_key opts) = Inr (cl_auth_metadata c)
     \<and> cl_rpc_timeout c = total_seconds (co_rpc_timeout opts)
     \<and> en_channel_ready env ch (total_seconds (co_connect_timeout opts)) w = (Inr (), w')
     \<and> (\<forall>p. co_retry_policy opts = Some p \<longrightarrow> cl_retry_policy c = p)
     \<and> (co_retry_policy opts = None \<longrightarrow> rp_max_attempts (cl_retry_policy c) = 1)"
  by (auto simp: connect_def client_new_def Let_def default_retry_policy_def retry_policy_new_def
      split: sum.splits prod.splits option.splits if_splits)

lemma normalize_target_schemes:
  "normalize_target (''http://'' @ t) = (t, False)"
  "normalize_target (''https://'' @ t) = (t, True)"
  by (simp_all add: normalize_target_def startswith_def)

text \<open>A channel is in plaintext only when nothing asked for TLS.\<close>

lemma channel_plaintext_iff:
  "ch_credentials (channel_for version addr opts) = None \<longleftrightarrow>
     co_credentials opts = None \<and> \<not> co_tls opts \<and> \<not> startswith ''https://'' addr
     \<and> co_tls_ca_cert opts = None \<and> co_tls_domain opts = None"
proof -
  have "startswith ''https://'' addr \<Longrightarrow> \<not> startswith ''http://'' addr"
    by (auto simp: startswith_iff)
  then have "snd (normalize_target addr) \<longleftrightarrow> startswith ''https://'' addr"
    by (auto simp: normalize_target_def)
  then show ?thesis
    by (auto simp: channel_for_def Let_def split: option.splits prod.splits)
qed

section \<open>A concrete environment\<close>

text \<open>
  A server that accepts everything and logs the calls; its reserve answers one good and one
  malformed job, its drain one record.
\<close>

definition sample_dead_letter :: pb_dead_letter_record where
  "sample_dead_letter =
     \<lparr>pbd_job = Some sample_pb_job, pbd_cause = 3,
      pbd_failed_at = Some \<lparr>ts_seconds = 1700000100, ts_nanos = 0\<rparr>, pbd_final_attempt = 3,
      pbd_last_reason = Some ''boom''\<rparr>"

definition sample_env :: "(string list, unit) env" where
  "sample_env =
     \<lparr>ot_available = False, ot_inject = (\<lambda>_. []), ot_start_span = (\<lambda>_ _ _ w. w),
      ot_end_span = (\<lambda>w. w), ot_attach = (\<lambda>_ w. w), ot_detach = (\<lambda>w. w),
      ot_span_context = (\<lambda>_. ()), ot_is_valid = (\<lambda>_. False),
      en_rt = ref_runtime, en_timer = sample_timer, en_version = ''0.1.0'',
      en_channel_ready = (\<lambda>_ _ w. (Inr (), w)), en_channel_close = (\<lambda>_ w. w @ [''close'']),
      en_EnqueueBatch = (\<lambda>req _ _ w.
        (Inr (map (\<lambda>j. Some (JobSuccess \<lparr>pber_job_id = ''j1'', pber_deduplicated = False\<rparr>)) req),
         w @ [''EnqueueBatch''])),
      en_EnqueueAtomic = (\<lambda>req _ _ w.
        (Inr (Some (AtomicSuccess
           (map (\<lambda>j. \<lparr>pber_job_id = ''j1'', pber_deduplicated = False\<rparr>) req))),
         w @ [''EnqueueAtomic''])),
      en_Reserve = (\<lambda>_ _ _ w. (Inr [sample_pb_job\<lparr>pbj_id := ''''\<rparr>, sample_pb_job], w @ [''Reserve''])),
      en_Ack = (\<lambda>_ _ _ w. (Inr (), w @ [''Ack''])),
      en_Nack = (\<lambda>_ _ _ w. (Inr \<lparr>pbnr_job_id = ''j1'', pbnr_dead_lettered = True\<rparr>, w @ [''Nack''])),
      en_Extend = (\<lambda>_ _ _ w.
        (Inr \<lparr>pbxr_job_id = ''j1'',
              pbxr_lease_expires_at = Some \<lparr>ts_seconds = 1700000200, ts_nanos = 0\<rparr>\<rparr>,
         w @ [''Extend''])),
      en_GetServerInfo = (\<lambda>_ _ _ w.
        (Inl (Rpc \<lparr>rpc_code = UNIMPLEMENTED, rpc_details = None\<rparr>), w)),
      en_DrainDeadLetters = (\<lambda>_ _ _ w. (Inr [sample_dead_letter], w @ [''Drain'']))\<rparr>"

definition sample_client :: client where
  "sample_client = client_new None None DEFAULT_RPC_TIMEOUT"

definition sample_request :: enqueue_request where
  "sample_request =
     \<lparr>er_queue = ''q'', er_job_type = ''t'', er_payload = None, er_idempotency_key = None,
      er_priority = Some (Priority 3), er_max_attempts = Some 5,
      er_custom = [(''k'', VInt (- 4)), (''s'', VStr ''x'')], er_trace_context = None,
      er_scheduled_at = None\<rparr>"

definition sample_options :: reserve_options where
  "sample_options =
     \<lparr>ro_queues = [''q''], ro_lease_duration = seconds 30, ro_wait_timeout = seconds 5,
      ro_worker_id = Some ''w'', ro_max_jobs = Some 4\<rparr>"

lemma sample_env_simps [simp]:
  "en_rt sample_env = ref_runtime" "ot_available sample_env = False"
  "policy_ok (cl_retry_policy sample_client)"
  by (simp_all add: sample_env_def sample_client_def client_new_def sample_policy_ok)

lemma sample_request_wire: "wire_request sample_request"
  by (simp add: sample_request_def wire_request_def wire_schedule_def enqueue_request_ok_def
      priority_ok_def)

section \<open>Properties\<close>

text \<open>
  C7: a reserve whose response the runtime can render returns exactly the well-formed jobs,
  decoded and in order, each malformed one skipped, and \<open>None\<close> when none is left;
  it makes the one call.
\<close>

theorem reserve_skips_malformed:
  assumes "pb_runtime_ok (en_rt env)" and "reserve_request (en_rt env) opts = Inr (req, timeout)"
    and "reserve_call env c req timeout w = (Inr pb_jobs, w1)"
    and "\<forall>j \<in> set pb_jobs. job_readable (en_rt env) j"
  shows "reserve env c opts w =
    (Inr (if filter pb_job_wf pb_jobs = [] then None
          else Some (map (\<lambda>j. decode_job j (ro_worker_id opts)) (filter pb_job_wf pb_jobs))),
     leave_span env w1)"
  using jobs.skips_malformed [OF assms(1,4), of "ro_worker_id opts"]
  by (simp add: reserve_apply [OF assms(2)] assms(3))

theorem reserve_skips_malformed_witness:
  "reserve sample_env sample_client sample_options []
     = (Inr (Some [decode_job sample_pb_job (Some ''w'')]), [''Reserve''])"
proof -
  obtain req timeout where req: "reserve_request ref_runtime sample_options = Inr (req, timeout)"
    using reserve_request_ok [OF ref_runtime_ok, of sample_options]
    by (simp add: sample_options_def seconds_def max_duration_seconds_def)
  have call: "reserve_call sample_env sample_client req timeout []
      = (Inr [sample_pb_job\<lparr>pbj_id := ''''\<rparr>, sample_pb_job], [''Reserve''])"
    by (simp add: reserve_call_def sample_env_def enter_span_def)
  have "job_readable ref_runtime sample_pb_job"
      "job_readable ref_runtime (sample_pb_job\<lparr>pbj_id := ''''\<rparr>)"
      "\<not> pb_job_wf (sample_pb_job\<lparr>pbj_id := ''''\<rparr>)"
    using sample_pb_job_wf(2)
    by (simp_all add: job_readable_def renders_def sample_pb_job_def get_timestamp_def
        ref_runtime_def ts_valid_def pb_job_wf_def job_head_wf_def)
  then show ?thesis
    using reserve_skips_malformed [of sample_env sample_options req timeout sample_client "[]", OF _ _ call]
      req sample_pb_job_wf(1) ref_runtime_ok
    by (simp add: leave_span_def sample_options_def)
qed

text \<open>
  C8: when \<open>enqueue_batch\<close> returns, it returns one entry per submitted job, in
  order: every job was converted and sent in one request, and the i-th entry decodes the i-th
  result of a reply to it.
\<close>

theorem enqueue_batch_aligned:
  assumes "policy_ok (cl_retry_policy c)" and "enqueue_batch env c jobs w = (Inr rs, w')"
  shows "length rs = length jobs \<and> jobs \<noteq> []
    \<and> (\<exists>pb_jobs results v v'. traverse (enqueue_request_to_pb (en_rt env)) jobs = Inr pb_jobs
         \<and> stub_call env c (en_EnqueueBatch env) (sent_jobs env ''sepp.enqueue'' pb_jobs w) v
             = (Inr results, v')
         \<and> (\<forall>i < length jobs. job_result_from_pb (en_rt env) (results ! i) = Inr (rs ! i)))"
proof -
  obtain pb_jobs results v v' where r:
      "traverse (enqueue_request_to_pb (en_rt env)) jobs = Inr pb_jobs" "pb_jobs \<noteq> []"
      "stub_call env c (en_EnqueueBatch env) (sent_jobs env ''sepp.enqueue'' pb_jobs w) v
         = (Inr results, v')" "length results = length jobs"
      "list_all2 (\<lambda>jr r. job_result_from_pb (en_rt env) jr = Inr r) results rs"
    using enqueue_batch_Inr [OF assms] by blast
  have "jobs \<noteq> []" using r(1,2) traverse_length [OF r(1)] by auto
  moreover have "length rs = length jobs"
      "\<forall>i < length jobs. job_result_from_pb (en_rt env) (results ! i) = Inr (rs ! i)"
    using r(4,5) by (auto simp: list_all2_conv_all_nth)
  ultimately show ?thesis using r(1,3) by blast
qed

lemma sample_enqueue:
  "\<exists>rs. enqueue_batch sample_env sample_client [sample_request] [] = (Inr rs, [''EnqueueBatch''])"
proof -
  obtain m where m: "enqueue_request_to_pb ref_runtime sample_request = Inr m"
    using enqueue_request_to_pb_ok [OF ref_runtime_ok sample_request_wire] by blast
  have "enqueue_call sample_env sample_client ''sepp.enqueue'' (en_EnqueueBatch sample_env) [m] []
      = (Inr [Some (JobSuccess \<lparr>pber_job_id = ''j1'', pber_deduplicated = False\<rparr>)], [''EnqueueBatch''])"
    by (simp add: enqueue_call_def client_span_def map_rpc_seen retried_call_def with_retry_once
        sample_client_def client_new_def default_retry_policy_def retry_policy_new_def
        stub_call_def sent_jobs_def inject_trace_into_jobs_def current_trace_headers_def sample_env_def)
  then show ?thesis
    using m by (simp add: enqueue_batch_apply [where pb_jobs = "[m]"] batch_results_def
        job_result_from_pb_def)
qed

theorem enqueue_batch_aligned_witness:
  "\<exists>rs. enqueue_batch sample_env sample_client [sample_request] [] = (Inr rs, [''EnqueueBatch''])
     \<and> length rs = 1"
proof -
  obtain rs where rs: "enqueue_batch sample_env sample_client [sample_request] []
      = (Inr rs, [''EnqueueBatch''])"
    using sample_enqueue by blast
  then show ?thesis
    using enqueue_batch_aligned [of sample_client sample_env "[sample_request]" "[]" rs] by auto
qed

text \<open>
  C9: when some job carries no idempotency key, an enqueue that fails with an ambiguous code,
  \<open>DEADLINE_EXCEEDED\<close> or \<open>ABORTED\<close>, is not sent again, whatever the
  retry policy says: the call ends after the one attempt with a \<open>TransportError\<close>.
\<close>

theorem keyless_enqueue_not_resent:
  assumes "traverse (enqueue_request_to_pb (en_rt env)) jobs = Inr pb_jobs"
    and "\<exists>j \<in> set jobs. er_idempotency_key j = None"
    and "stub_call env c (en_EnqueueBatch env) (sent_jobs env ''sepp.enqueue'' pb_jobs w)
           (enter_span env ''sepp.enqueue'' CLIENT [] w) = (Inl (Rpc err), v)"
    and "rpc_code err \<in> {DEADLINE_EXCEEDED, ABORTED}"
  shows "enqueue_batch env c jobs w
    = (Inl (Sepp (TransportError (details_or_empty err))), leave_span env v)"
proof -
  have "None \<in> set (map pbe_idempotency_key pb_jobs)"
    unfolding traverse_key [OF assms(1)] using assms(2) by force
  then have "\<exists>j \<in> set pb_jobs. pbe_idempotency_key j = None" by (metis imageE set_map)
  then have codes: "rpc_code err \<notin> enqueue_retryable_codes pb_jobs" "pb_jobs \<noteq> []"
    using assms(4) by (auto simp: keyless_codes)
  show ?thesis
    using assms(4) unfolding enqueue_batch_apply [OF assms(1) codes(2)]
      enqueue_call_final [OF assms(3) codes(1)]
    by (auto simp: client_error_from_rpc_def TRANSPORT_CODES_def)
qed

theorem keyless_enqueue_not_resent_witness:
  "enqueue_batch (sample_env\<lparr>en_EnqueueBatch := (\<lambda>_ _ _ w.
       (Inl (Rpc \<lparr>rpc_code = ABORTED, rpc_details = Some ''x''\<rparr>), w @ [''call'']))\<rparr>)
     (client_new (Some sample_policy) None DEFAULT_RPC_TIMEOUT) [sample_request] []
   = (Inl (Sepp (TransportError ''x'')), [''call''])"
proof -
  obtain m where m: "enqueue_request_to_pb ref_runtime sample_request = Inr m"
    using enqueue_request_to_pb_ok [OF ref_runtime_ok sample_request_wire] by blast
  let ?env = "sample_env\<lparr>en_EnqueueBatch := (\<lambda>_ _ _ w.
       (Inl (Rpc \<lparr>rpc_code = ABORTED, rpc_details = Some ''x''\<rparr>), w @ [''call'']))\<rparr>"
  have rt: "en_rt ?env = ref_runtime" "ot_available ?env = False" by simp_all
  show ?thesis
    using keyless_enqueue_not_resent [of ?env "[sample_request]" "[m]"
        "client_new (Some sample_policy) None DEFAULT_RPC_TIMEOUT" "[]"
        "\<lparr>rpc_code = ABORTED, rpc_details = Some ''x''\<rparr>" "[''call'']"] m
    by (simp add: rt sample_request_def stub_call_def enter_span_def leave_span_def
        details_or_empty_def)
qed

text \<open>
  C13: \<open>ack\<close> sends the one request with the job's id, its attempt and the worker
  that reserved it, between one and \<open>max_attempts\<close> times, and the caller sees the
  last reply, a gRPC error as the lease error it stands for.
\<close>

theorem ack_sends_request:
  assumes "policy_ok (cl_retry_policy c)" and "pb_runtime_ok (en_rt env)"
    and "attempt_ok (jc_attempt ctx)"
  shows "unary_run env c ''sepp.ack'' lease_error_from_rpc RETRYABLE_CODES (en_Ack env)
           \<lparr>pba_job_id = jc_id ctx, pba_attempt = word_of_int (jc_attempt ctx),
            pba_worker_id = ctx_worker_id ctx\<rparr> w (fst (ack env c ctx w)) (snd (ack env c ctx w))"
  by (rule ack_sends [OF assms]) simp

theorem ack_sends_request_witness:
  "unary_run sample_env sample_client ''sepp.ack'' lease_error_from_rpc RETRYABLE_CODES
     (en_Ack sample_env) \<lparr>pba_job_id = ''j1'', pba_attempt = 1, pba_worker_id = Some ''w''\<rparr>
     [] (Inr ()) [''Ack'']"
proof -
  let ?ctx = "job_ctx (decode_job sample_pb_job (Some ''w''))"
  have ctx: "jc_id ?ctx = ''j1''" "jc_attempt ?ctx = 1" "ctx_worker_id ?ctx = Some ''w''"
    by (simp_all add: decode_job_def sample_pb_job_def ctx_worker_id_def lease_new_def)
  have "ack sample_env sample_client ?ctx [] = (Inr (), [''Ack''])"
    by (simp add: ack_def ack_request_def ctx ref_runtime_def io_bind_apply client_span_def
        map_rpc_seen retried_call_def with_retry_once sample_client_def client_new_def
        default_retry_policy_def retry_policy_new_def stub_call_def sample_env_def)
  then show ?thesis
    using ack_sends_request [of sample_client sample_env ?ctx "[]"]
    by (simp add: ctx ref_runtime_ok attempt_ok_def)
qed

text \<open>
  C14: \<open>nack\<close> sends the one request with the job's id, attempt and worker, the
  directive in its wire form and the reason when it is not empty, under the retry policy, and
  returns whether the server says the job was dead-lettered.
\<close>

theorem nack_sends_request:
  assumes "policy_ok (cl_retry_policy c)" and "pb_runtime_ok (en_rt env)"
    and "attempt_ok (jc_attempt ctx)" and "directive_ok d"
  shows "\<exists>r0. unary_run env c ''sepp.nack'' lease_error_from_rpc RETRYABLE_CODES (en_Nack env)
                (wire_nack ctx d reason) w r0 (snd (nack env c ctx d reason w))
            \<and> fst (nack env c ctx d reason w) = map_sum id pbnr_dead_lettered r0"
  by (rule nack_sends [OF assms]) simp

theorem nack_sends_request_witness:
  "\<exists>r0. unary_run sample_env sample_client ''sepp.nack'' lease_error_from_rpc RETRYABLE_CODES
       (en_Nack sample_env)
       \<lparr>pbn_job_id = ''j1'', pbn_attempt = 1, pbn_reason = None,
        pbn_retry = Some (RetryDelay \<lparr>du_seconds = 5, du_nanos = 0\<rparr>),
        pbn_worker_id = Some ''w''\<rparr> [] r0
       (snd (nack sample_env sample_client (job_ctx (decode_job sample_pb_job (Some ''w'')))
               (RetryDirective_after (seconds 5)) '''' []))"
proof -
  let ?ctx = "job_ctx (decode_job sample_pb_job (Some ''w''))"
  have ctx: "jc_id ?ctx = ''j1''" "jc_attempt ?ctx = 1" "ctx_worker_id ?ctx = Some ''w''"
    by (simp_all add: decode_job_def sample_pb_job_def ctx_worker_id_def lease_new_def)
  have "directive_ok (RetryDirective_after (seconds 5))"
    by (auto simp: directive_ok_def seconds_def max_duration_seconds_def)
  moreover have "wire_directive (RetryDirective_after (seconds 5))
      = RetryDelay \<lparr>du_seconds = 5, du_nanos = 0\<rparr>"
    by (simp add: wire_directive_def RetryDirective_after_def duration_of_def seconds_def)
  ultimately show ?thesis
    using nack_sends_request [of sample_client sample_env ?ctx "RetryDirective_after (seconds 5)"
        "''''" "[]"]
    by (auto simp: ctx ref_runtime_ok attempt_ok_def wire_nack_def)
qed

text \<open>
  C15: \<open>Lease.extend\<close> asks the server to extend its own job, attempt and worker by
  the given time, under the retry policy; on success it returns the granted expiry and the
  handle knows that expiry; when the call failed the caller sees its error, an expiry that
  cannot be represented is reported as a malformed response, and in both cases the handle is
  left as it was.
\<close>

theorem lease_extend_renews:
  assumes "policy_ok (cl_retry_policy c)" and "pb_runtime_ok (en_rt env)"
    and "attempt_ok (ls_attempt l)" and "\<bar>by\<bar> \<le> max_duration_seconds * 10 ^ 6"
  shows "\<exists>r0 w'. unary_run env c ''sepp.extend'' lease_error_from_rpc RETRYABLE_CODES (en_Extend env)
                (wire_extend l by) w r0 w'
     \<and> lease_extend env c by (w, l) =
         (case r0 of
            Inl e \<Rightarrow> (Inl e, (w', l))
          | Inr resp \<Rightarrow>
              (let ts = get_timestamp (pbxr_lease_expires_at resp) in
               if repr_time ts
               then (Inr (utc (ts_micros ts)), (w', l\<lparr>ls_known_expiry_ms := ts_micros ts div 1000\<rparr>))
               else (Inl (Sepp (MalformedResponseError
                       ''extend returned an invalid lease_expires_at'')), (w', l))))"
proof -
  obtain r0 w' where
      "unary_run env c ''sepp.extend'' lease_error_from_rpc RETRYABLE_CODES (en_Extend env)
         (wire_extend l by) w r0 w'"
      "lease_extend env c by (w, l) = (fst (renewed l r0), (w', snd (renewed l r0)))"
    using lease_extend_sends [OF assms] by blast
  then show ?thesis
    by (intro exI [of _ r0] exI [of _ w']) (auto simp: renewed_def Let_def split: sum.split)
qed

theorem lease_extend_renews_witness:
  "\<exists>r0 w'. unary_run sample_env sample_client ''sepp.extend'' lease_error_from_rpc RETRYABLE_CODES
       (en_Extend sample_env) (wire_extend (lease_new ''j1'' 1 (utc 0) None) (seconds 30)) [] r0 w'
     \<and> (\<forall>e. r0 = Inl e \<longrightarrow>
          lease_extend sample_env sample_client (seconds 30) ([], lease_new ''j1'' 1 (utc 0) None)
          = (Inl e, (w', lease_new ''j1'' 1 (utc 0) None)))"
proof -
  let ?l = "lease_new ''j1'' 1 (utc 0) None"
  have "attempt_ok (ls_attempt ?l)" by (simp add: attempt_ok_def lease_new_def)
  then obtain r0 w' where "unary_run sample_env sample_client ''sepp.extend'' lease_error_from_rpc
      RETRYABLE_CODES (en_Extend sample_env) (wire_extend ?l (seconds 30)) [] r0 w'"
      "r0 = Inl e \<Longrightarrow> lease_extend sample_env sample_client (seconds 30) ([], ?l)
         = (Inl e, (w', ?l))" for e
    using lease_extend_renews [of sample_client sample_env ?l "seconds 30" "[]"]
    by (auto simp: ref_runtime_ok seconds_def max_duration_seconds_def)
  then show ?thesis by blast
qed

text \<open>
  C29: the exception to skipping: when the first job of a response has an
  \<open>enqueued_at\<close> that is out of range and that \<open>ToJsonString\<close> refuses
  to render, the message of the conversion error raises in its place, and the reserve fails with
  that Python error, losing the well-formed jobs of the response with it.
\<close>

theorem unrenderable_job_fails_reserve:
  assumes "pb_runtime_ok (en_rt env)" and "reserve_request (en_rt env) opts = Inr (req, timeout)"
    and "reserve_call env c req timeout w = (Inr (j # pb_jobs), w1)" and "job_head_wf j"
    and "\<not> repr_time (get_timestamp (pbj_enqueued_at j))"
    and "rt_ToJsonString (en_rt env) (get_timestamp (pbj_enqueued_at j)) = Inl e"
  shows "reserve env c opts w = (Inl (Py e), leave_span env w1)"
  using job_from_pb_render_raises [OF assms(1,4-6), of "ro_worker_id opts"]
  by (simp add: reserve_apply [OF assms(2)] assms(3))

theorem unrenderable_job_fails_reserve_witness:
  "reserve (sample_env\<lparr>en_Reserve := (\<lambda>_ _ _ w. (Inr
       [sample_pb_job\<lparr>pbj_enqueued_at := Some \<lparr>ts_seconds = 10 ^ 12, ts_nanos = 0\<rparr>\<rparr>, sample_pb_job], w))\<rparr>)
     sample_client sample_options []
   = (Inl (Py (ValueError ''Timestamp is not valid'')), [])"
proof -
  let ?j = "sample_pb_job\<lparr>pbj_enqueued_at := Some \<lparr>ts_seconds = 10 ^ 12, ts_nanos = 0\<rparr>\<rparr>"
  let ?env = "sample_env\<lparr>en_Reserve := (\<lambda>_ _ _ w. (Inr [?j, sample_pb_job], w))\<rparr>"
  obtain req timeout where req: "reserve_request ref_runtime sample_options = Inr (req, timeout)"
    using reserve_request_ok [OF ref_runtime_ok, of sample_options]
    by (simp add: sample_options_def seconds_def max_duration_seconds_def)
  have env: "en_rt ?env = ref_runtime" "ot_available ?env = False" by simp_all
  have "reserve_call ?env sample_client req timeout [] = (Inr (?j # [sample_pb_job]), [])"
    by (simp add: reserve_call_def enter_span_def)
  moreover have "job_head_wf ?j" using sample_pb_job_wf(1) by (simp add: pb_job_wf_def job_head_wf_def)
  moreover have "\<not> repr_time (get_timestamp (pbj_enqueued_at ?j))"
    by (simp add: repr_time_def get_timestamp_def)
  moreover have "rt_ToJsonString ref_runtime (get_timestamp (pbj_enqueued_at ?j))
      = Inl (ValueError ''Timestamp is not valid'')"
    by (simp add: get_timestamp_def ref_runtime_def ts_valid_def)
  ultimately show ?thesis
    using unrenderable_job_fails_reserve [of ?env sample_options req timeout sample_client "[]" ?j
        "[sample_pb_job]" "[]" "ValueError ''Timestamp is not valid''"] req
    unfolding env by (simp add: ref_runtime_ok leave_span_def)
qed

text \<open>
  C30: \<open>enqueue_atomic\<close> returns only if the server answered that the whole batch
  was accepted, and then with one acknowledgement per job, in the order of the reply: there is
  no partial result.
\<close>

theorem enqueue_atomic_all_or_none:
  assumes "policy_ok (cl_retry_policy c)" and "enqueue_atomic env c jobs w = (Inr acks, w')"
  shows "length acks = length jobs \<and> jobs \<noteq> []
    \<and> (\<exists>pb_jobs responses v v'. traverse (enqueue_request_to_pb (en_rt env)) jobs = Inr pb_jobs
         \<and> stub_call env c (en_EnqueueAtomic env) (sent_jobs env ''sepp.enqueue_atomic'' pb_jobs w) v
             = (Inr (Some (AtomicSuccess responses)), v')
         \<and> acks = map enqueue_ack_from_pb responses)"
proof -
  have "jobs \<noteq> []" using assms(2) enqueue_empty(2) [of env c w] by auto
  then show ?thesis using enqueue_atomic_Inr [OF assms] by auto
qed

theorem enqueue_atomic_all_or_none_witness:
  "\<exists>acks. enqueue_atomic sample_env sample_client [sample_request] []
     = (Inr acks, [''EnqueueAtomic'']) \<and> length acks = 1"
proof -
  obtain m where m: "enqueue_request_to_pb ref_runtime sample_request = Inr m"
    using enqueue_request_to_pb_ok [OF ref_runtime_ok sample_request_wire] by blast
  have "enqueue_call sample_env sample_client ''sepp.enqueue_atomic'' (en_EnqueueAtomic sample_env) [m] []
      = (Inr (Some (AtomicSuccess [\<lparr>pber_job_id = ''j1'', pber_deduplicated = False\<rparr>])),
         [''EnqueueAtomic''])"
    by (simp add: enqueue_call_def client_span_def map_rpc_seen retried_call_def with_retry_once
        sample_client_def client_new_def default_retry_policy_def retry_policy_new_def
        stub_call_def sent_jobs_def inject_trace_into_jobs_def current_trace_headers_def sample_env_def)
  then obtain acks where a: "enqueue_atomic sample_env sample_client [sample_request] []
      = (Inr acks, [''EnqueueAtomic''])"
    using m by (simp add: enqueue_atomic_apply [where pb_jobs = "[m]"] atomic_results_def)
  show ?thesis using enqueue_atomic_all_or_none [OF _ a] a by simp
qed

text \<open>
  C31: a reserve that fails is not sent again, whatever the policy and the code: the caller sees
  the error of the one call, \<open>UnknownQueuesError\<close> exactly for
  \<open>FAILED_PRECONDITION\<close> and a \<open>ClientError\<close> for every other code.
\<close>

theorem reserve_failure_seen_once:
  assumes "reserve_request (en_rt env) opts = Inr (req, timeout)"
    and "reserve_call env c req timeout w = (Inl (Rpc err), w1)"
  shows "\<exists>x. reserve env c opts w = (Inl (Sepp x), leave_span env w1)
    \<and> (is_ReserveError x \<longleftrightarrow> rpc_code err = FAILED_PRECONDITION)
    \<and> (is_ClientError x \<longleftrightarrow> rpc_code err \<noteq> FAILED_PRECONDITION)"
  by (simp add: reserve_apply [OF assms(1)] assms(2) reserve_error_iff)

theorem reserve_failure_seen_once_witness:
  "\<exists>x. reserve (sample_env\<lparr>en_Reserve := (\<lambda>_ _ _ w.
       (Inl (Rpc \<lparr>rpc_code = UNAVAILABLE, rpc_details = None\<rparr>), w @ [''call'']))\<rparr>)
     (client_new (Some sample_policy) None DEFAULT_RPC_TIMEOUT) sample_options []
   = (Inl (Sepp x), [''call'']) \<and> is_ClientError x"
proof -
  let ?env = "sample_env\<lparr>en_Reserve := (\<lambda>_ _ _ w.
       (Inl (Rpc \<lparr>rpc_code = UNAVAILABLE, rpc_details = None\<rparr>), w @ [''call'']))\<rparr>"
  let ?c = "client_new (Some sample_policy) None DEFAULT_RPC_TIMEOUT"
  obtain req timeout where req: "reserve_request ref_runtime sample_options = Inr (req, timeout)"
    using reserve_request_ok [OF ref_runtime_ok, of sample_options]
    by (simp add: sample_options_def seconds_def max_duration_seconds_def)
  have env: "en_rt ?env = ref_runtime" "ot_available ?env = False" by simp_all
  have "reserve_call ?env ?c req timeout []
      = (Inl (Rpc \<lparr>rpc_code = UNAVAILABLE, rpc_details = None\<rparr>), [''call''])"
    by (simp add: reserve_call_def enter_span_def)
  from reserve_failure_seen_once [of ?env sample_options req timeout ?c, OF _ this] req show ?thesis
    by (auto simp: env leave_span_def)
qed

text \<open>
  C32: a drain asks once, for at least one record and for the given queue, and returns the
  well-formed records of the response, decoded and in order.
\<close>

theorem drain_skips_malformed:
  assumes "pb_runtime_ok (en_rt env)" and "max_records < 2 ^ 32"
    and "stub_call env c (en_DrainDeadLetters env)
           \<lparr>pbdr_queue = queue, pbdr_max = Some (word_of_int (max max_records 1))\<rparr>
           (enter_span env ''sepp.drain_dead_letters'' CLIENT [] w) = (Inr records, w1)"
    and "\<forall>r \<in> set records. dead_letter_readable (en_rt env) r"
  shows "drain_dead_letters env c queue max_records w
    = (Inr (map dead_letter_meaning (filter dead_letter_wf records)), leave_span env w1)"
proof -
  have "client_span env ''sepp.drain_dead_letters'' (map_rpc client_error_from_rpc
      (stub_call env c (en_DrainDeadLetters env)
        \<lparr>pbdr_queue = queue, pbdr_max = Some (word_of_int (max max_records 1))\<rparr>)) w
      = (Inr records, leave_span env w1)"
    using assms(3) by (simp add: client_span_apply map_rpc_apply)
  from drain_apply [OF assms(1,2) this] show ?thesis
    by (simp add: dead_letters.skips_malformed [OF assms(1,4)])
qed

theorem drain_skips_malformed_witness:
  "drain_dead_letters sample_env sample_client None 0 []
     = (Inr [dead_letter_meaning sample_dead_letter], [''Drain''])"
proof -
  have "stub_call sample_env sample_client (en_DrainDeadLetters sample_env)
      \<lparr>pbdr_queue = None, pbdr_max = Some (word_of_int (max 0 1))\<rparr> [] = (Inr [sample_dead_letter], [''Drain''])"
    by (simp add: stub_call_def sample_env_def)
  moreover have "dead_letter_readable ref_runtime sample_dead_letter" "dead_letter_wf sample_dead_letter"
    using sample_pb_job_wf
    by (simp_all add: dead_letter_readable_def dead_letter_wf_def sample_dead_letter_def renders_def
        ref_runtime_def get_timestamp_def ts_valid_def pb_dead_letter_wf_def pb_job_wf_def
        repr_time_def sample_pb_job_def)
  ultimately show ?thesis
    using drain_skips_malformed [of sample_env 0 sample_client None "[]" "[sample_dead_letter]"
        "[''Drain'']"]
    by (simp add: ref_runtime_ok enter_span_def leave_span_def)
qed

text \<open>
  C37: a client that \<open>connect\<close> returns sends the given key as its only
  authorization header, the key being ASCII without line breaks; its channel is in plaintext
  only when neither the scheme of the address nor any option asked for TLS; and a key that
  cannot be a header value is refused before anything is contacted.
\<close>

theorem api_key_and_tls:
  assumes "co_api_key opts = Some key"
  shows "if CHR 0x0A \<in> set key \<or> CHR 0x0D \<in> set key \<or> \<not> is_ascii key
    then connect env addr opts w = (Inl (Sepp InvalidApiKeyError), w)
    else \<forall>c ch w'. connect env addr opts w = (Inr (c, ch), w') \<longrightarrow>
      cl_auth_metadata c = [(''authorization'', ''Bearer '' @ key)]
      \<and> (ch_credentials ch = None \<longleftrightarrow>
           co_credentials opts = None \<and> \<not> co_tls opts \<and> \<not> startswith ''https://'' addr
           \<and> co_tls_ca_cert opts = None \<and> co_tls_domain opts = None)"
proof (cases "CHR 0x0A \<in> set key \<or> CHR 0x0D \<in> set key \<or> \<not> is_ascii key")
  case True
  then have "auth_metadata_for (co_api_key opts) = Inl InvalidApiKeyError"
    by (auto simp: assms auth_metadata_for_def)
  then show ?thesis using True by (auto simp: connect_bad_key)
next
  case False
  then have "auth_metadata_for (co_api_key opts) = Inr [(''authorization'', ''Bearer '' @ key)]"
    by (simp add: assms auth_metadata_for_def)
  then show ?thesis
    using False by (auto dest!: connect_Inr simp: channel_plaintext_iff)
qed

theorem api_key_and_tls_witness:
  "\<exists>c ch. connect sample_env ''https://h:1''
     \<lparr>co_api_key = Some ''k'', co_retry_policy = None, co_tls = False, co_tls_ca_cert = None,
      co_tls_domain = None, co_credentials = None, co_connect_timeout = DEFAULT_CONNECT_TIMEOUT,
      co_rpc_timeout = DEFAULT_RPC_TIMEOUT, co_max_receive_message_bytes = None\<rparr> [] = (Inr (c, ch), [])
   \<and> cl_auth_metadata c = [(''authorization'', ''Bearer k'')] \<and> ch_credentials ch \<noteq> None"
proof -
  let ?o = "\<lparr>co_api_key = Some ''k'', co_retry_policy = None, co_tls = False, co_tls_ca_cert = None,
      co_tls_domain = None, co_credentials = None, co_connect_timeout = DEFAULT_CONNECT_TIMEOUT,
      co_rpc_timeout = DEFAULT_RPC_TIMEOUT, co_max_receive_message_bytes = None\<rparr>"
  have ascii: "is_ascii ''k''" by code_simp
  then obtain c ch where c: "connect sample_env ''https://h:1'' ?o [] = (Inr (c, ch), [])"
    by (simp add: connect_def auth_metadata_for_def sample_env_def Let_def)
  have "cl_auth_metadata c = [(''authorization'', ''Bearer k'')] \<and> ch_credentials ch \<noteq> None"
    using api_key_and_tls [of ?o "''k''" sample_env "''https://h:1''" "[]"] c ascii
    by (simp add: startswith_def)
  then show ?thesis using c by blast
qed

end
