(* ===== verification/Sepp_Registry.thy ===== *)
theory Sepp_Registry
  imports Sepp_Contract
begin

text \<open>
  The configuration of \<open>Worker\<close> in \<^verbatim>\<open>src/sepp/worker.py\<close>: its constructor and the registration of
  handlers. A handler is an opaque value of type \<open>'h\<close>; the handlers of a worker are a dict from
  job types. The interface of that dict is the locale \<open>handler_table\<close>. The shutdown event, the
  metrics and the in-flight counter, which only \<open>run\<close> and its tasks use, are in \<open>Sepp_Run\<close>.
\<close>

section \<open>Construction\<close>

record auto_extend =
  ax_explicit_interval :: "timedelta option"
  ax_extend_by :: timedelta

record 'h worker =
  wk_opts :: reserve_options
  wk_handlers :: "string \<Rightarrow> 'h option"
  wk_catch_all :: "'h option"
  wk_max_in_flight :: int
  wk_reserve_error_backoff :: timedelta
  wk_auto_extend :: "auto_extend option"

record worker_args =
  wa_wait_timeout :: "timedelta option"
  wa_max_jobs :: "int option"
  wa_max_in_flight :: int
  wa_reserve_error_backoff :: timedelta
  wa_auto_extend :: bool
  wa_auto_extend_interval :: "timedelta option"
  wa_worker_id :: "string option"

text \<open>The defaults of the keyword arguments.\<close>

definition default_worker_args :: worker_args where
  "default_worker_args =
     \<lparr>wa_wait_timeout = None, wa_max_jobs = None, wa_max_in_flight = 16,
      wa_reserve_error_backoff = seconds 1, wa_auto_extend = False,
      wa_auto_extend_interval = None, wa_worker_id = None\<rparr>"

text \<open>\<open>gethostname()\<close>, \<open>getpid()\<close> and \<open>uuid4().hex\<close> are arguments.\<close>

definition default_worker_id :: "py_error + string \<Rightarrow> int \<Rightarrow> string \<Rightarrow> py_error + string" where
  "default_worker_id hostname pid uuid_hex =
     bind_res
       (catch_res (bind_res hostname (\<lambda>h. Inr (if h = '''' then ''unknown'' else h)))
          (\<lambda>e. if is_OSError e then Inr ''unknown'' else Inl e))
       (\<lambda>host. Inr (host @ ''-'' @ py_str_int pid @ ''-'' @ take 8 uuid_hex))"

definition auto_extend_config :: "worker_args \<Rightarrow> timedelta \<Rightarrow> auto_extend option" where
  "auto_extend_config args lease_duration =
     (if wa_auto_extend args \<or> wa_auto_extend_interval args \<noteq> None
      then Some \<lparr>ax_explicit_interval =
                   map_option (\<lambda>i. max i (milliseconds 1)) (wa_auto_extend_interval args),
                 ax_extend_by = lease_duration\<rparr>
      else None)"

definition worker_new ::
    "py_error + string \<Rightarrow> string list \<Rightarrow> timedelta \<Rightarrow> worker_args \<Rightarrow> py_error + 'h worker" where
  "worker_new default_id queues lease_duration args =
     bind_res (case wa_worker_id args of None \<Rightarrow> default_id | Some i \<Rightarrow> Inr i) (\<lambda>worker_id.
     bind_res
       (case wa_wait_timeout args of
          None \<Rightarrow> Inr DEFAULT_WAIT_TIMEOUT
        | Some t \<Rightarrow> if t \<le> 0 then Inl (ValueError ''wait_timeout must be at least 1ms'')
                    else Inr t) (\<lambda>wait_timeout.
     bind_res
       (reserve_options_new queues lease_duration wait_timeout (Some worker_id) (wa_max_jobs args))
       (\<lambda>opts. Inr
         \<lparr>wk_opts = opts, wk_handlers = Map.empty, wk_catch_all = None,
          wk_max_in_flight = max 1 (wa_max_in_flight args),
          wk_reserve_error_backoff = wa_reserve_error_backoff args,
          wk_auto_extend = auto_extend_config args lease_duration\<rparr>)))"

text \<open>What construction establishes and no registration changes.\<close>

definition worker_ok :: "'h worker \<Rightarrow> bool" where
  "worker_ok w \<longleftrightarrow> reserve_options_ok (wk_opts w) \<and> 0 < ro_wait_timeout (wk_opts w)
     \<and> 1 \<le> wk_max_in_flight w
     \<and> (\<forall>a. wk_auto_extend w = Some a \<longrightarrow> ax_extend_by a = ro_lease_duration (wk_opts w)
          \<and> (\<forall>i. ax_explicit_interval a = Some i \<longrightarrow> milliseconds 1 \<le> i))"

lemma worker_new_ok:
  assumes "worker_new default_id queues lease_duration args = Inr w"
  shows "worker_ok w" and "ro_queues (wk_opts w) = queues"
    and "ro_max_jobs (wk_opts w) = wa_max_jobs args"
    and "wk_auto_extend w = auto_extend_config args lease_duration"
    and "wk_handlers w = Map.empty" and "wk_catch_all w = None"
  using assms
  by (auto simp: worker_new_def bind_res_eq_Inr reserve_options_new_iff worker_ok_def
      auto_extend_config_def DEFAULT_WAIT_TIMEOUT_def seconds_def
      split: option.splits if_splits)

section \<open>Handlers\<close>

definition handle :: "'h worker \<Rightarrow> string \<Rightarrow> 'h \<Rightarrow> sepp_error + 'h worker" where
  "handle w job_type handler =
     (if wk_handlers w job_type \<noteq> None
      then Inl (DuplicateHandlerError (duplicate_handler_message job_type))
      else Inr (w\<lparr>wk_handlers := (wk_handlers w)(job_type \<mapsto> handler)\<rparr>))"

definition replace_handler :: "'h worker \<Rightarrow> string \<Rightarrow> 'h \<Rightarrow> 'h worker" where
  "replace_handler w job_type handler =
     w\<lparr>wk_handlers := (wk_handlers w)(job_type \<mapsto> handler)\<rparr>"

definition remove_handler :: "'h worker \<Rightarrow> string \<Rightarrow> 'h worker" where
  "remove_handler w job_type = w\<lparr>wk_handlers := (wk_handlers w)(job_type := None)\<rparr>"

definition catch_all :: "'h worker \<Rightarrow> 'h \<Rightarrow> 'h worker \<times> 'h" where
  "catch_all w handler = (w\<lparr>wk_catch_all := Some handler\<rparr>, handler)"

text \<open>The decorator form: registers and returns the handler.\<close>

definition handler_decorator :: "'h worker \<Rightarrow> string \<Rightarrow> 'h \<Rightarrow> sepp_error + 'h worker \<times> 'h" where
  "handler_decorator w job_type fn = bind_res (handle w job_type fn) (\<lambda>w'. Inr (w', fn))"

text \<open>\<open>self._handlers.get(ctx.job_type) or self._catch_all_handler\<close>.\<close>

definition resolve_handler :: "'h worker \<Rightarrow> string \<Rightarrow> 'h option" where
  "resolve_handler w job_type =
     (case wk_handlers w job_type of Some h \<Rightarrow> Some h | None \<Rightarrow> wk_catch_all w)"

text \<open>Registering handlers one after the other, as a program sets a worker up.\<close>

fun handle_all :: "'h worker \<Rightarrow> (string \<times> 'h) list \<Rightarrow> sepp_error + 'h worker" where
  "handle_all w [] = Inr w"
| "handle_all w ((t, h) # hs) = bind_res (handle w t h) (\<lambda>w'. handle_all w' hs)"

section \<open>The interface of the handler table\<close>

locale handler_table =
  fixes lookup :: "'t \<Rightarrow> string \<Rightarrow> 'h option"
    and insert :: "'t \<Rightarrow> string \<Rightarrow> 'h \<Rightarrow> 't"
    and delete :: "'t \<Rightarrow> string \<Rightarrow> 't"
  assumes lookup_insert: "lookup (insert t k h) k' = (if k' = k then Some h else lookup t k')"
    and lookup_delete: "lookup (delete t k) k' = (if k' = k then None else lookup t k')"
begin

lemma insert_overwrites: "lookup (insert (insert t k h) k h') = lookup (insert t k h')"
  by (rule ext) (simp add: lookup_insert)

lemma insert_commutes:
  "k \<noteq> k' \<Longrightarrow> lookup (insert (insert t k h) k' h') = lookup (insert (insert t k' h') k h)"
  by (rule ext) (simp add: lookup_insert)

lemma delete_insert: "lookup (delete (insert t k h) k) = lookup (delete t k)"
  by (rule ext) (simp add: lookup_insert lookup_delete)

lemma inserts:
  "lookup (fold (\<lambda>(k, h) t. insert t k h) khs t) k =
     (case map_of (rev khs) k of None \<Rightarrow> lookup t k | Some h \<Rightarrow> Some h)"
proof (induction khs arbitrary: t)
  case (Cons kh khs)
  obtain k' h where kh: "kh = (k', h)" by (cases kh)
  show ?case
    by (simp add: kh Cons.IH lookup_insert map_add_def split: option.splits)
qed simp

end

interpretation worker_table: handler_table wk_handlers replace_handler remove_handler
  by unfold_locales (simp_all add: replace_handler_def remove_handler_def)

text \<open>\<open>handle\<close> is an insert guarded against a duplicate.\<close>

lemma handle_eq:
  "handle w t h = (if t \<in> dom (wk_handlers w)
     then Inl (DuplicateHandlerError (duplicate_handler_message t))
     else Inr (replace_handler w t h))"
  by (auto simp: handle_def replace_handler_def domIff)

lemma worker_table_keeps:
  "worker_ok (replace_handler w t h) = worker_ok w" "worker_ok (remove_handler w t) = worker_ok w"
  "worker_ok (fst (catch_all w h)) = worker_ok w"
  "wk_catch_all (replace_handler w t h) = wk_catch_all w"
  by (simp_all add: worker_ok_def replace_handler_def remove_handler_def catch_all_def)

lemma handle_all_eq:
  assumes "distinct (map fst hs)" and "dom (wk_handlers w) \<inter> fst ` set hs = {}"
  shows "handle_all w hs = Inr (fold (\<lambda>(k, h) t. replace_handler t k h) hs w)"
  using assms
proof (induction hs arbitrary: w)
  case (Cons th hs)
  obtain t h where th: "th = (t, h)" by (cases th)
  have "handle w t h = Inr (replace_handler w t h)" using Cons.prems th by (auto simp: handle_eq)
  moreover have "dom (wk_handlers (replace_handler w t h)) \<inter> fst ` set hs = {}"
    using Cons.prems th by (auto simp: replace_handler_def)
  ultimately show ?case using Cons th by simp
qed simp

lemma handle_all_duplicate:
  assumes "\<not> distinct (map fst hs) \<or> dom (wk_handlers w) \<inter> fst ` set hs \<noteq> {}"
  shows "\<exists>msg. handle_all w hs = Inl (DuplicateHandlerError msg)"
  using assms
proof (induction hs arbitrary: w)
  case (Cons th hs)
  obtain t h where th: "th = (t, h)" by (cases th)
  show ?case
  proof (cases "t \<in> dom (wk_handlers w)")
    case True
    then show ?thesis by (simp add: th handle_eq)
  next
    case False
    have "\<not> distinct (map fst hs) \<or> dom (wk_handlers (replace_handler w t h)) \<inter> fst ` set hs \<noteq> {}"
      using Cons.prems th False by (auto simp: replace_handler_def)
    then show ?thesis using Cons.IH False by (simp add: th handle_eq)
  qed
qed simp

lemma catch_all_registered: "wk_catch_all (fold (\<lambda>(k, h) t. replace_handler t k h) hs w) = wk_catch_all w"
  by (induction hs arbitrary: w) (auto simp: worker_table_keeps)

lemma resolve_registered:
  assumes "distinct (map fst hs)" and "dom (wk_handlers w) \<inter> fst ` set hs = {}"
    and "handle_all w hs = Inr w'"
  shows "resolve_handler w' t =
    (case map_of hs t of Some h \<Rightarrow> Some h | None \<Rightarrow> resolve_handler w t)"
proof -
  have w': "w' = fold (\<lambda>(k, h) t. replace_handler t k h) hs w"
    using handle_all_eq [OF assms(1,2)] assms(3) by simp
  have "map_of (rev hs) = map_of hs" using assms(1) map_of_inject_set [of "rev hs" hs] by (simp add: rev_map [symmetric])
  then show ?thesis
    by (simp add: resolve_handler_def w' worker_table.inserts catch_all_registered
        split: option.splits)
qed

section \<open>Properties\<close>

text \<open>
  C35: registering handlers for distinct, unregistered job types succeeds, and afterwards each
  of the types resolves to its handler and any other type to what it resolved to before, the
  catch-all included; a list that names a type twice or an already registered one is refused
  with \<open>DuplicateHandlerError\<close>.
\<close>

theorem handlers_resolved:
  shows "if distinct (map fst hs) \<and> dom (wk_handlers w) \<inter> fst ` set hs = {}
    then \<exists>w'. handle_all w hs = Inr w' \<and> (\<forall>t. resolve_handler w' t =
           (case map_of hs t of Some h \<Rightarrow> Some h | None \<Rightarrow> resolve_handler w t))
    else \<exists>msg. handle_all w hs = Inl (DuplicateHandlerError msg)"
proof (cases "distinct (map fst hs) \<and> dom (wk_handlers w) \<inter> fst ` set hs = {}")
  case True
  then obtain w' where w': "handle_all w hs = Inr w'" using handle_all_eq [of hs w] by simp
  have "resolve_handler w' t = (case map_of hs t of Some h \<Rightarrow> Some h | None \<Rightarrow> resolve_handler w t)" for t
    using resolve_registered [of hs w w' t] True w' by simp
  then show ?thesis using True w' by auto
next
  case False
  then show ?thesis using handle_all_duplicate [of hs w] by (simp only: if_False) blast
qed

text \<open>
  C36: a worker that its constructor accepts polls at least one queue, all with non-empty names,
  has a positive lease duration and wait timeout, at least one slot and a non-empty worker id;
  when auto-extension is on it extends by the lease duration, with an explicit interval of at
  least a millisecond; and no handler is registered yet.
\<close>

theorem worker_constructed:
  assumes "worker_new default_id queues lease_duration args = Inr w"
  shows "worker_ok w \<and> ro_queues (wk_opts w) = queues \<and> queues \<noteq> [] \<and> 0 < lease_duration
    \<and> wk_max_in_flight w = max 1 (wa_max_in_flight args)
    \<and> resolve_handler w t = None"
proof -
  have "wk_max_in_flight w = max 1 (wa_max_in_flight args)" "ro_lease_duration (wk_opts w) = lease_duration"
    using assms by (auto simp: worker_new_def bind_res_eq_Inr reserve_options_new_iff)
  then show ?thesis
    using worker_new_ok [OF assms]
    by (auto simp: worker_ok_def reserve_options_ok_def resolve_handler_def)
qed

theorem worker_constructed_witness:
  "\<exists>w :: nat worker. worker_new (default_worker_id (Inr '''') 7 ''0123456789abcdef'') [''q''] (seconds 30)
       (default_worker_args\<lparr>wa_auto_extend := True\<rparr>) = Inr w \<and> worker_ok w
     \<and> ro_worker_id (wk_opts w) = Some ''unknown-7-01234567''"
proof -
  have "py_str_int 7 = ''7''" by code_simp
  then have "\<exists>w :: nat worker. worker_new (default_worker_id (Inr '''') 7 ''0123456789abcdef'') [''q'']
      (seconds 30) (default_worker_args\<lparr>wa_auto_extend := True\<rparr>) = Inr w
      \<and> ro_worker_id (wk_opts w) = Some ''unknown-7-01234567''"
    by (simp add: worker_new_def default_worker_id_def default_worker_args_def
        reserve_options_new_def seconds_def)
  then show ?thesis using worker_constructed by blast
qed

end
