(* ===== verification/Sepp_Dispatch.thy ===== *)
theory Sepp_Dispatch
  imports Sepp_Registry
begin

text \<open>
  Processing one job in \<^verbatim>\<open>src/sepp/worker.py\<close>: \<open>_run_job\<close>, \<open>_run_plain\<close>,
  \<open>_run_with_auto_extend\<close> with its \<open>_heartbeat\<close>, and \<open>_dispose\<close>. The operations of the client the
  worker calls are the record \<open>queue_ops\<close>; the laws it relies on are the locale
  \<open>queue_contract\<close>, which \<open>SeppClient\<close> satisfies. The handler and the heartbeat run concurrently:
  their interleavings are the step relation \<open>ae_step\<close>.
\<close>

section \<open>The client the worker sees\<close>

record 'w queue_ops =
  qo_reserve :: "reserve_options \<Rightarrow> ('w, py_exn, job list option) io"
  qo_ack :: "job_ctx \<Rightarrow> ('w, py_exn, unit) io"
  qo_nack :: "job_ctx \<Rightarrow> retry_directive \<Rightarrow> string \<Rightarrow> ('w, py_exn, bool) io"
  qo_extend :: "lease \<Rightarrow> timedelta \<Rightarrow> ('w, py_exn, datetime) io"

definition client_ops :: "('w, 'c, 'z) env_scheme \<Rightarrow> client \<Rightarrow> 'w queue_ops" where
  "client_ops env c =
     \<lparr>qo_reserve = reserve env c, qo_ack = ack env c, qo_nack = nack env c,
      qo_extend = lease_call env c\<rparr>"

section \<open>Handlers\<close>

text \<open>
  How a handler ends: it returns, raises a \<open>HandlerError\<close>, raises another exception (its type's
  name and its message), or is cancelled. A handler is what it does to the world.
\<close>

datatype handler_exn =
    HandlerError string retry_directive
  | OtherException string string
  | HandlerCancelled

definition HandlerError_retry :: "string \<Rightarrow> handler_exn" where
  "HandlerError_retry reason = HandlerError reason RetryDirective_default"

definition HandlerError_retry_after :: "string \<Rightarrow> timedelta \<Rightarrow> handler_exn" where
  "HandlerError_retry_after reason delay = HandlerError reason (RetryDirective_after delay)"

definition HandlerError_permanent :: "string \<Rightarrow> handler_exn" where
  "HandlerError_permanent reason = HandlerError reason RetryDirective_dead_letter"

type_synonym 'w handler_fn = "payload option \<Rightarrow> job_ctx \<Rightarrow> ('w, handler_exn, unit) io"

datatype outcome = Completed | Failed handler_exn | LEASE_LOST

definition run_plain :: "'w handler_fn \<Rightarrow> job \<Rightarrow> ('w, py_exn, outcome) io" where
  "run_plain handler job =
     (\<lambda>w. case handler (job_payload job) (job_ctx job) w of
        (Inr _, w') \<Rightarrow> (Inr Completed, w')
      | (Inl HandlerCancelled, w') \<Rightarrow> (Inl CancelledError, w')
      | (Inl e, w') \<Rightarrow> (Inr (Failed e), w'))"

section \<open>Disposing of a finished job\<close>

text \<open>The worker's state here is the world and the metrics.\<close>

type_synonym 'w mw = "'w \<times> worker_metrics"

definition on_world :: "('w, 'e, 'a) io \<Rightarrow> ('w mw, 'e, 'a) io" where
  "on_world m = (\<lambda>(w, s). case m w of (r, w') \<Rightarrow> (r, (w', s)))"

definition on_metrics :: "(worker_metrics \<Rightarrow> worker_metrics) \<Rightarrow> ('w mw, 'e, unit) io" where
  "on_metrics f = (\<lambda>(w, s). (Inr (), (w, f s)))"

text \<open>The two \<open>except\<close> clauses log and go on; an exception that is no \<open>SeppError\<close> propagates.\<close>

definition swallow_sepp :: "('w, py_exn, unit) io \<Rightarrow> ('w, py_exn, unit) io" where
  "swallow_sepp m = io_catch m (\<lambda>e. if is_SeppError e then io_return () else io_raise e)"

definition dispose_body ::
    "'w queue_ops \<Rightarrow> job_ctx \<Rightarrow> handler_exn option \<Rightarrow> ('w mw, py_exn, unit) io" where
  "dispose_body ops ctx error =
     (case error of
        None \<Rightarrow> io_bind (on_world (qo_ack ops ctx)) (\<lambda>_. on_metrics record_processed)
      | Some (HandlerError reason directive) \<Rightarrow>
          io_bind (on_world (qo_nack ops ctx directive reason))
            (\<lambda>dead_lettered. on_metrics (record_nacked dead_lettered))
      | Some e \<Rightarrow>
          io_bind (on_world (qo_nack ops ctx RetryDirective_default
              (''handler raised: '' @ (case e of OtherException _ msg \<Rightarrow> msg | _ \<Rightarrow> ''''))))
            (\<lambda>dead_lettered. on_metrics (record_nacked dead_lettered)))"

definition dispose ::
    "'w queue_ops \<Rightarrow> job_ctx \<Rightarrow> handler_exn option \<Rightarrow> ('w mw, py_exn, unit) io" where
  "dispose ops ctx error = swallow_sepp (dispose_body ops ctx error)"

text \<open>
  \<open>exec\<close> is \<open>_run_plain\<close> or \<open>_run_with_auto_extend\<close>, whichever the configuration selects
  (\<open>execute_job\<close> below).
\<close>

definition run_job ::
    "'w queue_ops \<Rightarrow> 'h option \<Rightarrow> ('h \<Rightarrow> job \<Rightarrow> ('w, py_exn, outcome) io) \<Rightarrow> job
     \<Rightarrow> ('w mw, py_exn, unit) io" where
  "run_job ops handler exec job =
     (case handler of
        None \<Rightarrow> swallow_sepp (io_bind
          (on_world (qo_nack ops (job_ctx job) RetryDirective_default
                       ''no handler registered for job_type'')) (\<lambda>_. io_return ()))
      | Some h \<Rightarrow> io_bind (on_world (exec h job)) (\<lambda>outcome. case outcome of
          LEASE_LOST \<Rightarrow> io_return ()
        | Completed \<Rightarrow> dispose ops (job_ctx job) None
        | Failed e \<Rightarrow> dispose ops (job_ctx job) (Some e)))"

definition process_job ::
    "('w, 'c, 'z) otel_scheme \<Rightarrow> 'w queue_ops \<Rightarrow> 'h worker
     \<Rightarrow> ('h \<Rightarrow> job \<Rightarrow> ('w, py_exn, outcome) io) \<Rightarrow> job \<Rightarrow> ('w mw, py_exn, unit) io" where
  "process_job ot ops worker exec job =
     (\<lambda>(w, s).
        case run_job ops (resolve_handler worker (jc_job_type (job_ctx job))) exec job
               (enter_span ot ''sepp.process'' CONSUMER
                  (consumer_links ot (jc_trace_context (job_ctx job))) w, s) of
          (r, (w', s')) \<Rightarrow> (r, (leave_span ot w', s')))"

section \<open>The heartbeat\<close>

definition heartbeat_interval :: "timedelta \<Rightarrow> timedelta" where
  "heartbeat_interval lease = max (td_div lease 3) (milliseconds 1)"

text \<open>\<open>clock\<close> is \<open>datetime.now(timezone.utc)\<close>.\<close>

definition now_millis :: "('w \<Rightarrow> datetime) \<Rightarrow> 'w \<Rightarrow> int" where
  "now_millis clock w = datetime_to_millis (clock w)"

definition beat_interval :: "auto_extend \<Rightarrow> lease \<Rightarrow> int \<Rightarrow> timedelta" where
  "beat_interval cfg l now =
     (case ax_explicit_interval cfg of
        Some i \<Rightarrow> i
      | None \<Rightarrow> heartbeat_interval (milliseconds (max 0 (ls_known_expiry_ms l - now))))"

text \<open>
  Where the heartbeat is: at the top of its loop, asleep, about to call \<open>extend\<close>, answered but not yet
  resumed, ended because the lease is gone, or ended by another exception.
\<close>

datatype hb_pc =
    HbTop
  | HbSleeping timedelta
  | HbExtending
  | HbAnswered "py_exn + datetime"
  | HbStopped
  | HbRaised py_exn

text \<open>
  A job being processed with auto-extension: the world, the lease handle the handler and the
  heartbeat share, the flag, whether the handler was asked to cancel, where the heartbeat is, and
  how the handler ended (\<open>None\<close> while it runs).
\<close>

record 'w ae_state =
  ae_world :: 'w
  ae_lease :: lease
  ae_lease_lost :: bool
  ae_cancel_requested :: bool
  ae_hb :: hb_pc
  ae_handler :: "(handler_exn + unit) option"

definition ae_init :: "'w \<Rightarrow> lease \<Rightarrow> 'w ae_state" where
  "ae_init w l =
     \<lparr>ae_world = w, ae_lease = l, ae_lease_lost = False, ae_cancel_requested = False,
      ae_hb = HbTop, ae_handler = None\<rparr>"

definition hb_begin :: "('w \<Rightarrow> datetime) \<Rightarrow> auto_extend \<Rightarrow> 'w ae_state \<Rightarrow> 'w ae_state" where
  "hb_begin clock cfg st =
     st\<lparr>ae_hb := HbSleeping (beat_interval cfg (ae_lease st) (now_millis clock (ae_world st)))\<rparr>"

definition abort_handler :: "'w ae_state \<Rightarrow> 'w ae_state" where
  "abort_handler st =
     st\<lparr>ae_lease_lost := True, ae_cancel_requested := True, ae_hb := HbStopped\<rparr>"

text \<open>
  \<open>await lease.extend(...)\<close> in two steps. The call is answered at some point of the wait; the handler
  may go on before the heartbeat resumes. Then \<open>Lease.extend\<close> sets the expiry of the handle, or one of
  the three \<open>except\<close> clauses reads the clock and the expiry of that moment.
\<close>

definition hb_call :: "'w queue_ops \<Rightarrow> auto_extend \<Rightarrow> 'w ae_state \<Rightarrow> 'w ae_state" where
  "hb_call ops cfg st =
     (case qo_extend ops (ae_lease st) (ax_extend_by cfg) (ae_world st) of
        (r, w) \<Rightarrow> st\<lparr>ae_world := w, ae_hb := HbAnswered r\<rparr>)"

definition hb_reply :: "('w \<Rightarrow> datetime) \<Rightarrow> py_exn + datetime \<Rightarrow> 'w ae_state \<Rightarrow> 'w ae_state" where
  "hb_reply clock r st =
     (case r of
        Inr expiry \<Rightarrow> st\<lparr>ae_lease := lease_renewed (ae_lease st) expiry, ae_hb := HbTop\<rparr>
      | Inl e \<Rightarrow>
          (case e of
             Sepp (AttemptMismatchError _) \<Rightarrow> abort_handler st
           | Sepp (JobNotFoundError _) \<Rightarrow> abort_handler st
           | Sepp _ \<Rightarrow>
               if ls_known_expiry_ms (ae_lease st) \<le> now_millis clock (ae_world st)
               then abort_handler st else st\<lparr>ae_hb := HbTop\<rparr>
           | _ \<Rightarrow> st\<lparr>ae_hb := HbRaised e\<rparr>))"

text \<open>
  The interleavings. \<open>moves\<close> is what a running handler may do to the world and, through
  \<open>ctx.extend\<close>, to the known expiry of the lease handle; its other attributes are never assigned.
  It may end with any result at any time: it may swallow the cancellation the heartbeat requests.
\<close>

inductive ae_step ::
    "('w \<Rightarrow> datetime) \<Rightarrow> 'w queue_ops \<Rightarrow> auto_extend \<Rightarrow> ('w \<times> int \<Rightarrow> 'w \<times> int \<Rightarrow> bool)
     \<Rightarrow> 'w ae_state \<Rightarrow> 'w ae_state \<Rightarrow> bool"
  for clock ops cfg moves where
  handler_moves: "ae_handler st = None
     \<Longrightarrow> moves (ae_world st, ls_known_expiry_ms (ae_lease st)) (w', expiry)
     \<Longrightarrow> ae_step clock ops cfg moves st
           (st\<lparr>ae_world := w', ae_lease := (ae_lease st)\<lparr>ls_known_expiry_ms := expiry\<rparr>\<rparr>)"
| handler_ends: "ae_handler st = None
     \<Longrightarrow> ae_step clock ops cfg moves st (st\<lparr>ae_handler := Some r\<rparr>)"
| beat_begins: "ae_hb st = HbTop \<Longrightarrow> ae_step clock ops cfg moves st (hb_begin clock cfg st)"
| beat_wakes: "ae_hb st = HbSleeping d
     \<Longrightarrow> ae_step clock ops cfg moves st (st\<lparr>ae_hb := HbExtending\<rparr>)"
| beat_calls: "ae_hb st = HbExtending \<Longrightarrow> ae_step clock ops cfg moves st (hb_call ops cfg st)"
| beat_resumes: "ae_hb st = HbAnswered r
     \<Longrightarrow> ae_step clock ops cfg moves st (hb_reply clock r st)"

inductive_cases ae_stepE: "ae_step clock ops cfg moves st st'"

text \<open>After \<open>await handler_task\<close>: the \<open>except\<close> clauses, then the flag.\<close>

definition ae_collect :: "bool \<Rightarrow> handler_exn + unit \<Rightarrow> py_exn + outcome" where
  "ae_collect lease_lost r =
     bind_res
       (case r of
          Inr _ \<Rightarrow> Inr Completed
        | Inl HandlerCancelled \<Rightarrow> if lease_lost then Inr LEASE_LOST else Inl CancelledError
        | Inl e \<Rightarrow> Inr (Failed e))
       (\<lambda>outcome. Inr (if lease_lost then LEASE_LOST else outcome))"

text \<open>A whole run: any interleaving up to the moment the handler's end is seen.\<close>

definition run_with_auto_extend ::
    "('w \<Rightarrow> datetime) \<Rightarrow> 'w queue_ops \<Rightarrow> auto_extend \<Rightarrow> ('w \<times> int \<Rightarrow> 'w \<times> int \<Rightarrow> bool)
     \<Rightarrow> lease \<Rightarrow> 'w \<Rightarrow> py_exn + outcome \<Rightarrow> 'w \<Rightarrow> bool" where
  "run_with_auto_extend clock ops cfg moves l w r w' \<longleftrightarrow>
     (\<exists>st res. (ae_step clock ops cfg moves)\<^sup>*\<^sup>* (ae_init w l) st
        \<and> ae_handler st = Some res \<and> r = ae_collect (ae_lease_lost st) res \<and> w' = ae_world st)"

text \<open>
  How \<open>_run_job\<close> executes the handler, as the configuration \<open>_auto_extend\<close> says;
  \<open>_run_with_auto_extend\<close> asserts that there is a lease.
\<close>

definition execute_job ::
    "('w \<Rightarrow> datetime) \<Rightarrow> 'w queue_ops \<Rightarrow> auto_extend option \<Rightarrow> ('w \<times> int \<Rightarrow> 'w \<times> int \<Rightarrow> bool)
     \<Rightarrow> 'w handler_fn \<Rightarrow> job \<Rightarrow> 'w \<Rightarrow> py_exn + outcome \<Rightarrow> 'w \<Rightarrow> bool" where
  "execute_job clock ops auto_extend moves h job w r w' \<longleftrightarrow>
     (case auto_extend of
        None \<Rightarrow> run_plain h job w = (r, w')
      | Some cfg \<Rightarrow>
          (case jc_lease (job_ctx job) of
             None \<Rightarrow> r = Inl (Py AssertionError) \<and> w' = w
           | Some l \<Rightarrow> run_with_auto_extend clock ops cfg moves l w r w'))"

section \<open>What the worker relies on\<close>

lemma no_rpc_on_world: "no_rpc m \<Longrightarrow> no_rpc (on_world m)"
  by (auto simp: no_rpc_def on_world_def split: prod.splits) (metis fst_conv)

lemma no_rpc_on_metrics: "no_rpc (on_metrics f)"
  by (simp add: no_rpc_def on_metrics_def split: prod.splits)

lemma swallow_sepp_Inl:
  assumes "no_rpc m" and "swallow_sepp m s = (Inl e, s')"
  shows "e = CancelledError \<or> (\<exists>p. e = Py p)"
proof -
  have "\<not> is_SeppError e" "fst (m s) = Inl e"
    using assms(2) by (auto simp: swallow_sepp_def io_catch_apply
        split: prod.splits sum.splits if_splits)
  moreover have "\<And>err. e \<noteq> Rpc err" using assms(1) calculation by (auto simp: no_rpc_def)
  ultimately show ?thesis by (cases e) auto
qed

locale queue_contract =
  fixes ops :: "'w queue_ops"
  assumes reserve_some: "qo_reserve ops o' w = (Inr (Some js), w') \<Longrightarrow> js \<noteq> []"
    and reserve_raises: "no_rpc (qo_reserve ops o')"
    and ack_raises: "no_rpc (qo_ack ops ctx)"
    and nack_raises: "no_rpc (qo_nack ops ctx d reason)"
    and extend_raises: "no_rpc (qo_extend ops l by)"
begin

text \<open>Nothing the service answered escapes the disposal of a job.\<close>

lemma dispose_raises:
  assumes "dispose ops ctx error s = (Inl e, s')"
  shows "e = CancelledError \<or> (\<exists>p. e = Py p)"
proof (rule swallow_sepp_Inl)
  show "no_rpc (dispose_body ops ctx error)"
    unfolding dispose_body_def
    by (auto split: option.splits handler_exn.splits
        intro!: no_rpc_bind no_rpc_on_world no_rpc_on_metrics ack_raises nack_raises)
  show "swallow_sepp (dispose_body ops ctx error) s = (Inl e, s')"
    using assms by (simp add: dispose_def)
qed

end

interpretation client: queue_contract "client_ops env c" for env c
  by unfold_locales
    (auto simp: client_ops_def reserve_no_rpc ack_no_rpc nack_no_rpc lease_call_no_rpc
      dest: reserve_nonempty)

section \<open>What happens to a processed job\<close>

lemma run_job_lease_lost:
  "exec h job w = (Inr LEASE_LOST, w') \<Longrightarrow>
     run_job ops (Some h) exec job (w, m) = (Inr (), (w', m))"
  by (simp add: run_job_def io_bind_apply on_world_def)

lemma run_job_completed:
  assumes "exec h job w = (Inr Completed, w1)"
  shows "run_job ops (Some h) exec job (w, m) =
    (case qo_ack ops (job_ctx job) w1 of
       (Inr _, w2) \<Rightarrow> (Inr (), (w2, record_processed m))
     | (Inl e, w2) \<Rightarrow> (if is_SeppError e then Inr () else Inl e, (w2, m)))"
  using assms
  by (simp add: run_job_def io_bind_apply io_catch_apply on_world_def on_metrics_def dispose_def
      dispose_body_def swallow_sepp_def split: prod.splits sum.splits)

text \<open>The directive and the reason a failed handler is nacked with.\<close>

fun failure_directive :: "handler_exn \<Rightarrow> retry_directive" where
  "failure_directive (HandlerError _ d) = d"
| "failure_directive _ = RetryDirective_default"

fun failure_reason :: "handler_exn \<Rightarrow> string" where
  "failure_reason (HandlerError reason _) = reason"
| "failure_reason (OtherException _ msg) = ''handler raised: '' @ msg"
| "failure_reason HandlerCancelled = ''handler raised: ''"

lemma run_job_failed:
  assumes "exec h job w = (Inr (Failed x), w1)"
  shows "run_job ops (Some h) exec job (w, m) =
    (case qo_nack ops (job_ctx job) (failure_directive x) (failure_reason x) w1 of
       (Inr dl, w2) \<Rightarrow> (Inr (), (w2, record_nacked dl m))
     | (Inl e, w2) \<Rightarrow> (if is_SeppError e then Inr () else Inl e, (w2, m)))"
  using assms
  by (cases x) (simp_all add: run_job_def io_bind_apply io_catch_apply on_world_def on_metrics_def
      dispose_def dispose_body_def swallow_sepp_def split: prod.splits sum.splits)

lemma run_job_no_handler:
  "run_job ops None exec job (w, m) =
    (case qo_nack ops (job_ctx job) RetryDirective_default ''no handler registered for job_type'' w of
       (Inr _, w2) \<Rightarrow> (Inr (), (w2, m))
     | (Inl e, w2) \<Rightarrow> (if is_SeppError e then Inr () else Inl e, (w2, m)))"
  by (simp add: run_job_def io_bind_apply io_catch_apply on_world_def swallow_sepp_def
      split: prod.splits sum.splits)

lemma run_job_cancelled:
  "exec h job w = (Inl e, w1) \<Longrightarrow> run_job ops (Some h) exec job (w, m) = (Inl e, (w1, m))"
  by (simp add: run_job_def io_bind_apply on_world_def)

text \<open>
  What a job's own call raised: the nack of a job without a handler, or the ack or nack in the world
  its handler left. It is all that processing a job can raise, beside what executing the handler did.
\<close>

definition own_call_raises ::
    "'w queue_ops \<Rightarrow> 'h option \<Rightarrow> ('h \<Rightarrow> job \<Rightarrow> ('w, py_exn, outcome) io) \<Rightarrow> job \<Rightarrow> 'w
     \<Rightarrow> py_exn \<Rightarrow> bool" where
  "own_call_raises ops handler exec job w e \<longleftrightarrow>
     (case handler of
        None \<Rightarrow> fst (qo_nack ops (job_ctx job) RetryDirective_default
                    ''no handler registered for job_type'' w) = Inl e
      | Some h \<Rightarrow>
          (case exec h job w of
             (Inr Completed, w1) \<Rightarrow> fst (qo_ack ops (job_ctx job) w1) = Inl e
           | (Inr (Failed x), w1) \<Rightarrow>
               fst (qo_nack ops (job_ctx job) (failure_directive x) (failure_reason x) w1) = Inl e
           | _ \<Rightarrow> False))"

lemma no_rpc_not_sepp:
  assumes "no_rpc m" and "m w = (Inl e, w')" and "\<not> is_SeppError e"
  shows "e = CancelledError \<or> (\<exists>p. e = Py p)"
proof -
  have "e \<noteq> Rpc err" for err using assms(1,2) by (auto simp: no_rpc_def dest: spec [of _ w])
  then show ?thesis using assms(3) by (cases e) auto
qed

context queue_contract
begin

lemma run_job_raises:
  assumes "run_job ops handler exec job (w, m) = (Inl e, s')"
  shows "(\<exists>h. handler = Some h \<and> fst (exec h job w) = Inl e)
    \<or> (e = CancelledError \<or> (\<exists>p. e = Py p)) \<and> own_call_raises ops handler exec job w e"
proof (cases handler)
  case None
  then show ?thesis
    using assms no_rpc_not_sepp [OF nack_raises]
    by (auto simp: run_job_no_handler own_call_raises_def split: prod.splits sum.splits if_splits)
next
  case (Some h)
  obtain r w1 where ex: "exec h job w = (r, w1)" by (cases "exec h job w")
  show ?thesis
  proof (cases r)
    case (Inl e')
    then show ?thesis using assms Some ex by (simp add: run_job_cancelled)
  next
    case (Inr out)
    then show ?thesis
    proof (cases out)
      case Completed
      then show ?thesis
        using assms Some ex Inr no_rpc_not_sepp [OF ack_raises]
        by (auto simp: run_job_completed own_call_raises_def split: prod.splits sum.splits if_splits)
    next
      case (Failed x)
      then show ?thesis
        using assms Some ex Inr no_rpc_not_sepp [OF nack_raises]
        by (auto simp: run_job_failed own_call_raises_def split: prod.splits sum.splits if_splits)
    qed (use assms Some ex Inr in \<open>simp add: run_job_lease_lost\<close>)
  qed
qed

end

section \<open>The heartbeat's verdict\<close>

text \<open>A refused extension means the lease is gone: at once, or once its known expiry has passed.\<close>

definition lease_gone :: "py_exn \<Rightarrow> lease \<Rightarrow> int \<Rightarrow> bool" where
  "lease_gone e l now \<longleftrightarrow>
     (\<exists>x. e = Sepp x \<and> (is_LeaseError x \<or> ls_known_expiry_ms l \<le> now))"

lemma hb_reply_verdict:
  shows "ae_lease_lost (hb_reply clock r st) \<longleftrightarrow> ae_lease_lost st
     \<or> (\<exists>e. r = Inl e \<and> lease_gone e (ae_lease st) (now_millis clock (ae_world st)))"
    and "ae_hb (hb_reply clock r st) =
      (case r of
         Inr _ \<Rightarrow> HbTop
       | Inl e \<Rightarrow> if lease_gone e (ae_lease st) (now_millis clock (ae_world st)) then HbStopped
                  else if is_SeppError e then HbTop else HbRaised e)"
    and "ae_lease (hb_reply clock r st) =
      (case r of Inr expiry \<Rightarrow> lease_renewed (ae_lease st) expiry | Inl _ \<Rightarrow> ae_lease st)"
    and "ae_handler (hb_reply clock r st) = ae_handler st"
    and "ae_world (hb_reply clock r st) = ae_world st"
  by (auto simp: hb_reply_def lease_gone_def abort_handler_def
      split: sum.splits py_exn.splits sepp_error.splits)

lemma hb_call_simps:
  "ae_lease (hb_call ops cfg st) = ae_lease st" "ae_lease_lost (hb_call ops cfg st) = ae_lease_lost st"
  "ae_cancel_requested (hb_call ops cfg st) = ae_cancel_requested st"
  "ae_handler (hb_call ops cfg st) = ae_handler st"
  "ae_hb (hb_call ops cfg st) =
     HbAnswered (fst (qo_extend ops (ae_lease st) (ax_extend_by cfg) (ae_world st)))"
  "ae_world (hb_call ops cfg st) = snd (qo_extend ops (ae_lease st) (ax_extend_by cfg) (ae_world st))"
  by (simp_all add: hb_call_def split: prod.splits)

text \<open>
  The invariant of a run: the flag is raised together with the request to cancel, by the heartbeat,
  which then ends; the flag never falls; and the lease keeps its identity.
\<close>

definition ae_inv :: "'w ae_state \<Rightarrow> bool" where
  "ae_inv st \<longleftrightarrow> ae_cancel_requested st = ae_lease_lost st
     \<and> (ae_lease_lost st \<longleftrightarrow> ae_hb st = HbStopped)"

definition same_lease :: "lease \<Rightarrow> lease \<Rightarrow> bool" where
  "same_lease l l' \<longleftrightarrow> ls_job_id l' = ls_job_id l \<and> ls_attempt l' = ls_attempt l
     \<and> ls_worker_id l' = ls_worker_id l"

lemma ae_inv_init: "ae_inv (ae_init w l)"
  by (simp add: ae_inv_def ae_init_def)

lemma hb_reply_inv:
  assumes "ae_inv st" and "ae_hb st = HbAnswered r"
  shows "ae_inv (hb_reply clock r st)"
  using assms
  by (auto simp: ae_inv_def hb_reply_def abort_handler_def
      split: sum.splits py_exn.splits sepp_error.splits)

lemma ae_inv_step: "ae_step clock ops cfg moves st st' \<Longrightarrow> ae_inv st \<Longrightarrow> ae_inv st'"
proof (induction rule: ae_step.induct)
  case (beat_resumes st r)
  then show ?case by (simp add: hb_reply_inv)
qed (auto simp: ae_inv_def hb_begin_def hb_call_simps)

lemma ae_inv_reachable:
  "(ae_step clock ops cfg moves)\<^sup>*\<^sup>* (ae_init w l) st \<Longrightarrow> ae_inv st"
  by (induction rule: rtranclp_induct) (auto intro: ae_inv_init ae_inv_step)

lemma ae_step_lease:
  "ae_step clock ops cfg moves st st' \<Longrightarrow> same_lease l (ae_lease st) \<Longrightarrow> same_lease l (ae_lease st')"
proof (induction rule: ae_step.induct)
  case (beat_resumes st r)
  then show ?case
    by (auto simp: same_lease_def hb_reply_verdict(3) lease_renewed_def split: sum.splits)
qed (auto simp: same_lease_def hb_begin_def hb_call_simps)

lemma ae_lease_reachable:
  "(ae_step clock ops cfg moves)\<^sup>*\<^sup>* (ae_init w l) st \<Longrightarrow> same_lease l (ae_lease st)"
  by (induction rule: rtranclp_induct) (auto simp: ae_init_def same_lease_def dest: ae_step_lease)

lemma ae_flag_stays: "ae_step clock ops cfg moves st st' \<Longrightarrow> ae_lease_lost st \<Longrightarrow> ae_lease_lost st'"
  by (induction rule: ae_step.induct) (auto simp: hb_begin_def hb_call_simps hb_reply_verdict(1))

lemma ae_collect_lost: "ae_collect True r = Inr LEASE_LOST"
  by (simp add: ae_collect_def split: sum.splits handler_exn.splits)

lemma ae_collect_kept:
  "ae_collect False r =
     (case r of Inr _ \<Rightarrow> Inr Completed | Inl HandlerCancelled \<Rightarrow> Inl CancelledError
      | Inl e \<Rightarrow> Inr (Failed e))"
  by (simp add: ae_collect_def split: sum.splits handler_exn.splits)

lemma ae_collect_Inl:
  "ae_collect lost r = Inl e \<Longrightarrow> e = CancelledError \<and> \<not> lost \<and> r = Inl HandlerCancelled"
  by (cases lost) (auto simp: ae_collect_lost ae_collect_kept split: sum.splits handler_exn.splits)

text \<open>
  An answer the heartbeat has still to see is that of a call of this run: while it waits only the
  handler moves.
\<close>

abbreviation ae_waits ::
    "('w \<Rightarrow> datetime) \<Rightarrow> 'w queue_ops \<Rightarrow> auto_extend \<Rightarrow> ('w \<times> int \<Rightarrow> 'w \<times> int \<Rightarrow> bool)
     \<Rightarrow> 'w ae_state \<Rightarrow> 'w ae_state \<Rightarrow> bool" where
  "ae_waits clock ops cfg moves a b \<equiv> ae_step clock ops cfg moves a b \<and> ae_hb b = ae_hb a"

definition answered_call ::
    "('w \<Rightarrow> datetime) \<Rightarrow> 'w queue_ops \<Rightarrow> auto_extend \<Rightarrow> ('w \<times> int \<Rightarrow> 'w \<times> int \<Rightarrow> bool)
     \<Rightarrow> 'w ae_state \<Rightarrow> 'w ae_state \<Rightarrow> 'w ae_state \<Rightarrow> py_exn + datetime \<Rightarrow> bool" where
  "answered_call clock ops cfg moves s0 s1 s2 r \<longleftrightarrow>
     (ae_step clock ops cfg moves)\<^sup>*\<^sup>* s0 s1 \<and> ae_hb s1 = HbExtending
     \<and> r = fst (qo_extend ops (ae_lease s1) (ax_extend_by cfg) (ae_world s1))
     \<and> (ae_waits clock ops cfg moves)\<^sup>*\<^sup>* (hb_call ops cfg s1) s2 \<and> ae_hb s2 = HbAnswered r"

lemma ae_step_answered:
  assumes "ae_step clock ops cfg moves st st'" and "ae_hb st' = HbAnswered r"
  shows "ae_hb st = HbAnswered r \<or> ae_hb st = HbExtending \<and> st' = hb_call ops cfg st"
  using assms
  by (cases rule: ae_step.cases)
    (auto simp: hb_begin_def hb_reply_verdict(2) split: sum.splits if_splits)

lemma ae_answered_cause:
  assumes "(ae_step clock ops cfg moves)\<^sup>*\<^sup>* s0 st" and "\<nexists>r. ae_hb s0 = HbAnswered r"
    and "ae_hb st = HbAnswered r"
  shows "\<exists>s1. answered_call clock ops cfg moves s0 s1 st r"
  using assms(1,3)
proof (induction rule: rtranclp_induct)
  case base
  then show ?case using assms(2) by blast
next
  case (step st st')
  from ae_step_answered [OF step.hyps(2) step.prems] show ?case
  proof
    assume "ae_hb st = HbAnswered r"
    then obtain s1 where "answered_call clock ops cfg moves s0 s1 st r" using step.IH by blast
    then have "answered_call clock ops cfg moves s0 s1 st' r"
      using step.hyps(2) step.prems \<open>ae_hb st = HbAnswered r\<close>
      by (auto simp: answered_call_def intro: rtranclp.rtrancl_into_rtrancl)
    then show ?thesis by blast
  next
    assume "ae_hb st = HbExtending \<and> st' = hb_call ops cfg st"
    then have "answered_call clock ops cfg moves s0 st st' r"
      using step.hyps(1) step.prems by (simp add: answered_call_def hb_call_simps)
    then show ?thesis by blast
  qed
qed

text \<open>Only an answer that says the lease is gone raises the flag.\<close>

lemma ae_step_flag:
  assumes "ae_step clock ops cfg moves st st'" and "\<not> ae_lease_lost st" and "ae_lease_lost st'"
  shows "\<exists>e. ae_hb st = HbAnswered (Inl e)
    \<and> lease_gone e (ae_lease st) (now_millis clock (ae_world st))"
  using assms
  by (cases rule: ae_step.cases) (auto simp: hb_begin_def hb_call_simps hb_reply_verdict(1))

lemma ae_lost_cause:
  assumes "(ae_step clock ops cfg moves)\<^sup>*\<^sup>* s0 st" and "\<nexists>r. ae_hb s0 = HbAnswered r"
    and "\<not> ae_lease_lost s0" and "ae_lease_lost st"
  shows "\<exists>s1 s2 e. answered_call clock ops cfg moves s0 s1 s2 (Inl e)
    \<and> lease_gone e (ae_lease s2) (now_millis clock (ae_world s2))
    \<and> (ae_step clock ops cfg moves)\<^sup>*\<^sup>* s2 st"
  using assms(1,4)
proof (induction rule: rtranclp_induct)
  case base
  then show ?case using assms(3) by simp
next
  case (step st st')
  show ?case
  proof (cases "ae_lease_lost st")
    case True
    then show ?thesis using step.IH step.hyps(2) by (meson rtranclp.rtrancl_into_rtrancl)
  next
    case False
    then show ?thesis
      using ae_step_flag [OF step.hyps(2) False step.prems] ae_answered_cause [OF step.hyps(1) assms(2)]
        step.hyps(2)
      by blast
  qed
qed

section \<open>The heartbeat's interval\<close>

lemma td_div_bounds:
  assumes "0 < n"
  shows "2 * n * td_div td n \<le> 2 * td + n" and "2 * td - n \<le> 2 * n * td_div td n"
proof -
  let ?q = "of_int td / of_int n :: rat"
  have e: "\<bar>of_int (td_div td n) - ?q\<bar> \<le> 1/2"
    unfolding td_div_def by (rule round_half_even_error)
  have n: "0 < (of_int n :: rat)" using assms by simp
  have "of_int (td_div td n) - ?q \<le> 1/2" "- (1/2) \<le> of_int (td_div td n) - ?q"
    using e by linarith+
  then have "(of_int (td_div td n) - ?q) * of_int n \<le> 1/2 * of_int n"
       "- (1/2) * of_int n \<le> (of_int (td_div td n) - ?q) * of_int n"
    using n by (simp_all only: mult_right_mono less_imp_le)
  moreover have "(of_int (td_div td n) - ?q) * of_int n = of_int (td_div td n) * of_int n - of_int td"
    using n by (simp add: left_diff_distrib)
  ultimately have "of_int (2 * n * td_div td n) \<le> (of_int (2 * td + n) :: rat)"
       "(of_int (2 * td - n) :: rat) \<le> of_int (2 * n * td_div td n)"
    by (simp_all add: algebra_simps)
  then show "2 * n * td_div td n \<le> 2 * td + n" "2 * td - n \<le> 2 * n * td_div td n"
    by (simp_all only: of_int_le_iff)
qed

text \<open>The first beat falls well inside what is left of the lease, unless a millisecond is all there is.\<close>

lemma beat_interval_granted:
  assumes "ax_explicit_interval cfg = None" and "ls_known_expiry_ms l - now = remaining"
    and "3 \<le> remaining"
  shows "2 * beat_interval cfg l now < milliseconds remaining"
    and "milliseconds 1 \<le> beat_interval cfg l now"
proof -
  let ?td = "milliseconds remaining"
  have eq: "beat_interval cfg l now = max (td_div ?td 3) (milliseconds 1)"
    using assms by (simp add: beat_interval_def heartbeat_interval_def max_def)
  have "6 * td_div ?td 3 \<le> 2 * ?td + 3" using td_div_bounds(1) [of 3 ?td] by simp
  moreover have "3000 \<le> ?td" using assms(3) by (simp add: milliseconds_def)
  ultimately have "2 * td_div ?td 3 < ?td" "2 * milliseconds 1 < ?td"
    by (simp_all add: milliseconds_def)
  then show "2 * beat_interval cfg l now < milliseconds remaining"
    by (simp add: eq max_def)
  show "milliseconds 1 \<le> beat_interval cfg l now" by (simp add: eq)
qed

section \<open>Properties\<close>

text \<open>What a confirmed or refused ack or nack leaves behind.\<close>

definition settled ::
    "('a \<Rightarrow> worker_metrics \<Rightarrow> worker_metrics) \<Rightarrow> worker_metrics \<Rightarrow> (py_exn + 'a) \<times> 'w
     \<Rightarrow> (py_exn + unit) \<times> 'w mw" where
  "settled f m reply =
     (case reply of
        (Inr x, w) \<Rightarrow> (Inr (), (w, f x m))
      | (Inl e, w) \<Rightarrow> (if is_SeppError e then Inr () else Inl e, (w, m)))"

text \<open>
  C12: a handler run without auto-extension disposes of its job exactly once: it is acked if the
  handler returned; nacked with the chosen directive and reason if it raised a
  \<open>HandlerError\<close>; nacked for the default retry, with the exception's message, on
  any other exception; and neither if it was cancelled. A \<open>SeppError\<close> of the ack or
  nack goes no further, and the metrics count what was confirmed.
\<close>

theorem job_disposed_once:
  assumes "h (job_payload job) (job_ctx job) w = (r, w1)"
  shows "run_job ops (Some h) run_plain job (w, m) =
    (case r of
       Inr _ \<Rightarrow> settled (\<lambda>_. record_processed) m (qo_ack ops (job_ctx job) w1)
     | Inl HandlerCancelled \<Rightarrow> (Inl CancelledError, (w1, m))
     | Inl (HandlerError reason d) \<Rightarrow>
         settled record_nacked m (qo_nack ops (job_ctx job) d reason w1)
     | Inl (OtherException _ msg) \<Rightarrow>
         settled record_nacked m (qo_nack ops (job_ctx job) RetryDirective_default
                                    (''handler raised: '' @ msg) w1))"
proof (cases r)
  case (Inr u)
  then have "run_plain h job w = (Inr Completed, w1)" using assms by (simp add: run_plain_def)
  then show ?thesis
    using Inr by (simp add: run_job_completed settled_def split: prod.splits sum.splits)
next
  case (Inl x)
  show ?thesis
  proof (cases "x = HandlerCancelled")
    case True
    then have "run_plain h job w = (Inl CancelledError, w1)"
      using assms Inl by (simp add: run_plain_def)
    then show ?thesis using Inl True by (simp add: run_job_cancelled)
  next
    case False
    then have "run_plain h job w = (Inr (Failed x), w1)"
      using assms Inl by (cases x) (simp_all add: run_plain_def)
    then show ?thesis
      using Inl False by (cases x) (simp_all add: run_job_failed settled_def split: prod.splits sum.splits)
  qed
qed

theorem job_disposed_once_witness:
  "run_job (client_ops sample_env sample_client)
     (Some (\<lambda>_ _ w. (Inl (HandlerError_permanent ''bad''), w))) run_plain
     (decode_job sample_pb_job None) ([], worker_metrics_new (sample_env\<lparr>ot_available := True\<rparr>))
   = (Inr (), ([''Nack''], record_nacked True (worker_metrics_new (sample_env\<lparr>ot_available := True\<rparr>))))"
proof -
  have "nack sample_env sample_client (job_ctx (decode_job sample_pb_job None))
      RetryDirective_dead_letter ''bad'' [] = (Inr True, [''Nack''])"
    by (simp add: nack_def nack_request_def nack_retry_def RetryDirective_dead_letter_def
        decode_job_def sample_pb_job_def ref_runtime_def io_bind_apply client_span_def map_rpc_seen
        retried_call_def with_retry_once sample_client_def client_new_def default_retry_policy_def
        retry_policy_new_def stub_call_def sample_env_def)
  then show ?thesis
    using job_disposed_once [of "\<lambda>_ _ w. (Inl (HandlerError_permanent ''bad''), w)"
        "decode_job sample_pb_job None" "[]" "Inl (HandlerError_permanent ''bad'')" "[]"
        "client_ops sample_env sample_client"
        "worker_metrics_new (sample_env\<lparr>ot_available := True\<rparr>)"]
    by (simp add: HandlerError_permanent_def client_ops_def settled_def)
qed

text \<open>
  C19: the heartbeat's reading of an answer to \<open>extend\<close>, in the state in which it
  resumes: it declares the lease lost, asks the handler to cancel and stops exactly when the
  server says the lease is gone, or when another \<open>SeppError\<close> comes once the expiry
  then known has passed; a success sets the known expiry of the handle, any other
  \<open>SeppError\<close> changes nothing, and in both cases the loop goes on; any other
  exception ends the heartbeat.
\<close>

theorem heartbeat_verdict:
  fixes st st' :: "'w ae_state"
  assumes "qo_extend ops (ae_lease st) (ax_extend_by cfg) (ae_world st) = (r, w)"
  shows "hb_call ops cfg st = st\<lparr>ae_world := w, ae_hb := HbAnswered r\<rparr>
   \<and> hb_reply clock r st' =
    (case r of
       Inr expiry \<Rightarrow>
         st'\<lparr>ae_lease := (ae_lease st')\<lparr>ls_known_expiry_ms := datetime_to_millis expiry\<rparr>, ae_hb := HbTop\<rparr>
     | Inl e \<Rightarrow>
         if lease_gone e (ae_lease st') (now_millis clock (ae_world st'))
         then st'\<lparr>ae_lease_lost := True, ae_cancel_requested := True, ae_hb := HbStopped\<rparr>
         else st'\<lparr>ae_hb := (if is_SeppError e then HbTop else HbRaised e)\<rparr>)"
  using assms
  by (auto simp: hb_call_def hb_reply_def lease_gone_def abort_handler_def lease_renewed_def
      split: sum.splits py_exn.splits sepp_error.splits)

theorem heartbeat_verdict_witness:
  "ae_hb (hb_reply (\<lambda>_. utc 0)
     (fst (lease_call sample_env sample_client (lease_new ''j1'' 1 (utc 0) None) (seconds 30) []))
     (ae_init ([] :: string list) (lease_new ''j1'' 1 (utc 0) None))) = HbTop"
proof -
  let ?l = "lease_new ''j1'' 1 (utc 0) None"
  have "extend_request ref_runtime ''j1'' 1 (seconds 30) None = Inr (wire_extend ?l (seconds 30))"
    by (simp add: extend_request_def ref_runtime_def wire_extend_def lease_new_def
        duration_of_def seconds_def du_valid_def max_duration_seconds_def)
  then obtain x v where "lease_call sample_env sample_client ?l (seconds 30) [] = (Inr x, v)"
    by (simp add: lease_call_def extend_inner_def lease_new_def io_bind_apply client_span_def
        map_rpc_seen retried_call_def with_retry_once sample_client_def client_new_def
        default_retry_policy_def retry_policy_new_def stub_call_def extend_expiry_eq ref_runtime_ok
        sample_env_def repr_time_def get_timestamp_def)
  then show ?thesis
    using heartbeat_verdict [of "client_ops sample_env sample_client" "ae_init [] ?l"
        "\<lparr>ax_explicit_interval = None, ax_extend_by = seconds 30\<rparr>" "Inr x" v "\<lambda>_. utc 0"
        "ae_init [] ?l"]
    by (simp add: ae_init_def client_ops_def)
qed

text \<open>
  C20: with the interval derived from the granted lease and at least three milliseconds left,
  the heartbeat sleeps at least a millisecond and less than half of what is left, so that the
  extension is asked for before the lease expires, with time for a second try.
\<close>

theorem heartbeat_before_expiry:
  assumes "ax_explicit_interval cfg = None" and "3 \<le> ls_known_expiry_ms l - now"
  shows "milliseconds 1 \<le> beat_interval cfg l now
    \<and> 2 * beat_interval cfg l now < milliseconds (ls_known_expiry_ms l - now)"
  using beat_interval_granted [OF assms(1) refl assms(2)] by simp

theorem heartbeat_before_expiry_witness:
  "2 * beat_interval \<lparr>ax_explicit_interval = None, ax_extend_by = seconds 30\<rparr>
       (lease_new ''j1'' 1 (utc 3000000) None) 0 < milliseconds 3000"
  using heartbeat_before_expiry [of "\<lparr>ax_explicit_interval = None, ax_extend_by = seconds 30\<rparr>"
      "lease_new ''j1'' 1 (utc 3000000) None" 0]
  by (simp add: lease_new_def)

end
