(* ===== verification/Sepp_Run.thy ===== *)
theory Sepp_Run
  imports Sepp_Dispatch "HOL-Library.Multiset"
begin

text \<open>
  \<open>Worker.run\<close> of \<^verbatim>\<open>src/sepp/worker.py\<close>: the loop that takes a permit of the semaphore, reserves
  jobs, spawns a task for each, and on shutdown drains them. The loop's position is \<open>run_pc\<close>, one
  constructor per \<open>await\<close>; an event is the loop being resumed, or something that happens to it
  meanwhile (a task ends, shutdown is signalled, \<open>run\<close> is cancelled). \<open>run_step\<close> executes the
  code from one \<open>await\<close> to the next and gives \<open>None\<close> for an event that cannot happen there.
\<close>

section \<open>The state of the loop\<close>

datatype run_pc =
    AtTop
  | Acquiring
  | Reserving reserve_options
  | Pausing timedelta
  | Spawning "job list"
  | Draining
  | Reaping
  | Finished "py_exn + unit"

record run_state =
  rn_pc :: run_pc
  rn_permits :: int
  rn_tasks :: "job list"
  rn_in_flight :: int
  rn_metrics :: worker_metrics
  rn_shutdown :: bool

text \<open>
  The events. A \<open>Woken\<close> event resumes \<open>_or_shutdown\<close>: it says whether the awaited thing finished,
  and with what; a reserve comes with the seconds it took.
\<close>

datatype run_event =
    LoopTest
  | AcquireWoken bool
  | ReserveWoken "((py_exn + job list option) \<times> rat) option"
  | SleepWoken bool
  | NextPermit
  | TaskFinished job
  | ShutdownSignal
  | CancelRun
  | TasksGathered

definition EARLY_EMPTY_THRESHOLD :: timedelta where
  "EARLY_EMPTY_THRESHOLD = milliseconds 100"

definition EARLY_EMPTY_BACKOFF :: timedelta where
  "EARLY_EMPTY_BACKOFF = milliseconds 250"

section \<open>The pieces of the loop\<close>

text \<open>\<open>_or_shutdown\<close>: a finished awaitable wins, even when shutdown was signalled as well.\<close>

definition or_shutdown :: "'a option \<Rightarrow> bool \<Rightarrow> ('a option \<times> bool) option" where
  "or_shutdown task_done shutdown =
     (case task_done of
        Some r \<Rightarrow> Some (Some r, False)
      | None \<Rightarrow> if shutdown then Some (None, True) else None)"

definition reserve_opts_with_capacity ::
    "'h worker \<Rightarrow> int \<Rightarrow> py_error + reserve_options" where
  "reserve_opts_with_capacity worker in_flight =
     (let capacity = max 1 (wk_max_in_flight worker - in_flight);
          o' = wk_opts worker;
          max_jobs = (case ro_max_jobs o' of None \<Rightarrow> capacity | Some n \<Rightarrow> min n capacity)
      in reserve_options_new (ro_queues o') (ro_lease_duration o') (ro_wait_timeout o')
           (ro_worker_id o') (Some max_jobs))"

definition release :: "run_state \<Rightarrow> run_state" where
  "release st = st\<lparr>rn_permits := rn_permits st + 1\<rparr>"

definition spawn :: "job \<Rightarrow> run_state \<Rightarrow> run_state" where
  "spawn job st =
     st\<lparr>rn_in_flight := rn_in_flight st + 1,
        rn_metrics := record_in_flight_delta 1 (rn_metrics st),
        rn_tasks := job # rn_tasks st\<rparr>"

text \<open>The done callback of a task.\<close>

definition task_done :: "job \<Rightarrow> run_state \<Rightarrow> run_state" where
  "task_done job st =
     (release (st\<lparr>rn_tasks := remove1 job (rn_tasks st)\<rparr>))
       \<lparr>rn_in_flight := rn_in_flight st - 1,
        rn_metrics := record_in_flight_delta (- 1) (rn_metrics st)\<rparr>"

definition goto :: "run_pc \<Rightarrow> run_state \<Rightarrow> run_state" where
  "goto pc st = st\<lparr>rn_pc := pc\<rparr>"

definition metric :: "(worker_metrics \<Rightarrow> worker_metrics) \<Rightarrow> run_state \<Rightarrow> run_state" where
  "metric f st = st\<lparr>rn_metrics := f (rn_metrics st)\<rparr>"

definition spawning :: "job list \<Rightarrow> run_pc" where
  "spawning jobs = (if jobs = [] then AtTop else Spawning jobs)"

definition returned_early :: "reserve_options \<Rightarrow> rat \<Rightarrow> bool" where
  "returned_early opts elapsed \<longleftrightarrow>
     timedelta_seconds elapsed < min EARLY_EMPTY_THRESHOLD (td_div (ro_wait_timeout opts) 2)"

text \<open>After the reserve: its result, or the exception it raised.\<close>

fun after_reserve ::
    "'h worker \<Rightarrow> reserve_options \<Rightarrow> py_exn + job list option \<Rightarrow> rat \<Rightarrow> run_state \<Rightarrow> run_state" where
  "after_reserve worker opts (Inl (Sepp e)) elapsed st =
     goto (Pausing (wk_reserve_error_backoff worker)) (release (metric record_reserve_failed st))"
| "after_reserve worker opts (Inl CancelledError) elapsed st = goto Reaping st"
| "after_reserve worker opts (Inl e) elapsed st = goto (Finished (Inl e)) st"
| "after_reserve worker opts (Inr None) elapsed st =
     goto (if returned_early opts elapsed then Pausing EARLY_EMPTY_BACKOFF else AtTop)
       (release (metric (record_reserve_ok True) st))"
| "after_reserve worker opts (Inr (Some [])) elapsed st =
     goto (Finished (Inl (Py (IndexError ''list index out of range''))))
       (metric (record_reserve_ok False) st)"
| "after_reserve worker opts (Inr (Some (j # js))) elapsed st =
     goto (spawning js) (spawn j (metric (record_reserve_ok False) st))"

section \<open>The step function\<close>

definition loop_test :: "run_state \<Rightarrow> run_state" where
  "loop_test st = goto (if rn_shutdown st then Draining else Acquiring) st"

text \<open>With the permit in hand: the reserve is issued.\<close>

definition acquired :: "'h worker \<Rightarrow> run_state \<Rightarrow> run_state" where
  "acquired worker st =
     (let st' = st\<lparr>rn_permits := rn_permits st - 1\<rparr>
      in case reserve_opts_with_capacity worker (rn_in_flight st) of
           Inr opts \<Rightarrow> goto (Reserving opts) st'
         | Inl e \<Rightarrow> goto (Finished (Inl (Py e))) st')"

definition acquire_woken :: "'h worker \<Rightarrow> bool \<Rightarrow> run_state \<Rightarrow> run_state option" where
  "acquire_woken worker got st =
     (if got \<and> rn_permits st \<le> 0 then None
      else case or_shutdown (if got then Some () else None) (rn_shutdown st) of
        None \<Rightarrow> None
      | Some (_, shutdown_won) \<Rightarrow>
          Some (if shutdown_won then goto Draining st else acquired worker st))"

definition reserve_woken ::
    "'h worker \<Rightarrow> reserve_options \<Rightarrow> ((py_exn + job list option) \<times> rat) option \<Rightarrow> run_state
     \<Rightarrow> run_state option" where
  "reserve_woken worker opts reply st =
     (case or_shutdown reply (rn_shutdown st) of
        None \<Rightarrow> None
      | Some (Some (r, elapsed), _) \<Rightarrow> Some (after_reserve worker opts r elapsed st)
      | Some (None, _) \<Rightarrow> Some (goto Draining (release st)))"

definition sleep_woken :: "bool \<Rightarrow> run_state \<Rightarrow> run_state option" where
  "sleep_woken finished st =
     (case or_shutdown (if finished then Some () else None) (rn_shutdown st) of
        None \<Rightarrow> None
      | Some (_, shutdown_won) \<Rightarrow> Some (goto (if shutdown_won then Draining else AtTop) st))"

definition next_permit :: "job list \<Rightarrow> run_state \<Rightarrow> run_state option" where
  "next_permit jobs st =
     (if rn_permits st \<le> 0 then None
      else case jobs of
        [] \<Rightarrow> None
      | j # js \<Rightarrow>
          Some (goto (spawning js) (spawn j (st\<lparr>rn_permits := rn_permits st - 1\<rparr>))))"

text \<open>
  A cancellation of \<open>run\<close> inside the \<open>try\<close> cancels the tasks and awaits them; outside it leaves
  at once.
\<close>

definition cancel_run :: "run_state \<Rightarrow> run_state option" where
  "cancel_run st =
     (case rn_pc st of
        AtTop \<Rightarrow> None
      | Finished _ \<Rightarrow> None
      | Draining \<Rightarrow> Some (goto (Finished (Inl CancelledError)) st)
      | Reaping \<Rightarrow> Some (goto (Finished (Inl CancelledError)) st)
      | _ \<Rightarrow> Some (goto Reaping st))"

text \<open>\<open>ShutdownHandle.shutdown\<close> sets the event that \<open>is_shutdown\<close> reads.\<close>

definition signal_shutdown :: "run_state \<Rightarrow> run_state" where
  "signal_shutdown st = st\<lparr>rn_shutdown := True\<rparr>"

definition gathered :: "run_state \<Rightarrow> run_state option" where
  "gathered st =
     (if rn_tasks st \<noteq> [] then None
      else case rn_pc st of
        Draining \<Rightarrow> Some (goto (Finished (Inr ())) st)
      | Reaping \<Rightarrow> Some (goto (Finished (Inl CancelledError)) st)
      | _ \<Rightarrow> None)"

definition run_step :: "'h worker \<Rightarrow> run_state \<Rightarrow> run_event \<Rightarrow> run_state option" where
  "run_step worker st ev =
     (case ev of
        TaskFinished job \<Rightarrow> if job \<in> set (rn_tasks st) then Some (task_done job st) else None
      | ShutdownSignal \<Rightarrow> Some (signal_shutdown st)
      | CancelRun \<Rightarrow> cancel_run st
      | TasksGathered \<Rightarrow> gathered st
      | LoopTest \<Rightarrow> (case rn_pc st of AtTop \<Rightarrow> Some (loop_test st) | _ \<Rightarrow> None)
      | AcquireWoken got \<Rightarrow>
          (case rn_pc st of Acquiring \<Rightarrow> acquire_woken worker got st | _ \<Rightarrow> None)
      | ReserveWoken reply \<Rightarrow>
          (case rn_pc st of Reserving opts \<Rightarrow> reserve_woken worker opts reply st | _ \<Rightarrow> None)
      | SleepWoken finished \<Rightarrow>
          (case rn_pc st of
             Pausing _ \<Rightarrow> sleep_woken finished st
           | _ \<Rightarrow> None)
      | NextPermit \<Rightarrow> (case rn_pc st of Spawning jobs \<Rightarrow> next_permit jobs st | _ \<Rightarrow> None))"

fun run_events :: "'h worker \<Rightarrow> run_state \<Rightarrow> run_event list \<Rightarrow> run_state option" where
  "run_events worker st [] = Some st"
| "run_events worker st (ev # evs) =
     (case run_step worker st ev of None \<Rightarrow> None | Some st' \<Rightarrow> run_events worker st' evs)"

definition run_init :: "('w, 'c, 'z) otel_scheme \<Rightarrow> bool \<Rightarrow> 'h worker \<Rightarrow> run_state" where
  "run_init ot shutdown worker =
     \<lparr>rn_pc = AtTop, rn_permits = wk_max_in_flight worker, rn_tasks = [], rn_in_flight = 0,
      rn_metrics = worker_metrics_new ot, rn_shutdown = shutdown\<rparr>"

lemmas run_defs = goto_def metric_def release_def spawn_def task_done_def loop_test_def
  acquired_def acquire_woken_def signal_shutdown_def reserve_woken_def sleep_woken_def next_permit_def cancel_run_def
  gathered_def

section \<open>The invariant of the loop\<close>

text \<open>The permit the loop itself holds while a reserve is pending.\<close>

fun held :: "run_pc \<Rightarrow> int" where
  "held (Reserving _) = 1"
| "held _ = 0"

fun live :: "run_pc \<Rightarrow> bool" where
  "live Reaping = False"
| "live (Finished _) = False"
| "live _ = True"

text \<open>A reserve never asks for more jobs than there are free slots, nor than was configured.\<close>

definition within_capacity :: "'h worker \<Rightarrow> run_state \<Rightarrow> reserve_options \<Rightarrow> bool" where
  "within_capacity worker st opts \<longleftrightarrow>
     (\<exists>n. ro_max_jobs opts = Some n \<and> 1 \<le> n \<and> n \<le> rn_permits st + 1
        \<and> (\<forall>m. ro_max_jobs (wk_opts worker) = Some m \<longrightarrow> n \<le> m))
     \<and> ro_queues opts = ro_queues (wk_opts worker)
     \<and> ro_lease_duration opts = ro_lease_duration (wk_opts worker)"

lemma within_capacity_mono:
  "within_capacity worker st opts \<Longrightarrow> rn_permits st \<le> rn_permits st'
   \<Longrightarrow> within_capacity worker st' opts"
  by (fastforce simp: within_capacity_def)

lemma within_capacity_update [simp]:
  "within_capacity worker (st\<lparr>rn_pc := pc\<rparr>) opts = within_capacity worker st opts"
  "within_capacity worker (st\<lparr>rn_shutdown := b\<rparr>) opts = within_capacity worker st opts"
  "within_capacity worker (st\<lparr>rn_metrics := m\<rparr>) opts = within_capacity worker st opts"
  by (simp_all add: within_capacity_def)

definition run_inv :: "'h worker \<Rightarrow> run_state \<Rightarrow> bool" where
  "run_inv worker st \<longleftrightarrow>
     rn_in_flight st = int (length (rn_tasks st)) \<and> 0 \<le> rn_permits st
     \<and> rn_permits st + int (length (rn_tasks st)) + held (rn_pc st) \<le> wk_max_in_flight worker
     \<and> (live (rn_pc st) \<longrightarrow>
          rn_permits st + int (length (rn_tasks st)) + held (rn_pc st) = wk_max_in_flight worker)
     \<and> (\<forall>opts. rn_pc st = Reserving opts \<longrightarrow> within_capacity worker st opts)
     \<and> (rn_pc st = Draining \<longrightarrow> rn_shutdown st)
     \<and> (rn_pc st = Finished (Inr ()) \<longrightarrow> rn_shutdown st \<and> rn_tasks st = [])
     \<and> rn_pc st \<noteq> Spawning []
     \<and> (wm_enabled (rn_metrics st) \<longrightarrow> wm_in_flight (rn_metrics st) = rn_in_flight st)"

lemma run_inv_init: "worker_ok worker \<Longrightarrow> run_inv worker (run_init ot shutdown worker)"
  by (simp add: run_inv_def run_init_def worker_ok_def worker_metrics_new_def)

lemma reserve_opts_ok:
  assumes "worker_ok worker" and "in_flight < wk_max_in_flight worker"
  shows "\<exists>opts n. reserve_opts_with_capacity worker in_flight = Inr opts
           \<and> ro_max_jobs opts = Some n \<and> 1 \<le> n \<and> n \<le> wk_max_in_flight worker - in_flight
           \<and> (\<forall>m. ro_max_jobs (wk_opts worker) = Some m \<longrightarrow> n \<le> m)
           \<and> ro_queues opts = ro_queues (wk_opts worker)
           \<and> ro_lease_duration opts = ro_lease_duration (wk_opts worker)
           \<and> ro_wait_timeout opts = ro_wait_timeout (wk_opts worker)
           \<and> ro_worker_id opts = ro_worker_id (wk_opts worker)"
proof -
  let ?o = "wk_opts worker" and ?c = "max 1 (wk_max_in_flight worker - in_flight)"
  let ?n = "case ro_max_jobs ?o of None \<Rightarrow> ?c | Some n \<Rightarrow> min n ?c"
  let ?opts = "\<lparr>ro_queues = ro_queues ?o, ro_lease_duration = ro_lease_duration ?o,
    ro_wait_timeout = ro_wait_timeout ?o, ro_worker_id = ro_worker_id ?o, ro_max_jobs = Some ?n\<rparr>"
  have n: "1 \<le> ?n" "?n \<le> wk_max_in_flight worker - in_flight"
      "\<forall>m. ro_max_jobs ?o = Some m \<longrightarrow> ?n \<le> m"
    using assms by (auto simp: worker_ok_def reserve_options_ok_def split: option.splits)
  then have "reserve_options_ok ?opts"
    using assms(1) by (simp add: worker_ok_def reserve_options_ok_def)
  then have "reserve_opts_with_capacity worker in_flight = Inr ?opts"
    by (simp add: reserve_opts_with_capacity_def Let_def reserve_options_new_iff)
  then show ?thesis using n by (intro exI [of _ ?opts] exI [of _ ?n]) simp
qed

lemma acquired_inv:
  assumes "worker_ok worker" and "run_inv worker st" and "rn_pc st = Acquiring"
    and "0 < rn_permits st"
  shows "run_inv worker (acquired worker st)
    \<and> (\<exists>opts. rn_pc (acquired worker st) = Reserving opts)"
proof -
  have eq: "rn_in_flight st = wk_max_in_flight worker - rn_permits st"
    using assms(2,3) by (simp add: run_inv_def)
  then obtain opts n where "reserve_opts_with_capacity worker (rn_in_flight st) = Inr opts"
      "ro_max_jobs opts = Some n" "1 \<le> n" "n \<le> rn_permits st"
      "\<forall>m. ro_max_jobs (wk_opts worker) = Some m \<longrightarrow> n \<le> m"
      "ro_queues opts = ro_queues (wk_opts worker)"
      "ro_lease_duration opts = ro_lease_duration (wk_opts worker)"
    using reserve_opts_ok [OF assms(1), of "rn_in_flight st"] assms(4) by auto
  then show ?thesis
    using assms by (simp add: acquired_def run_defs run_inv_def within_capacity_def)
qed

lemma spawn_inv:
  assumes "run_inv worker st" and "held (rn_pc st) = 1" and "live (rn_pc st)"
  shows "run_inv worker (goto (spawning js) (spawn j st))"
  using assms by (auto simp: run_inv_def run_defs spawning_def record_in_flight_delta_def)

lemma goto_inv:
  assumes "run_inv worker st" and "held pc \<le> held (rn_pc st)" and "live pc \<Longrightarrow> held pc = held (rn_pc st)"
    and "live pc \<Longrightarrow> live (rn_pc st)"
    and "\<not> (\<exists>opts. pc = Reserving opts)" "pc \<noteq> Draining" "pc \<noteq> Finished (Inr ())" "pc \<noteq> Spawning []"
  shows "run_inv worker (goto pc st)"
  using assms by (auto simp: run_inv_def goto_def)

lemma release_inv:
  assumes "run_inv worker st" and "rn_pc st = Reserving opts" and "pc = AtTop \<or> (\<exists>d. pc = Pausing d)"
  shows "run_inv worker (goto pc (release st))"
  using assms by (auto simp: run_inv_def goto_def release_def)

lemma reserve_metrics [simp]:
  "wm_in_flight (record_reserve_failed m) = wm_in_flight m"
  "wm_in_flight (record_reserve_ok b m) = wm_in_flight m"
  "wm_enabled (record_reserve_failed m) = wm_enabled m"
  "wm_enabled (record_reserve_ok b m) = wm_enabled m"
  by (simp_all add: record_reserve_failed_def record_reserve_ok_def)

lemma metric_inv:
  assumes "run_inv worker st"
  shows "run_inv worker (metric record_reserve_failed st)"
    and "run_inv worker (metric (record_reserve_ok b) st)"
  using assms by (simp_all add: run_inv_def metric_def)

lemma metric_pc [simp]: "rn_pc (metric f st) = rn_pc st"
  by (simp add: metric_def)

lemma after_reserve_inv:
  assumes "run_inv worker st" and "rn_pc st = Reserving opts"
  shows "run_inv worker (after_reserve worker opts r elapsed st)"
proof (cases r)
  case (Inl e)
  then show ?thesis
    using assms by (cases e) (auto intro: goto_inv release_inv metric_inv)
next
  case (Inr answer)
  note inv = metric_inv(2) [OF assms(1)]
  show ?thesis
  proof (cases answer)
    case None
    then show ?thesis using Inr assms(2) by (auto intro: release_inv inv)
  next
    case (Some jobs)
    then show ?thesis
      using Inr assms(2) by (cases jobs) (auto intro!: goto_inv spawn_inv inv)
  qed
qed

lemma task_done_inv:
  assumes "run_inv worker st" and "job \<in> set (rn_tasks st)"
  shows "run_inv worker (task_done job st)"
proof -
  have "int (length (remove1 job (rn_tasks st))) = int (length (rn_tasks st)) - 1"
    using assms(2) length_pos_if_in_set [of job "rn_tasks st"]
    by (simp only: length_remove1 if_True) arith
  moreover have "rn_pc st = Finished (Inr ()) \<longrightarrow> rn_tasks st = []"
    using assms(1) by (simp add: run_inv_def)
  ultimately show ?thesis
    using assms
    by (auto simp: run_inv_def release_def task_done_def record_in_flight_delta_def
        intro: within_capacity_mono)
qed

lemma run_inv_step:
  assumes ok: "worker_ok worker" and inv: "run_inv worker st"
    and step: "run_step worker st ev = Some st'"
  shows "run_inv worker st'"
proof (cases ev)
  case LoopTest
  then have "rn_pc st = AtTop" "st' = loop_test st"
    using step by (auto simp: run_step_def split: run_pc.splits)
  then show ?thesis
    using inv by (cases "rn_shutdown st") (simp_all add: loop_test_def goto_def run_inv_def)
next
  case (AcquireWoken got)
  then have pc: "rn_pc st = Acquiring" and st': "acquire_woken worker got st = Some st'"
    using step by (auto simp: run_step_def split: run_pc.splits)
  show ?thesis
  proof (cases got)
    case True
    then show ?thesis
      using st' acquired_inv [OF ok inv pc] by (auto simp: acquire_woken_def or_shutdown_def
          split: if_splits)
  next
    case False
    then show ?thesis
      using st' pc inv by (auto simp: acquire_woken_def or_shutdown_def goto_def run_inv_def
          split: if_splits)
  qed
next
  case (ReserveWoken reply)
  then obtain opts where pc: "rn_pc st = Reserving opts"
      and st': "reserve_woken worker opts reply st = Some st'"
    using step by (auto simp: run_step_def split: run_pc.splits)
  show ?thesis
  proof (cases reply)
    case None
    then show ?thesis
      using st' pc inv by (auto simp: reserve_woken_def or_shutdown_def goto_def release_def
          run_inv_def split: if_splits)
  next
    case (Some re)
    then show ?thesis
      using st' after_reserve_inv [OF inv pc]
      by (cases re) (auto simp: reserve_woken_def or_shutdown_def)
  qed
next
  case (SleepWoken finished)
  then show ?thesis
    using inv step
    by (cases "rn_pc st"; cases finished; cases "rn_shutdown st")
      (auto simp: run_step_def sleep_woken_def or_shutdown_def goto_def run_inv_def)
next
  case NextPermit
  then obtain jobs where pc: "rn_pc st = Spawning jobs" and st': "next_permit jobs st = Some st'"
    using step by (auto simp: run_step_def split: run_pc.splits)
  then obtain j js where jobs: "jobs = j # js" "0 < rn_permits st"
      "st' = goto (spawning js) (spawn j (st\<lparr>rn_permits := rn_permits st - 1\<rparr>))"
    by (auto simp: next_permit_def split: if_splits list.splits)
  then show ?thesis
    using inv pc by (cases js) (simp_all add: run_inv_def goto_def spawn_def spawning_def
        record_in_flight_delta_def)
next
  case (TaskFinished job)
  then show ?thesis
    using inv step task_done_inv by (auto simp: run_step_def split: if_splits)
next
  case ShutdownSignal
  then show ?thesis using inv step by (auto simp: run_step_def signal_shutdown_def run_inv_def)
next
  case CancelRun
  then obtain pc where "st' = goto pc st" "pc = Reaping \<or> pc = Finished (Inl CancelledError)"
    using step by (cases "rn_pc st") (auto simp: run_step_def cancel_run_def)
  moreover have "0 \<le> held (rn_pc st)" by (cases "rn_pc st") simp_all
  ultimately show ?thesis using inv by (auto intro!: goto_inv)
next
  case TasksGathered
  then show ?thesis
    using inv step
    by (cases "rn_pc st") (auto simp: run_step_def gathered_def goto_def run_inv_def
        split: if_splits)
qed

lemma run_inv_events:
  "worker_ok worker \<Longrightarrow> run_inv worker st \<Longrightarrow> run_events worker st evs = Some st'
   \<Longrightarrow> run_inv worker st'"
  by (induction evs arbitrary: st) (auto split: option.splits dest: run_inv_step)

lemma run_events_append:
  "run_events worker st (xs @ ys) =
     (case run_events worker st xs of None \<Rightarrow> None | Some st' \<Rightarrow> run_events worker st' ys)"
  by (induction xs arbitrary: st) (auto split: option.splits)

section \<open>No reserved job is lost or run twice\<close>

text \<open>The jobs an event brings in, and the jobs it ends.\<close>

fun reserved :: "run_event \<Rightarrow> job multiset" where
  "reserved (ReserveWoken (Some (Inr (Some js), _))) = mset js"
| "reserved _ = {#}"

fun finished :: "run_event \<Rightarrow> job multiset" where
  "finished (TaskFinished j) = {#j#}"
| "finished _ = {#}"

fun pending :: "run_pc \<Rightarrow> job multiset" where
  "pending (Spawning js) = mset js"
| "pending _ = {#}"

definition held_jobs :: "run_state \<Rightarrow> job multiset" where
  "held_jobs st = mset (rn_tasks st) + pending (rn_pc st)"

lemma pending_spawning [simp]: "pending (spawning js) = mset js"
  by (simp add: spawning_def)

lemma after_reserve_jobs:
  assumes "rn_pc st = Reserving opts"
  shows "held_jobs (after_reserve worker opts r elapsed st)
     = held_jobs st + reserved (ReserveWoken (Some (r, elapsed)))"
proof (cases r)
  case (Inl e)
  then show ?thesis
    using assms by (cases e) (simp_all add: held_jobs_def goto_def release_def metric_def)
next
  case (Inr answer)
  show ?thesis
  proof (cases answer)
    case None
    then show ?thesis
      using Inr assms by (simp add: held_jobs_def goto_def release_def metric_def)
  next
    case (Some jobs)
    then show ?thesis
      using Inr assms by (cases jobs) (simp_all add: held_jobs_def goto_def spawn_def metric_def)
  qed
qed

lemma run_step_jobs:
  assumes step: "run_step worker st ev = Some st'" and "ev \<noteq> CancelRun"
  shows "held_jobs st' + finished ev = held_jobs st + reserved ev"
proof (cases ev)
  case (AcquireWoken got)
  then have "rn_pc st = Acquiring" "acquire_woken worker got st = Some st'"
    using step by (auto simp: run_step_def split: run_pc.splits)
  then show ?thesis
    using AcquireWoken by (auto simp: acquire_woken_def or_shutdown_def held_jobs_def goto_def
        acquired_def Let_def split: if_splits sum.splits)
next
  case (ReserveWoken reply)
  then obtain opts where pc: "rn_pc st = Reserving opts"
      "reserve_woken worker opts reply st = Some st'"
    using step by (auto simp: run_step_def split: run_pc.splits)
  show ?thesis
  proof (cases reply)
    case None
    then show ?thesis
      using pc ReserveWoken by (auto simp: reserve_woken_def or_shutdown_def held_jobs_def goto_def
          release_def split: if_splits)
  next
    case (Some re)
    obtain r elapsed where "re = (r, elapsed)" by (cases re)
    then show ?thesis
      using pc ReserveWoken Some after_reserve_jobs [OF pc(1), of worker r elapsed]
      by (simp add: reserve_woken_def or_shutdown_def)
  qed
next
  case (SleepWoken f)
  then show ?thesis
    using step by (cases "rn_pc st"; cases f; cases "rn_shutdown st")
      (auto simp: run_step_def sleep_woken_def or_shutdown_def goto_def held_jobs_def)
next
  case NextPermit
  then obtain jobs where pc: "rn_pc st = Spawning jobs" and st': "next_permit jobs st = Some st'"
    using step by (auto simp: run_step_def split: run_pc.splits)
  then show ?thesis
    using NextPermit by (auto simp: next_permit_def held_jobs_def goto_def spawn_def
        split: if_splits list.splits)
next
  case (TaskFinished job)
  then show ?thesis
    using step by (auto simp: run_step_def task_done_def release_def held_jobs_def split: if_splits)
next
  case TasksGathered
  then show ?thesis
    using step by (cases "rn_pc st") (auto simp: run_step_def gathered_def goto_def held_jobs_def
        split: if_splits)
next
  case LoopTest
  then show ?thesis
    using step by (cases "rn_pc st"; cases "rn_shutdown st")
      (auto simp: run_step_def loop_test_def goto_def held_jobs_def)
qed (use assms in \<open>auto simp: run_step_def signal_shutdown_def held_jobs_def\<close>)

lemma run_events_jobs:
  assumes "run_events worker st evs = Some st'" and "CancelRun \<notin> set evs"
  shows "held_jobs st' + \<Sum>\<^sub># (mset (map finished evs)) = held_jobs st + \<Sum>\<^sub># (mset (map reserved evs))"
  using assms
proof (induction evs arbitrary: st)
  case (Cons ev evs)
  then obtain st1 where "run_step worker st ev = Some st1" "run_events worker st1 evs = Some st'"
    by (auto split: option.splits)
  then have one: "held_jobs st1 + finished ev = held_jobs st + reserved ev"
    and rest: "held_jobs st' + \<Sum>\<^sub># (mset (map finished evs)) = held_jobs st1 + \<Sum>\<^sub># (mset (map reserved evs))"
    using Cons by (auto intro: run_step_jobs)
  have "held_jobs st' + \<Sum>\<^sub># (mset (map finished (ev # evs)))
      = (held_jobs st' + \<Sum>\<^sub># (mset (map finished evs))) + finished ev"
    by (simp add: ac_simps)
  also have "\<dots> = (held_jobs st1 + finished ev) + \<Sum>\<^sub># (mset (map reserved evs))"
    unfolding rest by (simp only: ac_simps)
  also have "\<dots> = held_jobs st + \<Sum>\<^sub># (mset (map reserved (ev # evs)))"
    unfolding one by (simp add: ac_simps)
  finally show ?case .
qed simp

section \<open>Stopping\<close>

text \<open>Once shutdown is signalled at most one more reserve is issued.\<close>

definition reserves_issued :: "run_event list \<Rightarrow> nat" where
  "reserves_issued evs = length (filter (\<lambda>ev. ev = AcquireWoken True) evs)"

fun may_reserve :: "run_pc \<Rightarrow> nat" where
  "may_reserve Acquiring = 1"
| "may_reserve _ = 0"

lemma after_reserve_pc:
  "rn_pc st = Reserving opts \<Longrightarrow> may_reserve (rn_pc (after_reserve worker opts r elapsed st)) = 0
   \<and> rn_shutdown (after_reserve worker opts r elapsed st) = rn_shutdown st"
  by (cases "(worker, opts, r, elapsed, st)" rule: after_reserve.cases)
    (simp_all add: goto_def release_def metric_def spawn_def spawning_def)

lemma shutdown_step:
  assumes step: "run_step worker st ev = Some st'" and down: "rn_shutdown st"
  shows "rn_shutdown st'"
    and "may_reserve (rn_pc st') + (if ev = AcquireWoken True then 1 else 0) \<le> may_reserve (rn_pc st)"
proof -
  have "rn_shutdown st' \<and>
      may_reserve (rn_pc st') + (if ev = AcquireWoken True then 1 else 0) \<le> may_reserve (rn_pc st)"
  proof (cases ev)
    case (ReserveWoken reply)
    then obtain opts where pc: "rn_pc st = Reserving opts"
        "reserve_woken worker opts reply st = Some st'"
      using step by (auto simp: run_step_def split: run_pc.splits)
    then show ?thesis
      using ReserveWoken down after_reserve_pc [OF pc(1), of worker]
      by (auto simp: reserve_woken_def or_shutdown_def goto_def release_def split: option.splits)
  next
    case (AcquireWoken got)
    then have "rn_pc st = Acquiring" "acquire_woken worker got st = Some st'"
      using step by (auto simp: run_step_def split: run_pc.splits)
    then show ?thesis
      using AcquireWoken down by (auto simp: acquire_woken_def or_shutdown_def goto_def
          acquired_def Let_def split: if_splits sum.splits)
  next
    case NextPermit
    then show ?thesis
      using step down by (cases "rn_pc st") (auto simp: run_step_def next_permit_def goto_def
          spawn_def spawning_def split: if_splits list.splits)
  next
    case CancelRun
    then show ?thesis
      using step down by (cases "rn_pc st") (auto simp: run_step_def cancel_run_def goto_def)
  next
    case TasksGathered
    then show ?thesis
      using step down by (cases "rn_pc st") (auto simp: run_step_def gathered_def goto_def
          split: if_splits)
  next
    case (SleepWoken f)
    then show ?thesis
      using step down by (cases "rn_pc st"; cases f)
        (auto simp: run_step_def sleep_woken_def or_shutdown_def goto_def)
  next
    case LoopTest
    then show ?thesis
      using step down by (cases "rn_pc st") (auto simp: run_step_def loop_test_def goto_def)
  qed (use step down in \<open>auto simp: run_step_def signal_shutdown_def task_done_def release_def split: if_splits\<close>)
  then show "rn_shutdown st'"
    and "may_reserve (rn_pc st') + (if ev = AcquireWoken True then 1 else 0) \<le> may_reserve (rn_pc st)"
    by simp_all
qed

lemma shutdown_reserves:
  assumes "run_events worker st evs = Some st'" and "rn_shutdown st"
  shows "reserves_issued evs \<le> may_reserve (rn_pc st)"
  using assms
proof (induction evs arbitrary: st)
  case Nil
  then show ?case by (simp add: reserves_issued_def)
next
  case (Cons ev evs)
  then obtain st1 where st1: "run_step worker st ev = Some st1" "run_events worker st1 evs = Some st'"
    by (auto split: option.splits)
  have "reserves_issued evs \<le> may_reserve (rn_pc st1)"
    using Cons.IH [OF st1(2)] shutdown_step(1) [OF st1(1)] Cons.prems(2) by simp
  then show ?case
    using shutdown_step(2) [OF st1(1)] Cons.prems(2) by (simp add: reserves_issued_def split: if_splits)
qed

text \<open>From every live state the loop can come to its end once shutdown is signalled.\<close>

definition can_stop :: "'h worker \<Rightarrow> run_state \<Rightarrow> bool" where
  "can_stop worker st \<longleftrightarrow> (\<exists>evs st'. CancelRun \<notin> set evs \<and> run_events worker st evs = Some st'
     \<and> rn_pc st' = Finished (Inr ()))"

lemma can_stop_step:
  assumes "run_step worker st ev = Some st1" and "can_stop worker st1" and "ev \<noteq> CancelRun"
  shows "can_stop worker st"
proof -
  obtain evs st' where "CancelRun \<notin> set evs" "run_events worker st1 evs = Some st'"
      "rn_pc st' = Finished (Inr ())"
    using assms(2) unfolding can_stop_def by blast
  then show ?thesis
    unfolding can_stop_def using assms(1,3) by (intro exI [of _ "ev # evs"] exI [of _ st']) simp
qed

lemma can_stop_draining: "rn_pc st = Draining \<Longrightarrow> can_stop worker st"
proof (induction "length (rn_tasks st)" arbitrary: st)
  case 0
  then have "run_step worker st TasksGathered = Some (goto (Finished (Inr ())) st)"
    by (simp add: run_step_def gathered_def)
  then have "run_events worker st [TasksGathered] = Some (goto (Finished (Inr ())) st)" by simp
  then show ?case
    unfolding can_stop_def
    by (intro exI [of _ "[TasksGathered]"] exI [of _ "goto (Finished (Inr ())) st"])
      (simp add: goto_def)
next
  case (Suc n)
  then obtain j js where js: "rn_tasks st = j # js" by (cases "rn_tasks st") auto
  then have "run_step worker st (TaskFinished j) = Some (task_done j st)" by (simp add: run_step_def)
  moreover have "can_stop worker (task_done j st)"
    using Suc js by (intro Suc.hyps(1)) (simp_all add: task_done_def release_def)
  ultimately show ?case by (rule can_stop_step) simp
qed

lemma can_stop_top: "rn_pc st = AtTop \<Longrightarrow> rn_shutdown st \<Longrightarrow> can_stop worker st"
  by (rule can_stop_step [of _ _ LoopTest "loop_test st"])
    (simp_all add: run_step_def loop_test_def goto_def can_stop_draining)

lemma can_stop_spawning:
  assumes "worker_ok worker" and "run_inv worker st" and "rn_pc st = Spawning js"
    and "rn_shutdown st"
  shows "can_stop worker st"
  using assms
proof (induction "length js" arbitrary: st js)
  case 0
  then show ?case by (simp add: run_inv_def)
next
  case (Suc n)
  then obtain j js' where js: "js = j # js'" by (cases js) auto
  have room: "can_stop worker st'"
    if inv: "run_inv worker st'" and pc: "rn_pc st' = Spawning js" and down: "rn_shutdown st'"
      and free: "0 < rn_permits st'" for st'
  proof -
    let ?st1 = "goto (spawning js') (spawn j (st'\<lparr>rn_permits := rn_permits st' - 1\<rparr>))"
    have step: "run_step worker st' NextPermit = Some ?st1"
      using pc js free by (simp add: run_step_def next_permit_def)
    then have "run_inv worker ?st1" by (rule run_inv_step [OF Suc.prems(1) inv])
    moreover have "rn_shutdown ?st1" using down by (simp add: goto_def spawn_def)
    moreover have "rn_pc ?st1 = (if js' = [] then AtTop else Spawning js')"
      by (simp add: goto_def spawning_def)
    ultimately have "can_stop worker ?st1"
      using Suc.hyps(1) [of js' ?st1] Suc.hyps(2) Suc.prems(1) js
      by (cases "js' = []") (simp_all add: can_stop_top)
    with step show ?thesis by (rule can_stop_step) simp
  qed
  show ?case
  proof (cases "0 < rn_permits st")
    case True
    then show ?thesis using room Suc.prems by blast
  next
    case False
    then have "rn_tasks st \<noteq> []" using Suc.prems(1-3) by (auto simp: run_inv_def worker_ok_def)
    then obtain k ks where k: "rn_tasks st = k # ks" by (cases "rn_tasks st") auto
    then have step: "run_step worker st (TaskFinished k) = Some (task_done k st)"
      by (simp add: run_step_def)
    have "can_stop worker (task_done k st)"
    proof (rule room)
      show "run_inv worker (task_done k st)" by (rule run_inv_step [OF Suc.prems(1,2) step])
      show "0 < rn_permits (task_done k st)"
        using Suc.prems(2) by (simp add: run_inv_def task_done_def release_def)
    qed (use Suc.prems in \<open>simp_all add: task_done_def release_def\<close>)
    with step show ?thesis by (rule can_stop_step) simp
  qed
qed

lemma can_stop_live:
  assumes "worker_ok worker" and "run_inv worker st" and "live (rn_pc st)" and "rn_shutdown st"
  shows "can_stop worker st"
proof (cases "rn_pc st")
  case Acquiring
  then show ?thesis
    using assms(4)
    by - (rule can_stop_step [of _ _ "AcquireWoken False" "goto Draining st"],
      simp_all add: run_step_def acquire_woken_def or_shutdown_def can_stop_draining goto_def)
next
  case (Reserving opts)
  then show ?thesis
    using assms(4)
    by - (rule can_stop_step [of _ _ "ReserveWoken None" "goto Draining (release st)"],
      simp_all add: run_step_def reserve_woken_def or_shutdown_def can_stop_draining goto_def)
next
  case (Pausing d)
  then show ?thesis
    using assms(4)
    by - (rule can_stop_step [of _ _ "SleepWoken False" "goto Draining st"],
      simp_all add: run_step_def sleep_woken_def or_shutdown_def can_stop_draining goto_def)
next
  case AtTop
  then show ?thesis using assms(4) by (rule can_stop_top)
next
  case (Spawning js)
  with assms(1,2) show ?thesis using assms(4) by (rule can_stop_spawning)
next
  case Draining
  then show ?thesis by (rule can_stop_draining)
qed (use assms(3) in simp_all)

section \<open>A server that honours \<open>max_jobs\<close>\<close>

text \<open>Then the permits a batch needs are free when it arrives: spawning it never waits.\<close>

fun honours :: "run_state \<Rightarrow> run_event \<Rightarrow> bool" where
  "honours st (ReserveWoken (Some (Inr (Some js), _))) =
     (case rn_pc st of
        Reserving opts \<Rightarrow> int (length js) \<le> the (ro_max_jobs opts)
      | _ \<Rightarrow> True)"
| "honours st _ = True"

inductive served :: "'h worker \<Rightarrow> run_state \<Rightarrow> run_state \<Rightarrow> bool" for worker st where
  start: "served worker st st"
| serve: "served worker st st1 \<Longrightarrow> honours st1 ev \<Longrightarrow> run_step worker st1 ev = Some st2
     \<Longrightarrow> served worker st st2"

inductive_cases servedE: "served worker st st'"

definition has_room :: "run_state \<Rightarrow> bool" where
  "has_room st \<longleftrightarrow> (\<forall>js. rn_pc st = Spawning js \<longrightarrow> int (length js) \<le> rn_permits st)"

lemma has_room_no_batch: "\<not> (\<exists>js. rn_pc st = Spawning js) \<Longrightarrow> has_room st"
  by (simp add: has_room_def)

lemma has_room_reply:
  assumes "run_inv worker st" and "rn_pc st = Reserving opts"
    and "honours st (ReserveWoken (Some (r, elapsed)))"
  shows "has_room (after_reserve worker opts r elapsed st)"
proof -
  have w: "within_capacity worker st opts" using assms(1,2) by (simp add: run_inv_def)
  then obtain n where n: "ro_max_jobs opts = Some n" "n \<le> rn_permits st + 1"
    unfolding within_capacity_def by blast
  show ?thesis
  proof (cases "(worker, opts, r, elapsed, st)" rule: after_reserve.cases)
    case (6 worker' opts' j js elapsed' st')
    then have "int (length (j # js)) \<le> n" using assms(2,3) n(1) by simp
    then show ?thesis
      using 6 n(2) by (simp add: has_room_def goto_def spawn_def metric_def spawning_def)
  qed (simp_all add: has_room_def goto_def release_def metric_def)
qed

lemma has_room_step:
  assumes "run_inv worker st" and "has_room st" and "honours st ev"
    and step: "run_step worker st ev = Some st'"
  shows "has_room st'"
proof (cases ev)
  case (ReserveWoken reply)
  then obtain opts where pc: "rn_pc st = Reserving opts"
      and st': "reserve_woken worker opts reply st = Some st'"
    using step by (auto simp: run_step_def split: run_pc.splits)
  show ?thesis
  proof (cases reply)
    case None
    then show ?thesis
      using st' by (auto simp: reserve_woken_def or_shutdown_def has_room_def goto_def split: if_splits)
  next
    case (Some re)
    obtain r elapsed where "re = (r, elapsed)" by (cases re)
    then show ?thesis
      using st' Some ReserveWoken assms(3) has_room_reply [OF assms(1) pc, of r elapsed]
      by (simp add: reserve_woken_def or_shutdown_def)
  qed
next
  case NextPermit
  then obtain jobs where pc: "rn_pc st = Spawning jobs" and st': "next_permit jobs st = Some st'"
    using step by (auto simp: run_step_def split: run_pc.splits)
  then show ?thesis
    using assms(2) by (auto simp: next_permit_def has_room_def goto_def spawn_def spawning_def
        split: if_splits list.splits)
next
  case (TaskFinished job)
  then show ?thesis
    using step assms(2) by (auto simp: run_step_def task_done_def release_def has_room_def
        split: if_splits)
next
  case ShutdownSignal
  then show ?thesis using step assms(2) by (auto simp: run_step_def signal_shutdown_def has_room_def)
next
  case (AcquireWoken got)
  then have "acquire_woken worker got st = Some st'"
    using step by (auto simp: run_step_def split: run_pc.splits)
  then show ?thesis
    by (intro has_room_no_batch) (auto simp: acquire_woken_def or_shutdown_def goto_def
        acquired_def Let_def split: if_splits sum.splits)
next
  case (SleepWoken f)
  then show ?thesis
    using step by (cases "rn_pc st"; cases f; cases "rn_shutdown st")
      (auto simp: run_step_def sleep_woken_def or_shutdown_def goto_def has_room_def)
next
  case LoopTest
  then show ?thesis
    using step by (cases "rn_pc st"; cases "rn_shutdown st")
      (auto simp: run_step_def loop_test_def goto_def has_room_def)
next
  case CancelRun
  then show ?thesis
    using step by (cases "rn_pc st") (auto simp: run_step_def cancel_run_def goto_def has_room_def)
next
  case TasksGathered
  then show ?thesis
    using step by (cases "rn_pc st") (auto simp: run_step_def gathered_def goto_def has_room_def
        split: if_splits)
qed

lemma served_room:
  assumes "worker_ok worker" and "served worker (run_init ot shutdown worker) st"
  shows "run_inv worker st \<and> has_room st"
  using assms(2)
proof (induction rule: served.induct)
  case start
  then show ?case using run_inv_init [OF assms(1)] by (simp add: has_room_def run_init_def)
next
  case (serve st1 ev st2)
  then show ?case using has_room_step run_inv_step [OF assms(1)] by blast
qed

section \<open>A concrete worker\<close>

definition sample_worker :: "string worker" where
  "sample_worker =
     \<lparr>wk_opts = sample_options, wk_handlers = Map.empty, wk_catch_all = None, wk_max_in_flight = 2,
      wk_reserve_error_backoff = seconds 1, wk_auto_extend = None\<rparr>"

definition sample_job :: job where
  "sample_job = decode_job sample_pb_job (Some ''w'')"

text \<open>The loop reserves one job and is about to take the next permit.\<close>

definition sample_start :: "run_event list" where
  "sample_start =
     [LoopTest, AcquireWoken True, ReserveWoken (Some (Inr (Some [sample_job]), 0)), LoopTest]"

definition sample_running :: run_state where
  "sample_running =
     \<lparr>rn_pc = Acquiring, rn_permits = 1, rn_tasks = [sample_job], rn_in_flight = 1,
      rn_metrics = worker_metrics_new sample_env, rn_shutdown = False\<rparr>"

lemma sample_worker_ok: "worker_ok sample_worker"
  by (simp add: worker_ok_def sample_worker_def sample_options_def reserve_options_ok_def seconds_def)

lemma sample_capacity:
  "reserve_opts_with_capacity sample_worker 0 = Inr (sample_options\<lparr>ro_max_jobs := Some 2\<rparr>)"
  by (simp add: reserve_opts_with_capacity_def sample_worker_def sample_options_def
      reserve_options_new_def seconds_def)

lemma sample_start_runs:
  "run_events sample_worker (run_init sample_env False sample_worker) sample_start
     = Some sample_running"
proof -
  have "wk_max_in_flight sample_worker = 2" by (simp add: sample_worker_def)
  then show ?thesis
    by (simp add: sample_start_def run_init_def run_step_def loop_test_def acquire_woken_def
        or_shutdown_def acquired_def sample_capacity goto_def reserve_woken_def spawn_def metric_def
        spawning_def sample_running_def record_in_flight_delta_def record_reserve_ok_def
        worker_metrics_new_def)
qed

lemma sample_start_no_cancel: "CancelRun \<notin> set sample_start"
  by (simp add: sample_start_def)

section \<open>Further facts\<close>

text \<open>
  The loop never gets stuck: from every state it can reach while it serves, once shutdown is
  signalled \<open>run\<close> can come to its normal end, with the running tasks ending and
  without a cancellation.
\<close>

theorem run_can_stop:
  assumes "worker_ok worker" and "run_events worker (run_init ot shutdown worker) evs = Some st"
    and "live (rn_pc st)"
  shows "can_stop worker (signal_shutdown st)"
proof (rule can_stop_live [OF assms(1)])
  have "run_inv worker st" using run_inv_events [OF assms(1) run_inv_init [OF assms(1)] assms(2)] .
  moreover have "run_step worker st ShutdownSignal = Some (signal_shutdown st)"
    by (simp add: run_step_def)
  ultimately show "run_inv worker (signal_shutdown st)" by (rule run_inv_step [OF assms(1)])
qed (use assms(3) in \<open>simp_all add: signal_shutdown_def\<close>)

theorem run_can_stop_witness: "can_stop sample_worker (signal_shutdown sample_running)"
  by (rule run_can_stop [OF sample_worker_ok sample_start_runs]) (simp add: sample_running_def)

text \<open>
  Unless \<open>run\<close> is cancelled, no reserved job is lost and none is run twice: at
  every moment the jobs reserved so far are the ended, the running and the not yet spawned ones;
  and when \<open>run\<close> returns normally, shutdown was signalled, no task is left and
  exactly the reserved jobs were processed.
\<close>

theorem run_conserves_jobs:
  assumes "worker_ok worker" and "run_events worker (run_init ot shutdown worker) evs = Some st"
    and "CancelRun \<notin> set evs"
  shows "\<Sum>\<^sub># (mset (map reserved evs))
      = \<Sum>\<^sub># (mset (map finished evs)) + mset (rn_tasks st) + pending (rn_pc st)
    \<and> (rn_pc st = Finished (Inr ()) \<longrightarrow> rn_shutdown st \<and> rn_tasks st = []
         \<and> \<Sum>\<^sub># (mset (map reserved evs)) = \<Sum>\<^sub># (mset (map finished evs)))"
proof -
  have "run_inv worker st" using run_inv_events [OF assms(1) run_inv_init [OF assms(1)] assms(2)] .
  moreover have "held_jobs (run_init ot shutdown worker) = {#}"
    by (simp add: held_jobs_def run_init_def)
  ultimately show ?thesis
    using run_events_jobs [OF assms(2,3)] by (auto simp: run_inv_def held_jobs_def ac_simps)
qed

theorem run_conserves_jobs_witness:
  "\<Sum>\<^sub># (mset (map reserved sample_start)) = mset (rn_tasks sample_running) \<and> sample_start \<noteq> []"
  using run_conserves_jobs [OF sample_worker_ok sample_start_runs sample_start_no_cancel]
  by (simp add: sample_running_def sample_start_def)

section \<open>Properties\<close>

text \<open>
  C1: whatever the server answers, however tasks end and whenever shutdown or cancellation
  arrives, \<open>run\<close> never has more than \<open>max_in_flight\<close> jobs running;
  while it serves, free permits, running tasks and the permit of a pending reserve add up to
  exactly \<open>max_in_flight\<close>, the in-flight counter counts the tasks, and a pending
  reserve asks for at most the free slots and at most the configured \<open>max_jobs\<close>.
\<close>

theorem run_bounded_concurrency:
  assumes "worker_ok worker" and "run_events worker (run_init ot shutdown worker) evs = Some st"
  shows "int (length (rn_tasks st)) \<le> wk_max_in_flight worker \<and> 0 \<le> rn_permits st
    \<and> rn_in_flight st = int (length (rn_tasks st))
    \<and> (live (rn_pc st) \<longrightarrow>
         rn_permits st + int (length (rn_tasks st)) + held (rn_pc st) = wk_max_in_flight worker)
    \<and> (\<forall>opts. rn_pc st = Reserving opts \<longrightarrow> within_capacity worker st opts)"
proof -
  have "run_inv worker st" using run_inv_events [OF assms(1) run_inv_init [OF assms(1)] assms(2)] .
  moreover have "0 \<le> held (rn_pc st)" by (cases "rn_pc st") simp_all
  ultimately show ?thesis by (simp add: run_inv_def)
qed

theorem run_bounded_concurrency_witness:
  "\<exists>st. run_events sample_worker (run_init sample_env False sample_worker) sample_start = Some st
     \<and> int (length (rn_tasks st)) \<le> 2 \<and> rn_permits st = 1"
proof -
  have "run_events sample_worker (run_init sample_env False sample_worker) sample_start
      = Some sample_running"
    by (rule sample_start_runs)
  then show ?thesis
    using run_bounded_concurrency [OF sample_worker_ok, of sample_env False sample_start sample_running]
    by (simp add: sample_worker_def sample_running_def)
qed

text \<open>
  C18: once shutdown has been signalled \<open>run\<close> issues no further reserve, except at
  most one when it was already waiting for the permit of that reserve.
\<close>

theorem shutdown_stops_reserving:
  assumes "run_events worker st evs = Some st'" and "rn_shutdown st"
  shows "reserves_issued evs \<le> (if rn_pc st = Acquiring then 1 else 0)"
proof -
  have "may_reserve (rn_pc st) = (if rn_pc st = Acquiring then 1 else 0)"
    by (cases "rn_pc st") simp_all
  then show ?thesis using shutdown_reserves [OF assms] by simp
qed

theorem shutdown_stops_reserving_witness:
  "run_events sample_worker (sample_running\<lparr>rn_shutdown := True\<rparr>) [AcquireWoken False] \<noteq> None
   \<and> reserves_issued [AcquireWoken False] \<le> 1"
proof -
  let ?st = "sample_running\<lparr>rn_shutdown := True\<rparr>"
  have "run_events sample_worker ?st [AcquireWoken False] = Some (goto Draining ?st)"
    by (simp add: sample_running_def run_step_def acquire_woken_def or_shutdown_def)
  then show ?thesis using shutdown_stops_reserving [of sample_worker ?st "[AcquireWoken False]"]
    by (simp add: sample_running_def)
qed

text \<open>
  C40: with a server that returns at most the \<open>max_jobs\<close> it was asked for, a
  reserved batch always finds its slots free: while the rest of a batch is being spawned there
  are at least as many free permits as jobs left, so no leased job waits for another to finish.
\<close>

theorem batch_fits_free_slots:
  assumes "worker_ok worker" and "served worker (run_init ot shutdown worker) st"
    and "rn_pc st = Spawning js"
  shows "int (length js) \<le> rn_permits st \<and> (\<exists>st'. next_permit js st = Some st')"
proof -
  have inv: "run_inv worker st" "has_room st" using served_room [OF assms(1,2)] by simp_all
  then have room: "int (length js) \<le> rn_permits st" "js \<noteq> []"
    using assms(3) by (auto simp: has_room_def run_inv_def)
  then obtain j js' where "js = j # js'" by (cases js) auto
  with room(1) show ?thesis by (simp add: next_permit_def)
qed

theorem batch_fits_free_slots_witness:
  "\<exists>st. served sample_worker (run_init sample_env False sample_worker) st
     \<and> rn_pc st = Spawning [sample_job] \<and> 1 \<le> rn_permits st"
proof -
  let ?s0 = "run_init sample_env False sample_worker"
  let ?s1 = "goto Acquiring ?s0"
  let ?s2 = "goto (Reserving (sample_options\<lparr>ro_max_jobs := Some 2\<rparr>)) (?s1\<lparr>rn_permits := 1\<rparr>)"
  let ?s3 = "after_reserve sample_worker (sample_options\<lparr>ro_max_jobs := Some 2\<rparr>)
    (Inr (Some [sample_job, sample_job])) 0 ?s2"
  have mx: "wk_max_in_flight sample_worker = 2" by (simp add: sample_worker_def)
  have 1: "run_step sample_worker ?s0 LoopTest = Some ?s1"
    by (simp add: run_step_def loop_test_def run_init_def)
  have 2: "run_step sample_worker ?s1 (AcquireWoken True) = Some ?s2"
    by (simp add: run_step_def acquire_woken_def or_shutdown_def acquired_def run_init_def goto_def mx
        sample_capacity)
  have 3: "run_step sample_worker ?s2
      (ReserveWoken (Some (Inr (Some [sample_job, sample_job]), 0))) = Some ?s3"
    by (simp add: run_step_def goto_def reserve_woken_def or_shutdown_def)
  have "served sample_worker ?s0 ?s1" by (rule serve [OF start _ 1]) simp
  then have "served sample_worker ?s0 ?s2" by (rule serve [OF _ _ 2]) simp
  then have "served sample_worker ?s0 ?s3" by (rule serve [OF _ _ 3]) (simp add: goto_def)
  moreover have "rn_pc ?s3 = Spawning [sample_job]" by (simp add: goto_def spawning_def)
  ultimately show ?thesis
    using batch_fits_free_slots [OF sample_worker_ok] by fastforce
qed

end
