(* ===== verification/Sepp_Machine.thy ===== *)
theory Sepp_Machine
  imports Main
begin

text \<open>
  Machines driven by events: a step function gives the next state, or \<open>None\<close> for an event that cannot
  happen. The worker's loop, its specification and the worker with its client are all of this form.
  The locale \<open>simulation\<close> lifts a refinement of single steps to whole runs; the locale \<open>descending\<close>
  bounds the runs of a machine whose steps lower a rank.
\<close>

section \<open>Runs\<close>

primrec runs :: "('s \<Rightarrow> 'e \<Rightarrow> 's option) \<Rightarrow> 's \<Rightarrow> 'e list \<Rightarrow> 's option" where
  "runs step s [] = Some s"
| "runs step s (e # es) = (case step s e of None \<Rightarrow> None | Some s' \<Rightarrow> runs step s' es)"

lemma runs_append:
  "runs step s (xs @ ys) = (case runs step s xs of None \<Rightarrow> None | Some s' \<Rightarrow> runs step s' ys)"
  by (induction xs arbitrary: s) (auto split: option.splits)

lemma runs_Cons_Some:
  "runs step s (e # es) = Some s' \<longleftrightarrow> (\<exists>t. step s e = Some t \<and> runs step t es = Some s')"
  by (auto split: option.splits)

text \<open>The actions a run stands for, when each event of each state stands for a list of actions.\<close>

primrec trace ::
    "('s \<Rightarrow> 'e \<Rightarrow> 's option) \<Rightarrow> ('s \<Rightarrow> 'e \<Rightarrow> 'a list) \<Rightarrow> 's \<Rightarrow> 'e list \<Rightarrow> 'a list" where
  "trace step acts s [] = []"
| "trace step acts s (e # es) =
     acts s e @ (case step s e of None \<Rightarrow> [] | Some s' \<Rightarrow> trace step acts s' es)"

section \<open>Invariants\<close>

locale event_machine =
  fixes step :: "'s \<Rightarrow> 'e \<Rightarrow> 's option" and inv :: "'s \<Rightarrow> bool"
  assumes inv_step: "inv s \<Longrightarrow> step s e = Some s' \<Longrightarrow> inv s'"
begin

lemma inv_runs: "inv s \<Longrightarrow> runs step s es = Some s' \<Longrightarrow> inv s'"
  by (induction es arbitrary: s) (auto split: option.splits dest: inv_step)

end

section \<open>Refinement\<close>

locale simulation = event_machine cstep inv
  for cstep :: "'s \<Rightarrow> 'e \<Rightarrow> 's option" and inv :: "'s \<Rightarrow> bool" +
  fixes astep :: "'t \<Rightarrow> 'a \<Rightarrow> 't option" and abs :: "'s \<Rightarrow> 't" and acts :: "'s \<Rightarrow> 'e \<Rightarrow> 'a list"
  assumes simulated:
    "inv s \<Longrightarrow> cstep s e = Some s' \<Longrightarrow> runs astep (abs s) (acts s e) = Some (abs s')"
begin

lemma runs_simulated:
  assumes "inv s" and "runs cstep s es = Some s'"
  shows "runs astep (abs s) (trace cstep acts s es) = Some (abs s')"
  using assms
proof (induction es arbitrary: s)
  case (Cons e es)
  then obtain t where t: "cstep s e = Some t" "runs cstep t es = Some s'"
    by (auto split: option.splits)
  then show ?case
    using Cons.IH [of t] Cons.prems(1) inv_step simulated by (simp add: runs_append)
qed simp

text \<open>So what holds of every state the specification can reach holds of the refining machine.\<close>

lemma transfer:
  assumes "inv s" and "runs cstep s es = Some s'"
    and "\<And>as t. runs astep (abs s) as = Some t \<Longrightarrow> P t"
  shows "P (abs s')"
  using assms(3) runs_simulated [OF assms(1,2)] by blast

end

section \<open>Termination\<close>

locale descending = event_machine step inv
  for step :: "'s \<Rightarrow> 'e \<Rightarrow> 's option" and inv :: "'s \<Rightarrow> bool" +
  fixes rank :: "'s \<Rightarrow> nat" and idle :: "'e \<Rightarrow> bool"
  assumes idle_step: "inv s \<Longrightarrow> step s e = Some s' \<Longrightarrow> idle e \<Longrightarrow> rank s' \<le> rank s"
    and descends: "inv s \<Longrightarrow> step s e = Some s' \<Longrightarrow> \<not> idle e \<Longrightarrow> rank s' < rank s"
begin

lemma run_length:
  assumes "inv s" and "runs step s es = Some s'"
  shows "length (filter (\<lambda>e. \<not> idle e) es) + rank s' \<le> rank s"
  using assms
proof (induction es arbitrary: s)
  case (Cons e es)
  then obtain t where t: "step s e = Some t" "runs step t es = Some s'"
    by (auto split: option.splits)
  then have "length (filter (\<lambda>e. \<not> idle e) es) + rank s' \<le> rank t"
    using Cons.IH Cons.prems(1) inv_step by blast
  then show ?case
    using idle_step [OF Cons.prems(1) t(1)] descends [OF Cons.prems(1) t(1)] by auto
qed simp

end

end
