(* ===== verification/Sepp_Refine.thy ===== *)
theory Sepp_Refine
  imports Sepp_Run Sepp_Machine
begin

text \<open>
  What \<open>Worker.run\<close> promises, as a specification: a pool that admits batches of jobs while it serves,
  starts each admitted job once when there is room for it, and stops once it was told to and every
  job it started has ended. The loop of \<open>Sepp_Run\<close> refines it (\<open>simulation\<close>), and it stops
  within a bounded number of steps (\<open>descending\<close>).
\<close>

section \<open>The specification: a bounded pool of jobs\<close>

datatype pool_phase = Serving | Stopping | Abandoning | Ended "py_exn + unit"

record pool =
  pl_phase :: pool_phase
  pl_waiting :: "job multiset"
  pl_running :: "job multiset"
  pl_told :: bool

datatype pool_act =
    Admit "job multiset"
  | Start job
  | End job
  | Tell
  | Stop
  | Abandon
  | Leave "py_exn + unit"

definition has_slot :: "int \<Rightarrow> pool \<Rightarrow> bool" where
  "has_slot cap p \<longleftrightarrow> int (size (pl_running p)) < cap"

definition guarded :: "bool \<Rightarrow> 'a \<Rightarrow> 'a option" where
  "guarded b x = (if b then Some x else None)"

lemma guarded_Some [simp]: "guarded b x = Some y \<longleftrightarrow> b \<and> x = y"
  by (auto simp: guarded_def)

lemma guarded_True [simp]: "guarded True x = Some x"
  by (simp add: guarded_def)

fun pool_step :: "int \<Rightarrow> pool \<Rightarrow> pool_act \<Rightarrow> pool option" where
  "pool_step cap p (Admit js) =
     guarded (pl_phase p = Serving \<and> pl_waiting p = {#} \<and> has_slot cap p \<and> js \<noteq> {#})
       (p\<lparr>pl_waiting := js\<rparr>)"
| "pool_step cap p (Start j) =
     guarded (pl_phase p = Serving \<and> j \<in># pl_waiting p \<and> has_slot cap p)
       (p\<lparr>pl_waiting := pl_waiting p - {#j#}, pl_running := add_mset j (pl_running p)\<rparr>)"
| "pool_step cap p (End j) =
     guarded (j \<in># pl_running p) (p\<lparr>pl_running := pl_running p - {#j#}\<rparr>)"
| "pool_step cap p Tell = Some (p\<lparr>pl_told := True\<rparr>)"
| "pool_step cap p Stop =
     guarded (pl_phase p = Serving \<and> pl_told p \<and> pl_waiting p = {#}) (p\<lparr>pl_phase := Stopping\<rparr>)"
| "pool_step cap p Abandon =
     guarded (pl_phase p = Serving) (p\<lparr>pl_phase := Abandoning, pl_waiting := {#}\<rparr>)"
| "pool_step cap p (Leave (Inr u)) =
     guarded (pl_phase p = Stopping \<and> pl_running p = {#}) (p\<lparr>pl_phase := Ended (Inr u)\<rparr>)"
| "pool_step cap p (Leave (Inl e)) =
     guarded ((\<forall>r. pl_phase p \<noteq> Ended r) \<and> pl_waiting p = {#}) (p\<lparr>pl_phase := Ended (Inl e)\<rparr>)"

definition pool_init :: "bool \<Rightarrow> pool" where
  "pool_init told = \<lparr>pl_phase = Serving, pl_waiting = {#}, pl_running = {#}, pl_told = told\<rparr>"

text \<open>What the specification guarantees.\<close>

definition pool_ok :: "int \<Rightarrow> pool \<Rightarrow> bool" where
  "pool_ok cap p \<longleftrightarrow> int (size (pl_running p)) \<le> cap
     \<and> (pl_phase p \<noteq> Serving \<longrightarrow> pl_waiting p = {#})
     \<and> (pl_phase p = Stopping \<longrightarrow> pl_told p)
     \<and> (pl_phase p = Ended (Inr ()) \<longrightarrow> pl_told p \<and> pl_running p = {#})"

lemma pool_ok_init: "0 \<le> cap \<Longrightarrow> pool_ok cap (pool_init told)"
  by (simp add: pool_ok_def pool_init_def)

lemma pool_ok_step: "pool_ok cap p \<Longrightarrow> pool_step cap p a = Some q \<Longrightarrow> pool_ok cap q"
  by (cases "(cap, p, a)" rule: pool_step.cases)
    (auto simp: pool_ok_def has_slot_def size_Diff_singleton)

text \<open>The jobs an action brings in, ends or drops: none gets lost.\<close>

fun admitted :: "pool_act \<Rightarrow> job multiset" where
  "admitted (Admit js) = js"
| "admitted _ = {#}"

fun started :: "pool_act \<Rightarrow> job multiset" where
  "started (Start j) = {#j#}"
| "started _ = {#}"

fun ended :: "pool_act \<Rightarrow> job multiset" where
  "ended (End j) = {#j#}"
| "ended _ = {#}"

definition total :: "('a \<Rightarrow> job multiset) \<Rightarrow> 'a list \<Rightarrow> job multiset" where
  "total f as = \<Sum>\<^sub># (mset (map f as))"

lemma total_simps [simp]:
  "total f [] = {#}" "total f (a # as) = f a + total f as" "total f (as @ bs) = total f as + total f bs"
  by (simp_all add: total_def)

lemma pool_counts_step:
  assumes "pool_step cap p a = Some q"
  shows "pl_running q + ended a = pl_running p + started a"
    and "a \<noteq> Abandon \<Longrightarrow> pl_waiting q + started a = pl_waiting p + admitted a"
  using assms by (cases "(cap, p, a)" rule: pool_step.cases; auto)+

lemma pool_counts:
  assumes "runs (pool_step cap) p as = Some q"
  shows "pl_running q + total ended as = pl_running p + total started as"
    and "Abandon \<notin> set as \<Longrightarrow> pl_waiting q + total started as = pl_waiting p + total admitted as"
proof -
  have "pl_running q + total ended as = pl_running p + total started as
    \<and> (Abandon \<notin> set as \<longrightarrow> pl_waiting q + total started as = pl_waiting p + total admitted as)"
    using assms
  proof (induction as arbitrary: p)
    case (Cons a as)
    then obtain p' where p': "pool_step cap p a = Some p'" "runs (pool_step cap) p' as = Some q"
      by (auto split: option.splits)
    show ?case
      using Cons.IH [OF p'(2)] pool_counts_step [OF p'(1)]
      by (auto simp: ac_simps) (metis add.assoc add.commute)+
  qed simp
  then show "pl_running q + total ended as = pl_running p + total started as"
    and "Abandon \<notin> set as \<Longrightarrow> pl_waiting q + total started as = pl_waiting p + total admitted as"
    by simp_all
qed

text \<open>A pool that gave up, by a cancellation or an exception, never comes to a normal end.\<close>

definition doomed :: "pool \<Rightarrow> bool" where
  "doomed p \<longleftrightarrow> pl_phase p = Abandoning \<or> (\<exists>e. pl_phase p = Ended (Inl e))"

lemma doomed_step: "doomed p \<Longrightarrow> pool_step cap p a = Some q \<Longrightarrow> doomed q"
  by (cases "(cap, p, a)" rule: pool_step.cases) (auto simp: doomed_def)

lemma abandon_doomed: "pool_step cap p Abandon = Some q \<Longrightarrow> doomed q"
  by (auto simp: doomed_def)

lemma doomed_runs: "doomed p \<Longrightarrow> runs (pool_step cap) p as = Some q \<Longrightarrow> doomed q"
  by (induction as arbitrary: p) (auto split: option.splits dest: doomed_step)

lemma abandon_runs:
  "runs (pool_step cap) p as = Some q \<Longrightarrow> Abandon \<in> set as \<Longrightarrow> doomed q"
  by (induction as arbitrary: p)
    (auto simp del: pool_step.simps split: option.splits dest: abandon_doomed doomed_runs)

interpretation pool: event_machine "pool_step cap" "pool_ok cap" for cap
  by unfold_locales (rule pool_ok_step)

section \<open>The loop as a pool\<close>

fun phase_of :: "run_pc \<Rightarrow> pool_phase" where
  "phase_of Draining = Stopping"
| "phase_of Reaping = Abandoning"
| "phase_of (Finished r) = Ended r"
| "phase_of _ = Serving"

definition pool_of :: "run_state \<Rightarrow> pool" where
  "pool_of st = \<lparr>pl_phase = phase_of (rn_pc st), pl_waiting = pending (rn_pc st),
     pl_running = mset (rn_tasks st), pl_told = rn_shutdown st\<rparr>"

fun reply_acts :: "py_exn + job list option \<Rightarrow> pool_act list" where
  "reply_acts (Inl (Sepp e)) = []"
| "reply_acts (Inl CancelledError) = [Abandon]"
| "reply_acts (Inl e) = [Leave (Inl e)]"
| "reply_acts (Inr None) = []"
| "reply_acts (Inr (Some [])) = [Leave (Inl (Py (IndexError ''list index out of range'')))]"
| "reply_acts (Inr (Some (j # js))) = [Admit (mset (j # js)), Start j]"

definition pool_acts :: "run_state \<Rightarrow> run_event \<Rightarrow> pool_act list" where
  "pool_acts st ev =
     (case ev of
        LoopTest \<Rightarrow> if rn_shutdown st then [Stop] else []
      | AcquireWoken got \<Rightarrow> if got then [] else [Stop]
      | ReserveWoken None \<Rightarrow> [Stop]
      | ReserveWoken (Some (r, _)) \<Rightarrow> reply_acts r
      | SleepWoken slept \<Rightarrow> if slept then [] else [Stop]
      | NextPermit \<Rightarrow> (case rn_pc st of Spawning (j # _) \<Rightarrow> [Start j] | _ \<Rightarrow> [])
      | TaskFinished j \<Rightarrow> [End j]
      | ShutdownSignal \<Rightarrow> [Tell]
      | CancelRun \<Rightarrow>
          (case rn_pc st of
             Draining \<Rightarrow> [Leave (Inl CancelledError)]
           | Reaping \<Rightarrow> [Leave (Inl CancelledError)]
           | _ \<Rightarrow> [Abandon])
      | TasksGathered \<Rightarrow>
          [Leave (if rn_pc st = Draining then Inr () else Inl CancelledError)])"

lemma pool_of_fields [simp]:
  "pl_phase (pool_of st) = phase_of (rn_pc st)" "pl_waiting (pool_of st) = pending (rn_pc st)"
  "pl_running (pool_of st) = mset (rn_tasks st)" "pl_told (pool_of st) = rn_shutdown st"
  by (simp_all add: pool_of_def)

lemma pool_of_init: "pool_of (run_init ot shutdown worker) = pool_init shutdown"
  by (simp add: pool_of_def pool_init_def run_init_def)

lemma phase_of_spawning [simp]: "phase_of (spawning js) = Serving"
  by (simp add: spawning_def)

text \<open>One case per event that can happen, with the state it leads to.\<close>

lemma run_step_cases [consumes 1, case_names
    top acquired no_permit replied reserve_stopped slept sleep_stopped spawns ends signalled
    cancelled gathered]:
  assumes "run_step worker st ev = Some st'"
  obtains "ev = LoopTest" "rn_pc st = AtTop" "st' = loop_test st"
  | "ev = AcquireWoken True" "rn_pc st = Acquiring" "0 < rn_permits st" "st' = acquired worker st"
  | "ev = AcquireWoken False" "rn_pc st = Acquiring" "rn_shutdown st" "st' = goto Draining st"
  | opts r elapsed where "ev = ReserveWoken (Some (r, elapsed))" "rn_pc st = Reserving opts"
      "st' = after_reserve worker opts r elapsed st"
  | opts where "ev = ReserveWoken None" "rn_pc st = Reserving opts" "rn_shutdown st"
      "st' = goto Draining (release st)"
  | td where "ev = SleepWoken True" "rn_pc st = Pausing td" "st' = goto AtTop st"
  | td where "ev = SleepWoken False" "rn_pc st = Pausing td" "rn_shutdown st" "st' = goto Draining st"
  | j js where "ev = NextPermit" "rn_pc st = Spawning (j # js)" "0 < rn_permits st"
      "st' = goto (spawning js) (spawn j (st\<lparr>rn_permits := rn_permits st - 1\<rparr>))"
  | job where "ev = TaskFinished job" "job \<in> set (rn_tasks st)" "st' = task_done job st"
  | "ev = ShutdownSignal" "st' = signal_shutdown st"
  | "ev = CancelRun" "cancel_run st = Some st'"
  | "ev = TasksGathered" "gathered st = Some st'"
proof (cases ev)
  case (AcquireWoken got)
  then show thesis
    using assms that(2,3) by (cases got; cases "rn_pc st")
      (auto simp: run_step_def acquire_woken_def or_shutdown_def split: if_splits)
next
  case (ReserveWoken reply)
  then show thesis
    using assms that(4,5) by (cases reply; cases "rn_pc st")
      (auto simp: run_step_def reserve_woken_def or_shutdown_def split: if_splits)
next
  case (SleepWoken slept)
  then show thesis
    using assms that(6,7) by (cases slept; cases "rn_pc st")
      (auto simp: run_step_def sleep_woken_def or_shutdown_def split: if_splits)
next
  case NextPermit
  then show thesis
    using assms that(8) by (cases "rn_pc st")
      (auto simp: run_step_def next_permit_def split: if_splits list.splits)
qed (use assms that in \<open>auto simp: run_step_def split: if_splits run_pc.splits\<close>)

lemma run_inv_slot:
  assumes "run_inv worker st" and "rn_pc st = Reserving opts"
  shows "has_slot (wk_max_in_flight worker) (pool_of st)"
  using assms by (simp add: run_inv_def has_slot_def)

lemma after_reserve_simulated:
  assumes "run_inv worker st" and "rn_pc st = Reserving opts"
  shows "runs (pool_step (wk_max_in_flight worker)) (pool_of st) (reply_acts r)
    = Some (pool_of (after_reserve worker opts r elapsed st))"
  using assms(2) run_inv_slot [OF assms]
  by (cases "(worker, opts, r, elapsed, st)" rule: after_reserve.cases)
    (auto simp: run_defs pool_of_def has_slot_def)

lemma run_simulates_pool:
  assumes ok: "worker_ok worker" and inv: "run_inv worker st"
    and step: "run_step worker st ev = Some st'"
  shows "runs (pool_step (wk_max_in_flight worker)) (pool_of st) (pool_acts st ev)
    = Some (pool_of st')"
  using step
proof (cases rule: run_step_cases)
  case acquired
  then obtain opts where "rn_pc (acquired worker st) = Reserving opts"
    using acquired_inv [OF ok inv] by blast
  moreover have "rn_tasks (acquired worker st) = rn_tasks st"
      "rn_shutdown (acquired worker st) = rn_shutdown st"
    by (simp_all add: acquired_def goto_def Let_def split: sum.splits)
  ultimately show ?thesis using acquired by (simp add: pool_of_def pool_acts_def)
next
  case (replied opts r elapsed)
  then show ?thesis using after_reserve_simulated [OF inv] by (simp add: pool_acts_def)
next
  case (spawns j js)
  then show ?thesis
    using inv by (simp add: pool_acts_def run_inv_def has_slot_def pool_of_def goto_def spawn_def)
next
  case (ends job)
  then show ?thesis by (simp add: pool_acts_def pool_of_def task_done_def release_def)
next
  case cancelled
  then show ?thesis
    by (cases "rn_pc st") (auto simp: cancel_run_def pool_acts_def pool_of_def goto_def)
next
  case gathered
  then show ?thesis
    by (cases "rn_pc st") (auto simp: gathered_def pool_acts_def pool_of_def goto_def split: if_splits)
qed (auto simp: pool_acts_def pool_of_def loop_test_def goto_def release_def signal_shutdown_def)

lemma run_events_runs: "run_events worker st evs = runs (run_step worker) st evs"
  by (induction evs arbitrary: st) (auto split: option.splits)

text \<open>The invariant of a worker that was constructed.\<close>

definition loop_inv :: "'h worker \<Rightarrow> run_state \<Rightarrow> bool" where
  "loop_inv worker st \<longleftrightarrow> worker_ok worker \<and> run_inv worker st"

interpretation run_loop: simulation "run_step worker" "loop_inv worker"
    "pool_step (wk_max_in_flight worker)" pool_of pool_acts for worker
  by unfold_locales (auto simp: loop_inv_def intro: run_inv_step run_simulates_pool)


lemma loop_inv_init: "worker_ok worker \<Longrightarrow> loop_inv worker (run_init ot shutdown worker)"
  by (simp add: loop_inv_def run_inv_init)

text \<open>Every state of the loop is one the specification allows.\<close>

lemma loop_pool_ok:
  assumes "worker_ok worker" and "run_events worker (run_init ot shutdown worker) evs = Some st"
  shows "pool_ok (wk_max_in_flight worker) (pool_of st)"
proof (rule run_loop.transfer)
  show "loop_inv worker (run_init ot shutdown worker)" by (rule loop_inv_init [OF assms(1)])
  show "runs (run_step worker) (run_init ot shutdown worker) evs = Some st"
    using assms(2) by (simp add: run_events_runs)
  fix as t
  assume "runs (pool_step (wk_max_in_flight worker)) (pool_of (run_init ot shutdown worker)) as = Some t"
  then show "pool_ok (wk_max_in_flight worker) t"
    by (rule pool.inv_runs [rotated])
      (use assms(1) in \<open>simp add: pool_of_init pool_ok_init worker_ok_def\<close>)
qed

section \<open>Stopping within a bound\<close>

text \<open>The loop with a server that returns at most the jobs it was asked for.\<close>

definition honest_step :: "'h worker \<Rightarrow> run_state \<Rightarrow> run_event \<Rightarrow> run_state option" where
  "honest_step worker st ev = (if honours st ev then run_step worker st ev else None)"

text \<open>
  After the shutdown signal: how many more times the loop can be resumed from here, or a task can
  end. A batch of \<open>n\<close> jobs costs two events each: its spawn and its end.
\<close>

fun stop_rank :: "'h worker \<Rightarrow> run_pc \<Rightarrow> nat" where
  "stop_rank worker (Finished _) = 0"
| "stop_rank worker Reaping = 1"
| "stop_rank worker Draining = 1"
| "stop_rank worker AtTop = 2"
| "stop_rank worker (Pausing _) = 3"
| "stop_rank worker (Spawning js) = 2 * length js + 2"
| "stop_rank worker (Reserving opts) = 2 * nat (the (ro_max_jobs opts)) + 2"
| "stop_rank worker Acquiring = 2 * nat (wk_max_in_flight worker) + 3"

definition steps_left :: "'h worker \<Rightarrow> run_state \<Rightarrow> nat" where
  "steps_left worker st = length (rn_tasks st) + stop_rank worker (rn_pc st)"

definition stopping_inv :: "'h worker \<Rightarrow> run_state \<Rightarrow> bool" where
  "stopping_inv worker st \<longleftrightarrow> loop_inv worker st \<and> rn_shutdown st"

lemma stop_rank_spawning: "stop_rank worker (spawning js) = 2 * length js + 2"
  by (simp add: spawning_def)

lemma reserving_max_jobs:
  assumes "run_inv worker st" and "rn_pc st = Reserving opts"
  shows "\<exists>n. ro_max_jobs opts = Some n \<and> 1 \<le> n \<and> n \<le> wk_max_in_flight worker"
proof -
  have w: "within_capacity worker st opts" and "rn_permits st + 1 \<le> wk_max_in_flight worker"
    using assms by (simp_all add: run_inv_def)
  moreover obtain n where "ro_max_jobs opts = Some n" "1 \<le> n" "n \<le> rn_permits st + 1"
    using w unfolding within_capacity_def by blast
  ultimately show ?thesis by fastforce
qed

lemma after_reserve_left:
  assumes "run_inv worker st" and "rn_pc st = Reserving opts"
    and "honours st (ReserveWoken (Some (r, elapsed)))"
  shows "steps_left worker (after_reserve worker opts r elapsed st) < steps_left worker st"
proof -
  obtain n where n: "ro_max_jobs opts = Some n" "1 \<le> n"
    using reserving_max_jobs [OF assms(1,2)] by blast
  then show ?thesis
    using assms(2,3)
    by (cases "(worker, opts, r, elapsed, st)" rule: after_reserve.cases)
      (auto simp: steps_left_def run_defs stop_rank_spawning)
qed

lemma stopping_descends:
  assumes "stopping_inv worker st" and "honest_step worker st ev = Some st'" and "ev \<noteq> ShutdownSignal"
  shows "steps_left worker st' < steps_left worker st"
proof -
  have inv: "worker_ok worker" "run_inv worker st" "rn_shutdown st" and h: "honours st ev"
      and step: "run_step worker st ev = Some st'"
    using assms by (auto simp: stopping_inv_def loop_inv_def honest_step_def split: if_splits)
  show ?thesis
    using step
  proof (cases rule: run_step_cases)
    case acquired
    then have "run_inv worker (acquired worker st)"
      and "\<exists>opts. rn_pc (acquired worker st) = Reserving opts"
      using acquired_inv [OF inv(1,2)] by simp_all
    then obtain opts n where "rn_pc (acquired worker st) = Reserving opts"
        "ro_max_jobs opts = Some n" "n \<le> wk_max_in_flight worker"
      using reserving_max_jobs by blast
    moreover have "rn_tasks (acquired worker st) = rn_tasks st"
      by (simp add: acquired_def goto_def Let_def split: sum.splits)
    ultimately show ?thesis using acquired by (simp add: steps_left_def nat_le_iff)
  next
    case (replied opts r elapsed)
    then show ?thesis using after_reserve_left [OF inv(2)] h by simp
  next
    case (ends job)
    then have "length (rn_tasks st) \<noteq> 0" by auto
    then show ?thesis
      using ends by (simp add: steps_left_def task_done_def release_def length_remove1)
  next
    case cancelled
    then show ?thesis
      by (cases "rn_pc st") (auto simp: cancel_run_def steps_left_def goto_def)
  next
    case gathered
    then show ?thesis
      by (cases "rn_pc st") (auto simp: gathered_def steps_left_def goto_def split: if_splits)
  qed (use assms(3) inv(3) in \<open>auto simp: steps_left_def loop_test_def goto_def release_def spawn_def
      stop_rank_spawning\<close>)
qed

interpretation stopping: descending "honest_step worker" "stopping_inv worker"
    "steps_left worker" "\<lambda>ev. ev = ShutdownSignal" for worker
proof
  fix st ev st'
  assume *: "stopping_inv worker st" "honest_step worker st ev = Some st'"
  then have step: "run_step worker st ev = Some st'" by (simp add: honest_step_def split: if_splits)
  then show "stopping_inv worker st'"
    using * shutdown_step(1) [OF step] run_inv_step by (auto simp: stopping_inv_def loop_inv_def)
  show "ev = ShutdownSignal \<Longrightarrow> steps_left worker st' \<le> steps_left worker st"
    using step by (auto simp: run_step_def signal_shutdown_def steps_left_def)
  show "ev \<noteq> ShutdownSignal \<Longrightarrow> steps_left worker st' < steps_left worker st"
    using stopping_descends [OF *] .
qed

text \<open>The bound in terms of the configuration.\<close>

lemma steps_left_bound:
  assumes "loop_inv worker st" and "has_room st"
  shows "steps_left worker st \<le> 3 * nat (wk_max_in_flight worker) + 3"
proof -
  have inv: "run_inv worker st" and cap: "1 \<le> wk_max_in_flight worker"
    using assms(1) by (simp_all add: loop_inv_def worker_ok_def)
  then have t: "int (length (rn_tasks st)) \<le> wk_max_in_flight worker - rn_permits st - held (rn_pc st)"
      "0 \<le> rn_permits st"
    by (simp_all add: run_inv_def)
  show ?thesis
  proof (cases "rn_pc st")
    case (Reserving opts)
    then obtain n where "ro_max_jobs opts = Some n" "n \<le> wk_max_in_flight worker"
      using reserving_max_jobs [OF inv] by blast
    then show ?thesis using Reserving t by (simp add: steps_left_def nat_le_iff)
  next
    case (Spawning js)
    then have "int (length js) \<le> rn_permits st" using assms(2) by (simp add: has_room_def)
    then show ?thesis using Spawning t by (simp add: steps_left_def)
  qed (use t cap in \<open>auto simp: steps_left_def\<close>)
qed

text \<open>And the loop is never stuck before its end: something other than a signal can always happen.\<close>

lemma stopping_progress:
  assumes "stopping_inv worker st" and "\<forall>r. rn_pc st \<noteq> Finished r"
  shows "\<exists>ev st'. ev \<noteq> ShutdownSignal \<and> ev \<noteq> CancelRun \<and> honest_step worker st ev = Some st'"
proof -
  have inv: "worker_ok worker" "run_inv worker st" and down: "rn_shutdown st"
    using assms(1) by (simp_all add: stopping_inv_def loop_inv_def)
  show ?thesis
  proof (cases "rn_tasks st")
    case (Cons j js)
    then show ?thesis
      by (intro exI [of _ "TaskFinished j"]) (simp add: honest_step_def run_step_def)
  next
    case Nil
    show ?thesis
    proof (cases "rn_pc st")
      case AtTop
      then show ?thesis by (intro exI [of _ LoopTest]) (simp add: honest_step_def run_step_def)
    next
      case Acquiring
      then show ?thesis
        using down by (intro exI [of _ "AcquireWoken False"])
          (simp add: honest_step_def run_step_def acquire_woken_def or_shutdown_def)
    next
      case (Reserving opts)
      then show ?thesis
        using down by (intro exI [of _ "ReserveWoken None"])
          (simp add: honest_step_def run_step_def reserve_woken_def or_shutdown_def)
    next
      case (Pausing td)
      then show ?thesis
        using down by (intro exI [of _ "SleepWoken False"])
          (simp add: honest_step_def run_step_def sleep_woken_def or_shutdown_def)
    next
      case (Spawning js)
      then have "js \<noteq> []" "0 < rn_permits st" using inv Nil by (auto simp: run_inv_def worker_ok_def)
      then show ?thesis
        using Spawning by (intro exI [of _ NextPermit])
          (auto simp: honest_step_def run_step_def next_permit_def split: list.splits)
    qed (use Nil assms(2) in \<open>auto intro!: exI [of _ TasksGathered]
        simp: honest_step_def run_step_def gathered_def\<close>)
  qed
qed

text \<open>An honest run is a run, and leaves room for the batches it reserved.\<close>

lemma honest_steps: "honest_step worker st ev = Some st' \<Longrightarrow> run_step worker st ev = Some st' \<and> honours st ev"
  by (simp add: honest_step_def split: if_splits)

interpretation honest: event_machine "honest_step worker" "\<lambda>st. loop_inv worker st \<and> has_room st"
    for worker
  by unfold_locales (auto simp: loop_inv_def dest!: honest_steps intro: run_inv_step has_room_step)

lemma honest_reachable:
  assumes "worker_ok worker" and "runs (honest_step worker) (run_init ot shutdown worker) evs = Some st"
  shows "loop_inv worker st \<and> has_room st"
  by (rule honest.inv_runs [OF _ assms(2)])
    (use loop_inv_init [OF assms(1)] in \<open>simp add: has_room_def run_init_def\<close>)

section \<open>Properties\<close>

text \<open>
  C4: \<open>Worker.run\<close> refines the specification of a bounded pool: whatever happens,
  each event of the loop amounts to actions of the pool that the pool allows (admit a batch when
  nothing waits and a slot is free, start a waiting job in a free slot, end a running one, stop
  when told and nothing waits, give up, return with nothing running), and leads to the pool
  state of the loop's next state; so the loop keeps the pool's guarantees.
\<close>

theorem run_refines_pool:
  assumes "worker_ok worker" and "run_events worker (run_init ot shutdown worker) evs = Some st"
  shows "runs (pool_step (wk_max_in_flight worker)) (pool_init shutdown)
      (trace (run_step worker) pool_acts (run_init ot shutdown worker) evs) = Some (pool_of st)
    \<and> pool_ok (wk_max_in_flight worker) (pool_of st)"
  using run_loop.runs_simulated [OF loop_inv_init [OF assms(1)]] assms(2) loop_pool_ok [OF assms]
  by (simp add: run_events_runs pool_of_init)

theorem run_refines_pool_witness:
  "runs (pool_step 2) (pool_init False)
     (trace (run_step sample_worker) pool_acts (run_init sample_env False sample_worker) sample_start)
   = Some \<lparr>pl_phase = Serving, pl_waiting = {#}, pl_running = {#sample_job#}, pl_told = False\<rparr>"
  using run_refines_pool [OF sample_worker_ok sample_start_runs]
  by (simp add: sample_worker_def sample_running_def pool_of_def)

text \<open>
  C5: once shutdown is signalled, \<open>run\<close> stops: with a server that returns at most
  the jobs it is asked for, at most \<open>3 * max_in_flight + 3\<close> further events can
  happen (resumptions of the loop, ends of tasks and cancellations; repeated signals aside), and
  as long as \<open>run\<close> has not ended one of them is possible without cancelling it. So
  it ends as soon as the running handlers do.
\<close>

theorem shutdown_terminates:
  assumes "worker_ok worker"
    and "runs (honest_step worker) (run_init ot shutdown worker) evs = Some st" and "rn_shutdown st"
    and "runs (honest_step worker) st evs' = Some st'"
  shows "int (length (filter (\<lambda>ev. ev \<noteq> ShutdownSignal) evs')) \<le> 3 * wk_max_in_flight worker + 3
    \<and> ((\<exists>r. rn_pc st' = Finished r)
       \<or> (\<exists>ev st''. ev \<noteq> ShutdownSignal \<and> ev \<noteq> CancelRun \<and> honest_step worker st' ev = Some st''))"
proof -
  have st: "loop_inv worker st" "has_room st" using honest_reachable [OF assms(1,2)] by simp_all
  then have inv: "stopping_inv worker st" using assms(3) by (simp add: stopping_inv_def)
  have "length (filter (\<lambda>ev. ev \<noteq> ShutdownSignal) evs') \<le> 3 * nat (wk_max_in_flight worker) + 3"
    using stopping.run_length [OF inv assms(4)] steps_left_bound [OF st] by simp
  moreover have "1 \<le> wk_max_in_flight worker" using assms(1) by (simp add: worker_ok_def)
  ultimately have "int (length (filter (\<lambda>ev. ev \<noteq> ShutdownSignal) evs'))
      \<le> 3 * wk_max_in_flight worker + 3"
    by linarith
  then show ?thesis
    using stopping_progress [OF stopping.inv_runs [OF inv assms(4)]] by blast
qed

theorem shutdown_terminates_witness:
  "\<exists>st. runs (honest_step sample_worker) (run_init sample_env True sample_worker) [] = Some st
     \<and> (\<forall>evs' st'. runs (honest_step sample_worker) st evs' = Some st' \<longrightarrow>
          length (filter (\<lambda>ev. ev \<noteq> ShutdownSignal) evs') \<le> 9)
     \<and> runs (honest_step sample_worker) st [LoopTest, TasksGathered] \<noteq> None"
proof -
  let ?st = "run_init sample_env True sample_worker"
  have "runs (honest_step sample_worker) ?st [LoopTest, TasksGathered] \<noteq> None"
    by (simp add: honest_step_def run_step_def run_init_def loop_test_def goto_def gathered_def)
  moreover have "int (length (filter (\<lambda>ev. ev \<noteq> ShutdownSignal) evs')) \<le> 9"
    if "runs (honest_step sample_worker) ?st evs' = Some st'" for evs' st'
    using shutdown_terminates [OF sample_worker_ok _ _ that, of sample_env True "[]"]
    by (simp add: run_init_def sample_worker_def)
  ultimately show ?thesis by fastforce
qed

end
