(* ===== verification/Sepp_System.thy ===== *)
theory Sepp_System
  imports Sepp_Refine
begin

text \<open>
  A worker at work: the loop of \<open>Sepp_Run\<close> composed with the client it reserves from
  (\<open>reserve\<close>), and with the processing of its jobs (\<open>process_job\<close>), over one world. The composition
  refines the same pool, so each job the client handed out is processed exactly once, and the
  metrics count what happened.
\<close>

section \<open>The composition\<close>

record 'w system =
  sy_loop :: run_state
  sy_world :: 'w

text \<open>
  The loop is resumed, or signalled, or cancelled; its reserve is answered after some seconds; a
  task runs to its end; a task the cancelled loop cancelled ends; or the world changes by itself
  (what other tasks, the server and other workers do meanwhile).
\<close>

datatype 'w sys_event =
    SysLoop run_event
  | SysReserve rat
  | SysTask job
  | SysTaskCancelled job
  | SysElsewhere 'w

fun loop_only :: "run_event \<Rightarrow> bool" where
  "loop_only (ReserveWoken (Some _)) = False"
| "loop_only (TaskFinished _) = False"
| "loop_only _ = True"

definition move_loop :: "'h worker \<Rightarrow> 'w system \<Rightarrow> run_event \<Rightarrow> 'w system option" where
  "move_loop worker s ev =
     map_option (\<lambda>st. s\<lparr>sy_loop := st\<rparr>) (run_step worker (sy_loop s) ev)"

definition sys_reserve ::
    "('w, 'c, 'z) env_scheme \<Rightarrow> client \<Rightarrow> 'h worker \<Rightarrow> 'w system \<Rightarrow> rat \<Rightarrow> 'w system option" where
  "sys_reserve env c worker s elapsed =
     (case rn_pc (sy_loop s) of
        Reserving opts \<Rightarrow>
          (case qo_reserve (client_ops env c) opts (sy_world s) of
             (r, w) \<Rightarrow> move_loop worker (s\<lparr>sy_world := w\<rparr>) (ReserveWoken (Some (r, elapsed))))
      | _ \<Rightarrow> None)"

definition sys_task ::
    "('w, 'c, 'z) env_scheme \<Rightarrow> client \<Rightarrow> 'h worker \<Rightarrow> ('h \<Rightarrow> job \<Rightarrow> ('w, py_exn, outcome) io)
     \<Rightarrow> 'w system \<Rightarrow> job \<Rightarrow> 'w system option" where
  "sys_task env c worker exec s job =
     (case process_job env (client_ops env c) worker exec job
             (sy_world s, rn_metrics (sy_loop s)) of
        (_, (w, m)) \<Rightarrow>
          move_loop worker \<lparr>sy_loop = (sy_loop s)\<lparr>rn_metrics := m\<rparr>, sy_world = w\<rparr>
            (TaskFinished job))"

definition may_cancel_tasks :: "run_pc \<Rightarrow> bool" where
  "may_cancel_tasks pc \<longleftrightarrow> pc = Reaping \<or> pc = Finished (Inl CancelledError)"

definition sys_step ::
    "('w, 'c, 'z) env_scheme \<Rightarrow> client \<Rightarrow> 'h worker \<Rightarrow> ('h \<Rightarrow> job \<Rightarrow> ('w, py_exn, outcome) io)
     \<Rightarrow> 'w system \<Rightarrow> 'w sys_event \<Rightarrow> 'w system option" where
  "sys_step env c worker exec s ev =
     (case ev of
        SysLoop e \<Rightarrow> if loop_only e then move_loop worker s e else None
      | SysReserve elapsed \<Rightarrow> sys_reserve env c worker s elapsed
      | SysTask job \<Rightarrow> sys_task env c worker exec s job
      | SysTaskCancelled job \<Rightarrow>
          if may_cancel_tasks (rn_pc (sy_loop s)) then move_loop worker s (TaskFinished job) else None
      | SysElsewhere w \<Rightarrow> Some (s\<lparr>sy_world := w\<rparr>))"

definition sys_init ::
    "('w, 'c, 'z) env_scheme \<Rightarrow> bool \<Rightarrow> 'h worker \<Rightarrow> 'w \<Rightarrow> 'w system" where
  "sys_init env shutdown worker w = \<lparr>sy_loop = run_init env shutdown worker, sy_world = w\<rparr>"

section \<open>Its steps are steps of the loop\<close>

text \<open>What the client answers in a state, and the loop's event that an event amounts to.\<close>

definition reserve_reply ::
    "('w, 'c, 'z) env_scheme \<Rightarrow> client \<Rightarrow> 'w system \<Rightarrow> py_exn + job list option" where
  "reserve_reply env c s =
     (case rn_pc (sy_loop s) of
        Reserving opts \<Rightarrow> fst (reserve env c opts (sy_world s))
      | _ \<Rightarrow> Inr None)"

fun loop_events ::
    "('w, 'c, 'z) env_scheme \<Rightarrow> client \<Rightarrow> 'w system \<Rightarrow> 'w sys_event \<Rightarrow> run_event list" where
  "loop_events env c s (SysLoop e) = [e]"
| "loop_events env c s (SysReserve elapsed) = [ReserveWoken (Some (reserve_reply env c s, elapsed))]"
| "loop_events env c s (SysTask job) = [TaskFinished job]"
| "loop_events env c s (SysTaskCancelled job) = [TaskFinished job]"
| "loop_events env c s (SysElsewhere w) = []"

text \<open>Processing a job touches only the counters of acks and nacks.\<close>

definition settled_count :: "worker_metrics \<Rightarrow> int" where
  "settled_count m = wm_processed m + wm_nacked_retry m + wm_nacked_dead_letter m"

definition counters_kept :: "worker_metrics \<Rightarrow> worker_metrics \<Rightarrow> bool" where
  "counters_kept m m' \<longleftrightarrow> wm_enabled m' = wm_enabled m \<and> wm_in_flight m' = wm_in_flight m
     \<and> wm_reserves_some m' = wm_reserves_some m \<and> wm_reserves_empty m' = wm_reserves_empty m
     \<and> wm_reserves_failed m' = wm_reserves_failed m"

definition settles :: "worker_metrics \<Rightarrow> worker_metrics \<Rightarrow> bool" where
  "settles m m' \<longleftrightarrow> counters_kept m m' \<and> settled_count m \<le> settled_count m'
     \<and> settled_count m' \<le> settled_count m + 1"

lemma settles_intros [simp]:
  "settles m m" "settles m (record_processed m)" "settles m (record_nacked dl m)"
  by (simp_all add: settles_def counters_kept_def settled_count_def record_processed_def
      record_nacked_def)

lemma run_job_settles:
  assumes "run_job ops handler exec job (w, m) = (r, (w', m'))"
  shows "settles m m'"
proof (cases handler)
  case None
  then show ?thesis
    using assms by (auto simp: run_job_no_handler split: prod.splits sum.splits)
next
  case (Some h)
  obtain out w1 where out: "exec h job w = (out, w1)" by (cases "exec h job w")
  show ?thesis
  proof (cases out)
    case (Inl e)
    then show ?thesis using assms Some out by (simp add: run_job_cancelled)
  next
    case (Inr outcome)
    then show ?thesis
      using assms Some out
      by (cases outcome) (auto simp: run_job_completed run_job_failed run_job_lease_lost
          split: prod.splits sum.splits)
  qed
qed

lemma process_job_settles:
  "process_job ot ops worker exec job (w, m) = (r, (w', m')) \<Longrightarrow> settles m m'"
  by (auto simp: process_job_def split: prod.splits dest: run_job_settles)

lemma loop_metrics_inv:
  assumes "loop_inv worker st" and "counters_kept (rn_metrics st) m"
  shows "loop_inv worker (st\<lparr>rn_metrics := m\<rparr>)"
  using assms by (simp add: loop_inv_def run_inv_def counters_kept_def)

lemma pool_of_metrics [simp]: "pool_of (st\<lparr>rn_metrics := m\<rparr>) = pool_of st"
  by (simp add: pool_of_def)

lemma pool_acts_metrics [simp]: "pool_acts (st\<lparr>rn_metrics := m\<rparr>) ev = pool_acts st ev"
  by (simp add: pool_acts_def split: run_event.splits)

text \<open>The common form of all steps but \<open>SysElsewhere\<close>.\<close>

lemma sys_stepE:
  assumes "sys_step env c worker exec s ev = Some s'"
  obtains (elsewhere) w where "ev = SysElsewhere w" "s' = s\<lparr>sy_world := w\<rparr>"
  | (moves) e m where "loop_events env c s ev = [e]" "settles (rn_metrics (sy_loop s)) m"
      "run_step worker ((sy_loop s)\<lparr>rn_metrics := m\<rparr>) e = Some (sy_loop s')"
      "\<not> (\<exists>job. ev = SysTask job) \<Longrightarrow> m = rn_metrics (sy_loop s)"
proof (cases ev)
  case (SysReserve elapsed)
  then show thesis
    using assms moves [of "ReserveWoken (Some (reserve_reply env c s, elapsed))" "rn_metrics (sy_loop s)"]
    by (auto simp: sys_step_def sys_reserve_def move_loop_def reserve_reply_def client_ops_def
        split: run_pc.splits prod.splits)
next
  case (SysTask job)
  obtain r w m where p: "process_job env (client_ops env c) worker exec job
      (sy_world s, rn_metrics (sy_loop s)) = (r, (w, m))"
    by (metis prod_cases3)
  then show thesis
    using assms SysTask moves [of "TaskFinished job" m] process_job_settles [OF p]
    by (auto simp: sys_step_def sys_task_def move_loop_def)
qed (use assms elsewhere moves in \<open>auto simp: sys_step_def move_loop_def split: if_splits\<close>)

lemma sys_reserveE:
  assumes "sys_step env c worker exec s (SysReserve elapsed) = Some s'"
  obtains opts where "rn_pc (sy_loop s) = Reserving opts"
    "reserve_reply env c s = fst (reserve env c opts (sy_world s))"
    "sy_loop s' = after_reserve worker opts (reserve_reply env c s) elapsed (sy_loop s)"
proof -
  obtain opts where pc: "rn_pc (sy_loop s) = Reserving opts"
    using assms by (cases "rn_pc (sy_loop s)") (simp_all add: sys_step_def sys_reserve_def)
  then have r: "reserve_reply env c s = fst (reserve env c opts (sy_world s))"
    by (simp add: reserve_reply_def)
  have "sy_loop s' = after_reserve worker opts (reserve_reply env c s) elapsed (sy_loop s)"
    unfolding r using assms pc
    by (auto simp: sys_step_def sys_reserve_def client_ops_def move_loop_def run_step_def
        reserve_woken_def or_shutdown_def simp del: after_reserve.simps split: prod.splits)
  with pc r show thesis by (rule that)
qed

definition sys_inv :: "'h worker \<Rightarrow> 'w system \<Rightarrow> bool" where
  "sys_inv worker s \<longleftrightarrow> loop_inv worker (sy_loop s)"

definition sys_acts ::
    "('w, 'c, 'z) env_scheme \<Rightarrow> client \<Rightarrow> 'w system \<Rightarrow> 'w sys_event \<Rightarrow> pool_act list" where
  "sys_acts env c s ev = concat (map (pool_acts (sy_loop s)) (loop_events env c s ev))"

lemma sys_inv_init: "worker_ok worker \<Longrightarrow> sys_inv worker (sys_init env shutdown worker w)"
  by (simp add: sys_inv_def sys_init_def loop_inv_init)

lemma sys_inv_step:
  assumes "sys_inv worker s" and "sys_step env c worker exec s ev = Some s'"
  shows "sys_inv worker s'"
  using assms(2)
proof (cases rule: sys_stepE)
  case (moves e m)
  then have "loop_inv worker ((sy_loop s)\<lparr>rn_metrics := m\<rparr>)"
    using assms(1) by (auto simp: sys_inv_def settles_def intro: loop_metrics_inv)
  then show ?thesis using moves(3) run_loop.inv_step by (simp add: sys_inv_def)
qed (use assms(1) in \<open>simp add: sys_inv_def\<close>)

lemma sys_simulates_pool:
  assumes "sys_inv worker s" and "sys_step env c worker exec s ev = Some s'"
  shows "runs (pool_step (wk_max_in_flight worker)) (pool_of (sy_loop s)) (sys_acts env c s ev)
    = Some (pool_of (sy_loop s'))"
  using assms(2)
proof (cases rule: sys_stepE)
  case (moves e m)
  then have "loop_inv worker ((sy_loop s)\<lparr>rn_metrics := m\<rparr>)"
    using assms(1) by (auto simp: sys_inv_def settles_def intro: loop_metrics_inv)
  then show ?thesis using run_loop.simulated [OF _ moves(3)] moves(1) by (simp add: sys_acts_def)
qed (simp add: sys_acts_def)

interpretation system: simulation "sys_step env c worker exec" "sys_inv worker"
    "pool_step (wk_max_in_flight worker)" "\<lambda>s. pool_of (sy_loop s)" "sys_acts env c"
    for env c worker exec
  by unfold_locales (auto intro: sys_inv_step sys_simulates_pool)

section \<open>What was reserved and what was processed\<close>

definition sys_reserved :: "('w, 'c, 'z) env_scheme \<Rightarrow> client \<Rightarrow> 'w system \<Rightarrow> 'w sys_event \<Rightarrow> job list" where
  "sys_reserved env c s ev =
     (case ev of
        SysReserve _ \<Rightarrow> (case reserve_reply env c s of Inr (Some js) \<Rightarrow> js | _ \<Rightarrow> [])
      | _ \<Rightarrow> [])"

definition sys_processed :: "'w system \<Rightarrow> 'w sys_event \<Rightarrow> job list" where
  "sys_processed s ev = (case ev of SysTask job \<Rightarrow> [job] | _ \<Rightarrow> [])"

definition sys_replies ::
    "('w, 'c, 'z) env_scheme \<Rightarrow> client \<Rightarrow> 'w system \<Rightarrow> 'w sys_event
     \<Rightarrow> (py_exn + job list option) list" where
  "sys_replies env c s ev = (case ev of SysReserve _ \<Rightarrow> [reserve_reply env c s] | _ \<Rightarrow> [])"

lemma admitted_reply:
  "total admitted (reply_acts r) = (case r of Inr (Some js) \<Rightarrow> mset js | _ \<Rightarrow> {#})"
  by (cases r rule: reply_acts.cases) simp_all

lemma ended_reply: "total ended (reply_acts r) = {#}"
  by (cases r rule: reply_acts.cases) simp_all

lemma sys_step_counts:
  assumes "sys_step env c worker exec s ev = Some s'" and "\<not> doomed (pool_of (sy_loop s))"
  shows "total admitted (sys_acts env c s ev) = mset (sys_reserved env c s ev)"
    and "total ended (sys_acts env c s ev) = mset (sys_processed s ev)"
proof -
  have "total admitted (sys_acts env c s ev) = mset (sys_reserved env c s ev)
    \<and> total ended (sys_acts env c s ev) = mset (sys_processed s ev)"
  proof (cases ev)
    case (SysLoop e)
    then have "loop_only e" using assms(1) by (simp add: sys_step_def split: if_splits)
    then have "total admitted (pool_acts (sy_loop s) e) = {#} \<and> total ended (pool_acts (sy_loop s) e) = {#}"
      by (cases e rule: loop_only.cases)
        (auto simp: pool_acts_def split: run_pc.splits list.splits)
    then show ?thesis using SysLoop by (simp add: sys_acts_def sys_reserved_def sys_processed_def)
  next
    case (SysTaskCancelled job)
    then have "may_cancel_tasks (rn_pc (sy_loop s))"
      using assms(1) by (simp add: sys_step_def split: if_splits)
    then show ?thesis using assms(2) by (auto simp: may_cancel_tasks_def doomed_def)
  qed (auto simp: sys_acts_def sys_reserved_def sys_processed_def pool_acts_def admitted_reply
      ended_reply split: sum.splits option.splits)
  then show "total admitted (sys_acts env c s ev) = mset (sys_reserved env c s ev)"
    and "total ended (sys_acts env c s ev) = mset (sys_processed s ev)"
    by simp_all
qed

lemma sys_runs_counts:
  assumes "sys_inv worker s" and "runs (sys_step env c worker exec) s evs = Some s'"
    and "\<not> doomed (pool_of (sy_loop s'))"
  shows "total admitted (trace (sys_step env c worker exec) (sys_acts env c) s evs)
      = mset (trace (sys_step env c worker exec) (sys_reserved env c) s evs)
    \<and> total ended (trace (sys_step env c worker exec) (sys_acts env c) s evs)
      = mset (trace (sys_step env c worker exec) sys_processed s evs)"
  using assms
proof (induction evs arbitrary: s)
  case (Cons ev evs)
  then obtain t where t: "sys_step env c worker exec s ev = Some t"
      "runs (sys_step env c worker exec) t evs = Some s'"
    by (auto split: option.splits)
  have "\<not> doomed (pool_of (sy_loop s))"
    using Cons.prems system.runs_simulated [OF Cons.prems(1,2)] doomed_runs by blast
  then show ?case
    using Cons.IH [OF _ t(2) Cons.prems(3)] sys_inv_step [OF Cons.prems(1) t(1)] t(1)
      sys_step_counts [OF t(1)]
    by simp
qed simp

text \<open>So the jobs the client handed out are the processed, the running and the waiting ones.\<close>

lemma sys_conserves:
  assumes "worker_ok worker"
    and "runs (sys_step env c worker exec) (sys_init env shutdown worker w) evs = Some s"
    and "\<not> doomed (pool_of (sy_loop s))"
  shows "mset (trace (sys_step env c worker exec) (sys_reserved env c) (sys_init env shutdown worker w) evs)
    = mset (trace (sys_step env c worker exec) sys_processed (sys_init env shutdown worker w) evs)
      + mset (rn_tasks (sy_loop s)) + pending (rn_pc (sy_loop s))"
proof -
  let ?s0 = "sys_init env shutdown worker w"
  let ?as = "trace (sys_step env c worker exec) (sys_acts env c) ?s0 evs"
  have r: "runs (pool_step (wk_max_in_flight worker)) (pool_of (sy_loop ?s0)) ?as
      = Some (pool_of (sy_loop s))"
    by (rule system.runs_simulated [OF sys_inv_init [OF assms(1)] assms(2)])
  then have "Abandon \<notin> set ?as" using assms(3) abandon_runs by blast
  moreover have "pool_of (sy_loop ?s0) = pool_init shutdown" by (simp add: sys_init_def pool_of_init)
  ultimately show ?thesis
    using pool_counts [OF r] sys_runs_counts [OF sys_inv_init [OF assms(1)] assms(2,3)]
    by (simp add: pool_init_def) (metis add.commute add.left_commute)
qed

section \<open>What the metrics count\<close>

fun is_batch :: "py_exn + job list option \<Rightarrow> bool" where
  "is_batch (Inr (Some _)) = True"
| "is_batch _ = False"

fun is_no_batch :: "py_exn + job list option \<Rightarrow> bool" where
  "is_no_batch (Inr None) = True"
| "is_no_batch _ = False"

fun is_failure :: "py_exn + job list option \<Rightarrow> bool" where
  "is_failure (Inl (Sepp _)) = True"
| "is_failure _ = False"

definition how_many :: "('a \<Rightarrow> bool) \<Rightarrow> 'a list \<Rightarrow> int" where
  "how_many P xs = int (length (filter P xs))"

lemma how_many_simps [simp]:
  "how_many P [] = 0" "how_many P (x # xs) = (if P x then 1 else 0) + how_many P xs"
  "how_many P (xs @ ys) = how_many P xs + how_many P ys"
  by (simp_all add: how_many_def)

text \<open>The reserve counters and the settled jobs, relative to where a run began.\<close>

definition counted ::
    "worker_metrics \<Rightarrow> (py_exn + job list option) list \<Rightarrow> job list \<Rightarrow> worker_metrics \<Rightarrow> bool" where
  "counted m replies jobs m' \<longleftrightarrow> wm_enabled m' = wm_enabled m
     \<and> (wm_enabled m \<longrightarrow>
          wm_reserves_some m' = wm_reserves_some m + how_many is_batch replies
        \<and> wm_reserves_empty m' = wm_reserves_empty m + how_many is_no_batch replies
        \<and> wm_reserves_failed m' = wm_reserves_failed m + how_many is_failure replies
        \<and> settled_count m \<le> settled_count m'
        \<and> settled_count m' \<le> settled_count m + int (length jobs))"

lemma counted_trans:
  "counted m rs js m1 \<Longrightarrow> counted m1 rs' js' m2 \<Longrightarrow> counted m (rs @ rs') (js @ js') m2"
  by (auto simp: counted_def)

lemma after_reserve_counted:
  "counted (rn_metrics st) [r] [] (rn_metrics (after_reserve worker opts r elapsed st))"
  by (cases "(worker, opts, r, elapsed, st)" rule: after_reserve.cases)
    (auto simp: counted_def run_defs metrics_defs settled_count_def)

lemma run_step_counted:
  assumes "run_step worker st ev = Some st'" and "loop_only ev \<or> (\<exists>job. ev = TaskFinished job)"
  shows "counted (rn_metrics st) [] [] (rn_metrics st')"
  using assms(1)
proof (cases rule: run_step_cases)
  case (replied opts r elapsed)
  then show ?thesis using assms(2) by auto
next
  case cancelled
  then show ?thesis
    by (cases "rn_pc st") (auto simp: cancel_run_def goto_def counted_def)
next
  case gathered
  then show ?thesis
    by (cases "rn_pc st") (auto simp: gathered_def goto_def counted_def split: if_splits)
qed (auto simp: counted_def run_defs metrics_defs settled_count_def Let_def split: sum.splits)

lemma sys_step_counted:
  assumes "sys_step env c worker exec s ev = Some s'"
  shows "counted (rn_metrics (sy_loop s)) (sys_replies env c s ev) (sys_processed s ev)
    (rn_metrics (sy_loop s'))"
  using assms
proof (cases rule: sys_stepE)
  case (elsewhere w)
  then show ?thesis by (simp add: counted_def sys_replies_def sys_processed_def)
next
  case (moves e m)
  show ?thesis
  proof (cases ev)
    case (SysLoop e')
    then have "loop_only e'" using assms by (simp add: sys_step_def split: if_splits)
    then show ?thesis
      using SysLoop moves run_step_counted [OF moves(3)] by (simp add: sys_replies_def sys_processed_def)
  next
    case (SysReserve elapsed)
    then obtain opts where
      "sy_loop s' = after_reserve worker opts (reserve_reply env c s) elapsed (sy_loop s)"
      using assms by (auto elim: sys_reserveE)
    then show ?thesis
      using SysReserve after_reserve_counted [of "sy_loop s"] by (simp add: sys_replies_def sys_processed_def)
  next
    case (SysTask job)
    then have "counted m [] [] (rn_metrics (sy_loop s'))"
      using moves run_step_counted [OF moves(3)] by auto
    moreover have "counted (rn_metrics (sy_loop s)) [] [job] m"
      using moves(2) by (auto simp: settles_def counters_kept_def counted_def)
    ultimately show ?thesis
      using SysTask counted_trans by (fastforce simp: sys_replies_def sys_processed_def)
  next
    case (SysTaskCancelled job)
    then show ?thesis
      using moves run_step_counted [OF moves(3)] by (auto simp: sys_replies_def sys_processed_def)
  qed (use moves(1) in simp)
qed

lemma sys_runs_counted:
  "runs (sys_step env c worker exec) s evs = Some s' \<Longrightarrow>
   counted (rn_metrics (sy_loop s))
     (trace (sys_step env c worker exec) (sys_replies env c) s evs)
     (trace (sys_step env c worker exec) sys_processed s evs) (rn_metrics (sy_loop s'))"
proof (induction evs arbitrary: s)
  case (Cons ev evs)
  then obtain t where t: "sys_step env c worker exec s ev = Some t"
      "runs (sys_step env c worker exec) t evs = Some s'"
    by (auto split: option.splits)
  show ?case using counted_trans [OF sys_step_counted [OF t(1)] Cons.IH [OF t(2)]] t(1) by simp
qed (simp add: counted_def)

section \<open>Why \<open>run\<close> stops serving\<close>

text \<open>
  The machine with its history: the events so far and the replies of the reserves. What the loop has
  stopped for is then a property of a state.
\<close>

definition audit_step ::
    "('w, 'c, 'z) env_scheme \<Rightarrow> client \<Rightarrow> 'h worker \<Rightarrow> ('h \<Rightarrow> job \<Rightarrow> ('w, py_exn, outcome) io)
     \<Rightarrow> 'w system \<times> 'w sys_event list \<times> (py_exn + job list option) list \<Rightarrow> 'w sys_event
     \<Rightarrow> ('w system \<times> 'w sys_event list \<times> (py_exn + job list option) list) option" where
  "audit_step env c worker exec a ev =
     (case a of (s, past, replies) \<Rightarrow>
        map_option (\<lambda>s'. (s', past @ [ev], replies @ sys_replies env c s ev))
          (sys_step env c worker exec s ev))"

lemma audit_runs:
  "runs (audit_step env c worker exec) (s, past, replies) evs =
     map_option (\<lambda>s'. (s', past @ evs,
         replies @ trace (sys_step env c worker exec) (sys_replies env c) s evs))
       (runs (sys_step env c worker exec) s evs)"
proof (induction evs arbitrary: s past replies)
  case (Cons ev evs)
  then show ?case by (cases "sys_step env c worker exec s ev") (simp_all add: audit_step_def)
qed simp

text \<open>
  Shutdown comes from a signal (or was there at the start). The loop reaps its tasks, and raises
  \<open>CancelledError\<close>, if it or its reserve was cancelled; any other exception it raises is a bare Python
  exception that a reserve raised.
\<close>

definition explained ::
    "bool \<Rightarrow> run_state \<Rightarrow> 'w sys_event list \<Rightarrow> (py_exn + job list option) list \<Rightarrow> bool" where
  "explained shutdown st past replies \<longleftrightarrow>
     (rn_shutdown st \<longrightarrow> shutdown \<or> SysLoop ShutdownSignal \<in> set past)
     \<and> (rn_pc st = Reaping \<or> rn_pc st = Finished (Inl CancelledError) \<longrightarrow>
          SysLoop CancelRun \<in> set past \<or> Inl CancelledError \<in> set replies)
     \<and> (\<forall>e. rn_pc st = Finished (Inl e) \<and> e \<noteq> CancelledError \<longrightarrow>
          (\<exists>p. e = Py p) \<and> Inl e \<in> set replies)"

lemma explained_metrics [simp]:
  "explained shutdown (st\<lparr>rn_metrics := m\<rparr>) past replies = explained shutdown st past replies"
  by (simp add: explained_def)

lemma explained_reply:
  assumes "reserve env c opts w = (r, w')" and "explained shutdown st past replies"
  shows "explained shutdown (after_reserve worker opts r elapsed st) past (replies @ [r])"
proof -
  have raised: "fst (reserve env c opts w) = r" using assms by simp
  have "no_rpc (reserve env c opts)"
    using client.reserve_raises [of env c opts] by (simp add: client_ops_def)
  then have no_rpc: "r \<noteq> Inl (Rpc e)" for e using raised by (auto simp: no_rpc_def)
  have no_empty: "r \<noteq> Inr (Some [])"
    using client.reserve_some [of env c opts w "[]" w'] assms by (auto simp: client_ops_def)
  consider p where "r = Inl (Py p)" | e where "r = Inl (Sepp e)" | "r = Inl CancelledError"
    | "r = Inr None" | j js where "r = Inr (Some (j # js))"
    using no_rpc no_empty by (metis list.exhaust option.exhaust py_exn.exhaust sum.exhaust)
  then show ?thesis
    using assms(2) by cases (auto simp: explained_def run_defs spawning_def)
qed

lemma explained_step:
  assumes "loop_inv worker st" and "run_step worker st e = Some st'"
    and "loop_only e \<or> (\<exists>job. e = TaskFinished job)" and "explained shutdown st past replies"
    and "e = CancelRun \<or> e = ShutdownSignal \<longrightarrow> ev = SysLoop e"
  shows "explained shutdown st' (past @ [ev]) replies"
  using assms(2)
proof (cases rule: run_step_cases)
  case acquired
  then obtain opts where "rn_pc st' = Reserving opts"
    using acquired_inv assms(1) by (auto simp: loop_inv_def)
  moreover have "rn_shutdown st' = rn_shutdown st"
    using acquired by (simp add: acquired_def goto_def Let_def split: sum.splits)
  ultimately show ?thesis using assms(4) by (auto simp: explained_def)
next
  case (replied opts r elapsed)
  then show ?thesis using assms(3) by auto
next
  case cancelled
  then show ?thesis
    using assms(4,5) by (cases "rn_pc st") (auto simp: cancel_run_def goto_def explained_def)
next
  case gathered
  then show ?thesis
    using assms(4)
    by (cases "rn_pc st") (auto simp: gathered_def goto_def explained_def split: if_splits)
qed (use assms(4,5) in \<open>auto simp: explained_def run_defs spawning_def\<close>)

lemma explained_sys_step:
  assumes "sys_inv worker s" and "sys_step env c worker exec s ev = Some s'"
    and "explained shutdown (sy_loop s) past replies"
  shows "explained shutdown (sy_loop s') (past @ [ev]) (replies @ sys_replies env c s ev)"
  using assms(2)
proof (cases rule: sys_stepE)
  case (elsewhere w)
  then show ?thesis using assms(3) by (auto simp: explained_def sys_replies_def)
next
  case (moves e m)
  have inv: "loop_inv worker ((sy_loop s)\<lparr>rn_metrics := m\<rparr>)"
    using assms(1) moves(2) by (auto simp: sys_inv_def settles_def intro: loop_metrics_inv)
  show ?thesis
  proof (cases "\<exists>elapsed. ev = SysReserve elapsed")
    case True
    then obtain elapsed opts where ev: "ev = SysReserve elapsed"
        "reserve_reply env c s = fst (reserve env c opts (sy_world s))"
        "sy_loop s' = after_reserve worker opts (reserve_reply env c s) elapsed (sy_loop s)"
      using assms(2) by (auto elim: sys_reserveE)
    have "reserve env c opts (sy_world s)
        = (reserve_reply env c s, snd (reserve env c opts (sy_world s)))"
      by (simp add: ev(2))
    from explained_reply [OF this assms(3)] show ?thesis
      using ev(1,3) by (auto simp: explained_def sys_replies_def)
  next
    case False
    then have only: "loop_only e \<or> (\<exists>job. e = TaskFinished job)" "sys_replies env c s ev = []"
      using moves(1) assms(2) by (cases ev; auto simp: sys_step_def sys_replies_def split: if_splits)+
    have "e = CancelRun \<or> e = ShutdownSignal \<longrightarrow> ev = SysLoop e"
      using moves(1) by (cases ev) auto
    then have "explained shutdown (sy_loop s') (past @ [ev]) replies"
      using explained_step [OF inv moves(3) only(1)] assms(3) by simp
    then show ?thesis using only(2) by simp
  qed
qed

interpretation audited: event_machine "audit_step env c worker exec"
    "\<lambda>(s, past, replies). sys_inv worker s \<and> explained shutdown (sy_loop s) past replies"
    for env c worker exec shutdown
  by unfold_locales
    (auto simp: audit_step_def intro: sys_inv_step explained_sys_step split: option.splits)

lemma sys_explained:
  fixes w :: 'a
  assumes "worker_ok worker"
    and "runs (sys_step env c worker exec) (sys_init env shutdown worker w) evs = Some s"
  shows "explained shutdown (sy_loop s) evs
    (trace (sys_step env c worker exec) (sys_replies env c) (sys_init env shutdown worker w) evs)"
proof -
  let ?s0 = "sys_init env shutdown worker w"
  let ?replies = "trace (sys_step env c worker exec) (sys_replies env c) ?s0 evs"
  have "explained shutdown (sy_loop ?s0) past replies" for past :: "'a sys_event list" and replies
    by (simp add: explained_def sys_init_def run_init_def)
  then have "case (?s0, [], []) of (s, past, replies) \<Rightarrow>
      sys_inv worker s \<and> explained shutdown (sy_loop s) (past :: 'a sys_event list) replies"
    using sys_inv_init [OF assms(1)] by simp
  moreover have "runs (audit_step env c worker exec) (?s0, [], []) evs = Some (s, evs, ?replies)"
    by (simp add: audit_runs assms(2))
  ultimately have "case (s, evs, ?replies) of (s, past, replies) \<Rightarrow>
      sys_inv worker s \<and> explained shutdown (sy_loop s) past replies"
    by (rule audited.inv_runs)
  then show ?thesis by simp
qed

lemma explained_pc:
  assumes "explained shutdown st past replies" and "run_inv worker st"
  shows "live (rn_pc st) \<and> rn_pc st \<noteq> Draining
    \<or> rn_pc st \<in> {Draining, Finished (Inr ())} \<and> (shutdown \<or> SysLoop ShutdownSignal \<in> set past)
    \<or> rn_pc st \<in> {Reaping, Finished (Inl CancelledError)}
      \<and> (SysLoop CancelRun \<in> set past \<or> Inl CancelledError \<in> set replies)
    \<or> (\<exists>p. rn_pc st = Finished (Inl (Py p)) \<and> Inl (Py p) \<in> set replies)"
proof (cases "rn_pc st")
  case (Finished r)
  show ?thesis
  proof (cases r)
    case (Inl e)
    then show ?thesis
      using Finished assms(1) by (cases "e = CancelledError") (auto simp: explained_def)
  next
    case (Inr u)
    then show ?thesis using Finished assms by (auto simp: explained_def run_inv_def)
  qed
qed (use assms in \<open>simp_all add: explained_def run_inv_def\<close>)

section \<open>A worker that serves one job\<close>

lemma sample_reserve:
  "reserve sample_env sample_client (sample_options\<lparr>ro_max_jobs := Some 2\<rparr>) w
     = (Inr (Some [sample_job]), w @ [''Reserve''])"
proof -
  let ?o = "sample_options\<lparr>ro_max_jobs := Some 2\<rparr>"
  let ?jobs = "[sample_pb_job\<lparr>pbj_id := ''''\<rparr>, sample_pb_job]"
  obtain req timeout where req: "reserve_request ref_runtime ?o = Inr (req, timeout)"
    using reserve_request_ok [OF ref_runtime_ok, of ?o]
    by (simp add: sample_options_def seconds_def max_duration_seconds_def)
  have call: "reserve_call sample_env sample_client req timeout w = (Inr ?jobs, w @ [''Reserve''])"
    by (simp add: reserve_call_def sample_env_def enter_span_def)
  have readable: "\<forall>j \<in> set ?jobs. job_readable ref_runtime j"
      and bad: "\<not> pb_job_wf (sample_pb_job\<lparr>pbj_id := ''''\<rparr>)"
    using sample_pb_job_wf(2)
    by (simp_all add: job_readable_def renders_def sample_pb_job_def get_timestamp_def
        ref_runtime_def ts_valid_def pb_job_wf_def job_head_wf_def)
  show ?thesis
    using reserve_apply [of sample_env ?o req timeout sample_client w] req call bad sample_pb_job_wf(1)
      jobs.skips_malformed [OF ref_runtime_ok readable, of "Some ''w''"]
    by (simp add: leave_span_def sample_options_def sample_job_def)
qed

definition sample_life :: "string list sys_event list" where
  "sample_life =
     [SysLoop LoopTest, SysLoop (AcquireWoken True), SysReserve 0, SysTask sample_job,
      SysLoop ShutdownSignal, SysLoop LoopTest, SysLoop TasksGathered]"

lemma sample_life_steps:
  fixes exec :: "string \<Rightarrow> job \<Rightarrow> (string list, py_exn, outcome) io"
  defines "step \<equiv> sys_step sample_env sample_client sample_worker exec"
  obtains s1 s2 s3 s4 s5 s6 s7 where
    "step (sys_init sample_env False sample_worker []) (SysLoop LoopTest) = Some s1"
    "step s1 (SysLoop (AcquireWoken True)) = Some s2" "step s2 (SysReserve 0) = Some s3"
    "reserve_reply sample_env sample_client s2 = Inr (Some [sample_job])"
    "step s3 (SysTask sample_job) = Some s4" "step s4 (SysLoop ShutdownSignal) = Some s5"
    "step s5 (SysLoop LoopTest) = Some s6" "step s6 (SysLoop TasksGathered) = Some s7"
    "rn_pc (sy_loop s7) = Finished (Inr ())"
proof -
  let ?opts = "sample_options\<lparr>ro_max_jobs := Some 2\<rparr>"
  let ?l2 = "goto (Reserving ?opts) ((run_init sample_env False sample_worker)\<lparr>rn_permits := 1\<rparr>)"
  let ?l3 = "after_reserve sample_worker ?opts (Inr (Some [sample_job])) 0 ?l2"
  let ?s1 = "\<lparr>sy_loop = goto Acquiring (run_init sample_env False sample_worker), sy_world = []\<rparr>"
  let ?s2 = "\<lparr>sy_loop = ?l2, sy_world = []\<rparr>"
  let ?s3 = "\<lparr>sy_loop = ?l3, sy_world = [''Reserve'']\<rparr>"
  have mx: "wk_max_in_flight sample_worker = 2" by (simp add: sample_worker_def)
  have 1: "step (sys_init sample_env False sample_worker []) (SysLoop LoopTest) = Some ?s1"
    by (simp add: step_def sys_step_def move_loop_def sys_init_def run_init_def run_step_def
        loop_test_def)
  have 2: "step ?s1 (SysLoop (AcquireWoken True)) = Some ?s2"
    by (simp add: step_def sys_step_def move_loop_def run_init_def run_step_def
        acquire_woken_def or_shutdown_def acquired_def goto_def mx sample_capacity)
  have 3: "step ?s2 (SysReserve 0) = Some ?s3"
    by (simp add: step_def sys_step_def sys_reserve_def client_ops_def sample_reserve move_loop_def
        goto_def run_step_def reserve_woken_def or_shutdown_def)
  have reply: "reserve_reply sample_env sample_client ?s2 = Inr (Some [sample_job])"
    by (simp add: reserve_reply_def goto_def sample_reserve)
  have l3: "rn_pc ?l3 = AtTop" "rn_tasks ?l3 = [sample_job]"
    by (simp_all add: goto_def spawning_def spawn_def metric_def run_init_def)
  obtain r w m where p: "process_job sample_env (client_ops sample_env sample_client) sample_worker
      exec sample_job ([''Reserve''], rn_metrics ?l3) = (r, (w, m))"
    by (metis prod_cases3)
  let ?l4 = "task_done sample_job (?l3\<lparr>rn_metrics := m\<rparr>)"
  let ?s = "\<lambda>l. \<lparr>sy_loop = l, sy_world = w\<rparr>"
  have 4: "step ?s3 (SysTask sample_job) = Some (?s ?l4)"
    using l3 p by (simp add: step_def sys_step_def sys_task_def move_loop_def run_step_def
        del: after_reserve.simps)
  have l4: "rn_pc ?l4 = AtTop" "rn_tasks ?l4 = []"
    using l3 by (simp_all add: task_done_def release_def del: after_reserve.simps)
  have rest: "step (?s l) (SysLoop ShutdownSignal) = Some (?s (signal_shutdown l))
      \<and> step (?s (signal_shutdown l)) (SysLoop LoopTest) = Some (?s (goto Draining (signal_shutdown l)))
      \<and> step (?s (goto Draining (signal_shutdown l))) (SysLoop TasksGathered)
          = Some (?s (goto (Finished (Inr ())) (goto Draining (signal_shutdown l))))"
    if "rn_pc l = AtTop" "rn_tasks l = []" for l
    using that by (simp add: step_def sys_step_def move_loop_def run_step_def signal_shutdown_def
        loop_test_def goto_def gathered_def)
  show thesis
    by (rule that [OF 1 2 3 reply 4]) (use rest [OF l4] in \<open>auto simp: goto_def\<close>)
qed

lemma sample_life_runs:
  "\<exists>s. runs (sys_step sample_env sample_client sample_worker exec)
       (sys_init sample_env False sample_worker []) sample_life = Some s
     \<and> rn_pc (sy_loop s) = Finished (Inr ())
     \<and> trace (sys_step sample_env sample_client sample_worker exec)
         (sys_reserved sample_env sample_client) (sys_init sample_env False sample_worker []) sample_life
       = [sample_job]"
  by (rule sample_life_steps [of exec]) (simp add: sample_life_def sys_reserved_def)

section \<open>Properties\<close>

text \<open>
  C2: the worker with its client, in any interleaving: as long as \<open>run\<close> was not
  cancelled and raised nothing, the jobs that \<open>SeppClient.reserve\<close> handed out are
  exactly those whose \<open>_process_job\<close> ran to its end, those in a running task and
  those of the current batch still to be spawned; and when \<open>run\<close> has returned, each
  of them was processed exactly once.
\<close>

theorem worker_processes_reserved_jobs:
  assumes "worker_ok worker"
    and "runs (sys_step env c worker exec) (sys_init env shutdown worker w) evs = Some s"
    and "rn_pc (sy_loop s) \<noteq> Reaping" and "\<forall>e. rn_pc (sy_loop s) \<noteq> Finished (Inl e)"
  shows "mset (trace (sys_step env c worker exec) (sys_reserved env c) (sys_init env shutdown worker w) evs)
      = mset (trace (sys_step env c worker exec) sys_processed (sys_init env shutdown worker w) evs)
        + mset (rn_tasks (sy_loop s)) + pending (rn_pc (sy_loop s))
    \<and> (rn_pc (sy_loop s) = Finished (Inr ()) \<longrightarrow>
         rn_tasks (sy_loop s) = [] \<and> pending (rn_pc (sy_loop s)) = {#})"
proof -
  have "\<not> doomed (pool_of (sy_loop s))"
    using assms(3,4) by (cases "rn_pc (sy_loop s)") (auto simp: doomed_def)
  moreover have "run_inv worker (sy_loop s)"
    using system.inv_runs [OF sys_inv_init [OF assms(1)] assms(2)] by (simp add: sys_inv_def loop_inv_def)
  ultimately show ?thesis using sys_conserves [OF assms(1,2)] by (auto simp: run_inv_def)
qed

theorem worker_processes_reserved_jobs_witness:
  "\<exists>s. runs (sys_step sample_env sample_client sample_worker (\<lambda>_ _ w. (Inr Completed, w)))
         (sys_init sample_env False sample_worker []) sample_life = Some s
     \<and> mset (trace (sys_step sample_env sample_client sample_worker (\<lambda>_ _ w. (Inr Completed, w)))
         sys_processed (sys_init sample_env False sample_worker []) sample_life) = {#sample_job#}"
proof -
  let ?exec = "\<lambda>_ _ w. (Inr Completed, w)"
  obtain s where s: "runs (sys_step sample_env sample_client sample_worker ?exec)
      (sys_init sample_env False sample_worker []) sample_life = Some s"
      "rn_pc (sy_loop s) = Finished (Inr ())"
      "trace (sys_step sample_env sample_client sample_worker ?exec)
         (sys_reserved sample_env sample_client) (sys_init sample_env False sample_worker []) sample_life
       = [sample_job]"
    using sample_life_runs [of ?exec] by blast
  then show ?thesis
    using worker_processes_reserved_jobs [OF sample_worker_ok s(1)] by (intro exI [of _ s]) simp
qed

text \<open>
  C6: what a worker stops for, in any interleaving with its client: either \<open>run\<close> is
  still in its serving loop; or shutdown was signalled, and it drains or has returned; or it was
  cancelled, or its reserve was, and it reaps its tasks or has raised
  \<open>CancelledError\<close>; or it has raised a bare Python exception that one of its
  reserves raised, which \<open>run\<close> does not catch (a response with a timestamp the
  runtime refuses to render provokes one). So no \<open>SeppError\<close>, no failing handler,
  ack or nack and no empty batch ever stops it, and no gRPC error reaches it.
\<close>

theorem worker_survives_service_errors:
  assumes "worker_ok worker"
    and "runs (sys_step env c worker exec) (sys_init env shutdown worker w) evs = Some s"
    and "pc = rn_pc (sy_loop s)"
    and "replies = trace (sys_step env c worker exec) (sys_replies env c)
           (sys_init env shutdown worker w) evs"
  shows "(live pc \<and> pc \<noteq> Draining)
    \<or> (pc \<in> {Draining, Finished (Inr ())} \<and> (shutdown \<or> SysLoop ShutdownSignal \<in> set evs))
    \<or> (pc \<in> {Reaping, Finished (Inl CancelledError)}
        \<and> (SysLoop CancelRun \<in> set evs \<or> Inl CancelledError \<in> set replies))
    \<or> (\<exists>p. pc = Finished (Inl (Py p)) \<and> Inl (Py p) \<in> set replies)"
proof -
  have "run_inv worker (sy_loop s)"
    using system.inv_runs [OF sys_inv_init [OF assms(1)] assms(2)] by (simp add: sys_inv_def loop_inv_def)
  moreover have "explained shutdown (sy_loop s) evs replies"
    using sys_explained [OF assms(1,2)] assms(4) by simp
  ultimately show ?thesis unfolding assms(3) by (intro explained_pc)
qed

theorem worker_survives_service_errors_witness:
  "\<exists>s. runs (sys_step sample_env sample_client sample_worker (\<lambda>_ _ w. (Inr Completed, w)))
         (sys_init sample_env False sample_worker []) sample_life = Some s
     \<and> rn_pc (sy_loop s) = Finished (Inr ()) \<and> SysLoop ShutdownSignal \<in> set sample_life"
proof -
  obtain s where s: "runs (sys_step sample_env sample_client sample_worker (\<lambda>_ _ w. (Inr Completed, w)))
      (sys_init sample_env False sample_worker []) sample_life = Some s"
      "rn_pc (sy_loop s) = Finished (Inr ())"
    using sample_life_runs [of "\<lambda>_ _ w. (Inr Completed, w)"] by blast
  then have "SysLoop ShutdownSignal \<in> set sample_life"
    using worker_survives_service_errors [OF sample_worker_ok s(1) refl refl] by auto
  with s show ?thesis by blast
qed

text \<open>
  C16: the worker's metrics are exact in every interleaving: with OpenTelemetry installed, the
  reserve counters equal the numbers of reserves that gave jobs, gave none, and failed with a
  \<open>SeppError\<close>; the in-flight gauge is the number of running tasks; and the jobs
  counted as processed or nacked are at most the jobs whose processing ended.
\<close>

theorem worker_counts_exactly:
  assumes "worker_ok worker" and "ot_available env"
    and "runs (sys_step env c worker exec) (sys_init env shutdown worker w) evs = Some s"
    and "m = rn_metrics (sy_loop s)"
    and "replies = trace (sys_step env c worker exec) (sys_replies env c)
           (sys_init env shutdown worker w) evs"
  shows "wm_reserves_some m = how_many is_batch replies
    \<and> wm_reserves_empty m = how_many is_no_batch replies
    \<and> wm_reserves_failed m = how_many is_failure replies
    \<and> wm_in_flight m = int (length (rn_tasks (sy_loop s)))
    \<and> 0 \<le> settled_count m
    \<and> settled_count m \<le> int (length (trace (sys_step env c worker exec) sys_processed
                                  (sys_init env shutdown worker w) evs))"
proof -
  have m0: "rn_metrics (sy_loop (sys_init env shutdown worker w)) = worker_metrics_new env"
    by (simp add: sys_init_def run_init_def)
  have "run_inv worker (sy_loop s)"
    using system.inv_runs [OF sys_inv_init [OF assms(1)] assms(3)] by (simp add: sys_inv_def loop_inv_def)
  then show ?thesis
    using sys_runs_counted [OF assms(3)] assms(2,4,5) unfolding m0
    by (auto simp: counted_def worker_metrics_new_def settled_count_def run_inv_def)
qed

theorem worker_counts_exactly_witness:
  "\<exists>s. runs (sys_step (sample_env\<lparr>ot_available := True\<rparr>) sample_client sample_worker (\<lambda>_ _ w. (Inr Completed, w)))
         (sys_init (sample_env\<lparr>ot_available := True\<rparr>) False sample_worker []) [SysLoop LoopTest] = Some s
     \<and> wm_enabled (rn_metrics (sy_loop s)) \<and> wm_in_flight (rn_metrics (sy_loop s)) = 0
     \<and> wm_reserves_some (rn_metrics (sy_loop s)) = 0"
proof -
  let ?env = "sample_env\<lparr>ot_available := True\<rparr>" and ?exec = "\<lambda>_ _ w. (Inr Completed, w)"
  let ?init = "sys_init ?env False sample_worker []"
  let ?fin = "?init\<lparr>sy_loop := (sy_loop ?init)\<lparr>rn_pc := Acquiring\<rparr>\<rparr>"
  have run: "runs (sys_step ?env sample_client sample_worker ?exec) ?init [SysLoop LoopTest] = Some ?fin"
    by (simp add: sys_step_def move_loop_def run_step_def sys_init_def run_init_def loop_test_def
        goto_def)
  have "wm_enabled (rn_metrics (sy_loop ?fin))"
    by (simp add: sys_init_def run_init_def worker_metrics_new_def)
  moreover have "rn_tasks (sy_loop ?fin) = []" by (simp add: sys_init_def run_init_def)
  moreover have "[] = trace (sys_step ?env sample_client sample_worker ?exec)
      (sys_replies ?env sample_client) ?init [SysLoop LoopTest]"
    by (simp add: sys_replies_def split: option.split)
  ultimately show ?thesis
    using worker_counts_exactly [OF sample_worker_ok _ run refl] run
    by (intro exI [of _ ?fin]) auto
qed

end
