(* ===== verification/Sepp_Service.thy ===== *)
theory Sepp_Service
  imports Sepp_Contract
begin

text \<open>
  Further promises of the client: \<open>get_server_info\<close> and what it makes of a response, \<open>enqueue\<close> of a
  single job in terms of \<open>enqueue_batch\<close>, and the trace context of the producer's span on its way to
  the consumer's.
\<close>

section \<open>Server information\<close>

text \<open>What a response must carry to be read, and what is then read.\<close>

definition server_time_ok :: "pb_server_info \<Rightarrow> bool" where
  "server_time_ok r \<longleftrightarrow> repr_time (get_timestamp (pbs_server_time r))"

definition durations_ok :: "pb_server_info \<Rightarrow> bool" where
  "durations_ok r \<longleftrightarrow> du_valid (get_duration (pbs_max_schedule_horizon r))
     \<and> du_valid (get_duration (pbs_max_wait_timeout r))
     \<and> du_valid (get_duration (pbs_max_lease_duration r))"

definition decode_server_info :: "pb_server_info \<Rightarrow> server_info" where
  "decode_server_info r =
     \<lparr>si_version = pbs_server_version r,
      si_supported_protocol_versions = pbs_supported_protocol_versions r,
      si_server_time = utc (ts_micros (get_timestamp (pbs_server_time r))),
      si_restricts_encodings = pbs_restricts_encodings r,
      si_allowed_encodings = pbs_allowed_encodings r,
      si_max_payload_bytes = uint (pbs_max_payload_bytes r),
      si_max_custom_entries = uint (pbs_max_custom_entries r),
      si_max_custom_total_bytes = uint (pbs_max_custom_total_bytes r),
      si_max_custom_key_bytes = uint (pbs_max_custom_key_bytes r),
      si_max_queue_name_bytes = uint (pbs_max_queue_name_bytes r),
      si_max_job_type_bytes = uint (pbs_max_job_type_bytes r),
      si_max_idempotency_key_bytes = uint (pbs_max_idempotency_key_bytes r),
      si_max_schedule_horizon = du_micros (get_duration (pbs_max_schedule_horizon r)),
      si_max_enqueue_batch = uint (pbs_max_enqueue_batch r),
      si_max_reserve_batch = uint (pbs_max_reserve_batch r),
      si_max_reserve_queues = uint (pbs_max_reserve_queues r),
      si_max_wait_timeout = du_micros (get_duration (pbs_max_wait_timeout r)),
      si_max_lease_duration = du_micros (get_duration (pbs_max_lease_duration r)),
      si_strict_queues = pbs_strict_queues r,
      si_dead_letter_retention_enabled = pbs_dead_letter_retention_enabled r\<rparr>"

lemma server_info_from_pb_ok:
  assumes "pb_runtime_ok rt" and "pbs_server_version r \<noteq> ''''" and "server_time_ok r"
    and "durations_ok r"
  shows "server_info_from_pb rt r = Inr (decode_server_info r)"
  using assms
  by (simp add: server_info_from_pb_def decode_server_info_def server_time_ok_def durations_ok_def
      timestamp_to_datetime_eq rt_ToTimedelta_ok)

lemma server_info_from_pb_malformed:
  assumes "pb_runtime_ok rt"
    and "pbs_server_version r = ''''
      \<or> \<not> server_time_ok r \<and> ts_valid (get_timestamp (pbs_server_time r))"
  shows "\<exists>m. server_info_from_pb rt r = Inl (Sepp (ServerInfoError m))"
proof (cases "pbs_server_version r = ''''")
  case False
  then obtain js where "rt_ToJsonString rt (get_timestamp (pbs_server_time r)) = Inr js"
    using assms rt_ToJsonString_ok by blast
  with False show ?thesis
    using assms by (simp add: server_info_from_pb_def timestamp_to_datetime_eq server_time_ok_def)
qed (simp add: server_info_from_pb_def)

text \<open>
  The reads of a response that nothing guards: the rendering of a server time that is no Python time,
  and the three durations.
\<close>

definition unguarded_reads :: "pb_runtime \<Rightarrow> pb_server_info \<Rightarrow> (py_error + unit) list" where
  "unguarded_reads rt r =
     (if server_time_ok r
      then map (\<lambda>d. map_sum id (\<lambda>_. ()) (rt_ToTimedelta rt (get_duration d)))
             [pbs_max_schedule_horizon r, pbs_max_wait_timeout r, pbs_max_lease_duration r]
      else [map_sum id (\<lambda>_. ()) (rt_ToJsonString rt (get_timestamp (pbs_server_time r)))])"

lemma server_info_from_pb_unguarded:
  assumes "pb_runtime_ok rt" and "pbs_server_version r \<noteq> ''''"
    and "Inl e \<in> set (unguarded_reads rt r)"
  shows "\<exists>e. Inl e \<in> set (unguarded_reads rt r) \<and> server_info_from_pb rt r = Inl (Py e)"
proof (cases "server_time_ok r")
  case False
  then show ?thesis
    using assms by (cases "rt_ToJsonString rt (get_timestamp (pbs_server_time r))")
      (auto simp: unguarded_reads_def server_info_from_pb_def timestamp_to_datetime_eq
        server_time_ok_def)
next
  case True
  then have t: "timestamp_to_datetime rt (get_timestamp (pbs_server_time r))
      = Inr (Some (utc (ts_micros (get_timestamp (pbs_server_time r)))))"
    using assms(1) by (simp add: timestamp_to_datetime_eq server_time_ok_def)
  show ?thesis
    using True t assms(2,3)
    by (cases "rt_ToTimedelta rt (get_duration (pbs_max_schedule_horizon r))";
        cases "rt_ToTimedelta rt (get_duration (pbs_max_wait_timeout r))";
        cases "rt_ToTimedelta rt (get_duration (pbs_max_lease_duration r))")
      (auto simp: unguarded_reads_def server_info_from_pb_def)
qed

lemma get_server_info_sends:
  assumes "policy_ok (cl_retry_policy c)"
  shows "\<exists>reply v. unary_run env c ''sepp.get_server_info'' client_error_from_rpc RETRYABLE_CODES
             (en_GetServerInfo env) () w reply v
           \<and> get_server_info env c w
             = (bind_res reply (\<lambda>resp. malformed_server_info (server_info_from_pb (en_rt env) resp)), v)"
proof -
  let ?call = "client_span env ''sepp.get_server_info'' (map_rpc client_error_from_rpc
    (retried_call env c RETRYABLE_CODES (en_GetServerInfo env) ()))"
  obtain reply v where call: "?call w = (reply, v)" by (cases "?call w")
  have "get_server_info env c w
      = (bind_res reply (\<lambda>resp. malformed_server_info (server_info_from_pb (en_rt env) resp)), v)"
    using call by (simp add: get_server_info_def io_bind_lift_res)
  then show ?thesis using unary_span [OF assms call] by blast
qed

section \<open>A single job\<close>

text \<open>\<open>enqueue\<close> is \<open>enqueue_batch\<close> of one job, its one result unpacked.\<close>

fun single_result :: "enqueue_result \<Rightarrow> py_exn + enqueue_ack" where
  "single_result (Accepted a) = Inr a"
| "single_result (Refused rej) = Inl (Sepp (JobRejectedError rej))"

lemma enqueue_of_batch:
  assumes "policy_ok (cl_retry_policy c)"
  shows "enqueue env c job w =
    (case enqueue_batch env c [job] w of
       (Inl e, w') \<Rightarrow> (Inl e, w')
     | (Inr rs, w') \<Rightarrow> (single_result (hd rs), w'))"
    and "enqueue_batch env c [job] w = (Inr rs, w') \<Longrightarrow> length rs = 1"
proof -
  have one: "length rs = 1" if "enqueue_batch env c [job] w = (Inr rs, w')" for rs w'
    using enqueue_batch_Inr [OF assms that] by (auto dest: list_all2_lengthD)
  then show "enqueue_batch env c [job] w = (Inr rs, w') \<Longrightarrow> length rs = 1" .
  obtain r w' where r: "enqueue_batch env c [job] w = (r, w')" by (cases "enqueue_batch env c [job] w")
  show "enqueue env c job w =
    (case enqueue_batch env c [job] w of
       (Inl e, w') \<Rightarrow> (Inl e, w')
     | (Inr rs, w') \<Rightarrow> (single_result (hd rs), w'))"
  proof (cases r)
    case (Inr rs)
    then obtain x where "rs = [x]" using one r by (metis One_nat_def length_0_conv length_Suc_conv)
    then show ?thesis using r Inr by (cases x) (simp_all add: enqueue_def io_bind_apply)
  qed (use r in \<open>simp add: enqueue_def io_bind_apply\<close>)
qed

section \<open>The trace context, from the producer to the consumer\<close>

definition plain_tracestate :: "string option \<Rightarrow> string option" where
  "plain_tracestate ts = (if ts = Some '''' then None else ts)"

lemma sent_trace:
  assumes "current_trace_headers env (enter_span env name CLIENT [] w) = Some (tp, ts)"
    and "i < length pb_jobs" and "pbe_trace_context (pb_jobs ! i) = None"
  shows "pbe_trace_context (sent_jobs env name pb_jobs w ! i)
    = Some \<lparr>pbt_traceparent = tp, pbt_tracestate = plain_tracestate ts\<rparr>"
  using assms by (simp add: sent_jobs_def inject_trace_into_jobs_def inject_trace_def plain_tracestate_def)

lemma converted_trace:
  "enqueue_request_to_pb rt req = Inr m \<Longrightarrow>
     pbe_trace_context m = map_option trace_context_to_pb (er_trace_context req)"
  by (auto simp: enqueue_request_to_pb_def bind_res_eq_Inr)

lemma received_trace:
  "job_from_pb rt j wid = Inr job \<Longrightarrow> jc_trace_context (job_ctx job) = decode_trace (pbj_trace_context j)"
  by (auto simp: job_from_pb_def bind_res_eq_Inr optional_trace_eq)

section \<open>Concrete inputs\<close>

text \<open>A reply that is always the same is the one a call ends with.\<close>

lemma call_run_always:
  "call_run tm p codes call b n w r w' \<Longrightarrow> (\<And>v. fst (call v) = Inr x) \<Longrightarrow> r = Inr x"
  by (induction rule: call_run.induct) (metis fst_conv sum.distinct(1))+

lemma unary_run_always:
  assumes "unary_run env c name f codes stub req w reply w'"
    and "\<And>v. fst (stub_call env c stub req v) = Inr x"
  shows "reply = Inr x"
  using assms call_run_always unfolding unary_run_def by (fastforce simp: seen_result_def)

definition sample_traceparent :: string where
  "sample_traceparent = ''00-0af7651916cd43dd8448eb211c80319c-b7ad6b7169203331-01''"

lemma sample_traceparent_ok: "w3c_traceparent sample_traceparent"
  unfolding w3c_traceparent_def
  by (intro exI [of _ "''00''"] exI [of _ "''0af7651916cd43dd8448eb211c80319c''"]
      exI [of _ "''b7ad6b7169203331''"] exI [of _ "''01''"])
    (simp add: sample_traceparent_def hex_field_iff is_hex_def numeral_eq_Suc)

text \<open>OpenTelemetry with an active span, and a server one of whose limits is no Python \<open>timedelta\<close>.\<close>

definition traced_env :: "(string list, unit) env" where
  "traced_env = sample_env\<lparr>ot_available := True,
     ot_inject := (\<lambda>_. [(''traceparent'', sample_traceparent), (''tracestate'', '''')])\<rparr>"

definition bad_server_info :: pb_server_info where
  "bad_server_info =
     \<lparr>pbs_server_version = ''1.0'', pbs_supported_protocol_versions = [''v1''],
      pbs_server_time = Some \<lparr>ts_seconds = 1700000000, ts_nanos = 0\<rparr>,
      pbs_restricts_encodings = False, pbs_allowed_encodings = [], pbs_max_payload_bytes = 1,
      pbs_max_custom_entries = 1, pbs_max_custom_total_bytes = 1, pbs_max_custom_key_bytes = 1,
      pbs_max_queue_name_bytes = 1, pbs_max_job_type_bytes = 1, pbs_max_idempotency_key_bytes = 1,
      pbs_max_schedule_horizon = Some \<lparr>du_seconds = 10 ^ 18, du_nanos = 0\<rparr>,
      pbs_max_enqueue_batch = 1, pbs_max_reserve_batch = 1, pbs_max_reserve_queues = 1,
      pbs_max_wait_timeout = None, pbs_max_lease_duration = None, pbs_strict_queues = False,
      pbs_dead_letter_retention_enabled = False\<rparr>"

section \<open>Properties\<close>

text \<open>
  C17: the producer's span reaches the consumer: a job enqueued without a trace context is sent
  with the well-formed context of the client's enqueue span (an empty tracestate left out), and
  when the server hands that context out with the job, the job carries it and the worker's
  \<open>sepp.process\<close> span is linked to the span OpenTelemetry extracts from it, if that
  is valid.
\<close>

theorem trace_reaches_consumer:
  assumes "traverse (enqueue_request_to_pb (en_rt env)) jobs = Inr pb_jobs"
    and "i < length jobs" and "er_trace_context (jobs ! i) = None"
    and "current_trace_headers env (enter_span env name CLIENT [] w) = Some (tp, ts)"
    and "w3c_traceparent tp"
    and "pbj_trace_context j = pbe_trace_context (sent_jobs env name pb_jobs w ! i)"
    and "job_from_pb rt j worker_id = Inr job"
    and "tc = \<lparr>tc_traceparent = tp, tc_tracestate = plain_tracestate ts\<rparr>"
  shows "jc_trace_context (job_ctx job) = Some tc
    \<and> consumer_links ot (jc_trace_context (job_ctx job))
       = (if ot_available ot \<and> ot_is_valid ot (ot_span_context ot (trace_carrier tc))
          then [ot_span_context ot (trace_carrier tc)] else [])"
proof -
  have "length pb_jobs = length jobs" using traverse_length [OF assms(1)] by simp
  moreover have "enqueue_request_to_pb (en_rt env) (jobs ! i) = Inr (pb_jobs ! i)"
    using assms(1,2) by (auto simp: traverse_eq_Inr dest: list_all2_nthD)
  ultimately have "pbj_trace_context j
      = Some \<lparr>pbt_traceparent = tp, pbt_tracestate = plain_tracestate ts\<rparr>"
    using sent_trace [OF assms(4)] converted_trace assms(2,3,6) by fastforce
  then have "jc_trace_context (job_ctx job) = Some tc"
    using received_trace [OF assms(7)] assms(5,8) by (simp add: decode_trace_def)
  then show ?thesis
    by (simp add: consumer_links_def span_context_from_trace_context_def Let_def split: if_splits)
qed

theorem trace_reaches_consumer_witness:
  "\<exists>pb_jobs job. traverse (enqueue_request_to_pb ref_runtime) [sample_request] = Inr pb_jobs
     \<and> job_from_pb ref_runtime (sample_pb_job\<lparr>pbj_trace_context :=
          pbe_trace_context (sent_jobs traced_env ''sepp.enqueue'' pb_jobs [] ! 0)\<rparr>) None = Inr job
     \<and> consumer_links (traced_env\<lparr>ot_is_valid := \<lambda>_. True\<rparr>) (jc_trace_context (job_ctx job)) = [()]"
proof -
  obtain m where m: "enqueue_request_to_pb ref_runtime sample_request = Inr m"
    using enqueue_request_to_pb_ok [OF ref_runtime_ok sample_request_wire] by blast
  then have pb: "traverse (enqueue_request_to_pb ref_runtime) [sample_request] = Inr [m]" by simp
  let ?j = "sample_pb_job\<lparr>pbj_trace_context :=
    pbe_trace_context (sent_jobs traced_env ''sepp.enqueue'' [m] [] ! 0)\<rparr>"
  have "pb_job_wf ?j" "distinct (map fst (pbj_custom ?j))"
    using sample_pb_job_wf by (simp_all add: pb_job_wf_def job_head_wf_def customs_set_def)
  then have job: "job_from_pb ref_runtime ?j None = Inr (decode_job ?j None)"
    by (intro job_from_pb_wf [OF ref_runtime_ok])
  have sent: "pbj_trace_context ?j = pbe_trace_context (sent_jobs traced_env ''sepp.enqueue'' [m] [] ! 0)"
    by simp
  have "en_rt traced_env = ref_runtime" "er_trace_context sample_request = None"
    by (simp_all add: traced_env_def sample_env_def sample_request_def)
  moreover have "current_trace_headers traced_env (enter_span traced_env ''sepp.enqueue'' CLIENT [] [])
      = Some (sample_traceparent, Some '''')"
    by (simp add: current_trace_headers_def traced_env_def sample_env_def)
  ultimately show ?thesis
    using trace_reaches_consumer [of traced_env "[sample_request]" "[m]" 0, OF _ _ _ _
        sample_traceparent_ok sent job refl, of "Some ''''"
        "traced_env\<lparr>ot_is_valid := \<lambda>_. True\<rparr>"] pb job
    by (auto simp: traced_env_def sample_env_def)
qed

text \<open>
  C23: \<open>get_server_info\<close> makes the one call, retried as the policy allows, and
  returns every field of a readable response; a response without a version, or with a valid time
  the client cannot represent, raises \<open>MalformedServerInfoError\<close>; and what the
  runtime raises on one of the durations, or on rendering the time, is raised as it is.
\<close>

theorem server_info_fetched:
  assumes "pb_runtime_ok (en_rt env)" and "policy_ok (cl_retry_policy c)"
    and "get_server_info env c w = (r, w')"
  shows "\<exists>reply. unary_run env c ''sepp.get_server_info'' client_error_from_rpc RETRYABLE_CODES
           (en_GetServerInfo env) () w reply w'
     \<and> (\<forall>e. reply = Inl e \<longrightarrow> r = Inl e)
     \<and> (\<forall>resp. reply = Inr resp \<longrightarrow>
          (pbs_server_version resp \<noteq> '''' \<and> server_time_ok resp \<and> durations_ok resp
             \<longrightarrow> r = Inr (decode_server_info resp))
        \<and> (pbs_server_version resp = ''''
             \<or> \<not> server_time_ok resp \<and> ts_valid (get_timestamp (pbs_server_time resp))
             \<longrightarrow> (\<exists>m. r = Inl (Sepp (MalformedServerInfoError (ServerInfoError m)))))
        \<and> (pbs_server_version resp \<noteq> '''' \<and> (\<exists>e. Inl e \<in> set (unguarded_reads (en_rt env) resp))
             \<longrightarrow> (\<exists>e. Inl e \<in> set (unguarded_reads (en_rt env) resp) \<and> r = Inl (Py e))))"
proof -
  obtain reply where run: "unary_run env c ''sepp.get_server_info'' client_error_from_rpc
        RETRYABLE_CODES (en_GetServerInfo env) () w reply w'"
      and r: "r = bind_res reply (\<lambda>resp. malformed_server_info (server_info_from_pb (en_rt env) resp))"
    using get_server_info_sends [OF assms(2), of env w] assms(3) by auto
  have "r = Inr (decode_server_info resp)"
    if "reply = Inr resp" "pbs_server_version resp \<noteq> ''''" "server_time_ok resp" "durations_ok resp" for resp
    using r that server_info_from_pb_ok [OF assms(1) that(2-4)] by (simp add: malformed_server_info_def)
  moreover have "\<exists>m. r = Inl (Sepp (MalformedServerInfoError (ServerInfoError m)))"
    if "reply = Inr resp" "pbs_server_version resp = ''''
      \<or> \<not> server_time_ok resp \<and> ts_valid (get_timestamp (pbs_server_time resp))" for resp
    using r that(1) server_info_from_pb_malformed [OF assms(1) that(2)]
    by (auto simp: malformed_server_info_def)
  moreover have "\<exists>e. Inl e \<in> set (unguarded_reads (en_rt env) resp) \<and> r = Inl (Py e)"
    if "reply = Inr resp" "pbs_server_version resp \<noteq> ''''"
      "\<exists>e. Inl e \<in> set (unguarded_reads (en_rt env) resp)" for resp
  proof -
    note resp = that
    obtain e where "Inl e \<in> set (unguarded_reads (en_rt env) resp)"
        "server_info_from_pb (en_rt env) resp = Inl (Py e)"
      using server_info_from_pb_unguarded [OF assms(1) resp(2)] resp(3) by blast
    then show ?thesis using r resp(1) by (auto simp: malformed_server_info_def)
  qed
  ultimately show ?thesis using run r by (intro exI [of _ reply]) auto
qed

theorem server_info_fetched_witness:
  "fst (get_server_info (sample_env\<lparr>en_GetServerInfo := (\<lambda>_ _ _ w. (Inr bad_server_info, w))\<rparr>)
         sample_client []) = Inl (Py (OverflowError ''days out of range''))"
proof -
  let ?env = "sample_env\<lparr>en_GetServerInfo := (\<lambda>_ _ _ w. (Inr bad_server_info, w))\<rparr>"
  obtain r w' where g: "get_server_info ?env sample_client [] = (r, w')"
    by (cases "get_server_info ?env sample_client []")
  have ok: "pb_runtime_ok (en_rt ?env)" "policy_ok (cl_retry_policy sample_client)"
    using ref_runtime_ok by simp_all
  have reads: "unguarded_reads (en_rt ?env) bad_server_info
      = [Inl (OverflowError ''days out of range''), Inr (), Inr ()]"
    by (simp add: unguarded_reads_def bad_server_info_def server_time_ok_def get_timestamp_def
        get_duration_def default_duration_def repr_time_def ref_runtime_def in_timedelta_def
        max_timedelta_def du_micros_def)
  obtain reply where run: "unary_run ?env sample_client ''sepp.get_server_info''
        client_error_from_rpc RETRYABLE_CODES (en_GetServerInfo ?env) () [] reply w'"
      and bad: "\<forall>resp. reply = Inr resp \<longrightarrow> pbs_server_version resp \<noteq> ''''
        \<and> (\<exists>e. Inl e \<in> set (unguarded_reads (en_rt ?env) resp))
        \<longrightarrow> (\<exists>e. Inl e \<in> set (unguarded_reads (en_rt ?env) resp) \<and> r = Inl (Py e))"
    using server_info_fetched [OF ok g] by blast
  have "reply = Inr bad_server_info"
    by (rule unary_run_always [OF run]) (simp add: stub_call_def)
  moreover have "pbs_server_version bad_server_info \<noteq> ''''" by (simp add: bad_server_info_def)
  ultimately show ?thesis using g bad reads by auto
qed

text \<open>
  C24: \<open>enqueue\<close> is \<open>enqueue_batch\<close> of the one job: it returns the ack
  of the batch's only result, raises \<open>JobRejectedError\<close> with the rejection if that
  is what the server answered, and otherwise raises what the batch raised;
  \<open>results[0]\<close> always exists.
\<close>

theorem enqueue_unpacks_batch:
  assumes "policy_ok (cl_retry_policy c)"
  shows "(\<exists>a w'. enqueue_batch env c [job] w = (Inr [Accepted a], w') \<and> enqueue env c job w = (Inr a, w'))
    \<or> (\<exists>rej w'. enqueue_batch env c [job] w = (Inr [Refused rej], w')
         \<and> enqueue env c job w = (Inl (Sepp (JobRejectedError rej)), w'))
    \<or> (\<exists>e w'. enqueue_batch env c [job] w = (Inl e, w') \<and> enqueue env c job w = (Inl e, w'))"
proof -
  obtain r w' where r: "enqueue_batch env c [job] w = (r, w')" by (cases "enqueue_batch env c [job] w")
  show ?thesis
  proof (cases r)
    case (Inl e)
    then show ?thesis using enqueue_of_batch(1) [OF assms, of env job w] r by auto
  next
    case (Inr rs)
    then have "length rs = 1" using enqueue_of_batch(2) [OF assms, of env job w rs w'] r by simp
    then obtain x where "rs = [x]" by (metis One_nat_def length_0_conv length_Suc_conv)
    then show ?thesis
      using enqueue_of_batch(1) [OF assms, of env job w] r Inr by (cases x) auto
  qed
qed

theorem enqueue_unpacks_batch_witness:
  "\<exists>r. enqueue sample_env sample_client sample_request [] = (r, [''EnqueueBatch''])
     \<and> (\<forall>e. r = Inl e \<longrightarrow> (\<exists>rej. e = Sepp (JobRejectedError rej)))"
proof -
  obtain rs where "enqueue_batch sample_env sample_client [sample_request] []
      = (Inr rs, [''EnqueueBatch''])"
    using sample_enqueue by blast
  then show ?thesis
    using enqueue_unpacks_batch [of sample_client sample_env sample_request "[]"] by auto
qed

end
