(* ===== verification/Sepp_Stub.thy ===== *)
theory Sepp_Stub
  imports Sepp_Client
begin

text \<open>
  \<^verbatim>\<open>src/sepp/v1/queue_pb2_grpc.py\<close>: the client stub, the servicer base class, its registration
  with a server, and the experimental static methods. gRPC is not in the repository: a channel's
  \<open>unary_unary\<close> and \<open>grpc.experimental.unary_unary\<close> are arguments. A serializer
  (\<open>X.SerializeToString\<close>) or deserializer (\<open>X.FromString\<close>) is named by its message type \<open>X\<close>.
\<close>

section \<open>Message types and methods\<close>

datatype message_type =
    EnqueueBatchRequest | EnqueueBatchResponse | EnqueueAtomicResponse
  | ReserveRequest | ReserveResponse | AckRequest | AckResponse | NackRequest | NackResponse
  | ExtendRequest | ExtendResponse | DrainDeadLettersRequest | DrainDeadLettersResponse
  | GetServerInfoRequest | GetServerInfoResponse

text \<open>What \<open>channel.unary_unary\<close> is given: path, serializer, deserializer and the flag.\<close>

type_synonym 'c unary_unary = "string \<Rightarrow> message_type \<Rightarrow> message_type \<Rightarrow> bool \<Rightarrow> 'c"

section \<open>The stub\<close>

record 'c queue_stub =
  st_EnqueueBatch :: 'c
  st_EnqueueAtomic :: 'c
  st_Reserve :: 'c
  st_Ack :: 'c
  st_Nack :: 'c
  st_Extend :: 'c
  st_DrainDeadLetters :: 'c
  st_GetServerInfo :: 'c

definition QueueServiceStub :: "'c unary_unary \<Rightarrow> 'c queue_stub" where
  "QueueServiceStub channel =
     \<lparr>st_EnqueueBatch = channel ''/sepp.v1.QueueService/EnqueueBatch''
        EnqueueBatchRequest EnqueueBatchResponse True,
      st_EnqueueAtomic = channel ''/sepp.v1.QueueService/EnqueueAtomic''
        EnqueueBatchRequest EnqueueAtomicResponse True,
      st_Reserve = channel ''/sepp.v1.QueueService/Reserve'' ReserveRequest ReserveResponse True,
      st_Ack = channel ''/sepp.v1.QueueService/Ack'' AckRequest AckResponse True,
      st_Nack = channel ''/sepp.v1.QueueService/Nack'' NackRequest NackResponse True,
      st_Extend = channel ''/sepp.v1.QueueService/Extend'' ExtendRequest ExtendResponse True,
      st_DrainDeadLetters = channel ''/sepp.v1.QueueService/DrainDeadLetters''
        DrainDeadLettersRequest DrainDeadLettersResponse True,
      st_GetServerInfo = channel ''/sepp.v1.QueueService/GetServerInfo''
        GetServerInfoRequest GetServerInfoResponse True\<rparr>"

section \<open>The servicer\<close>

text \<open>A method takes a request and the context of the call, and returns or raises.\<close>

record servicer_context =
  sc_code :: "status_code option"
  sc_details :: "string option"

datatype service_exn = NotImplementedError string

type_synonym ('q, 'r) rpc_method =
  "'q \<Rightarrow> servicer_context \<Rightarrow> (service_exn + 'r) \<times> servicer_context"

definition set_code :: "status_code \<Rightarrow> servicer_context \<Rightarrow> servicer_context" where
  "set_code code context = context\<lparr>sc_code := Some code\<rparr>"

definition set_details :: "string \<Rightarrow> servicer_context \<Rightarrow> servicer_context" where
  "set_details details context = context\<lparr>sc_details := Some details\<rparr>"

definition not_implemented :: "('q, 'r) rpc_method" where
  "not_implemented request context =
     (Inl (NotImplementedError ''Method not implemented!''),
      set_details ''Method not implemented!'' (set_code UNIMPLEMENTED context))"

text \<open>A servicer: one method per RPC; requests and responses are messages of one type \<open>'m\<close>.\<close>

record 'm servicer =
  sv_EnqueueBatch :: "('m, 'm) rpc_method"
  sv_EnqueueAtomic :: "('m, 'm) rpc_method"
  sv_Reserve :: "('m, 'm) rpc_method"
  sv_Ack :: "('m, 'm) rpc_method"
  sv_Nack :: "('m, 'm) rpc_method"
  sv_Extend :: "('m, 'm) rpc_method"
  sv_DrainDeadLetters :: "('m, 'm) rpc_method"
  sv_GetServerInfo :: "('m, 'm) rpc_method"

text \<open>The base class: a subclass overrides what it implements.\<close>

definition QueueServiceServicer :: "'m servicer" where
  "QueueServiceServicer =
     \<lparr>sv_EnqueueBatch = not_implemented, sv_EnqueueAtomic = not_implemented,
      sv_Reserve = not_implemented, sv_Ack = not_implemented, sv_Nack = not_implemented,
      sv_Extend = not_implemented, sv_DrainDeadLetters = not_implemented,
      sv_GetServerInfo = not_implemented\<rparr>"

section \<open>Registration with a server\<close>

text \<open>\<open>unary_unary_rpc_method_handler\<close>: the method with its deserializer and serializer.\<close>

record 'm rpc_handler =
  rh_method :: "('m, 'm) rpc_method"
  rh_request :: message_type
  rh_response :: message_type

type_synonym 'm handler_map = "(string \<times> 'm rpc_handler) list"

definition rpc_method_handlers :: "'m servicer \<Rightarrow> 'm handler_map" where
  "rpc_method_handlers servicer =
     [(''EnqueueBatch'', \<lparr>rh_method = sv_EnqueueBatch servicer,
        rh_request = EnqueueBatchRequest, rh_response = EnqueueBatchResponse\<rparr>),
      (''EnqueueAtomic'', \<lparr>rh_method = sv_EnqueueAtomic servicer,
        rh_request = EnqueueBatchRequest, rh_response = EnqueueAtomicResponse\<rparr>),
      (''Reserve'', \<lparr>rh_method = sv_Reserve servicer,
        rh_request = ReserveRequest, rh_response = ReserveResponse\<rparr>),
      (''Ack'', \<lparr>rh_method = sv_Ack servicer,
        rh_request = AckRequest, rh_response = AckResponse\<rparr>),
      (''Nack'', \<lparr>rh_method = sv_Nack servicer,
        rh_request = NackRequest, rh_response = NackResponse\<rparr>),
      (''Extend'', \<lparr>rh_method = sv_Extend servicer,
        rh_request = ExtendRequest, rh_response = ExtendResponse\<rparr>),
      (''DrainDeadLetters'', \<lparr>rh_method = sv_DrainDeadLetters servicer,
        rh_request = DrainDeadLettersRequest, rh_response = DrainDeadLettersResponse\<rparr>),
      (''GetServerInfo'', \<lparr>rh_method = sv_GetServerInfo servicer,
        rh_request = GetServerInfoRequest, rh_response = GetServerInfoResponse\<rparr>)]"

text \<open>A server: the generic handlers and the registered methods, per service name.\<close>

record 'm grpc_server =
  gs_generic :: "(string \<times> 'm handler_map) list"
  gs_registered :: "(string \<times> 'm handler_map) list"

definition add_QueueServiceServicer_to_server ::
    "'m servicer \<Rightarrow> 'm grpc_server \<Rightarrow> 'm grpc_server" where
  "add_QueueServiceServicer_to_server servicer server =
     (let handlers = rpc_method_handlers servicer;
          generic_handler = (''sepp.v1.QueueService'', handlers)
      in \<lparr>gs_generic = gs_generic server @ [generic_handler],
          gs_registered = gs_registered server @ [(''sepp.v1.QueueService'', handlers)]\<rparr>)"

section \<open>The experimental static methods\<close>

text \<open>
  The optional parameters of a static method with their defaults, and
  \<open>grpc.experimental.unary_unary\<close> with its parameters in the order of the call.
\<close>

record ('o, 'k) call_args =
  ca_options :: "'o list"
  ca_channel_credentials :: "'k option"
  ca_call_credentials :: "'k option"
  ca_insecure :: bool
  ca_compression :: "int option"
  ca_wait_for_ready :: "bool option"
  ca_timeout :: "rat option"
  ca_metadata :: "carrier option"

definition default_call_args :: "('o, 'k) call_args" where
  "default_call_args =
     \<lparr>ca_options = [], ca_channel_credentials = None, ca_call_credentials = None,
      ca_insecure = False, ca_compression = None, ca_wait_for_ready = None, ca_timeout = None,
      ca_metadata = None\<rparr>"

type_synonym ('q, 'o, 'k, 'r) experimental =
  "'q \<Rightarrow> string \<Rightarrow> string \<Rightarrow> message_type \<Rightarrow> message_type \<Rightarrow> 'o list \<Rightarrow> 'k option \<Rightarrow> bool
   \<Rightarrow> 'k option \<Rightarrow> int option \<Rightarrow> bool option \<Rightarrow> rat option \<Rightarrow> carrier option \<Rightarrow> bool \<Rightarrow> 'r"

type_synonym ('q, 'o, 'k, 'r) static_method =
  "('q, 'o, 'k, 'r) experimental \<Rightarrow> 'q \<Rightarrow> string \<Rightarrow> ('o, 'k) call_args \<Rightarrow> 'r"

definition QueueService_EnqueueBatch :: "('q, 'o, 'k, 'r) static_method" where
  "QueueService_EnqueueBatch unary request target a =
     unary request target ''/sepp.v1.QueueService/EnqueueBatch''
       EnqueueBatchRequest EnqueueBatchResponse
       (ca_options a) (ca_channel_credentials a) (ca_insecure a) (ca_call_credentials a)
       (ca_compression a) (ca_wait_for_ready a) (ca_timeout a) (ca_metadata a) True"

definition QueueService_EnqueueAtomic :: "('q, 'o, 'k, 'r) static_method" where
  "QueueService_EnqueueAtomic unary request target a =
     unary request target ''/sepp.v1.QueueService/EnqueueAtomic''
       EnqueueBatchRequest EnqueueAtomicResponse
       (ca_options a) (ca_channel_credentials a) (ca_insecure a) (ca_call_credentials a)
       (ca_compression a) (ca_wait_for_ready a) (ca_timeout a) (ca_metadata a) True"

definition QueueService_Reserve :: "('q, 'o, 'k, 'r) static_method" where
  "QueueService_Reserve unary request target a =
     unary request target ''/sepp.v1.QueueService/Reserve''
       ReserveRequest ReserveResponse
       (ca_options a) (ca_channel_credentials a) (ca_insecure a) (ca_call_credentials a)
       (ca_compression a) (ca_wait_for_ready a) (ca_timeout a) (ca_metadata a) True"

definition QueueService_Ack :: "('q, 'o, 'k, 'r) static_method" where
  "QueueService_Ack unary request target a =
     unary request target ''/sepp.v1.QueueService/Ack''
       AckRequest AckResponse
       (ca_options a) (ca_channel_credentials a) (ca_insecure a) (ca_call_credentials a)
       (ca_compression a) (ca_wait_for_ready a) (ca_timeout a) (ca_metadata a) True"

definition QueueService_Nack :: "('q, 'o, 'k, 'r) static_method" where
  "QueueService_Nack unary request target a =
     unary request target ''/sepp.v1.QueueService/Nack''
       NackRequest NackResponse
       (ca_options a) (ca_channel_credentials a) (ca_insecure a) (ca_call_credentials a)
       (ca_compression a) (ca_wait_for_ready a) (ca_timeout a) (ca_metadata a) True"

definition QueueService_Extend :: "('q, 'o, 'k, 'r) static_method" where
  "QueueService_Extend unary request target a =
     unary request target ''/sepp.v1.QueueService/Extend''
       ExtendRequest ExtendResponse
       (ca_options a) (ca_channel_credentials a) (ca_insecure a) (ca_call_credentials a)
       (ca_compression a) (ca_wait_for_ready a) (ca_timeout a) (ca_metadata a) True"

definition QueueService_DrainDeadLetters :: "('q, 'o, 'k, 'r) static_method" where
  "QueueService_DrainDeadLetters unary request target a =
     unary request target ''/sepp.v1.QueueService/DrainDeadLetters''
       DrainDeadLettersRequest DrainDeadLettersResponse
       (ca_options a) (ca_channel_credentials a) (ca_insecure a) (ca_call_credentials a)
       (ca_compression a) (ca_wait_for_ready a) (ca_timeout a) (ca_metadata a) True"

definition QueueService_GetServerInfo :: "('q, 'o, 'k, 'r) static_method" where
  "QueueService_GetServerInfo unary request target a =
     unary request target ''/sepp.v1.QueueService/GetServerInfo''
       GetServerInfoRequest GetServerInfoResponse
       (ca_options a) (ca_channel_credentials a) (ca_insecure a) (ca_call_credentials a)
       (ca_compression a) (ca_wait_for_ready a) (ca_timeout a) (ca_metadata a) True"

section \<open>The two sides agree\<close>

text \<open>The methods of a stub, of a servicer and of the experimental class, by name.\<close>

definition stub_methods :: "'c queue_stub \<Rightarrow> (string \<times> 'c) list" where
  "stub_methods s =
     [(''EnqueueBatch'', st_EnqueueBatch s), (''EnqueueAtomic'', st_EnqueueAtomic s),
      (''Reserve'', st_Reserve s), (''Ack'', st_Ack s), (''Nack'', st_Nack s),
      (''Extend'', st_Extend s), (''DrainDeadLetters'', st_DrainDeadLetters s),
      (''GetServerInfo'', st_GetServerInfo s)]"

definition servicer_methods :: "'m servicer \<Rightarrow> (string \<times> ('m, 'm) rpc_method) list" where
  "servicer_methods s =
     [(''EnqueueBatch'', sv_EnqueueBatch s), (''EnqueueAtomic'', sv_EnqueueAtomic s),
      (''Reserve'', sv_Reserve s), (''Ack'', sv_Ack s), (''Nack'', sv_Nack s),
      (''Extend'', sv_Extend s), (''DrainDeadLetters'', sv_DrainDeadLetters s),
      (''GetServerInfo'', sv_GetServerInfo s)]"

definition static_methods :: "(string \<times> ('q, 'o, 'k, 'r) static_method) list" where
  "static_methods =
     [(''EnqueueBatch'', QueueService_EnqueueBatch), (''EnqueueAtomic'', QueueService_EnqueueAtomic),
      (''Reserve'', QueueService_Reserve), (''Ack'', QueueService_Ack),
      (''Nack'', QueueService_Nack), (''Extend'', QueueService_Extend),
      (''DrainDeadLetters'', QueueService_DrainDeadLetters),
      (''GetServerInfo'', QueueService_GetServerInfo)]"

text \<open>
  How a server finds the method of a call is gRPC's: \<open>method_handlers_generic_handler\<close> is documented
  to serve the path \<open>/service/method\<close>, and no other, with the handler of that name. \<open>path_table\<close>
  does so.
\<close>

definition routes_by_path :: "('m grpc_server \<Rightarrow> string \<Rightarrow> 'm rpc_handler option) \<Rightarrow> bool" where
  "routes_by_path route \<longleftrightarrow>
     (\<forall>server service hs name. gs_generic server = [(service, hs)] \<longrightarrow>
        route server (''/'' @ service @ ''/'' @ name) = map_of hs name)"

definition path_table :: "'m grpc_server \<Rightarrow> string \<Rightarrow> 'm rpc_handler option" where
  "path_table server path =
     map_of (concat (map (\<lambda>(service, hs). map (\<lambda>(name, h). (''/'' @ service @ ''/'' @ name, h)) hs)
                         (gs_generic server))) path"

lemma map_of_prefixed: "map_of (map (\<lambda>(n, h). (pre @ n, h)) hs) (pre @ name) = map_of hs name"
  by (induction hs) auto

lemma path_table_routes: "routes_by_path path_table"
  unfolding routes_by_path_def
proof (intro allI impI)
  fix server :: "'m grpc_server" and service hs name
  assume "gs_generic server = [(service, hs)]"
  then show "path_table server (''/'' @ service @ ''/'' @ name) = map_of hs name"
    using map_of_prefixed [of "''/'' @ service @ ''/''" hs name] by (simp add: path_table_def)
qed

text \<open>What a multicallable of the stub knows.\<close>

definition call_site :: "(string \<times> message_type \<times> message_type \<times> bool) unary_unary" where
  "call_site path req resp registered = (path, req, resp, registered)"

definition service_path :: "string \<Rightarrow> string" where
  "service_path name = ''/sepp.v1.QueueService/'' @ name"

lemma route_registered:
  assumes "routes_by_path route" and "gs_generic server = []"
  shows "route (add_QueueServiceServicer_to_server servicer server) (service_path name)
    = map_of (rpc_method_handlers servicer) name"
proof -
  have "gs_generic (add_QueueServiceServicer_to_server servicer server)
      = [(''sepp.v1.QueueService'', rpc_method_handlers servicer)]"
    using assms(2) by (simp add: add_QueueServiceServicer_to_server_def Let_def)
  from assms(1) [unfolded routes_by_path_def, rule_format, OF this] show ?thesis
    by (simp add: service_path_def)
qed

text \<open>The three views of a method: its call site, its handler, its static call.\<close>

definition agrees ::
    "'m servicer \<Rightarrow> string \<times> string \<times> message_type \<times> message_type \<times> bool \<Rightarrow> bool" where
  "agrees servicer = (\<lambda>(name, path, req, resp, registered).
     registered \<and> path = service_path name
     \<and> (\<exists>h. map_of (rpc_method_handlers servicer) name = Some h \<and> rh_request h = req
          \<and> rh_response h = resp \<and> map_of (servicer_methods servicer) name = Some (rh_method h)))"

lemma stub_agrees: "list_all (agrees servicer) (stub_methods (QueueServiceStub call_site))"
  by (simp add: stub_methods_def QueueServiceStub_def call_site_def agrees_def service_path_def
      rpc_method_handlers_def servicer_methods_def)

definition static_call ::
    "('q, 'o, 'k, 'r) experimental \<Rightarrow> 'q \<Rightarrow> string \<Rightarrow> string \<Rightarrow> message_type \<Rightarrow> message_type \<Rightarrow> 'r" where
  "static_call unary request target path req resp =
     unary request target path req resp [] None False None None None None None True"

lemma static_agrees:
  "list_all2 (\<lambda>(name, f) (name', path, req, resp, _). name = name'
       \<and> f unary request target default_call_args = static_call unary request target path req resp)
     static_methods (stub_methods (QueueServiceStub call_site))"
  by (simp add: static_methods_def stub_methods_def QueueServiceStub_def call_site_def static_call_def
      default_call_args_def QueueService_EnqueueBatch_def QueueService_EnqueueAtomic_def
      QueueService_Reserve_def QueueService_Ack_def QueueService_Nack_def QueueService_Extend_def
      QueueService_DrainDeadLetters_def QueueService_GetServerInfo_def)

text \<open>A method nobody overrode answers \<open>UNIMPLEMENTED\<close>, for which the client has no class of its own.\<close>

lemma base_servicer_unimplemented:
  "map_of (servicer_methods QueueServiceServicer) name = Some f \<Longrightarrow>
     f request context = (Inl (NotImplementedError ''Method not implemented!''),
       \<lparr>sc_code = Some UNIMPLEMENTED, sc_details = Some ''Method not implemented!''\<rparr>)"
  by (auto simp: servicer_methods_def QueueServiceServicer_def not_implemented_def set_code_def
      set_details_def split: if_splits)

lemma unimplemented_seen:
  "rpc_code err = UNIMPLEMENTED \<Longrightarrow> \<exists>msg. client_error_from_rpc err = UnexpectedStatusError UNIMPLEMENTED msg"
  by (simp add: client_error_from_rpc_def TRANSPORT_CODES_def Let_def)

section \<open>Properties\<close>

text \<open>
  C22: the two halves of the generated code agree: for every method of the stub, a server to
  which the servicer was added finds at the path the stub calls a handler that runs the
  servicer's method of the same name, parses the request type the stub serializes and serializes
  the response type the stub parses.
\<close>

theorem stub_reaches_servicer:
  assumes "routes_by_path route" and "gs_generic server = []"
    and "(name, path, req, resp, registered) \<in> set (stub_methods (QueueServiceStub call_site))"
  shows "registered
    \<and> (\<exists>h. route (add_QueueServiceServicer_to_server servicer server) path = Some h
         \<and> map_of (servicer_methods servicer) name = Some (rh_method h)
         \<and> rh_request h = req \<and> rh_response h = resp)"
proof -
  have a: "agrees servicer (name, path, req, resp, registered)"
    using assms(3) stub_agrees [of servicer] unfolding list_all_iff by blast
  then show ?thesis using route_registered [OF assms(1,2)] by (auto simp: agrees_def)
qed

theorem stub_reaches_servicer_witness:
  "\<exists>h. path_table (add_QueueServiceServicer_to_server (QueueServiceServicer :: nat servicer)
           \<lparr>gs_generic = [], gs_registered = []\<rparr>) ''/sepp.v1.QueueService/EnqueueAtomic'' = Some h
     \<and> rh_request h = EnqueueBatchRequest \<and> rh_response h = EnqueueAtomicResponse"
proof -
  have "(''EnqueueAtomic'', ''/sepp.v1.QueueService/EnqueueAtomic'', EnqueueBatchRequest,
      EnqueueAtomicResponse, True) \<in> set (stub_methods (QueueServiceStub call_site))"
    by (simp add: stub_methods_def QueueServiceStub_def call_site_def)
  then show ?thesis
    using stub_reaches_servicer [OF path_table_routes, of "\<lparr>gs_generic = [], gs_registered = []\<rparr>"]
    by fastforce
qed

end
