(* ===== verification/Sepp_Log.thy ===== *)
theory Sepp_Log
  imports Sepp_Otel
begin

text \<open>
  The log wrapper of \<^verbatim>\<open>src/sepp/_otel.py\<close>: \<open>_emit_span_event\<close>, \<open>_SeppLogger\<close> and
  \<open>create_sepp_logger\<close>, with the log calls the package makes through it. The wrapper formats a
  message with \<open>msg % args\<close>, which raises when they do not fit; the standard logger never does.
  The standard logger and the span are parameters (record \<open>logs\<close>).
\<close>

section \<open>Python's \<open>%\<close> on strings\<close>

text \<open>An argument: a string, an integer, or another object, known by its \<open>str\<close> and its \<open>repr\<close>.\<close>

datatype log_arg = ArgStr string | ArgInt int | ArgObj string string

fun arg_str :: "log_arg \<Rightarrow> string" where
  "arg_str (ArgStr s) = s"
| "arg_str (ArgInt n) = py_str_int n"
| "arg_str (ArgObj s _) = s"

fun arg_repr :: "log_arg \<Rightarrow> string" where
  "arg_repr (ArgStr s) = py_repr_str s"
| "arg_repr (ArgInt n) = py_str_int n"
| "arg_repr (ArgObj _ r) = r"

fun convert_arg :: "char \<Rightarrow> log_arg \<Rightarrow> py_error + string" where
  "convert_arg k a =
     (if k = CHR ''s'' then Inr (arg_str a)
      else if k = CHR ''r'' then Inr (arg_repr a)
      else if k = CHR ''d'' then
        (case a of ArgInt n \<Rightarrow> Inr (py_str_int n)
         | _ \<Rightarrow> Inl (TypeError ''%d format: a real number is required''))
      else Inl (ValueError ''unsupported format character''))"

definition prefixed :: "string \<Rightarrow> py_error + string \<Rightarrow> py_error + string" where
  "prefixed s r = bind_res r (\<lambda>t. Inr (s @ t))"

fun py_percent :: "string \<Rightarrow> log_arg list \<Rightarrow> py_error + string" where
  "py_percent [] args =
     (if args = [] then Inr []
      else Inl (TypeError ''not all arguments converted during string formatting''))"
| "py_percent [c] args =
     (if c = CHR ''%'' then Inl (ValueError ''incomplete format'')
      else prefixed [c] (py_percent [] args))"
| "py_percent (c # k # cs) args =
     (if c \<noteq> CHR ''%'' then prefixed [c] (py_percent (k # cs) args)
      else if k = CHR ''%'' then prefixed ''%'' (py_percent cs args)
      else case args of
        [] \<Rightarrow> Inl (TypeError ''not enough arguments for format string'')
      | a # as \<Rightarrow> bind_res (convert_arg k a) (\<lambda>s. prefixed s (py_percent cs as)))"

section \<open>Log levels\<close>

definition DEBUG :: int where "DEBUG = 10"
definition INFO :: int where "INFO = 20"
definition WARNING :: int where "WARNING = 30"
definition ERROR :: int where "ERROR = 40"
definition CRITICAL :: int where "CRITICAL = 50"

definition SEVERITY_NUMBER :: "(int \<times> int) list" where
  "SEVERITY_NUMBER = [(DEBUG, 5), (INFO, 9), (WARNING, 13), (ERROR, 17), (CRITICAL, 21)]"

definition severity :: "int \<Rightarrow> int" where
  "severity level = (case map_of SEVERITY_NUMBER level of None \<Rightarrow> 0 | Some n \<Rightarrow> n)"

lemmas level_defs = DEBUG_def INFO_def WARNING_def ERROR_def CRITICAL_def

section \<open>The wrapper\<close>

datatype attribute = AttrStr string | AttrInt int

text \<open>
  \<open>lg_write\<close> is a call of the standard logger of a name at a level; \<open>lg_is_recording\<close> and
  \<open>lg_add_event\<close> are those of the current span.
\<close>

record 'w logs =
  lg_available :: bool
  lg_write :: "string \<Rightarrow> int \<Rightarrow> string \<Rightarrow> log_arg list \<Rightarrow> 'w \<Rightarrow> 'w"
  lg_is_recording :: "'w \<Rightarrow> bool"
  lg_add_event :: "string \<Rightarrow> (string \<times> attribute) list \<Rightarrow> 'w \<Rightarrow> 'w"

definition log_attributes :: "int \<Rightarrow> string \<Rightarrow> (string \<times> attribute) list" where
  "log_attributes level formatted =
     [(''event.name'', AttrStr ''log''), (''log.severity'', AttrInt (severity level)),
      (''log.message'', AttrStr formatted)]"

definition format_log :: "string \<Rightarrow> log_arg list \<Rightarrow> py_error + string" where
  "format_log msg args = (if args \<noteq> [] then py_percent msg args else Inr msg)"

definition emit_span_event ::
    "('w, 'z) logs_scheme \<Rightarrow> int \<Rightarrow> string \<Rightarrow> log_arg list \<Rightarrow> ('w, py_error, unit) io" where
  "emit_span_event lg level msg args =
     (\<lambda>w. if \<not> lg_available lg then (Inr (), w)
          else if \<not> lg_is_recording lg w then (Inr (), w)
          else case format_log msg args of
            Inl e \<Rightarrow> (Inl e, w)
          | Inr formatted \<Rightarrow> (Inr (), lg_add_event lg '''' (log_attributes level formatted) w))"

datatype sepp_logger = SeppLogger string | PlainLogger string

definition create_sepp_logger :: "('w, 'z) logs_scheme \<Rightarrow> string \<Rightarrow> sepp_logger" where
  "create_sepp_logger lg name = (if lg_available lg then SeppLogger name else PlainLogger name)"

definition std_log ::
    "('w, 'z) logs_scheme \<Rightarrow> string \<Rightarrow> int \<Rightarrow> string \<Rightarrow> log_arg list \<Rightarrow> ('w, py_error, unit) io" where
  "std_log lg name level msg args = (\<lambda>w. (Inr (), lg_write lg name level msg args w))"

definition SeppLogger_debug ::
    "('w, 'z) logs_scheme \<Rightarrow> string \<Rightarrow> string \<Rightarrow> log_arg list \<Rightarrow> ('w, py_error, unit) io" where
  "SeppLogger_debug lg name msg args =
     io_bind (std_log lg name DEBUG msg args) (\<lambda>_. emit_span_event lg DEBUG msg args)"

definition SeppLogger_info ::
    "('w, 'z) logs_scheme \<Rightarrow> string \<Rightarrow> string \<Rightarrow> log_arg list \<Rightarrow> ('w, py_error, unit) io" where
  "SeppLogger_info lg name msg args =
     io_bind (std_log lg name INFO msg args) (\<lambda>_. emit_span_event lg INFO msg args)"

definition SeppLogger_warning ::
    "('w, 'z) logs_scheme \<Rightarrow> string \<Rightarrow> string \<Rightarrow> log_arg list \<Rightarrow> ('w, py_error, unit) io" where
  "SeppLogger_warning lg name msg args =
     io_bind (std_log lg name WARNING msg args) (\<lambda>_. emit_span_event lg WARNING msg args)"

definition SeppLogger_error ::
    "('w, 'z) logs_scheme \<Rightarrow> string \<Rightarrow> string \<Rightarrow> log_arg list \<Rightarrow> ('w, py_error, unit) io" where
  "SeppLogger_error lg name msg args =
     io_bind (std_log lg name ERROR msg args) (\<lambda>_. emit_span_event lg ERROR msg args)"

datatype log_level = LogDebug | LogInfo | LogWarning | LogError

fun level_number :: "log_level \<Rightarrow> int" where
  "level_number LogDebug = DEBUG"
| "level_number LogInfo = INFO"
| "level_number LogWarning = WARNING"
| "level_number LogError = ERROR"

text \<open>A call \<open>logger.<level>(msg, *args)\<close> on whichever logger \<open>create_sepp_logger\<close> gave.\<close>

fun log_call ::
    "('w, 'z) logs_scheme \<Rightarrow> sepp_logger \<Rightarrow> log_level \<Rightarrow> string \<Rightarrow> log_arg list
     \<Rightarrow> ('w, py_error, unit) io" where
  "log_call lg (PlainLogger name) level msg args = std_log lg name (level_number level) msg args"
| "log_call lg (SeppLogger name) LogDebug msg args = SeppLogger_debug lg name msg args"
| "log_call lg (SeppLogger name) LogInfo msg args = SeppLogger_info lg name msg args"
| "log_call lg (SeppLogger name) LogWarning msg args = SeppLogger_warning lg name msg args"
| "log_call lg (SeppLogger name) LogError msg args = SeppLogger_error lg name msg args"

section \<open>The log calls of the package\<close>

text \<open>A call: its level, its format, and for each argument whether it is an integer.\<close>

datatype arg_kind = AnyArg | IntArg

type_synonym log_site = "log_level \<times> string \<times> arg_kind list"

definition connect_logs :: "log_site list" where
  "connect_logs =
     [(LogWarning, ''API key configured without TLS; it will be sent over the connection in plaintext'', []),
      (LogError, ''failed to connect to Sepp server at %s: %s'', [AnyArg, AnyArg]),
      (LogInfo, ''connected to Sepp server at %s (tls=%s, auth=%s)'', [AnyArg, AnyArg, AnyArg])]"

definition reserve_logs :: "log_site list" where
  "reserve_logs = [(LogWarning, ''skipping malformed job in reserve response: %s'', [AnyArg])]"

definition drain_logs :: "log_site list" where
  "drain_logs =
     [(LogWarning, ''skipping malformed dead-letter record in drain response: %s'', [AnyArg])]"

definition retry_logs :: "log_site list" where
  "retry_logs =
     [(LogWarning, ''retrying %s after transient error (attempt %d): %s %s'',
       [AnyArg, IntArg, AnyArg, AnyArg])]"

definition run_logs :: "log_site list" where
  "run_logs =
     [(LogInfo, ''worker started: worker_id=%s max_in_flight=%d handlers=%d auto_extend=%s'',
       [AnyArg, IntArg, IntArg, AnyArg]),
      (LogWarning, ''reserve error: %s; backing off for %s'', [AnyArg, AnyArg]),
      (LogInfo, ''worker shutting down; waiting for in-flight jobs to finish'', []),
      (LogInfo, ''worker stopped'', [])]"

definition task_logs :: "log_site list" where
  "task_logs = [(LogError, ''job task crashed unexpectedly: %r'', [AnyArg])]"

definition no_handler_logs :: "log_site list" where
  "no_handler_logs = [(LogWarning, ''no handler registered for job_type `%s`'', [AnyArg])]"

definition lease_lost_logs :: "log_site list" where
  "lease_lost_logs = [(LogError, ''lease lost; handler aborted'', [])]"

definition dispose_logs :: "log_site list" where
  "dispose_logs =
     [(LogDebug, ''job completed; acking'', []),
      (LogWarning, ''handler returned error; nacking: %s'', [AnyArg]),
      (LogError, ''handler raised %s; nacking'', [AnyArg]),
      (LogError, ''ack/nack returned JobNotFound: either the lease was lost and the job will be''
         @ '' redelivered, or an earlier attempt of this call succeeded and only the''
         @ '' response was lost: %s'', [AnyArg]),
      (LogError, ''failed to ack/nack job; it will be redelivered after lease expiry: %s'',
       [AnyArg])]"

definition heartbeat_logs :: "log_site list" where
  "heartbeat_logs =
     [(LogDebug, ''lease extended to %s'', [AnyArg]),
      (LogError, ''lease reassigned by server (%s); aborting handler to avoid double processing'',
       [AnyArg]),
      (LogError, ''lease lost (%s); aborting handler to avoid double processing'', [AnyArg]),
      (LogWarning, ''lease extend failed (%s); lease still valid, will retry'', [AnyArg])]"

definition log_sites :: "log_site list" where
  "log_sites = connect_logs @ reserve_logs @ drain_logs @ retry_logs @ run_logs @ task_logs
     @ no_handler_logs @ lease_lost_logs @ dispose_logs @ heartbeat_logs"

section \<open>When a format fits its arguments\<close>

fun fits :: "arg_kind \<Rightarrow> log_arg \<Rightarrow> bool" where
  "fits AnyArg _ = True"
| "fits IntArg a = (case a of ArgInt _ \<Rightarrow> True | _ \<Rightarrow> False)"

text \<open>The arguments a format asks for, or \<open>None\<close> if it is no format.\<close>

fun format_kinds :: "string \<Rightarrow> arg_kind list option" where
  "format_kinds [] = Some []"
| "format_kinds [c] = (if c = CHR ''%'' then None else Some [])"
| "format_kinds (c # k # cs) =
     (if c \<noteq> CHR ''%'' then format_kinds (k # cs)
      else if k = CHR ''%'' then format_kinds cs
      else if k = CHR ''d'' then map_option (Cons IntArg) (format_kinds cs)
      else if k = CHR ''s'' \<or> k = CHR ''r'' then map_option (Cons AnyArg) (format_kinds cs)
      else None)"

lemma prefixed_Inr [simp]: "prefixed s (Inr t) = Inr (s @ t)"
  by (simp add: prefixed_def)

lemma py_percent_fits:
  "format_kinds msg = Some kinds \<Longrightarrow> list_all2 fits kinds args \<Longrightarrow> \<exists>t. py_percent msg args = Inr t"
proof (induction msg args arbitrary: kinds rule: py_percent.induct)
  case (3 c k cs args)
  show ?case
  proof (cases "c = CHR ''%'' \<and> k \<noteq> CHR ''%''")
    case True
    then obtain kd kinds' where kd: "kinds = kd # kinds'" "format_kinds cs = Some kinds'"
        and k: "k = CHR ''d'' \<and> kd = IntArg \<or> (k = CHR ''s'' \<or> k = CHR ''r'') \<and> kd = AnyArg"
      using 3(4) by (auto split: if_splits)
    then obtain a as where args: "args = a # as" "fits kd a" "list_all2 fits kinds' as"
      using 3(5) by (cases args) auto
    then obtain s where s: "convert_arg k a = Inr s" using k by (cases a) auto
    obtain t where "py_percent cs as = Inr t" using 3(3) True kd args s by blast
    then show ?thesis using True args s by simp
  next
    case False
    then show ?thesis using 3 by (auto split: if_splits)
  qed
qed (auto split: if_splits)

lemma log_sites_formats: "list_all (\<lambda>(_, msg, kinds). format_kinds msg = Some kinds) log_sites"
  by (simp add: log_sites_def connect_logs_def reserve_logs_def drain_logs_def retry_logs_def
      run_logs_def task_logs_def no_handler_logs_def lease_lost_logs_def dispose_logs_def
      heartbeat_logs_def)

text \<open>What a log call does to the world: the log record, then the span event if there is one.\<close>

definition logged ::
    "('w, 'z) logs_scheme \<Rightarrow> string \<Rightarrow> int \<Rightarrow> string \<Rightarrow> log_arg list \<Rightarrow> string \<Rightarrow> 'w \<Rightarrow> 'w" where
  "logged lg name level msg args text w =
     (let w' = lg_write lg name level msg args w
      in if lg_available lg \<and> lg_is_recording lg w'
         then lg_add_event lg '''' (log_attributes level text) w' else w')"

lemma log_call_formatted:
  assumes "format_log msg args = Inr t"
  shows "log_call lg (create_sepp_logger lg name) level msg args w
    = (Inr (), logged lg name (level_number level) msg args t w)"
  using assms
  by (cases level) (auto simp: create_sepp_logger_def logged_def std_log_def io_bind_apply
      SeppLogger_debug_def SeppLogger_info_def SeppLogger_warning_def SeppLogger_error_def
      emit_span_event_def Let_def)

lemma site_formats:
  assumes "(level, msg, kinds) \<in> set log_sites" and "list_all2 fits kinds args"
  shows "\<exists>t. format_log msg args = Inr t"
  using assms log_sites_formats py_percent_fits by (fastforce simp: list_all_iff format_log_def)

text \<open>Each level has a severity of its own, increasing with the level.\<close>

lemma severity_levels:
  "map (\<lambda>l. severity (level_number l)) [LogDebug, LogInfo, LogWarning, LogError] = [5, 9, 13, 17]"
  by (simp add: severity_def SEVERITY_NUMBER_def level_defs)

section \<open>Properties\<close>

text \<open>
  C28: no log call of the package fails: the format of each fits its arguments (integers where
  it says so), so with whichever logger \<open>create_sepp_logger\<close> gives the call
  returns; the standard logger gets the record, and if OpenTelemetry is there and the current
  span records, the span gets one event with the severity of the level and the formatted
  message.
\<close>

theorem log_calls_never_raise:
  assumes "(level, msg, kinds) \<in> set log_sites" and "list_all2 fits kinds args"
  shows "\<exists>t. format_log msg args = Inr t
    \<and> log_call lg (create_sepp_logger lg name) level msg args w
        = (Inr (), logged lg name (level_number level) msg args t w)"
  using site_formats [OF assms] log_call_formatted by fast

theorem log_calls_never_raise_witness:
  "log_call \<lparr>lg_available = True, lg_write = (\<lambda>_ _ msg _ w. w @ [msg]),
       lg_is_recording = (\<lambda>_. True), lg_add_event = (\<lambda>_ attrs w. w @ map fst attrs)\<rparr>
     (SeppLogger ''sepp'') LogWarning ''retrying %s after transient error (attempt %d): %s %s''
     [ArgStr ''ack'', ArgInt 2, ArgObj ''UNAVAILABLE'' ''UNAVAILABLE'', ArgStr ''down''] []
   = (Inr (), [''retrying %s after transient error (attempt %d): %s %s'', ''event.name'',
        ''log.severity'', ''log.message''])"
proof -
  let ?lg = "\<lparr>lg_available = True, lg_write = (\<lambda>_ _ msg _ w. w @ [msg]),
       lg_is_recording = (\<lambda>_. True), lg_add_event = (\<lambda>_ attrs w. w @ map fst attrs)\<rparr>"
  let ?msg = "''retrying %s after transient error (attempt %d): %s %s''"
  have site: "(LogWarning, ?msg, [AnyArg, IntArg, AnyArg, AnyArg]) \<in> set log_sites"
    by (simp add: log_sites_def retry_logs_def)
  have "create_sepp_logger ?lg ''sepp'' = SeppLogger ''sepp''" by (simp add: create_sepp_logger_def)
  then show ?thesis
    using log_calls_never_raise [OF site, of "[ArgStr ''ack'', ArgInt 2,
        ArgObj ''UNAVAILABLE'' ''UNAVAILABLE'', ArgStr ''down'']" ?lg "''sepp''" "[]"]
    by (auto simp: logged_def log_attributes_def)
qed

end
