(* ===== verification/Sepp_Package.thy ===== *)
theory Sepp_Package
  imports Sepp_Client
begin

text \<open>
  The package as its users see it: the modules' class statements and imports, \<^verbatim>\<open>__init__.py\<close> with its
  \<open>__all__\<close> and version, and the classes of the exceptions and rejections that the other theories
  keep as datatypes. A module is given by the statements that bind its classes, its other public
  names and what it imports from the package; functions, constants and imports from elsewhere do not
  matter here.
\<close>

section \<open>Names and classes\<close>

text \<open>A class is known by its method resolution order; inheritance is single in the package.\<close>

datatype py_value = PyClass "string list" | PyModule string | PyStr string | PyObject

type_synonym namespace = "(string \<times> py_value) list"

text \<open>The expression that names the base of a class.\<close>

datatype base_expr = Name string | Attribute string string

datatype stmt =
    ClassDef string "base_expr option"
  | Assign string py_value
  | ImportModule string
  | FromImport string "string list"
  | FromImportAs string string string

datatype import_error =
    NameError string
  | AttributeError string
  | NotAClass string
  | ModuleNotFoundError string
  | ImportError string string

definition builtins :: namespace where
  "builtins =
     [(''Exception'', PyClass [''Exception'', ''BaseException'', ''object'']),
      (''ValueError'', PyClass [''ValueError'', ''Exception'', ''BaseException'', ''object''])]"

text \<open>A name is looked up in the module, then among the builtins.\<close>

definition load_name :: "namespace \<Rightarrow> string \<Rightarrow> import_error + py_value" where
  "load_name ns n =
     (case map_of (ns @ builtins) n of None \<Rightarrow> Inl (NameError n) | Some v \<Rightarrow> Inr v)"

text \<open>An attribute of a module: what it binds, or else a submodule that has been loaded.\<close>

definition module_attribute :: "(string \<times> namespace) list \<Rightarrow> string \<Rightarrow> string \<Rightarrow> py_value option" where
  "module_attribute modules m n =
     (case map_of modules m of
        None \<Rightarrow> None
      | Some ns \<Rightarrow>
          (case map_of ns n of
             Some v \<Rightarrow> Some v
           | None \<Rightarrow>
               if map_of modules (m @ ''.'' @ n) = None then None else Some (PyModule (m @ ''.'' @ n))))"

fun eval_base ::
    "(string \<times> namespace) list \<Rightarrow> namespace \<Rightarrow> base_expr \<Rightarrow> import_error + py_value" where
  "eval_base modules ns (Name n) = load_name ns n"
| "eval_base modules ns (Attribute x n) =
     bind_res (load_name ns x) (\<lambda>v. case v of
        PyModule m \<Rightarrow>
          (case module_attribute modules m n of
             None \<Rightarrow> Inl (AttributeError n) | Some a \<Rightarrow> Inr a)
      | _ \<Rightarrow> Inl (AttributeError n))"

definition import_name ::
    "(string \<times> namespace) list \<Rightarrow> string \<Rightarrow> string \<Rightarrow> import_error + py_value" where
  "import_name modules m n =
     (if map_of modules m = None then Inl (ModuleNotFoundError m)
      else case module_attribute modules m n of
             None \<Rightarrow> Inl (ImportError m n) | Some v \<Rightarrow> Inr v)"

fun exec_stmt ::
    "(string \<times> namespace) list \<Rightarrow> stmt \<Rightarrow> namespace \<Rightarrow> import_error + namespace" where
  "exec_stmt modules (ClassDef n None) ns = Inr ((n, PyClass [n, ''object'']) # ns)"
| "exec_stmt modules (ClassDef n (Some b)) ns =
     bind_res (eval_base modules ns b) (\<lambda>v. case v of
        PyClass mro \<Rightarrow> Inr ((n, PyClass (n # mro)) # ns)
      | _ \<Rightarrow> Inl (NotAClass n))"
| "exec_stmt modules (Assign n v) ns = Inr ((n, v) # ns)"
| "exec_stmt modules (ImportModule m) ns =
     (if map_of modules m = None then Inl (ModuleNotFoundError m) else Inr ((m, PyModule m) # ns))"
| "exec_stmt modules (FromImport m names) ns =
     bind_res (traverse (\<lambda>n. bind_res (import_name modules m n) (\<lambda>v. Inr (n, v))) names)
       (\<lambda>bound. Inr (rev bound @ ns))"
| "exec_stmt modules (FromImportAs m n alias) ns =
     bind_res (import_name modules m n) (\<lambda>v. Inr ((alias, v) # ns))"

primrec exec_stmts ::
    "(string \<times> namespace) list \<Rightarrow> stmt list \<Rightarrow> namespace \<Rightarrow> import_error + namespace" where
  "exec_stmts modules [] ns = Inr ns"
| "exec_stmts modules (s # ss) ns =
     bind_res (exec_stmt modules s ns) (exec_stmts modules ss)"

primrec load_modules ::
    "(string \<times> stmt list) list \<Rightarrow> (string \<times> namespace) list
     \<Rightarrow> import_error + (string \<times> namespace) list" where
  "load_modules [] modules = Inr modules"
| "load_modules (m # ms) modules =
     bind_res (exec_stmts modules (snd m) []) (\<lambda>ns. load_modules ms ((fst m, ns) # modules))"

text \<open>\<open>from m import *\<close>, with the names of its \<open>__all__\<close>.\<close>

definition star_import :: "string list \<Rightarrow> namespace \<Rightarrow> import_error + namespace" where
  "star_import names ns =
     traverse (\<lambda>n. case map_of ns n of None \<Rightarrow> Inl (AttributeError n) | Some v \<Rightarrow> Inr (n, v)) names"

definition isinstance :: "namespace \<Rightarrow> string \<Rightarrow> string \<Rightarrow> bool" where
  "isinstance ns cls base =
     (case map_of ns cls of Some (PyClass mro) \<Rightarrow> base \<in> set mro | _ \<Rightarrow> False)"

section \<open>The modules\<close>

definition errors_py :: "stmt list" where
  "errors_py =
     [ClassDef ''SeppError'' (Some (Name ''Exception'')),
      ClassDef ''ClientError'' (Some (Name ''SeppError'')),
      ClassDef ''ConnectError'' (Some (Name ''ClientError'')),
      ClassDef ''InvalidApiKeyError'' (Some (Name ''ClientError'')),
      ClassDef ''TransportError'' (Some (Name ''ClientError'')),
      ClassDef ''UnauthenticatedError'' (Some (Name ''ClientError'')),
      ClassDef ''OverloadedError'' (Some (Name ''ClientError'')),
      ClassDef ''InvalidRequestError'' (Some (Name ''ClientError'')),
      ClassDef ''ServerInternalError'' (Some (Name ''ClientError'')),
      ClassDef ''UnexpectedStatusError'' (Some (Name ''ClientError'')),
      ClassDef ''EmptyBatchError'' (Some (Name ''ClientError'')),
      ClassDef ''BatchResultCountMismatchError'' (Some (Name ''ClientError'')),
      ClassDef ''MalformedResponseError'' (Some (Name ''ClientError'')),
      ClassDef ''MalformedJobError'' (Some (Name ''ClientError'')),
      ClassDef ''MalformedServerInfoError'' (Some (Name ''ClientError'')),
      ClassDef ''JobConversionError'' (Some (Name ''SeppError'')),
      ClassDef ''ServerInfoError'' (Some (Name ''SeppError'')),
      ClassDef ''JobRejection'' None,
      ClassDef ''UnknownQueue'' (Some (Name ''JobRejection'')),
      ClassDef ''PayloadTooLarge'' (Some (Name ''JobRejection'')),
      ClassDef ''EncodingNotAllowed'' (Some (Name ''JobRejection'')),
      ClassDef ''JobTypeNotAllowed'' (Some (Name ''JobRejection'')),
      ClassDef ''CustomEntriesTooMany'' (Some (Name ''JobRejection'')),
      ClassDef ''CustomMapTooLarge'' (Some (Name ''JobRejection'')),
      ClassDef ''CustomKeyTooLong'' (Some (Name ''JobRejection'')),
      ClassDef ''QueueNameTooLong'' (Some (Name ''JobRejection'')),
      ClassDef ''JobTypeNameTooLong'' (Some (Name ''JobRejection'')),
      ClassDef ''IdempotencyKeyTooLong'' (Some (Name ''JobRejection'')),
      ClassDef ''ScheduledTooFar'' (Some (Name ''JobRejection'')),
      ClassDef ''InvalidRequest'' (Some (Name ''JobRejection'')),
      ClassDef ''QueueFull'' (Some (Name ''JobRejection'')),
      ClassDef ''QueueClosing'' (Some (Name ''JobRejection'')),
      ClassDef ''UnknownRejection'' (Some (Name ''JobRejection'')),
      ClassDef ''JobValidationError'' None,
      ClassDef ''JobRejectedError'' (Some (Name ''SeppError'')),
      ClassDef ''BatchValidationError'' (Some (Name ''SeppError'')),
      ClassDef ''LeaseError'' (Some (Name ''SeppError'')),
      ClassDef ''JobNotFoundError'' (Some (Name ''LeaseError'')),
      ClassDef ''AttemptMismatchError'' (Some (Name ''LeaseError'')),
      ClassDef ''ReserveError'' (Some (Name ''SeppError'')),
      ClassDef ''UnknownQueuesError'' (Some (Name ''ReserveError''))]"

definition types_py :: "stmt list" where
  "types_py =
     [ImportModule ''enum'',
      Assign ''Primitive'' PyObject,
      ClassDef ''Payload'' None,
      ClassDef ''PriorityOutOfRangeError'' (Some (Name ''ValueError'')),
      ClassDef ''Priority'' None,
      ClassDef ''TraceContextError'' (Some (Name ''ValueError'')),
      ClassDef ''TraceContext'' None,
      ClassDef ''EnqueueRequest'' None,
      ClassDef ''EnqueueAck'' None,
      ClassDef ''JobCtx'' None,
      ClassDef ''Job'' None,
      ClassDef ''ReserveOptions'' None,
      ClassDef ''ServerInfo'' None,
      ClassDef ''DeadLetterCause'' (Some (Attribute ''enum'' ''Enum'')),
      ClassDef ''DeadLetterRecord'' None]"

definition convert_py :: "stmt list" where
  "convert_py =
     [FromImport ''sepp'' [''errors''],
      FromImport ''sepp.types''
        [''DeadLetterCause'', ''DeadLetterRecord'', ''EnqueueAck'', ''EnqueueRequest'', ''Job'',
        ''JobCtx'', ''Payload'', ''Primitive'', ''Priority'', ''PriorityOutOfRangeError'',
        ''ReserveOptions'', ''ServerInfo'', ''TraceContext''],
      FromImportAs ''sepp.v1'' ''queue_pb2'' ''pb'']"

definition otel_py :: "stmt list" where
  "otel_py = [ClassDef ''WorkerMetrics'' None, ClassDef ''_SeppLogger'' None]"

definition client_py :: "stmt list" where
  "client_py =
     [FromImport ''sepp'' [''_convert'', ''_otel'', ''errors''],
      FromImport ''sepp.types''
        [''DeadLetterRecord'', ''EnqueueAck'', ''EnqueueRequest'', ''Job'', ''JobCtx'',
        ''ReserveOptions'', ''ServerInfo''],
      FromImportAs ''sepp.v1'' ''queue_pb2'' ''pb'',
      FromImportAs ''sepp.v1'' ''queue_pb2_grpc'' ''pb_grpc'',
      ClassDef ''RetryPolicy'' None,
      ClassDef ''RetryDirective'' None,
      ClassDef ''Lease'' None,
      ClassDef ''SeppClient'' None]"

definition worker_py :: "stmt list" where
  "worker_py =
     [FromImport ''sepp'' [''_convert'', ''_otel'', ''errors''],
      FromImport ''sepp.client'' [''RetryDirective'', ''SeppClient''],
      FromImport ''sepp.types'' [''Job'', ''JobCtx'', ''Payload'', ''ReserveOptions''],
      ClassDef ''HandlerError'' (Some (Name ''Exception'')),
      ClassDef ''DuplicateHandlerError'' (Some (Attribute ''errors'' ''SeppError'')),
      ClassDef ''ShutdownHandle'' None,
      ClassDef ''_AutoExtend'' None,
      ClassDef ''Worker'' None]"

text \<open>
  \<^verbatim>\<open>__init__.py\<close>: its imports, then the version, as \<open>importlib.metadata\<close> gives it.
\<close>

definition version_stmts :: "version_lookup \<Rightarrow> stmt list" where
  "version_stmts found =
     (case found of
        VersionFound v \<Rightarrow>
          [Assign ''PackageNotFoundError'' PyObject, Assign ''version'' PyObject,
           Assign ''__version__'' (PyStr v)]
      | PackageNotFoundError \<Rightarrow>
          [Assign ''PackageNotFoundError'' PyObject, Assign ''version'' PyObject,
           Assign ''__version__'' (PyStr ''0.1.0'')]
      | NoImportlibMetadata \<Rightarrow> [Assign ''__version__'' (PyStr ''0.1.0'')])"

definition init_py :: "version_lookup \<Rightarrow> stmt list" where
  "init_py found =
     [FromImport ''sepp.client'' [''RetryDirective'', ''RetryPolicy'', ''SeppClient''],
      FromImport ''sepp.errors''
        [''AttemptMismatchError'', ''BatchResultCountMismatchError'', ''BatchValidationError'',
        ''ClientError'', ''ConnectError'', ''CustomEntriesTooMany'', ''CustomKeyTooLong'',
        ''CustomMapTooLarge'', ''EmptyBatchError'', ''EncodingNotAllowed'',
        ''IdempotencyKeyTooLong'', ''InvalidApiKeyError'', ''InvalidRequest'',
        ''InvalidRequestError'', ''JobConversionError'', ''JobNotFoundError'',
        ''JobRejectedError'', ''JobRejection'', ''JobTypeNameTooLong'', ''JobTypeNotAllowed'',
        ''JobValidationError'', ''LeaseError'', ''MalformedJobError'',
        ''MalformedResponseError'', ''MalformedServerInfoError'', ''OverloadedError'',
        ''PayloadTooLarge'', ''QueueClosing'', ''QueueFull'', ''QueueNameTooLong'',
        ''ReserveError'', ''ScheduledTooFar'', ''SeppError'', ''ServerInfoError'',
        ''ServerInternalError'', ''TransportError'', ''UnauthenticatedError'',
        ''UnexpectedStatusError'', ''UnknownQueue'', ''UnknownQueuesError'', ''UnknownRejection''],
      FromImport ''sepp.types''
        [''DeadLetterCause'', ''DeadLetterRecord'', ''EnqueueAck'', ''EnqueueRequest'', ''Job'',
        ''JobCtx'', ''Payload'', ''Primitive'', ''Priority'', ''PriorityOutOfRangeError'',
        ''ReserveOptions'', ''ServerInfo'', ''TraceContext'', ''TraceContextError''],
      FromImport ''sepp.worker''
        [''DuplicateHandlerError'', ''HandlerError'', ''ShutdownHandle'', ''Worker'']] @ version_stmts found"

text \<open>What is loaded before: \<open>enum\<close>, the generated modules, the package under way.\<close>

definition preloaded :: "(string \<times> namespace) list" where
  "preloaded =
     [(''enum'', [(''Enum'', PyClass [''Enum'', ''object''])]), (''sepp'', []), (''sepp.v1'', []),
      (''sepp.v1.queue_pb2'', []), (''sepp.v1.queue_pb2_grpc'', [])]"

text \<open>\<open>import sepp\<close>: the order in which the imports of \<^verbatim>\<open>__init__.py\<close> reach the modules.\<close>

definition load_sepp :: "version_lookup \<Rightarrow> import_error + (string \<times> namespace) list" where
  "load_sepp found =
     load_modules
       [(''sepp.errors'', errors_py), (''sepp.types'', types_py), (''sepp._convert'', convert_py),
        (''sepp._otel'', otel_py), (''sepp.client'', client_py), (''sepp.worker'', worker_py),
        (''sepp'', init_py found)]
       preloaded"

definition errors_all :: "string list" where
  "errors_all =
     [''SeppError'', ''ClientError'', ''ConnectError'', ''InvalidApiKeyError'',
     ''TransportError'', ''UnauthenticatedError'', ''OverloadedError'', ''InvalidRequestError'',
     ''ServerInternalError'', ''UnexpectedStatusError'', ''EmptyBatchError'',
     ''BatchResultCountMismatchError'', ''MalformedResponseError'', ''MalformedJobError'',
     ''MalformedServerInfoError'', ''JobConversionError'', ''ServerInfoError'', ''JobRejection'',
     ''UnknownQueue'', ''PayloadTooLarge'', ''EncodingNotAllowed'', ''JobTypeNotAllowed'',
     ''CustomEntriesTooMany'', ''CustomMapTooLarge'', ''CustomKeyTooLong'', ''QueueNameTooLong'',
     ''JobTypeNameTooLong'', ''IdempotencyKeyTooLong'', ''ScheduledTooFar'', ''InvalidRequest'',
     ''QueueFull'', ''QueueClosing'', ''UnknownRejection'', ''JobValidationError'',
     ''JobRejectedError'', ''BatchValidationError'', ''LeaseError'', ''JobNotFoundError'',
     ''AttemptMismatchError'', ''ReserveError'', ''UnknownQueuesError'']"

definition types_all :: "string list" where
  "types_all =
     [''Primitive'', ''Payload'', ''Priority'', ''PriorityOutOfRangeError'', ''TraceContext'',
     ''TraceContextError'', ''EnqueueRequest'', ''EnqueueAck'', ''JobCtx'', ''Job'',
     ''ReserveOptions'', ''ServerInfo'', ''DeadLetterCause'', ''DeadLetterRecord'']"

definition client_all :: "string list" where
  "client_all =
     [''SeppClient'', ''RetryPolicy'', ''RetryDirective'', ''Lease'']"

definition worker_all :: "string list" where
  "worker_all =
     [''Worker'', ''HandlerError'', ''ShutdownHandle'', ''DuplicateHandlerError'']"

definition sepp_all :: "string list" where
  "sepp_all =
     [''__version__'', ''SeppClient'', ''RetryPolicy'', ''RetryDirective'', ''Worker'',
     ''HandlerError'', ''ShutdownHandle'', ''DuplicateHandlerError'', ''Payload'', ''Primitive'',
     ''Priority'', ''PriorityOutOfRangeError'', ''TraceContext'', ''TraceContextError'',
     ''EnqueueRequest'', ''EnqueueAck'', ''Job'', ''JobCtx'', ''ReserveOptions'', ''ServerInfo'',
     ''DeadLetterCause'', ''DeadLetterRecord'', ''SeppError'', ''ClientError'', ''ConnectError'',
     ''InvalidApiKeyError'', ''TransportError'', ''UnauthenticatedError'', ''OverloadedError'',
     ''InvalidRequestError'', ''ServerInternalError'', ''UnexpectedStatusError'',
     ''EmptyBatchError'', ''BatchResultCountMismatchError'', ''MalformedResponseError'',
     ''MalformedJobError'', ''MalformedServerInfoError'', ''JobConversionError'',
     ''ServerInfoError'', ''JobRejectedError'', ''BatchValidationError'', ''LeaseError'',
     ''JobNotFoundError'', ''AttemptMismatchError'', ''ReserveError'', ''UnknownQueuesError'',
     ''JobRejection'', ''JobValidationError'', ''UnknownQueue'', ''PayloadTooLarge'',
     ''EncodingNotAllowed'', ''JobTypeNotAllowed'', ''CustomEntriesTooMany'',
     ''CustomMapTooLarge'', ''CustomKeyTooLong'', ''QueueNameTooLong'', ''JobTypeNameTooLong'',
     ''IdempotencyKeyTooLong'', ''ScheduledTooFar'', ''InvalidRequest'', ''QueueFull'',
     ''QueueClosing'', ''UnknownRejection'']"

text \<open>\<open>from sepp import *\<close>\<close>

definition import_sepp :: "version_lookup \<Rightarrow> import_error + namespace" where
  "import_sepp found =
     bind_res (load_sepp found) (\<lambda>modules. case map_of modules ''sepp'' of
        None \<Rightarrow> Inl (ModuleNotFoundError ''sepp'')
      | Some ns \<Rightarrow> star_import sepp_all ns)"

section \<open>Exceptions and rejections by class\<close>

fun class_name :: "sepp_error \<Rightarrow> string" where
  "class_name (ConnectError _ _) = ''ConnectError''"
| "class_name InvalidApiKeyError = ''InvalidApiKeyError''"
| "class_name (TransportError _) = ''TransportError''"
| "class_name (UnauthenticatedError _) = ''UnauthenticatedError''"
| "class_name (OverloadedError _) = ''OverloadedError''"
| "class_name (InvalidRequestError _) = ''InvalidRequestError''"
| "class_name (ServerInternalError _) = ''ServerInternalError''"
| "class_name (UnexpectedStatusError _ _) = ''UnexpectedStatusError''"
| "class_name EmptyBatchError = ''EmptyBatchError''"
| "class_name (BatchResultCountMismatchError _ _) = ''BatchResultCountMismatchError''"
| "class_name (MalformedResponseError _) = ''MalformedResponseError''"
| "class_name (MalformedJobError _) = ''MalformedJobError''"
| "class_name (MalformedServerInfoError _) = ''MalformedServerInfoError''"
| "class_name (JobConversionError _) = ''JobConversionError''"
| "class_name (ServerInfoError _) = ''ServerInfoError''"
| "class_name (JobRejectedError _) = ''JobRejectedError''"
| "class_name (BatchValidationError _) = ''BatchValidationError''"
| "class_name (JobNotFoundError _) = ''JobNotFoundError''"
| "class_name (AttemptMismatchError _) = ''AttemptMismatchError''"
| "class_name (UnknownQueuesError _) = ''UnknownQueuesError''"
| "class_name (DuplicateHandlerError _) = ''DuplicateHandlerError''"

fun rejection_class :: "job_rejection \<Rightarrow> string" where
  "rejection_class (UnknownQueue _) = ''UnknownQueue''"
| "rejection_class (PayloadTooLarge _ _) = ''PayloadTooLarge''"
| "rejection_class (EncodingNotAllowed _ _) = ''EncodingNotAllowed''"
| "rejection_class (JobTypeNotAllowed _ _) = ''JobTypeNotAllowed''"
| "rejection_class (CustomEntriesTooMany _ _) = ''CustomEntriesTooMany''"
| "rejection_class (CustomMapTooLarge _ _) = ''CustomMapTooLarge''"
| "rejection_class (CustomKeyTooLong _ _ _) = ''CustomKeyTooLong''"
| "rejection_class (QueueNameTooLong _ _) = ''QueueNameTooLong''"
| "rejection_class (JobTypeNameTooLong _ _) = ''JobTypeNameTooLong''"
| "rejection_class (IdempotencyKeyTooLong _ _) = ''IdempotencyKeyTooLong''"
| "rejection_class (ScheduledTooFar _ _) = ''ScheduledTooFar''"
| "rejection_class (InvalidRequest _) = ''InvalidRequest''"
| "rejection_class (QueueFull _ _) = ''QueueFull''"
| "rejection_class (QueueClosing _) = ''QueueClosing''"
| "rejection_class UnknownRejection = ''UnknownRejection''"

section \<open>Loading, step by step\<close>

text \<open>
  Rewrite rules that execute a module one statement at a time: their right-hand sides leave the
  namespace built so far alone.
\<close>

lemma map_of_hit: "map_of ((k, v) # xs) k = Some v"
  by simp

lemma map_of_miss: "n \<noteq> k \<Longrightarrow> map_of ((k, v) # xs) n = map_of xs n"
  by simp

lemma load_name_found: "map_of (ns @ builtins) n = Some v \<Longrightarrow> load_name ns n = Inr v"
  by (simp add: load_name_def)

lemma map_of_append_Cons: "map_of ((kv # xs) @ ys) n = map_of (kv # (xs @ ys)) n"
  by simp

lemma string_eq: "(x # xs = y # ys) = (if x = (y::char) then xs = ys else False)"
  by simp

lemma import_bound:
  "map_of modules m = Some ns \<Longrightarrow> map_of ns n = Some v \<Longrightarrow> import_name modules m n = Inr v"
  by (simp add: import_name_def module_attribute_def)

lemma import_submodule:
  "map_of modules m = Some ns \<Longrightarrow> map_of ns n = None
   \<Longrightarrow> map_of modules (m @ ''.'' @ n) = Some ns' \<Longrightarrow> import_name modules m n = Inr (PyModule (m @ ''.'' @ n))"
  by (simp add: import_name_def module_attribute_def)

lemma exec_class:
  "exec_stmts modules (ClassDef n None # ss) ns = exec_stmts modules ss ((n, PyClass [n, ''object'']) # ns)"
  by simp

lemma exec_subclass:
  "eval_base modules ns b = Inr (PyClass mro)
   \<Longrightarrow> exec_stmts modules (ClassDef n (Some b) # ss) ns = exec_stmts modules ss ((n, PyClass (n # mro)) # ns)"
  by simp

lemma eval_attribute:
  "load_name ns x = Inr (PyModule m) \<Longrightarrow> map_of modules m = Some ms \<Longrightarrow> map_of ms n = Some v
   \<Longrightarrow> eval_base modules ns (Attribute x n) = Inr v"
  by (simp add: module_attribute_def)

lemma exec_assign: "exec_stmts modules (Assign n v # ss) ns = exec_stmts modules ss ((n, v) # ns)"
  by simp

lemma exec_import:
  "map_of modules m = Some ms
   \<Longrightarrow> exec_stmts modules (ImportModule m # ss) ns = exec_stmts modules ss ((m, PyModule m) # ns)"
  by simp

lemma exec_from_Nil: "exec_stmts modules (FromImport m [] # ss) ns = exec_stmts modules ss ns"
  by simp

lemma exec_from_Cons:
  "import_name modules m n = Inr v
   \<Longrightarrow> exec_stmts modules (FromImport m (n # names) # ss) ns
     = exec_stmts modules (FromImport m names # ss) ((n, v) # ns)"
  by (cases "traverse (\<lambda>n. bind_res (import_name modules m n) (\<lambda>v. Inr (n, v))) names") simp_all

lemma exec_from_as:
  "import_name modules m n = Inr v
   \<Longrightarrow> exec_stmts modules (FromImportAs m n alias # ss) ns = exec_stmts modules ss ((alias, v) # ns)"
  by simp

lemma load_module:
  "exec_stmts modules ss [] = Inr ns \<Longrightarrow> load_modules ((m, ss) # ms) modules = load_modules ms ((m, ns) # modules)"
  by simp

lemma star_Nil: "star_import [] ns = Inr []"
  by (simp add: star_import_def)

lemma star_Cons:
  "map_of ns n = Some v
   \<Longrightarrow> star_import (n # names) ns = bind_res (star_import names ns) (\<lambda>xs. Inr ((n, v) # xs))"
  by (simp add: star_import_def)

lemma import_loaded:
  "load_sepp found = Inr modules \<Longrightarrow> map_of modules ''sepp'' = Some ns
   \<Longrightarrow> import_sepp found = star_import sepp_all ns"
  by (simp add: import_sepp_def)

text \<open>The version statements bind \<open>__version__\<close>, and perhaps the two names they import.\<close>

definition version_imports :: "version_lookup \<Rightarrow> namespace" where
  "version_imports found =
     (if found = NoImportlibMetadata then []
      else [(''version'', PyObject), (''PackageNotFoundError'', PyObject)])"

lemma exec_version:
  "exec_stmts modules (version_stmts found) ns
     = Inr ((''__version__'', PyStr (client_version found)) # version_imports found @ ns)"
  by (simp add: version_stmts_def client_version_def version_imports_def split: version_lookup.split)

lemma version_imports_miss:
  "n \<noteq> ''version'' \<Longrightarrow> n \<noteq> ''PackageNotFoundError'' \<Longrightarrow> map_of (version_imports found @ ns) n = map_of ns n"
  by (simp add: version_imports_def)

lemmas run_module = exec_version version_imports_miss map_of_hit map_of_miss load_name_found map_of_append_Cons map_of.simps(1) append_Nil
  append_Cons import_bound import_submodule exec_class exec_subclass eval_base.simps(1) eval_attribute
  exec_assign exec_import exec_from_Nil exec_from_Cons exec_from_as exec_stmts.simps(1) builtins_def
  load_module load_modules.simps(1) star_Nil star_Cons import_loaded bind_res_simps

lemmas decide_names = string_eq char.inject list.distinct option.inject sum.inject simp_thms if_True if_False

section \<open>What the package exports\<close>

definition exception_bases :: "string list" where
  "exception_bases = [''Exception'', ''BaseException'', ''object'']"

definition sepp_bases :: "string list" where
  "sepp_bases = ''SeppError'' # exception_bases"

definition class_with :: "string list \<Rightarrow> string \<Rightarrow> string \<times> py_value" where
  "class_with bases n = (n, PyClass (n # bases))"

definition public_names :: "version_lookup \<Rightarrow> namespace" where
  "public_names found =
     [(''__version__'', PyStr (client_version found))]
     @ map (class_with [''object'']) [''SeppClient'', ''RetryPolicy'', ''RetryDirective'', ''Worker'']
     @ [class_with exception_bases ''HandlerError'', class_with [''object''] ''ShutdownHandle'',
        class_with sepp_bases ''DuplicateHandlerError'', class_with [''object''] ''Payload'',
        (''Primitive'', PyObject), class_with [''object''] ''Priority'',
        class_with (''ValueError'' # exception_bases) ''PriorityOutOfRangeError'',
        class_with [''object''] ''TraceContext'',
        class_with (''ValueError'' # exception_bases) ''TraceContextError'']
     @ map (class_with [''object''])
         [''EnqueueRequest'', ''EnqueueAck'', ''Job'', ''JobCtx'', ''ReserveOptions'', ''ServerInfo'']
     @ [class_with [''Enum'', ''object''] ''DeadLetterCause'',
        class_with [''object''] ''DeadLetterRecord'', class_with exception_bases ''SeppError'',
        class_with sepp_bases ''ClientError'']
     @ map (class_with (''ClientError'' # sepp_bases))
         [''ConnectError'', ''InvalidApiKeyError'', ''TransportError'', ''UnauthenticatedError'',
          ''OverloadedError'', ''InvalidRequestError'', ''ServerInternalError'',
          ''UnexpectedStatusError'', ''EmptyBatchError'', ''BatchResultCountMismatchError'',
          ''MalformedResponseError'', ''MalformedJobError'', ''MalformedServerInfoError'']
     @ map (class_with sepp_bases)
         [''JobConversionError'', ''ServerInfoError'', ''JobRejectedError'',
          ''BatchValidationError'', ''LeaseError'']
     @ map (class_with (''LeaseError'' # sepp_bases)) [''JobNotFoundError'', ''AttemptMismatchError'']
     @ [class_with sepp_bases ''ReserveError'',
        class_with (''ReserveError'' # sepp_bases) ''UnknownQueuesError'',
        class_with [''object''] ''JobRejection'', class_with [''object''] ''JobValidationError'']
     @ map (class_with [''JobRejection'', ''object''])
         [''UnknownQueue'', ''PayloadTooLarge'', ''EncodingNotAllowed'', ''JobTypeNotAllowed'',
          ''CustomEntriesTooMany'', ''CustomMapTooLarge'', ''CustomKeyTooLong'',
          ''QueueNameTooLong'', ''JobTypeNameTooLong'', ''IdempotencyKeyTooLong'',
          ''ScheduledTooFar'', ''InvalidRequest'', ''QueueFull'', ''QueueClosing'',
          ''UnknownRejection'']"

lemmas modules_py = load_sepp_def preloaded_def errors_py_def types_py_def convert_py_def
  otel_py_def client_py_def worker_py_def init_py_def

lemmas public_classes = public_names_def class_with_def sepp_bases_def exception_bases_def

lemma import_sepp_names: "import_sepp found = Inr (public_names found)"
  by (simp only: run_module decide_names modules_py sepp_all_def public_classes list.map prod.inject
      list.inject py_value.inject cong: if_weak_cong)

lemma public_names_fst: "map fst (public_names found) = sepp_all"
  by (simp add: public_classes sepp_all_def)

text \<open>Looking a class up among the exported names.\<close>

lemma isinstance_miss:
  "cls \<noteq> n \<Longrightarrow> isinstance ((n, v) # ns) cls base = isinstance ns cls base"
  by (simp add: isinstance_def)

lemma isinstance_hit: "isinstance ((n, PyClass mro) # ns) n base \<longleftrightarrow> base \<in> set mro"
  by (simp add: isinstance_def)

lemmas look_up_class = isinstance_miss isinstance_hit public_classes list.map append_Nil append_Cons
  decide_names list.set insert_iff empty_iff

lemma sepp_error_classes:
  "isinstance (public_names found) (class_name e) ''SeppError''
   \<and> (isinstance (public_names found) (class_name e) ''ClientError'' \<longleftrightarrow> is_ClientError e)
   \<and> (isinstance (public_names found) (class_name e) ''LeaseError'' \<longleftrightarrow> is_LeaseError e)
   \<and> (isinstance (public_names found) (class_name e) ''ReserveError'' \<longleftrightarrow> is_ReserveError e)"
  by (cases e; simp only: look_up_class class_name.simps is_ClientError.simps is_LeaseError.simps
      is_ReserveError.simps)

lemma rejection_classes:
  "isinstance (public_names found) (rejection_class r) ''JobRejection''
   \<and> \<not> isinstance (public_names found) (rejection_class r) ''Exception''"
  by (cases r; simp only: look_up_class rejection_class.simps)

lemma validation_error_classes:
  "isinstance (public_names found) ''PriorityOutOfRangeError'' ''ValueError''
   \<and> isinstance (public_names found) ''TraceContextError'' ''ValueError''"
  by (simp only: look_up_class)

text \<open>Of the public names of the modules only \<open>Lease\<close> is not exported by the package.\<close>

lemma in_set_hit: "x \<in> set (x # ys)"
  by simp

lemma in_set_miss: "x \<noteq> y \<Longrightarrow> x \<in> set (y # ys) \<longleftrightarrow> x \<in> set ys"
  by simp

lemma not_in_Nil: "x \<in> set [] \<longleftrightarrow> False"
  by simp

lemma module_names_exported:
  "filter (\<lambda>n. n \<notin> set sepp_all) (errors_all @ types_all @ client_all @ worker_all) = [''Lease'']"
  unfolding errors_all_def types_all_def client_all_def worker_all_def sepp_all_def
  by (simp only: filter.simps in_set_hit in_set_miss not_in_Nil decide_names append_Nil append_Cons
      cong: if_weak_cong)

end
