(* ===== verification/Spec2Isabelle.thy ===== *)
theory Spec2Isabelle
  imports Sepp_System Sepp_Service Sepp_Stub Sepp_Log Sepp_Package
begin

text \<open>
  A model of \<^verbatim>\<open>sepp-py\<close>, the Python client and worker of the sepp job queue (package
  \<^verbatim>\<open>src/sepp\<close>), and the theorems that make it correct.

  \<^bold>\<open>The program.\<close> A producer builds an \<open>EnqueueRequest\<close> (\<^verbatim>\<open>types.py\<close>) and hands it to \<open>SeppClient\<close>
  (\<^verbatim>\<open>client.py\<close>), which converts it to a protobuf message (\<^verbatim>\<open>_convert.py\<close>), adds the trace context of
  its span (\<^verbatim>\<open>_otel.py\<close>) and calls the gRPC stub, repeating the call as \<open>RetryPolicy\<close> allows. A gRPC
  error becomes one of the exceptions of \<^verbatim>\<open>errors.py\<close>. A consumer is a \<open>Worker\<close> (\<^verbatim>\<open>worker.py\<close>): its
  \<open>run\<close> loop reserves jobs through the client, runs each in a task, bounded by a semaphore, and
  acks or nacks it; with auto-extension a heartbeat renews the job's lease meanwhile.

  \<^bold>\<open>The theories\<close>, in the order of their imports:
  \<^item> \<open>Sepp_Prelude\<close>: results (\<open>'e + 'a\<close>), effectful code (\<open>('w, 'e, 'a) io\<close>, a function of the world),
    Python's dynamic values and exceptions, string splitting.
  \<^item> \<open>Sepp_Float\<close>, \<open>Sepp_Time\<close>, \<open>Sepp_Text\<close>: Python's floats (the rational a float denotes, with the
    IEEE rounding \<open>rnd\<close> after each operation), \<open>timedelta\<close> (microseconds), \<open>datetime\<close>, and the texts
    that messages contain.
  \<^item> \<open>Sepp_Errors\<close>: \<^verbatim>\<open>errors.py\<close>, the exceptions, the job rejections, the code sets and the maps from
    gRPC errors.
  \<^item> \<open>Sepp_Types\<close>: \<^verbatim>\<open>types.py\<close>; a dataclass is a record, a validating constructor a function \<open>*_new\<close>.
  \<^item> \<open>Sepp_Wire\<close>: the messages, read off the descriptor in \<^verbatim>\<open>v1/queue_pb2.py\<close>, and the protobuf
    runtime as a parameter: the record \<open>pb_runtime\<close>, its documented behaviour \<open>pb_runtime_ok\<close>, and a
    concrete runtime \<open>ref_runtime\<close> that has it. In which order the runtime iterates a map is left open.
  \<^item> \<open>Sepp_Convert\<close>: \<^verbatim>\<open>_convert.py\<close>, with the value each conversion computes.
  \<^item> \<open>Sepp_Otel\<close>: \<^verbatim>\<open>_otel.py\<close> over OpenTelemetry as a parameter (record \<open>otel\<close>).
  \<^item> \<open>Sepp_Retry\<close>: \<open>RetryPolicy\<close> and \<open>_with_retry\<close>; \<open>call_run\<close> is the specification of a retried call.
  \<^item> \<open>Sepp_Client\<close>: the operations of \<open>SeppClient\<close>, \<open>Lease\<close> and \<open>RetryDirective\<close>, over the record \<open>env\<close>
    (stub, channel, clock, OpenTelemetry, protobuf).
  \<^item> \<open>Sepp_Contract\<close>: what those operations promise. The locale \<open>record_decoder\<close> is the interface of a
    decoder that reserve and drain rely on, interpreted on jobs and dead letters; \<open>unary_run\<close> states
    which request an operation sends, how often, and what its caller sees.
  \<^item> \<open>Sepp_Registry\<close>: the constructor of \<open>Worker\<close> and its handlers; the locale \<open>handler_table\<close>.
  \<^item> \<open>Sepp_Dispatch\<close>: the processing of one job. The locale \<open>queue_contract\<close> holds the laws the worker
    relies on, interpreted on \<open>SeppClient\<close>; \<open>ae_step\<close> is the interleaving of handler and heartbeat, in
    which an \<open>extend\<close> is a call (\<open>hb_call\<close>) and, later, the resumption with its answer (\<open>hb_reply\<close>).
  \<^item> \<open>Sepp_Run\<close>: \<open>Worker.run\<close> as a state machine (\<open>run_step\<close>), one step per stretch of code between two
    awaits.
  \<^item> \<open>Sepp_Machine\<close>: event machines in general; the locales \<open>event_machine\<close> (invariants), \<open>simulation\<close>
    (refinement) and \<open>descending\<close> (runs bounded by a rank).
  \<^item> \<open>Sepp_Refine\<close>: the specification of \<open>run\<close>, a bounded pool of jobs (\<open>pool_step\<close>), and the loop as its
    refinement (interpretation \<open>run_loop\<close>); after shutdown the loop descends (\<open>stopping\<close>).
  \<^item> \<open>Sepp_System\<close>: the loop composed with \<open>SeppClient.reserve\<close> and the processing of its jobs over one
    world (\<open>sys_step\<close>); it refines the same pool (\<open>system\<close>), so no job gets lost between the parts. The
    machine with its history (\<open>audit_step\<close>) says what the loop stopped for.
  \<^item> \<open>Sepp_Service\<close>: further promises of the client: \<open>get_server_info\<close>, \<open>enqueue\<close> in terms of
    \<open>enqueue_batch\<close>, the trace context on its way from producer to consumer.
  \<^item> \<open>Sepp_Stub\<close>: \<^verbatim>\<open>v1/queue_pb2_grpc.py\<close>, the stub, the servicer, its registration and the static methods.
  \<^item> \<open>Sepp_Log\<close>: the log wrapper of \<^verbatim>\<open>_otel.py\<close>, Python's \<open>%\<close> on strings, and every log call of the
    package as an entry of \<open>log_sites\<close>.
  \<^item> \<open>Sepp_Package\<close>: \<^verbatim>\<open>__init__.py\<close>, the imports and class statements of the modules, and the classes of the
    exceptions, with rules that execute an import statement by statement; its lemmas check the model's
    predicates on exceptions against the transcribed class statements.
  \<^item> This theory: the properties that span components.

  \<^bold>\<open>What is shown.\<close> Conversions: a well-formed message is decoded field by field and a malformed one
  refused; requests with their custom maps, timestamps and replayed dead letters survive the trip over
  the wire. Client: each operation sends the one request it should, within the attempts the policy
  allows, and no gRPC error escapes it; an enqueue without idempotency keys is never sent again after
  an ambiguous error; results line up with the submitted jobs. Worker: concurrency is bounded; the
  loop refines the pool, alone and composed with the client, so each job the client handed out is
  processed exactly once by the time \<open>run\<close> returns; no gRPC error, no \<open>SeppError\<close> and no failing job ends
  the loop, which stops for a shutdown, a cancellation or a bare Python exception of a reserve only (one
  that a response with an unrenderable timestamp can provoke); after shutdown it stops; a job is
  disposed of once, and never after its lease was found lost in that run; the metrics count what
  happened. Stub and servicer agree on paths and message types; no log call can fail. The sections
  \<open>Further facts\<close> hold more properties of single operations.

  \<^bold>\<open>Bounds.\<close> No fuel is used: the retry loop is a \<open>function\<close> with the measure \<open>max_attempts - attempt\<close>,
  and the loop of \<open>run\<close>, which may go on forever, is a step function over finite lists of events;
  once shutdown is signalled at most \<open>3 * max_in_flight + 3\<close> events remain (\<open>stop_rank\<close>: an end for each
  running task, a permit and an end for each job still to spawn, and the way from any point of the
  loop to its end).
  The floats of the model have an unbounded exponent, so overflow to infinity is not modelled; the
  theorems about delays hold up to \<open>exact_td\<close>, 2 to the 51 microseconds (about 71 years). Wire integers
  are words of their width. Strings are lists of 8-bit characters.

  \<^bold>\<open>Not modelled.\<close> The demonstration programs under \<^verbatim>\<open>examples\<close>; gRPC, protobuf and OpenTelemetry themselves, which are parameters; the event loop of
  asyncio beyond the interleavings above, and handlers that raise a \<open>BaseException\<close> other than a
  cancellation. A call of the service takes effect at one point of its wait, and a task of \<open>sys_step\<close>
  at its end, while the world may change by itself between any two steps. The log calls are
  modelled as a table and not as effects of the operations that make them.
\<close>

section \<open>Properties\<close>

text \<open>
  C3: in every interleaving of a handler with its heartbeat, once the heartbeat has found the
  lease lost the job is neither acked nor nacked, however the handler ended (even if it
  completed or swallowed the cancellation): \<open>_run_job\<close> returns with the world and
  the metrics as they were. And the flag is up only because, earlier in this run, the heartbeat
  called \<open>extend\<close> for this lease (\<open>s1\<close>), the call raised a
  \<open>SeppError\<close>, and when the heartbeat resumed with that answer (\<open>s2\<close>,
  nothing but the handler having moved meanwhile) it was a lease error, or the expiry then known
  had passed.
\<close>

theorem lease_lost_never_disposed:
  assumes "(ae_step clock ops cfg moves)\<^sup>*\<^sup>* (ae_init w l) st" and "ae_lease_lost st"
    and "ae_handler st = Some res"
    and "exec h job w = (ae_collect (ae_lease_lost st) res, ae_world st)"
  shows "run_job ops (Some h) exec job (w, m) = (Inr (), (ae_world st, m))
    \<and> (\<exists>s1 s2 x.
         (ae_step clock ops cfg moves)\<^sup>*\<^sup>* (ae_init w l) s1 \<and> ae_hb s1 = HbExtending
         \<and> ls_job_id (ae_lease s1) = ls_job_id l \<and> ls_attempt (ae_lease s1) = ls_attempt l
         \<and> ls_worker_id (ae_lease s1) = ls_worker_id l
         \<and> fst (qo_extend ops (ae_lease s1) (ax_extend_by cfg) (ae_world s1)) = Inl (Sepp x)
         \<and> (\<lambda>a b. ae_step clock ops cfg moves a b \<and> ae_hb b = ae_hb a)\<^sup>*\<^sup>* (hb_call ops cfg s1) s2
         \<and> ae_hb s2 = HbAnswered (Inl (Sepp x))
         \<and> (is_LeaseError x \<or> ls_known_expiry_ms (ae_lease s2) \<le> now_millis clock (ae_world s2))
         \<and> (ae_step clock ops cfg moves)\<^sup>*\<^sup>* s2 st)"
proof -
  have init: "\<nexists>r. ae_hb (ae_init w l) = HbAnswered r" "\<not> ae_lease_lost (ae_init w l)"
    by (simp_all add: ae_init_def)
  obtain s1 s2 x where
      call: "answered_call clock ops cfg moves (ae_init w l) s1 s2 (Inl (Sepp x))"
      and gone: "is_LeaseError x \<or> ls_known_expiry_ms (ae_lease s2) \<le> now_millis clock (ae_world s2)"
      and rest: "(ae_step clock ops cfg moves)\<^sup>*\<^sup>* s2 st"
    using ae_lost_cause [OF assms(1) init assms(2)] unfolding lease_gone_def by blast
  have "(ae_step clock ops cfg moves)\<^sup>*\<^sup>* (ae_init w l) s1"
    using call by (simp add: answered_call_def)
  then have "same_lease l (ae_lease s1)" by (rule ae_lease_reachable)
  then show ?thesis
    using run_job_lease_lost [of exec h job w "ae_world st" ops m] assms(2-4) call gone rest
    by (intro conjI exI [of _ s1] exI [of _ s2] exI [of _ x])
      (simp_all add: ae_collect_lost answered_call_def same_lease_def)
qed

text \<open>A run in which the server has reassigned the lease while the handler goes on to complete.\<close>

definition refusing_env :: "(string list, unit) env" where
  "refusing_env = sample_env\<lparr>en_Extend := (\<lambda>_ _ _ w.
     (Inl (Rpc \<lparr>rpc_code = FAILED_PRECONDITION, rpc_details = None\<rparr>), w @ [''Extend'']))\<rparr>"

definition refusing_ops :: "string list queue_ops" where
  "refusing_ops = client_ops refusing_env sample_client"

definition sample_lease :: lease where
  "sample_lease = lease_new ''j1'' 1 (utc 1700000000000000) (Some ''w'')"

definition sample_cfg :: auto_extend where
  "sample_cfg = \<lparr>ax_explicit_interval = None, ax_extend_by = seconds 30\<rparr>"

definition lost_state :: "string list ae_state" where
  "lost_state =
     \<lparr>ae_world = [''Extend''], ae_lease = sample_lease, ae_lease_lost = True,
      ae_cancel_requested = True, ae_hb = HbStopped, ae_handler = Some (Inr ())\<rparr>"

lemma refusing_extend:
  "qo_extend refusing_ops sample_lease (seconds 30) []
     = (Inl (Sepp (mk_AttemptMismatchError '''')), [''Extend''])"
proof -
  let ?call = "stub_call refusing_env sample_client (en_Extend refusing_env)
      (wire_extend sample_lease (seconds 30))"
  have req: "extend_request ref_runtime ''j1'' 1 (seconds 30) (Some ''w'')
      = Inr (wire_extend sample_lease (seconds 30))"
    by (simp add: extend_request_def ref_runtime_def wire_extend_def sample_lease_def lease_new_def
        duration_of_def seconds_def du_valid_def max_duration_seconds_def)
  have call: "?call [] = (Inl (Rpc \<lparr>rpc_code = FAILED_PRECONDITION, rpc_details = None\<rparr>), [''Extend''])"
    by (simp add: stub_call_def refusing_env_def)
  have "retried_call refusing_env sample_client RETRYABLE_CODES (en_Extend refusing_env)
      (wire_extend sample_lease (seconds 30)) []
      = (Inl (Rpc \<lparr>rpc_code = FAILED_PRECONDITION, rpc_details = None\<rparr>), [''Extend''])"
    using with_retry_final [where call = ?call and codes = RETRYABLE_CODES, OF call]
    by (simp add: retried_call_def RETRYABLE_CODES_def)
  then show ?thesis
    using req by (simp add: refusing_ops_def client_ops_def lease_call_def extend_inner_def
        io_bind_apply client_span_def map_rpc_apply lease_error_from_rpc_def Let_def
        sample_lease_def lease_new_def refusing_env_def sample_env_def)
qed

lemma lost_state_reached:
  "(ae_step (\<lambda>_. utc 1699999990000000) refusing_ops sample_cfg (\<lambda>_ _. False))\<^sup>*\<^sup>*
     (ae_init [] sample_lease) lost_state"
proof -
  let ?step = "ae_step (\<lambda>_ :: string list. utc 1699999990000000) refusing_ops sample_cfg (\<lambda>_ _. False)"
  let ?s0 = "ae_init [] sample_lease :: string list ae_state"
  let ?s1 = "hb_begin (\<lambda>_. utc 1699999990000000) sample_cfg ?s0"
  let ?s2 = "?s1\<lparr>ae_hb := HbExtending\<rparr>"
  let ?s3 = "hb_call refusing_ops sample_cfg ?s2"
  let ?s4 = "hb_reply (\<lambda>_. utc 1699999990000000) (Inl (Sepp (mk_AttemptMismatchError ''''))) ?s3"
  have 1: "?step ?s0 ?s1" by (rule beat_begins) (simp add: ae_init_def)
  have 2: "?step ?s1 ?s2" by (rule beat_wakes) (simp add: hb_begin_def)
  have 3: "?step ?s2 ?s3" by (rule beat_calls) simp
  have s3: "?s3 = ?s2\<lparr>ae_world := [''Extend''],
      ae_hb := HbAnswered (Inl (Sepp (mk_AttemptMismatchError '''')))\<rparr>"
    using refusing_extend by (simp add: hb_call_def hb_begin_def ae_init_def sample_cfg_def)
  have 4: "?step ?s3 ?s4" by (rule beat_resumes) (simp add: s3)
  have s4: "?s4 = lost_state\<lparr>ae_handler := None\<rparr>"
    unfolding s3 by (simp add: hb_reply_def hb_begin_def ae_init_def abort_handler_def
        mk_AttemptMismatchError_def lost_state_def)
  have 5: "?step ?s4 (?s4\<lparr>ae_handler := Some (Inr ())\<rparr>)"
    by (rule handler_ends) (simp add: s4 lost_state_def)
  have "?s4\<lparr>ae_handler := Some (Inr ())\<rparr> = lost_state" by (simp add: s4 lost_state_def)
  with 5 have "?step ?s4 lost_state" by simp
  with 1 2 3 4 show ?thesis by (meson converse_rtranclp_into_rtranclp rtranclp.rtrancl_refl)
qed

theorem lease_lost_never_disposed_witness:
  "run_job refusing_ops (Some ()) (\<lambda>_ _ _. (ae_collect True (Inr ()), [''Extend'']))
     (decode_job sample_pb_job None) ([], worker_metrics_new sample_env)
   = (Inr (), ([''Extend''], worker_metrics_new sample_env))"
  using lease_lost_never_disposed [OF lost_state_reached,
      where exec = "\<lambda>_ _ _. (ae_collect True (Inr ()), [''Extend''])" and h = "()"
        and res = "Inr ()" and job = "decode_job sample_pb_job None"
        and m = "worker_metrics_new sample_env"]
  by (simp add: lost_state_def)







end
